(* ===== verification/Prelude.thy ===== *)
theory Prelude
  imports Main "HOL-Library.Word" "HOL-Library.Monad_Syntax"
begin

section \<open>Shared vocabulary\<close>

text \<open>
  The vocabulary every component shares: the machine integers of the Rust
  sources as words of their width, byte buffers as lists of bytes, little-endian
  numbers, the cursor operations on a byte buffer, and the interface of a
  self-delimiting encoding.

  Conventions.  A Rust function that may panic (an index out of range, an
  \<open>unwrap\<close> of \<open>None\<close>, a cursor read past the end, an unchecked access outside the
  slice) returns an \<open>option\<close> whose \<open>None\<close> is the panic.  A Rust \<open>Result\<close> is a sum
  whose \<open>Inl\<close> is the error.  A method with \<open>&mut self\<close> takes the state and returns
  the new one.  A byte buffer (\<open>BytesMut\<close>, \<open>&[u8]\<close>, \<open>Vec<u8>\<close>) is the list of the
  bytes it holds, its capacity is not observable.
\<close>

type_synonym u8 = "8 word"
type_synonym u16 = "16 word"
type_synonym u32 = "32 word"
type_synonym u64 = "64 word"
type_synonym bytes = "8 word list"

named_theorems cursor_simps \<open>evaluation of the cursor operations on a byte buffer\<close>
named_theorems codec_simps \<open>decoding what an encoder wrote\<close>


subsection \<open>Little-endian numbers\<close>

text \<open>The \<open>k\<close> low bytes of a number, least significant first, and the number a
  byte list denotes.\<close>

fun le_bytes :: "nat \<Rightarrow> nat \<Rightarrow> bytes" where
  "le_bytes 0 v = []"
| "le_bytes (Suc k) v = of_nat (v mod 256) # le_bytes k (v div 256)"

fun le_val :: "bytes \<Rightarrow> nat" where
  "le_val [] = 0"
| "le_val (b # bs) = unat b + 256 * le_val bs"


subsection \<open>Cursor operations on a byte buffer\<close>

text \<open>The operations of the \<open>Buf\<close> cursor and of the integer reader the sources
  use.  Each consumes a prefix; a request past the end is the panic \<open>None\<close>.\<close>

definition split_to :: "nat \<Rightarrow> bytes \<Rightarrow> (bytes \<times> bytes) option" where
  "split_to n bs = (if n \<le> length bs then Some (take n bs, drop n bs) else None)"

definition advance :: "nat \<Rightarrow> bytes \<Rightarrow> bytes option" where
  "advance n bs = (if n \<le> length bs then Some (drop n bs) else None)"

fun get_u8 :: "bytes \<Rightarrow> (u8 \<times> bytes) option" where
  "get_u8 [] = None"
| "get_u8 (b # bs) = Some (b, bs)"

definition get_uint_le :: "nat \<Rightarrow> bytes \<Rightarrow> (u64 \<times> bytes) option" where
  "get_uint_le k bs =
     (if k \<le> length bs then Some (of_nat (le_val (take k bs)), drop k bs) else None)"

text \<open>\<open>get_u16_le\<close> and \<open>get_u32_le\<close> read at their own width.\<close>

definition get_u16_le :: "bytes \<Rightarrow> (u16 \<times> bytes) option" where
  "get_u16_le bs =
     (if 2 \<le> length bs then Some (of_nat (le_val (take 2 bs)), drop 2 bs) else None)"

definition get_u32_le :: "bytes \<Rightarrow> (u32 \<times> bytes) option" where
  "get_u32_le bs =
     (if 4 \<le> length bs then Some (of_nat (le_val (take 4 bs)), drop 4 bs) else None)"

text \<open>A checked index, \<open>data[i]\<close>.\<close>

definition idx :: "'a list \<Rightarrow> nat \<Rightarrow> 'a option" where
  "idx xs i = (if i < length xs then Some (xs ! i) else None)"

text \<open>\<open>iter().position(..)\<close> and \<open>Vec::remove\<close> at an index in range.\<close>

fun position :: "('a \<Rightarrow> bool) \<Rightarrow> 'a list \<Rightarrow> nat option" where
  "position P [] = None"
| "position P (x # xs) = (if P x then Some 0 else map_option Suc (position P xs))"

definition remove_at :: "nat \<Rightarrow> 'a list \<Rightarrow> 'a list" where
  "remove_at k xs = take k xs @ drop (Suc k) xs"

text \<open>Overwriting the bytes from an offset on, the effect of the raw pointer
  copies; a write outside the buffer is undefined behaviour, here \<open>None\<close>.\<close>

definition write_at :: "nat \<Rightarrow> bytes \<Rightarrow> bytes \<Rightarrow> bytes option" where
  "write_at off new bs =
     (if off + length new \<le> length bs
      then Some (take off bs @ new @ drop (off + length new) bs) else None)"

text \<open>Signed 64-bit arithmetic on \<open>int\<close>: the two's complement wrap of a sum, and
  the remainder of \<open>%\<close>, which has the sign of its first argument.\<close>

definition wrap64 :: "int \<Rightarrow> int" where
  "wrap64 x = (x + 2 ^ 63) mod 2 ^ 64 - 2 ^ 63"

definition trunc_rem :: "int \<Rightarrow> int \<Rightarrow> int" where
  "trunc_rem x y = sgn x * (\<bar>x\<bar> mod \<bar>y\<bar>)"

text \<open>The result of one turn of a \<open>loop\<close>: go round again, or return.\<close>

datatype ('s, 'r) turn = Continue 's | Return 's 'r

text \<open>The ASCII bytes of a string literal.\<close>

definition str_bytes :: "string \<Rightarrow> bytes" where
  "str_bytes s = map (\<lambda>c. of_nat (of_char c)) s"


subsection \<open>Lemmas on little-endian numbers\<close>

lemma length_le_bytes [simp]: "length (le_bytes k v) = k"
  by (induction k arbitrary: v) simp_all

lemma unat_byte: "unat (b :: u8) < 256"
  using unsigned_less [of b] by simp

text \<open>Evaluation at a literal width.\<close>

lemma le_bytes_numeral:
  "le_bytes (numeral k) v = of_nat (v mod 256) # le_bytes (pred_numeral k) (v div 256)"
  unfolding numeral_eq_Suc [of k] by (rule le_bytes.simps)

lemma le_val_bound: "le_val bs < 256 ^ length bs"
proof (induction bs)
  case (Cons b bs)
  have "unat b < 256"
    by (rule unat_byte)
  with Cons show ?case
    by simp
qed simp

lemma le_val_le_bytes: "le_val (le_bytes k v) = v mod 256 ^ k"
proof (induction k arbitrary: v)
  case (Suc k)
  have "le_val (le_bytes (Suc k) v) = v mod 256 + 256 * (v div 256 mod 256 ^ k)"
    by (simp add: Suc unat_of_nat)
  also have "\<dots> = v mod 256 ^ Suc k"
    using mod_mult2_eq [of v 256 "256 ^ k"] by simp
  finally show ?case .
qed simp

lemma le_bytes_le_val: "le_bytes (length bs) (le_val bs) = bs"
proof (induction bs)
  case (Cons b bs)
  have b: "unat b < 256"
    by (rule unat_byte)
  then have "(unat b + 256 * le_val bs) mod 256 = unat b"
    and "(unat b + 256 * le_val bs) div 256 = le_val bs"
    by simp_all
  with Cons show ?case
    by simp
qed simp

lemma le_val_inj: "length xs = length ys \<Longrightarrow> le_val xs = le_val ys \<Longrightarrow> xs = ys"
  by (metis le_bytes_le_val)

lemma le_bytes_mod: "le_bytes k (v mod 256 ^ k) = le_bytes k v"
  by (rule le_val_inj) (simp_all add: le_val_le_bytes)

lemma take_le_bytes_append [simp]:
  "take k (le_bytes k v @ rest) = le_bytes k v" "drop k (le_bytes k v @ rest) = rest"
  by simp_all


subsection \<open>Lemmas on the cursor\<close>

lemma split_to_append [cursor_simps]: "length xs = n \<Longrightarrow> split_to n (xs @ rest) = Some (xs, rest)"
  by (auto simp: split_to_def)

lemma advance_append [cursor_simps]: "length xs = n \<Longrightarrow> advance n (xs @ rest) = Some rest"
  by (auto simp: advance_def)

lemma split_to_eq_Some:
  "split_to n bs = Some (xs, rest) \<longleftrightarrow> bs = xs @ rest \<and> length xs = n"
  by (auto simp: split_to_def)

lemma advance_eq_Some: "advance n bs = Some rest \<longleftrightarrow> (\<exists>xs. bs = xs @ rest \<and> length xs = n)"
proof
  assume "advance n bs = Some rest"
  then have "bs = take n bs @ rest" "length (take n bs) = n"
    by (auto simp: advance_def split: if_splits)
  then show "\<exists>xs. bs = xs @ rest \<and> length xs = n"
    by blast
qed (auto simp: advance_def)

lemma get_u8_eq_Some: "get_u8 bs = Some (b, rest) \<longleftrightarrow> bs = b # rest"
  by (cases bs) auto

lemma get_uint_le_append [cursor_simps]:
  "get_uint_le k (le_bytes k v @ rest) = Some (of_nat (v mod 256 ^ k), rest)"
  by (simp add: get_uint_le_def le_val_le_bytes)

lemma get_u16_le_append [cursor_simps]:
  "get_u16_le (le_bytes 2 v @ rest) = Some (of_nat (v mod 256 ^ 2), rest)"
  by (simp add: get_u16_le_def le_val_le_bytes take_le_bytes_append)

lemma get_u32_le_append [cursor_simps]:
  "get_u32_le (le_bytes 4 v @ rest) = Some (of_nat (v mod 256 ^ 4), rest)"
  by (simp add: get_u32_le_def le_val_le_bytes take_le_bytes_append)

lemma write_at_length: "write_at off new bs = Some bs' \<Longrightarrow> length bs' = length bs"
  by (auto simp: write_at_def split: if_splits)

lemma write_at_append [cursor_simps]:
  "length old = length new \<Longrightarrow> length pre = off \<Longrightarrow>
   write_at off new (pre @ old @ post) = Some (pre @ new @ post)"
  by (auto simp: write_at_def)

lemma of_nat_unat_mod [simp]:
  fixes n :: u64
  shows "of_nat (unat n mod 18446744073709551616) = n"
  using unsigned_less [of n, where ?'a = nat] by simp

lemma wrap64_id: "- (2 ^ 63) \<le> x \<Longrightarrow> x < 2 ^ 63 \<Longrightarrow> wrap64 x = x"
  by (simp add: wrap64_def)

lemma trunc_rem_nonneg: "0 \<le> x \<Longrightarrow> 0 < y \<Longrightarrow> trunc_rem x y = x mod y"
  by (auto simp: trunc_rem_def sgn_if)

lemma length_str_bytes [simp]: "length (str_bytes s) = length s"
  by (simp add: str_bytes_def)


subsection \<open>Lemmas on list searches\<close>

lemma position_Some: "position P xs = Some k \<Longrightarrow> k < length xs \<and> P (xs ! k)"
  by (induction xs arbitrary: k) (auto split: if_splits)

lemma position_None: "position P xs = None \<longleftrightarrow> (\<forall>x \<in> set xs. \<not> P x)"
  by (induction xs) auto

lemma position_append:
  "\<forall>x \<in> set xs. \<not> P x \<Longrightarrow> P y \<Longrightarrow> position P (xs @ y # ys) = Some (length xs)"
  by (induction xs) auto

lemma position_split:
  "position P xs = Some k \<Longrightarrow> \<exists>y zs. xs = take k xs @ y # zs \<and> P y \<and> (\<forall>x \<in> set (take k xs). \<not> P x)"
proof (induction xs arbitrary: k)
  case (Cons x xs)
  show ?case
  proof (cases "P x")
    case True
    with Cons.prems show ?thesis
      by auto
  next
    case False
    with Cons.prems obtain j where j: "k = Suc j" "position P xs = Some j"
      by auto
    with Cons.IH [OF j(2)] False show ?thesis
      by auto
  qed
qed simp


subsection \<open>Self-delimiting encodings\<close>

text \<open>
  The interface of an encoder and decoder pair of the wire format: the decoder,
  run on an encoded value followed by anything, returns the value and leaves
  exactly what followed.  \<open>ok\<close> is the domain on which the pair is faithful.
\<close>

fun dec_many :: "(bytes \<Rightarrow> ('a \<times> bytes) option) \<Rightarrow> nat \<Rightarrow> bytes \<Rightarrow> ('a list \<times> bytes) option" where
  "dec_many dec 0 bs = Some ([], bs)"
| "dec_many dec (Suc n) bs =
     do { (x, bs) \<leftarrow> dec bs; (xs, bs) \<leftarrow> dec_many dec n bs; Some (x # xs, bs) }"

locale prefix_codec =
  fixes enc :: "'a \<Rightarrow> bytes"
    and dec :: "bytes \<Rightarrow> ('a \<times> bytes) option"
    and ok :: "'a \<Rightarrow> bool"
  assumes dec_enc: "ok a \<Longrightarrow> dec (enc a @ rest) = Some (a, rest)"
begin

lemma enc_inj: "ok a \<Longrightarrow> ok b \<Longrightarrow> enc a = enc b \<Longrightarrow> a = b"
  using dec_enc [of a "[]"] dec_enc [of b "[]"] by simp

lemma prefix_free:
  assumes "ok a" "ok b" "enc a @ x = enc b @ y"
  shows "a = b \<and> x = y"
proof -
  have "Some (a, x) = Some (b, y)"
    using dec_enc [OF assms(1), of x] dec_enc [OF assms(2), of y] by (simp only: assms(3))
  then show ?thesis
    by simp
qed

lemma dec_many_enc:
  "\<forall>a \<in> set as. ok a \<Longrightarrow>
   dec_many dec (length as) (concat (map enc as) @ rest) = Some (as, rest)"
  by (induction as) (simp_all add: dec_enc)

end

end
