(* ===== verification/Wire.thy ===== *)
theory Wire
  imports Prelude
begin

section \<open>Wire primitives\<close>

text \<open>
  The primitives of the MySQL wire format, \<open>protocol/mysql/src/util.rs\<close>:
  length-encoded integers and strings, the packet length and the packet-kind
  tests, the password scrambles and the byte comparison.  SHA-1 and SHA-256 are
  parameters (a function from the hashed input to the digest), the random
  generator of \<open>random_buf\<close> is the list of the numbers it draws.
\<close>

unbundle bit_operations_syntax


subsection \<open>Constants\<close>

definition OK_HEADER :: u8 where "OK_HEADER = 0x00"
definition EOF_HEADER :: u8 where "EOF_HEADER = 0xfe"
definition ERR_HEADER :: u8 where "ERR_HEADER = 0xff"
definition MAX_PAYLOAD_LEN :: nat where "MAX_PAYLOAD_LEN = 16777215"


subsection \<open>Length-encoded integers\<close>

text \<open>\<open>length_encode_int\<close> indexes a slice, \<open>get_lenc_int\<close> moves a cursor; both
  return the number, whether it is NULL and the bytes it took.\<close>

definition length_encode_int :: "bytes \<Rightarrow> (u64 \<times> bool \<times> u64) option" where
  "length_encode_int data =
     (case data of
        [] \<Rightarrow> None
      | x # rest \<Rightarrow>
          if x = 0xfb then Some (0, True, 1)
          else if x = 0xfc then
            do { (v, _) \<leftarrow> get_uint_le 2 rest; Some (v, False, 3) }
          else if x = 0xfd then
            do { (v, _) \<leftarrow> get_uint_le 3 rest; Some (v, False, 4) }
          else if x = 0xfe then
            do { (v, _) \<leftarrow> get_uint_le 8 rest; Some (v, False, 9) }
          else Some (ucast x, False, 1))"

definition get_lenc_int :: "bytes \<Rightarrow> ((u64 \<times> bool \<times> u8) \<times> bytes) option" where
  "get_lenc_int bs =
     do { (first, bs) \<leftarrow> get_u8 bs;
          if first = 0xfb then Some ((0, True, 1), bs)
          else if first = 0xfc then
            do { (v, bs) \<leftarrow> get_uint_le 2 bs; Some ((v, False, 3), bs) }
          else if first = 0xfd then
            do { (v, bs) \<leftarrow> get_uint_le 3 bs; Some ((v, False, 4), bs) }
          else if first = 0xfe then
            do { (v, bs) \<leftarrow> get_uint_le 8 bs; Some ((v, False, 9), bs) }
          else Some ((ucast first, False, 1), bs) }"

definition put_lenc_int :: "bytes \<Rightarrow> u64 \<Rightarrow> bool \<Rightarrow> bytes" where
  "put_lenc_int buf n isnum =
     (if n = 0 then (if isnum then buf @ [0] else buf @ [0xfb])
      else if n \<le> 250 then buf @ [ucast n]
      else if n \<le> 0xffff then buf @ 0xfc # le_bytes 2 (unat n)
      else if n \<le> 0xffffff then buf @ 0xfd # le_bytes 3 (unat n)
      else buf @ 0xfe # le_bytes 8 (unat n))"


subsection \<open>Length-encoded strings\<close>

text \<open>The reader copies what is left when fewer bytes than announced remain,
  the rest of the result keeps the zeros it was allocated with.  An announced
  length above the largest allocation is the capacity-overflow panic.\<close>

definition get_lenc_str_bytes :: "bytes \<Rightarrow> ((bytes \<times> bool) \<times> bytes) option" where
  "get_lenc_str_bytes bs =
     do { ((len, is_null, _), bs) \<leftarrow> get_lenc_int bs;
          if len < 1 \<or> is_null \<or> bs = [] then Some (([0], True), bs)
          else if unat len \<ge> 2 ^ 63 then None
          else (let n = min (unat len) (length bs) in
            Some ((take n bs @ replicate (unat len - n) 0, is_null), drop n bs)) }"

definition skip_lenc_length :: "bytes \<Rightarrow> bytes option" where
  "skip_lenc_length bs =
     do { ((len, _, _), bs) \<leftarrow> get_lenc_int bs; advance (unat len) bs }"

definition length_encoded_string :: "bytes \<Rightarrow> ((bytes \<times> bool) \<times> bytes) option" where
  "length_encoded_string data =
     do { ((num, is_null, _), data) \<leftarrow> get_lenc_int data;
          if num < 1 then Some (([0xfb], is_null), data)
          else if data = [] then Some (([], False), data)
          else do { (s, data) \<leftarrow> split_to (unat num) data; Some ((s, False), data) } }"

text \<open>The writer side, as the encoders use it: the length (never as a number),
  then the bytes.\<close>

definition put_lenc_str :: "bytes \<Rightarrow> bytes \<Rightarrow> bytes" where
  "put_lenc_str buf s = put_lenc_int buf (of_nat (length s)) False @ s"


subsection \<open>Packet kinds and lengths\<close>

text \<open>\<open>is_eof\<close> reads byte 4 unchecked: on four bytes or fewer that read is out of
  the slice.\<close>

definition is_eof :: "bytes \<Rightarrow> bool option" where
  "is_eof data =
     (if length data \<le> 9 then map_option (\<lambda>b. b = EOF_HEADER) (idx data 4) else Some False)"

definition is_ok :: "bytes \<Rightarrow> bool" where
  "is_ok data \<longleftrightarrow> length data > 7 \<and> data ! 4 = OK_HEADER"

definition is_ok_header :: "u8 \<Rightarrow> bool" where
  "is_ok_header data = (if data = OK_HEADER then True else False)"

definition get_length :: "bytes \<Rightarrow> nat option" where
  "get_length buf = (if 3 \<le> length buf then Some (le_val (take 3 buf)) else None)"


text \<open>A packet on the wire: the length in three bytes, the sequence number, the payload.\<close>

definition frame :: "u8 \<Rightarrow> bytes \<Rightarrow> bytes" where
  "frame s payload = le_bytes 3 (length payload) @ s # payload"

subsection \<open>Passwords\<close>

text \<open>\<open>sha1\<close> and \<open>sha256\<close> stand for the digests of the hash library.\<close>

definition xor_bytes :: "bytes \<Rightarrow> bytes \<Rightarrow> bytes" where
  "xor_bytes a b = map2 (\<lambda>x y. x XOR y) a b"

definition calc_password :: "(bytes \<Rightarrow> bytes) \<Rightarrow> bytes \<Rightarrow> bytes \<Rightarrow> bytes" where
  "calc_password sha1 scramble password =
     (if password = [] then []
      else let stage1 = sha1 password;
               hash = sha1 stage1;
               scr = sha1 (scramble @ hash)
           in xor_bytes scr stage1)"

definition calc_caching_sha2password :: "(bytes \<Rightarrow> bytes) \<Rightarrow> bytes \<Rightarrow> bytes \<Rightarrow> bytes" where
  "calc_caching_sha2password sha256 scramble password =
     (if password = [] then [0]
      else let message1 = sha256 password;
               message1_hash = sha256 message1;
               message2 = sha256 (message1_hash @ scramble)
           in xor_bytes message1 message2)"

fun compare_loop :: "(u8 \<times> u8) list \<Rightarrow> bool" where
  "compare_loop [] = True"
| "compare_loop ((ai, bi) # rest) = (if ai = bi then compare_loop rest else False)"

definition compare :: "bytes \<Rightarrow> bytes \<Rightarrow> bool" where
  "compare a b = (if compare_loop (zip a b) then length a = length b else False)"

text \<open>One turn of the loop per number drawn from \<open>0..127\<close>.\<close>

definition random_byte :: "u8 \<Rightarrow> u8" where
  "random_byte d = (if d = 0 \<or> d = 0x24 then d + 1 else d)"

definition random_buf :: "u8 list \<Rightarrow> bytes" where
  "random_buf draws = map random_byte draws"


subsection \<open>Lemmas on length-encoded integers\<close>

lemma u64_cases_lenc:
  fixes n :: u64
  obtains (zero) "n = 0" | (one) "n \<noteq> 0" "n \<le> 250"
    | (two) "\<not> n \<le> 250" "n \<le> 0xffff" | (three) "\<not> n \<le> 0xffff" "n \<le> 0xffffff"
    | (eight) "\<not> n \<le> 0xffffff"
  by blast

lemma ucast_small_byte:
  fixes n :: u64
  assumes "n \<le> 250"
  shows "unat (ucast n :: u8) = unat n"
  using assms by (simp add: unsigned_ucast_eq take_bit_nat_eq_self_iff word_le_nat_alt)

lemma unat_ucast_byte: "unat (ucast (b :: u8) :: u64) = unat b"
  using unat_byte [of b] by (simp add: unsigned_ucast_eq take_bit_nat_eq_self_iff)

lemma frame_decode:
  assumes "length payload < 2 ^ 24"
  shows "\<not> (frame s payload = [] \<or> length (frame s payload) < 3)"
    and "le_val (take 3 (frame s payload)) = length payload"
    and "\<not> 4 + length payload > length (frame s payload)"
    and "drop 4 (frame s payload) = payload"
proof -
  have "256 ^ 3 = (2 ^ 24 :: nat)"
    by simp
  then show "le_val (take 3 (frame s payload)) = length payload"
    using assms by (simp add: frame_def le_val_le_bytes)
qed (simp_all add: frame_def)

text \<open>What the reader returns for each form the writer produces.\<close>

lemma get_lenc_int_put:
  assumes "n \<noteq> 0 \<or> isnum"
  shows "get_lenc_int (put_lenc_int [] n isnum @ rest) =
    Some ((n, False, if n \<le> 250 then 1 else if n \<le> 0xffff then 3
                     else if n \<le> 0xffffff then 4 else 9), rest)"
proof (cases n rule: u64_cases_lenc)
  case one
  let ?b = "ucast n :: u8"
  have b: "unat ?b = unat n" and "unat n \<le> 250"
    using one ucast_small_byte by (simp_all add: word_le_nat_alt)
  then have "?b \<noteq> 0xfb" "?b \<noteq> 0xfc" "?b \<noteq> 0xfd" "?b \<noteq> 0xfe"
    by (auto simp: word_unat_eq_iff)
  moreover have "ucast ?b = n"
    using b unat_ucast_byte [of ?b] by (simp only: word_unat_eq_iff)
  ultimately show ?thesis
    using one by (simp add: get_lenc_int_def put_lenc_int_def)
qed (use assms in \<open>auto simp: get_lenc_int_def put_lenc_int_def get_uint_le_append
      word_le_nat_alt\<close>)

lemma get_lenc_int_null: "get_lenc_int (put_lenc_int [] 0 False @ rest) = Some ((0, True, 1), rest)"
  by (simp add: get_lenc_int_def put_lenc_int_def)

lemma put_lenc_int_append: "put_lenc_int buf n isnum = buf @ put_lenc_int [] n isnum"
  by (simp add: put_lenc_int_def)


lemma length_put_lenc_int:
  "length (put_lenc_int [] n isnum) =
    (if n \<le> 250 then 1 else if n \<le> 0xffff then 3 else if n \<le> 0xffffff then 4 else 9)"
  by (simp add: put_lenc_int_def)

text \<open>The cursor reader and the slice reader read the same number; the byte count
  they report is what the cursor consumed.\<close>

lemma length_encode_int_eq:
  "length_encode_int bs = map_option (\<lambda>((v, nul, k), _). (v, nul, ucast k)) (get_lenc_int bs)"
  by (cases bs) (auto simp: length_encode_int_def get_lenc_int_def get_uint_le_def)

lemma get_lenc_int_consumes:
  "get_lenc_int bs = Some ((v, nul, k), rest) \<Longrightarrow> unat k \<le> length bs \<and> rest = drop (unat k) bs"
  by (cases bs) (auto simp: get_lenc_int_def get_uint_le_def split: if_splits)

interpretation lenc_num: prefix_codec
  "\<lambda>n. put_lenc_int [] n True" "\<lambda>bs. map_option (\<lambda>((v, _), rest). (v, rest)) (get_lenc_int bs)"
  "\<lambda>_. True"
  by unfold_locales (simp add: get_lenc_int_put)


subsection \<open>Lemmas on length-encoded strings\<close>

lemma put_lenc_str_append: "put_lenc_str buf s = buf @ put_lenc_str [] s"
  by (simp add: put_lenc_str_def put_lenc_int_append [of buf])

lemma get_lenc_int_put_len:
  assumes "s \<noteq> []" "length s < 2 ^ 64"
  shows "\<exists>k. get_lenc_int (put_lenc_int [] (of_nat (length s)) False @ rest) =
    Some ((of_nat (length s), False, k), rest)"
    and "unat (of_nat (length s) :: u64) = length s"
    and "(of_nat (length s) :: u64) \<ge> 1"
proof -
  show u: "unat (of_nat (length s) :: u64) = length s"
    using assms(2) by (simp add: unat_of_nat)
  then have "(of_nat (length s) :: u64) \<noteq> 0"
    using assms(1) by (metis length_0_conv unat_0)
  then show "\<exists>k. get_lenc_int (put_lenc_int [] (of_nat (length s)) False @ rest) =
    Some ((of_nat (length s), False, k), rest)"
    by (simp add: get_lenc_int_put)
  show "(of_nat (length s) :: u64) \<ge> 1"
    using assms(1) u by (simp add: word_le_nat_alt Suc_leI)
qed

interpretation lenc_str: prefix_codec
  "put_lenc_str []" "\<lambda>bs. map_option (\<lambda>((s, _), rest). (s, rest)) (length_encoded_string bs)"
  "\<lambda>s. s \<noteq> [] \<and> length s < 2 ^ 64"
proof
  fix s rest :: bytes
  assume s: "s \<noteq> [] \<and> length s < 2 ^ 64"
  then obtain k where "get_lenc_int (put_lenc_int [] (of_nat (length s)) False @ s @ rest) =
      Some ((of_nat (length s), False, k), s @ rest)"
    using get_lenc_int_put_len(1) by blast
  moreover have "\<not> (of_nat (length s) :: u64) < 1" "unat (of_nat (length s) :: u64) = length s"
    using s get_lenc_int_put_len(2,3) [of s] by auto
  ultimately show "map_option (\<lambda>((s, _), rest). (s, rest))
      (length_encoded_string (put_lenc_str [] s @ rest)) = Some (s, rest)"
    using s by (simp add: length_encoded_string_def put_lenc_str_def split_to_append)
qed

interpretation lenc_vec: prefix_codec
  "put_lenc_str []" "\<lambda>bs. map_option (\<lambda>((s, _), rest). (s, rest)) (get_lenc_str_bytes bs)"
  "\<lambda>s. s \<noteq> [] \<and> length s < 2 ^ 63"
proof
  fix s rest :: bytes
  assume s: "s \<noteq> [] \<and> length s < 2 ^ 63"
  then obtain k where "get_lenc_int (put_lenc_int [] (of_nat (length s)) False @ s @ rest) =
      Some ((of_nat (length s), False, k), s @ rest)"
    using get_lenc_int_put_len(1) [of s] by auto
  moreover have "\<not> (of_nat (length s) :: u64) < 1" "unat (of_nat (length s) :: u64) = length s"
    using s get_lenc_int_put_len(2,3) [of s] by auto
  ultimately show "map_option (\<lambda>((s, _), rest). (s, rest))
      (get_lenc_str_bytes (put_lenc_str [] s @ rest)) = Some (s, rest)"
    using s by (simp add: get_lenc_str_bytes_def put_lenc_str_def)
qed


subsection \<open>Lemmas on passwords\<close>

lemma compare_loop_zip: "length a = length b \<Longrightarrow> compare_loop (zip a b) \<longleftrightarrow> a = b"
  by (induction a b rule: list_induct2) simp_all

lemma compare_eq: "compare a b \<longleftrightarrow> a = b"
  using compare_loop_zip by (auto simp: compare_def)

lemma length_xor_bytes [simp]: "length (xor_bytes a b) = min (length a) (length b)"
  by (simp add: xor_bytes_def)

lemma xor_bytes_cancel: "length a = length b \<Longrightarrow> xor_bytes a (xor_bytes a b) = b"
  by (induction a b rule: list_induct2) (simp_all add: xor_bytes_def xor.assoc [symmetric])

lemma random_byte_range:
  "d < 127 \<Longrightarrow> random_byte d \<noteq> 0 \<and> random_byte d \<noteq> 0x24 \<and> random_byte d < 128"
proof (cases "d = 0 \<or> d = 0x24")
  case False
  moreover assume "d < 127"
  moreover have "(127 :: u8) < 128"
    by simp
  ultimately show ?thesis
    by (metis less_trans random_byte_def)
qed (auto simp: random_byte_def)


subsection \<open>Properties\<close>

text \<open>Length-encoded integers round trip: reading what \<open>put_lenc_int\<close> wrote,
  followed by any bytes, gives back every 64-bit number with the number of bytes
  written as its width, and leaves exactly what followed; zero written as a string
  length is the NULL marker.\<close>

lemma lenc_int_roundtrip:
  "get_lenc_int (put_lenc_int [] n isnum @ rest) =
    (if n = 0 \<and> \<not> isnum then Some ((0, True, 1), rest)
     else Some ((n, False, of_nat (length (put_lenc_int [] n isnum))), rest))"
  by (simp add: get_lenc_int_put get_lenc_int_null length_put_lenc_int)

text \<open>The slice reader \<open>length_encode_int\<close> and the cursor reader \<open>get_lenc_int\<close>
  agree on every input, panics included, and the width they report is the number of
  bytes the cursor moved.\<close>

lemma lenc_readers_agree:
  "length_encode_int bs =
    map_option (\<lambda>((v, nul, _), rest). (v, nul, of_nat (length bs - length rest))) (get_lenc_int bs)"
proof (cases "get_lenc_int bs")
  case (Some r)
  obtain v nul k rest where r: "r = ((v, nul, k), rest)"
    by (metis prod.collapse)
  from Some r have k: "unat k \<le> length bs" "rest = drop (unat k) bs"
    using get_lenc_int_consumes by blast+
  then have "of_nat (length bs - length rest) = (ucast k :: u64)"
    by simp
  with Some r show ?thesis
    by (simp add: length_encode_int_eq)
qed (simp add: length_encode_int_eq)

text \<open>A list of non-empty strings, each written with its length in front, is
  read back string by string by \<open>length_encoded_string\<close>, whatever follows.\<close>

lemma lenc_strings_roundtrip:
  assumes "\<forall>s \<in> set ss. s \<noteq> [] \<and> length s < 2 ^ 64"
  shows "dec_many (\<lambda>bs. map_option (\<lambda>((s, _), r). (s, r)) (length_encoded_string bs))
      (length ss) (concat (map (put_lenc_str []) ss) @ rest) = Some (ss, rest)"
  using assms by (rule lenc_str.dec_many_enc)

lemma lenc_strings_roundtrip_witness:
  "dec_many (\<lambda>bs. map_option (\<lambda>((s, _), r). (s, r)) (length_encoded_string bs))
      (length [[1, 2, 3], [9 :: u8]]) (concat (map (put_lenc_str []) [[1, 2, 3], [9]]) @ [7]) =
    Some ([[1, 2, 3], [9]], [7])"
  by (rule lenc_strings_roundtrip) simp

text \<open>Native password authentication: with a digest of twenty bytes, XORing the
  scramble of a non-empty password with the digest of the challenge and the double
  hash gives back the single hash, so a server that stores only the double hash
  accepts it.\<close>

lemma calc_password_verifiable:
  assumes "\<forall>x. length (sha1 x) = 20" "password \<noteq> []"
  shows "length (calc_password sha1 scramble password) = 20 \<and>
    sha1 (xor_bytes (sha1 (scramble @ sha1 (sha1 password)))
        (calc_password sha1 scramble password)) = sha1 (sha1 password)"
proof -
  let ?scr = "sha1 (scramble @ sha1 (sha1 password))"
  have pw: "calc_password sha1 scramble password = xor_bytes ?scr (sha1 password)"
    using assms by (simp add: calc_password_def Let_def)
  have "xor_bytes ?scr (xor_bytes ?scr (sha1 password)) = sha1 password"
    using assms(1) by (simp add: xor_bytes_cancel)
  with pw assms show ?thesis
    by simp
qed

lemma calc_password_verifiable_witness:
  "length (calc_password (\<lambda>x. replicate 20 (of_nat (length x))) [1, 2] [5, 6, 7]) = 20"
  using calc_password_verifiable [of "\<lambda>x. replicate 20 (of_nat (length x))" "[5, 6, 7]" "[1, 2]"]
  by simp

end
