(* ===== verification/Packets.thy ===== *)
theory Packets
  imports Wire
begin

section \<open>Packet framing on the client side of the proxy\<close>

text \<open>
  The codec between the proxy and its clients, \<open>protocol/mysql/src/server/codec.rs\<close>:
  a payload is cut into packets of at most \<open>MAX_PAYLOAD_LEN\<close> bytes, each with a
  three-byte length and a sequence number, and put together again by the decoder.
  The session stored in the codec is only carried along, so its type is a
  parameter.  The group of lemmas shows that the encoder writes exactly the frames
  of the protocol, that the decoder inverts it, and that decoding does not depend
  on how the byte stream is cut into reads.
\<close>


subsection \<open>State\<close>

record 's PacketCodec =
  session :: 's
  buf :: bytes
  is_max :: bool
  seq :: u8

datatype PacketSend = Origin bytes | Encode bytes | EncodeOffset bytes nat

record MySQLError =
  code :: u16
  state :: bytes
  msg :: bytes

definition PacketCodec_new :: "'s \<Rightarrow> nat \<Rightarrow> 's PacketCodec" where
  "PacketCodec_new s init_size = \<lparr>session = s, buf = [], is_max = False, seq = 0\<rparr>"


subsection \<open>Encoding\<close>

text \<open>The two raw pointer writes: the sequence number at \<open>offset + 3\<close>, the three
  low bytes of the length at \<open>offset\<close>.\<close>

definition set_seq_id :: "'s PacketCodec \<Rightarrow> bytes \<Rightarrow> nat \<Rightarrow> ('s PacketCodec \<times> bytes) option" where
  "set_seq_id c data offset =
     do { data \<leftarrow> write_at (offset + 3) [seq c] data;
          Some (c\<lparr>seq := seq c + 1\<rparr>, data) }"

definition make_packet_header ::
    "'s PacketCodec \<Rightarrow> nat \<Rightarrow> bytes \<Rightarrow> nat \<Rightarrow> ('s PacketCodec \<times> bytes) option" where
  "make_packet_header c len data offset =
     do { data \<leftarrow> write_at offset (le_bytes 3 len) data;
          set_seq_id c data offset }"

definition reset_seq :: "'s PacketCodec \<Rightarrow> 's PacketCodec" where
  "reset_seq c = c\<lparr>seq := 0\<rparr>"

text \<open>The loop over the full packets, one turn per index.\<close>

fun encode_packet_loop ::
    "bytes \<Rightarrow> nat list \<Rightarrow> 's PacketCodec \<times> bytes \<times> nat \<Rightarrow> ('s PacketCodec \<times> bytes \<times> nat) option" where
  "encode_packet_loop item [] st = Some st"
| "encode_packet_loop item (i # is) (c, dst, offset) =
     do { (c, dst) \<leftarrow> make_packet_header c MAX_PAYLOAD_LEN
            (dst @ replicate 4 0 @ take MAX_PAYLOAD_LEN (drop (i * MAX_PAYLOAD_LEN) item)) offset;
          encode_packet_loop item is (c, dst, offset + MAX_PAYLOAD_LEN + 4) }"

definition encode_packet_offset ::
    "'s PacketCodec \<Rightarrow> bytes \<Rightarrow> bytes \<Rightarrow> nat \<Rightarrow> ('s PacketCodec \<times> bytes) option" where
  "encode_packet_offset c item dst offset =
     (let len = length item;
          num = len div MAX_PAYLOAD_LEN;
          remain = len mod MAX_PAYLOAD_LEN
      in do { (c, dst, offset) \<leftarrow> encode_packet_loop item [0..<num] (c, dst, offset);
              make_packet_header c remain
                (dst @ replicate 4 0 @ drop (num * MAX_PAYLOAD_LEN) item) offset })"

definition encode_packet :: "'s PacketCodec \<Rightarrow> bytes \<Rightarrow> bytes \<Rightarrow> ('s PacketCodec \<times> bytes) option" where
  "encode_packet c item dst = encode_packet_offset c item dst 0"

definition PacketCodec_encode :: "'s PacketCodec \<Rightarrow> PacketSend \<Rightarrow> bytes \<Rightarrow> ('s PacketCodec \<times> bytes) option" where
  "PacketCodec_encode c item dst =
     (case item of
        Origin data \<Rightarrow> Some (c, dst @ data)
      | Encode data \<Rightarrow> encode_packet c data dst
      | EncodeOffset data offset \<Rightarrow> encode_packet_offset c data dst offset)"


subsection \<open>Decoding\<close>

text \<open>One call of \<open>decode\<close>: the new codec state, what is left of the source, and
  the payload if one is complete.  A packet of the maximal length continues the
  payload, so the decoder calls itself on the rest.\<close>

function PacketCodec_decode :: "'s PacketCodec \<Rightarrow> bytes \<Rightarrow> 's PacketCodec \<times> bytes \<times> bytes option" where
  "PacketCodec_decode c src =
     (if src = [] \<or> length src < 3 then (c, src, None)
      else let len = le_val (take 3 src) in
        if 4 + len > length src then (c, src, None)
        else let c = (if len = MAX_PAYLOAD_LEN then c\<lparr>is_max := True\<rparr> else c);
                 c = c\<lparr>seq := seq c + 1\<rparr>;
                 src = drop 4 src;
                 c = c\<lparr>buf := buf c @ take len src\<rparr>;
                 src = drop len src
             in if len < MAX_PAYLOAD_LEN then (c\<lparr>buf := []\<rparr>, src, Some (buf c))
                else PacketCodec_decode c src)"
  by pat_completeness auto
termination
  by (relation "measure (\<lambda>(c, src). length src)") auto

declare PacketCodec_decode.simps [simp del]


subsection \<open>Fixed packets\<close>

definition make_eof_packet :: bytes where
  "make_eof_packet = [5, 0, 0, 0, 0xfe, 0, 0, 2, 0]"

definition ok_packet :: bytes where
  "ok_packet = [7, 0, 0, 0, 0, 0, 0, 2, 0, 0, 0]"

definition make_err_packet :: "MySQLError \<Rightarrow> bytes" where
  "make_err_packet err =
     replicate 4 0 @ [0xff] @ [ucast (code err), ucast (drop_bit 8 (code err))]
       @ [0x23] @ state err @ [0x20] @ msg err"


subsection \<open>The frames of a payload\<close>

text \<open>The specification: full packets while at least \<open>MAX_PAYLOAD_LEN\<close> bytes are
  left, then a shorter (possibly empty) one, numbered consecutively modulo 256.\<close>

function frames :: "u8 \<Rightarrow> bytes \<Rightarrow> bytes" where
  "frames s item =
     (if length item < MAX_PAYLOAD_LEN then le_bytes 3 (length item) @ s # item
      else le_bytes 3 MAX_PAYLOAD_LEN @ s # take MAX_PAYLOAD_LEN item
             @ frames (s + 1) (drop MAX_PAYLOAD_LEN item))"
  by pat_completeness auto
termination
  by (relation "measure (\<lambda>(s, item). length item)") (auto simp: MAX_PAYLOAD_LEN_def)

declare frames.simps [simp del]


subsection \<open>Lemmas on the encoder\<close>

lemma le_val_max: "le_val (le_bytes 3 MAX_PAYLOAD_LEN) = MAX_PAYLOAD_LEN"
  by (simp add: le_val_le_bytes MAX_PAYLOAD_LEN_def)

lemma make_packet_header_end:
  "make_packet_header c len (dst @ replicate 4 0 @ body) (length dst) =
     Some (c\<lparr>seq := seq c + 1\<rparr>, dst @ le_bytes 3 len @ seq c # body)"
proof -
  have four: "replicate 4 (0 :: u8) = replicate 3 0 @ [0]"
    by (simp add: replicate_append_same numeral_eq_Suc)
  have "write_at (length dst) (le_bytes 3 len) (dst @ replicate 4 0 @ body) =
      Some (dst @ le_bytes 3 len @ 0 # body)"
    using write_at_append [of "replicate 3 0" "le_bytes 3 len" dst "length dst" "0 # body"]
    by (simp add: four)
  moreover have "write_at (length dst + 3) [seq c] (dst @ le_bytes 3 len @ 0 # body) =
      Some (dst @ le_bytes 3 len @ seq c # body)"
    using write_at_append [of "[0]" "[seq c]" "dst @ le_bytes 3 len" "length dst + 3" body]
    by simp
  ultimately show ?thesis
    by (simp add: make_packet_header_def set_seq_id_def)
qed

lemma frames_step:
  "MAX_PAYLOAD_LEN \<le> length item \<Longrightarrow>
   frames s item = le_bytes 3 MAX_PAYLOAD_LEN @ s # take MAX_PAYLOAD_LEN item
     @ frames (s + 1) (drop MAX_PAYLOAD_LEN item)"
  by (subst frames.simps) simp

lemma frames_last: "length item < MAX_PAYLOAD_LEN \<Longrightarrow> frames s item = le_bytes 3 (length item) @ s # item"
  by (subst frames.simps) simp

text \<open>After the loop over the packets from \<open>j\<close> on, what is still to be framed is
  the rest of the payload.\<close>

lemma encode_packet_loop_frames:
  assumes "j + n = length item div MAX_PAYLOAD_LEN"
  shows "\<exists>dst'. encode_packet_loop item [j..<j + n] (c, dst, length dst) =
      Some (c\<lparr>seq := seq c + of_nat n\<rparr>, dst', length dst') \<and>
    dst' @ frames (seq c + of_nat n) (drop ((j + n) * MAX_PAYLOAD_LEN) item) =
      dst @ frames (seq c) (drop (j * MAX_PAYLOAD_LEN) item)"
  using assms
proof (induction n arbitrary: j c dst)
  case (Suc n)
  let ?M = MAX_PAYLOAD_LEN
  let ?body = "take ?M (drop (j * ?M) item)"
  let ?dst = "dst @ le_bytes 3 ?M @ seq c # ?body"
  let ?c = "c\<lparr>seq := seq c + 1\<rparr>"
  have "Suc j \<le> length item div ?M"
    using Suc.prems by simp
  then have "Suc j * ?M \<le> length item"
    by (metis div_times_less_eq_dividend le_trans mult_le_mono1)
  then have room: "?M \<le> length (drop (j * ?M) item)"
    by simp
  then have len: "length ?dst = length dst + ?M + 4"
    by simp
  have step: "encode_packet_loop item [j..<j + Suc n] (c, dst, length dst) =
      encode_packet_loop item [Suc j..<Suc j + n] (?c, ?dst, length ?dst)"
  proof -
    have "[j..<j + Suc n] = j # [Suc j..<Suc j + n]"
      by (simp add: upt_conv_Cons del: upt_Suc)
    then show ?thesis
      by (simp only: len) (simp add: make_packet_header_end del: upt_Suc)
  qed
  have "frames (seq c) (drop (j * ?M) item) =
      le_bytes 3 ?M @ seq c # ?body @ frames (seq c + 1) (drop (Suc j * ?M) item)"
    using frames_step [OF room, of "seq c"] by (simp add: add.commute)
  moreover have shift: "Suc j + n = j + Suc n" "seq ?c + of_nat n = seq c + of_nat (Suc n)"
    by simp_all
  moreover obtain dst' where
    "encode_packet_loop item [Suc j..<Suc j + n] (?c, ?dst, length ?dst) =
      Some (?c\<lparr>seq := seq ?c + of_nat n\<rparr>, dst', length dst')"
    "dst' @ frames (seq ?c + of_nat n) (drop ((Suc j + n) * ?M) item) =
      ?dst @ frames (seq ?c) (drop (Suc j * ?M) item)"
    using Suc.IH [of "Suc j" ?c ?dst] Suc.prems by auto
  ultimately show ?case
    by (simp only: step shift) auto
qed simp

lemma encode_packet_offset_end:
  "encode_packet_offset c item dst (length dst) =
     Some (c\<lparr>seq := seq c + of_nat (length item div MAX_PAYLOAD_LEN) + 1\<rparr>,
           dst @ frames (seq c) item)"
proof -
  let ?n = "length item div MAX_PAYLOAD_LEN"
  obtain dst' where loop: "encode_packet_loop item [0..<?n] (c, dst, length dst) =
      Some (c\<lparr>seq := seq c + of_nat ?n\<rparr>, dst', length dst')"
    and rest: "dst' @ frames (seq c + of_nat ?n) (drop (?n * MAX_PAYLOAD_LEN) item) =
      dst @ frames (seq c) item"
    using encode_packet_loop_frames [of 0 ?n item c dst] by auto
  have len: "length (drop (?n * MAX_PAYLOAD_LEN) item) = length item mod MAX_PAYLOAD_LEN"
    by (simp add: modulo_nat_def)
  then have "length (drop (?n * MAX_PAYLOAD_LEN) item) < MAX_PAYLOAD_LEN"
    by (simp add: MAX_PAYLOAD_LEN_def)
  from frames_last [OF this] rest
  have "dst @ frames (seq c) item =
      dst' @ le_bytes 3 (length item mod MAX_PAYLOAD_LEN) @ (seq c + of_nat ?n)
        # drop (?n * MAX_PAYLOAD_LEN) item"
    by (simp only: len)
  then show ?thesis
    by (simp add: encode_packet_offset_def Let_def loop make_packet_header_end)
qed


subsection \<open>Lemmas on the decoder\<close>

lemma decode_short:
  "length src < 3 \<or> length src < 4 + le_val (take 3 src) \<Longrightarrow> PacketCodec_decode c src = (c, src, None)"
  by (subst PacketCodec_decode.simps) (auto simp: Let_def)

text \<open>What the decoder does with one whole packet at the front of the source.\<close>

lemma decode_packet:
  assumes "length body < 256 ^ 3"
  shows "PacketCodec_decode c (le_bytes 3 (length body) @ s # body @ rest) =
    (if length body < MAX_PAYLOAD_LEN
     then (c\<lparr>seq := seq c + 1, buf := []\<rparr>, rest, Some (buf c @ body))
     else if length body = MAX_PAYLOAD_LEN
     then PacketCodec_decode (c\<lparr>is_max := True, seq := seq c + 1, buf := buf c @ body\<rparr>) rest
     else PacketCodec_decode (c\<lparr>seq := seq c + 1, buf := buf c @ body\<rparr>) rest)"
proof -
  have "le_val (le_bytes 3 (length body)) = length body"
    using assms by (simp add: le_val_le_bytes)
  then show ?thesis
    by (subst PacketCodec_decode.simps) (simp add: Let_def)
qed

lemma decode_frames:
  "PacketCodec_decode c (frames s item @ rest) =
    (c\<lparr>is_max := is_max c \<or> MAX_PAYLOAD_LEN \<le> length item,
       seq := seq c + of_nat (length item div MAX_PAYLOAD_LEN) + 1, buf := []\<rparr>,
     rest, Some (buf c @ item))"
proof (induction s item arbitrary: c rule: frames.induct)
  case (1 s item)
  let ?M = MAX_PAYLOAD_LEN
  show ?case
  proof (cases "length item < ?M")
    case True
    then have "length item < 256 ^ 3"
      by (simp add: MAX_PAYLOAD_LEN_def)
    from decode_packet [OF this, of c s rest] True show ?thesis
      by (simp add: frames_last)
  next
    case False
    let ?c = "c\<lparr>is_max := True, seq := seq c + 1, buf := buf c @ take ?M item\<rparr>"
    have len: "length (take ?M item) = ?M"
      using False by simp
    then have "length (take ?M item) < 256 ^ 3"
      by (simp add: MAX_PAYLOAD_LEN_def)
    from decode_packet [OF this, of c s "frames (s + 1) (drop ?M item) @ rest"]
    have "PacketCodec_decode c (frames s item @ rest) = PacketCodec_decode ?c (frames (s + 1) (drop ?M item) @ rest)"
      using False by (simp add: len frames_step)
    moreover have "length item div ?M = Suc ((length item - ?M) div ?M)"
      using False by (simp add: le_div_geq MAX_PAYLOAD_LEN_def)
    ultimately show ?thesis
      using 1 [OF False, of ?c] False by (simp add: add.assoc)
  qed
qed

text \<open>The state after taking in the packet at the front of the source, and one
  unfolding of the decoder when that packet is complete.\<close>

definition take_in :: "'s PacketCodec \<Rightarrow> bytes \<Rightarrow> 's PacketCodec" where
  "take_in c src =
     (let len = le_val (take 3 src) in
      (if len = MAX_PAYLOAD_LEN then c\<lparr>is_max := True\<rparr> else c)
        \<lparr>seq := seq c + 1, buf := buf c @ take len (drop 4 src)\<rparr>)"

lemma decode_step:
  assumes "\<not> length src < 3" "\<not> length src < 4 + le_val (take 3 src)"
  shows "PacketCodec_decode c src =
    (if le_val (take 3 src) < MAX_PAYLOAD_LEN
     then ((take_in c src)\<lparr>buf := []\<rparr>, drop (4 + le_val (take 3 src)) src, Some (buf (take_in c src)))
     else PacketCodec_decode (take_in c src) (drop (4 + le_val (take 3 src)) src))"
proof -
  have "src \<noteq> []"
    using assms by auto
  with assms show ?thesis
    by (subst PacketCodec_decode.simps) (simp add: Let_def take_in_def add.commute)
qed

lemma take_in_append:
  "\<not> length src < 3 \<Longrightarrow> \<not> length src < 4 + le_val (take 3 src) \<Longrightarrow> take_in c (src @ later) = take_in c src"
  by (simp add: take_in_def Let_def)

text \<open>Cutting the stream anywhere: what an incomplete call left over, continued
  with the bytes that arrive later, is decoded as if all had been there.\<close>

lemma decode_resume_aux:
  "PacketCodec_decode c src = (c1, src1, None) \<Longrightarrow> PacketCodec_decode c1 (src1 @ later) = PacketCodec_decode c (src @ later)"
proof (induction "length src" arbitrary: c src rule: less_induct)
  case less
  let ?rest = "drop (4 + le_val (take 3 src)) src"
  show ?case
  proof (cases "length src < 3 \<or> length src < 4 + le_val (take 3 src)")
    case True
    with less.prems decode_short [of src c] show ?thesis
      by auto
  next
    case False
    with less.prems have go: "\<not> le_val (take 3 src) < MAX_PAYLOAD_LEN"
      and rec: "PacketCodec_decode (take_in c src) ?rest = (c1, src1, None)"
      by (auto simp: decode_step split: if_splits)
    have "PacketCodec_decode c (src @ later) = PacketCodec_decode (take_in c src) (?rest @ later)"
      using False go by (subst decode_step) (auto simp: take_in_append)
    moreover have "length ?rest < length src"
      using False by (cases src) auto
    ultimately show ?thesis
      using less.hyps [OF _ rec] by simp
  qed
qed

text \<open>A call only removes bytes from the front of its source.\<close>

lemma decode_suffix: "PacketCodec_decode c src = (c', src', r) \<Longrightarrow> \<exists>k. src' = drop k src"
proof (induction "length src" arbitrary: c src rule: less_induct)
  case less
  show ?case
  proof (cases "length src < 3 \<or> length src < 4 + le_val (take 3 src)")
    case True
    with less.prems decode_short [of src c] show ?thesis
      by (auto intro: exI [of _ 0])
  next
    case False
    let ?rest = "drop (4 + le_val (take 3 src)) src"
    have "length ?rest < length src"
      using False by (cases src) auto
    with less.hyps [OF this] less.prems False have "\<exists>k. src' = drop k src \<or> src' = drop k ?rest"
      by (auto simp: decode_step split: if_splits)
    then show ?thesis
      by (metis drop_drop)
  qed
qed


subsection \<open>Properties\<close>

text \<open>C39.  The encoder refines the framing of the protocol: \<open>encode_packet_offset\<close>
  at the end of the output buffer appends exactly the frames of the payload, numbered
  consecutively modulo 256 from the codec's sequence number, touches nothing that was
  in the buffer before, and leaves the codec ready for the next number.\<close>

theorem encode_refines_frames:
  "encode_packet_offset c item dst (length dst) =
     Some (c\<lparr>seq := seq c + of_nat (length item div MAX_PAYLOAD_LEN) + 1\<rparr>,
           dst @ frames (seq c) item)"
  by (rule encode_packet_offset_end)

text \<open>C40.  Framing round trip: for a payload of any length, what \<open>encode\<close> writes into an
  empty buffer is decoded, by a codec with no partial payload, into that payload in one
  call, and the bytes that follow are left for the next call.\<close>

theorem packet_roundtrip:
  assumes "PacketCodec_encode c (Encode item) [] = Some (c', out)" "buf d = []"
  shows "\<exists>d'. PacketCodec_decode d (out @ rest) = (d', rest, Some item) \<and> buf d' = [] \<and>
    seq d' - seq d = seq c' - seq c"
proof -
  have out: "out = frames (seq c) item"
    and c': "c' = c\<lparr>seq := seq c + of_nat (length item div MAX_PAYLOAD_LEN) + 1\<rparr>"
    using assms(1) encode_packet_offset_end [of c item "[]"]
    by (simp_all add: PacketCodec_encode_def encode_packet_def)
  from assms(2) show ?thesis
    by (simp add: out c' decode_frames)
qed

theorem packet_roundtrip_witness:
  "\<exists>d'. PacketCodec_decode (PacketCodec_new () 16) ([3, 0, 0, 0, 1, 2, 3] @ [9]) = (d', [9], Some [1, 2, 3]) \<and> buf d' = [] \<and>
    seq d' - seq (PacketCodec_new () 16) = seq ((PacketCodec_new () 16)\<lparr>seq := 1\<rparr>) - seq (PacketCodec_new () 16)"
proof (rule packet_roundtrip)
  show "PacketCodec_encode (PacketCodec_new () 16) (Encode [1, 2, 3]) [] = Some ((PacketCodec_new () 16)\<lparr>seq := 1\<rparr>, [3, 0, 0, 0, 1, 2, 3])"
    using encode_packet_offset_end [of "PacketCodec_new () 16" "[1, 2, 3]" "[]"]
    by (simp add: PacketCodec_encode_def encode_packet_def frames_last MAX_PAYLOAD_LEN_def PacketCodec_new_def le_bytes_numeral)
qed (simp add: PacketCodec_new_def)

text \<open>Decoding does not depend on how the stream is cut: if a call returns no
  payload, calling again with the left-over bytes and whatever arrives later gives the
  same result as one call on the whole input.\<close>

lemma decode_resume:
  assumes "PacketCodec_decode c src = (c1, src1, None)"
  shows "PacketCodec_decode c1 (src1 @ later) = PacketCodec_decode c (src @ later)"
  using assms by (rule decode_resume_aux)

lemma decode_resume_witness:
  "PacketCodec_decode (PacketCodec_new () 16) [3, 0, 0, 0, 1] = (PacketCodec_new () 16, [3, 0, 0, 0, 1], None) \<and>
   PacketCodec_decode (PacketCodec_new () 16) ([3, 0, 0, 0, 1] @ [2, 3]) = ((PacketCodec_new () 16)\<lparr>seq := 1\<rparr>, [], Some [1, 2, 3])"
proof
  show first: "PacketCodec_decode (PacketCodec_new () 16) [3, 0, 0, 0, 1] = (PacketCodec_new () 16, [3, 0, 0, 0, 1], None)"
    by (rule decode_short) simp
  have "PacketCodec_decode (PacketCodec_new () 16) ([3, 0, 0, 0, 1] @ [2, 3]) = ((PacketCodec_new () 16)\<lparr>seq := 1\<rparr>, [], Some [1, 2, 3])"
    by (subst PacketCodec_decode.simps) (simp add: Let_def MAX_PAYLOAD_LEN_def PacketCodec_new_def)
  then show "PacketCodec_decode (PacketCodec_new () 16) ([3, 0, 0, 0, 1] @ [2, 3]) =
      ((PacketCodec_new () 16)\<lparr>seq := 1\<rparr>, [], Some [1, 2, 3])"
    by (rule trans [OF decode_resume [OF first]])
qed

end
