(* ===== verification/LoadBalance.thy ===== *)
theory LoadBalance
  imports Prelude
begin

section \<open>Load balancing\<close>

text \<open>
  Backend endpoints (\<open>proxy/endpoint/src/endpoint.rs\<close>) and the two balancing
  algorithms of \<open>proxy/loadbalance/src\<close> behind the \<open>LoadBalance\<close> trait: weighted
  random choice and weighted round robin.  The random generator is a parameter,
  \<open>gen_range r k\<close> draws a number below \<open>k\<close> and returns the generator's next state.
  An \<open>i64\<close> is an \<open>int\<close>; the additions that configuration values can drive out of
  range are wrapped.  The trait is the locale \<open>load_balance\<close>, interpreted for both
  algorithms and for the dispatching enum.
\<close>


subsection \<open>Endpoints\<close>

record Endpoint =
  weight :: int
  name :: string
  db :: string
  user :: string
  password :: string
  addr :: string

definition Endpoint_to_string :: "Endpoint \<Rightarrow> string" where
  "Endpoint_to_string e = addr e"

text \<open>\<open>items.iter().find(|x| x.name == endpoint.name)\<close>.\<close>

definition name_exists :: "Endpoint list \<Rightarrow> Endpoint \<Rightarrow> bool" where
  "name_exists items e =
     (case find (\<lambda>x. name x = name e) items of None \<Rightarrow> False | Some _ \<Rightarrow> True)"


subsection \<open>Weighted random choice\<close>

record 'r RandomWeighted =
  rw_items :: "Endpoint list"
  rw_n :: int
  sum_of_weights :: int
  rw_r :: 'r

definition RandomWeighted_default :: "'r \<Rightarrow> 'r RandomWeighted" where
  "RandomWeighted_default seed = \<lparr>rw_items = [], rw_n = 0, sum_of_weights = 0, rw_r = seed\<rparr>"

definition RandomWeighted_item_exists :: "'r RandomWeighted \<Rightarrow> Endpoint \<Rightarrow> bool" where
  "RandomWeighted_item_exists s e = name_exists (rw_items s) e"

definition RandomWeighted_add :: "'r RandomWeighted \<Rightarrow> Endpoint \<Rightarrow> 'r RandomWeighted" where
  "RandomWeighted_add s e =
     (if \<not> RandomWeighted_item_exists s e
      then s\<lparr>sum_of_weights := wrap64 (sum_of_weights s + weight e), rw_n := rw_n s + 1,
             rw_items := rw_items s @ [e]\<rparr>
      else s)"

text \<open>The \<open>for\<close> loop of \<open>next\<close>: subtract weights until nothing is left.\<close>

fun pick_loop :: "int \<Rightarrow> Endpoint list \<Rightarrow> Endpoint option" where
  "pick_loop random_weight [] = None"
| "pick_loop random_weight (e # es) =
     (let random_weight = wrap64 (random_weight - weight e) in
      if random_weight \<le> 0 then Some e else pick_loop random_weight es)"

text \<open>\<open>items.len() - 1\<close> underflows on an empty vector, the panic \<open>None\<close>.\<close>

definition RandomWeighted_next ::
    "('r \<Rightarrow> int \<Rightarrow> int \<times> 'r) \<Rightarrow> 'r RandomWeighted \<Rightarrow> ('r RandomWeighted \<times> Endpoint option) option" where
  "RandomWeighted_next gen_range s =
     (if rw_n s = 0 then Some (s, None)
      else if sum_of_weights s \<le> 0 then Some (s, None)
      else let (d, r') = gen_range (rw_r s) (sum_of_weights s);
               s = s\<lparr>rw_r := r'\<rparr>
           in case pick_loop (d + 1) (rw_items s) of
                Some e \<Rightarrow> Some (s, Some e)
              | None \<Rightarrow> if rw_items s = [] then None
                        else Some (s, Some (rw_items s ! (length (rw_items s) - 1))))"

definition RandomWeighted_remove_item ::
    "'r RandomWeighted \<Rightarrow> Endpoint \<Rightarrow> 'r RandomWeighted option" where
  "RandomWeighted_remove_item s e =
     do { k \<leftarrow> position (\<lambda>x. name x = name e) (rw_items s);
          Some (s\<lparr>rw_items := remove_at k (rw_items s)\<rparr>) }"

definition RandomWeighted_remove_all :: "'r \<Rightarrow> 'r RandomWeighted \<Rightarrow> 'r RandomWeighted" where
  "RandomWeighted_remove_all seed s = s\<lparr>rw_items := [], rw_r := seed\<rparr>"


subsection \<open>Weighted round robin\<close>

record RoundRobinWeighted =
  rr_items :: "Endpoint list"
  rr_n :: int
  rr_gcd :: int
  max_weight :: int
  rr_i :: int
  cw :: int

definition RoundRobinWeighted_default :: RoundRobinWeighted where
  "RoundRobinWeighted_default =
     \<lparr>rr_items = [], rr_n = 0, rr_gcd = 0, max_weight = 0, rr_i = 0, cw = 0\<rparr>"

text \<open>The \<open>gcd\<close> loop; a remainder by zero panics.\<close>

function gcd_loop :: "int \<Rightarrow> int \<Rightarrow> int option" where
  "gcd_loop x y =
     (if y = 0 then None
      else let t = trunc_rem x y in if t > 0 then gcd_loop y t else Some y)"
  by pat_completeness auto
termination
proof (relation "measure (\<lambda>(x, y). nat \<bar>y\<bar>)")
  fix x y t :: int
  assume "y \<noteq> 0" and t: "t = trunc_rem x y" and "0 < t"
  have "\<bar>t\<bar> < \<bar>y\<bar>"
    using \<open>y \<noteq> 0\<close> by (auto simp: t trunc_rem_def abs_mult sgn_if)
  then show "((y, t), x, y) \<in> measure (\<lambda>(x, y). nat \<bar>y\<bar>)"
    by simp
qed simp

declare gcd_loop.simps [simp del]

definition RoundRobinWeighted_item_exists :: "RoundRobinWeighted \<Rightarrow> Endpoint \<Rightarrow> bool" where
  "RoundRobinWeighted_item_exists s e = name_exists (rr_items s) e"

definition RoundRobinWeighted_add :: "RoundRobinWeighted \<Rightarrow> Endpoint \<Rightarrow> RoundRobinWeighted option" where
  "RoundRobinWeighted_add s e =
     (if RoundRobinWeighted_item_exists s e then Some s
      else do {
        s \<leftarrow> (if weight e > 0 then
                if rr_gcd s = 0
                then Some (s\<lparr>rr_gcd := weight e, max_weight := weight e, rr_i := -1, cw := 0\<rparr>)
                else do { g \<leftarrow> gcd_loop (rr_gcd s) (weight e);
                          Some (s\<lparr>rr_gcd := g, max_weight :=
                            (if max_weight s < weight e then weight e else max_weight s)\<rparr>) }
              else Some s);
        Some (s\<lparr>rr_items := rr_items s @ [e], rr_n := rr_n s + 1\<rparr>) })"

text \<open>The comparison at the end of a turn, \<open>items[i as usize].weight >= cw\<close>, and
  the whole turn.\<close>

definition rr_check ::
    "RoundRobinWeighted \<Rightarrow> (RoundRobinWeighted, Endpoint option) turn option" where
  "rr_check s =
     (if rr_i s < 0 then None
      else do { e \<leftarrow> idx (rr_items s) (nat (rr_i s));
                Some (if weight e \<ge> cw s then Return s (Some e) else Continue s) })"

definition rr_turn ::
    "RoundRobinWeighted \<Rightarrow> (RoundRobinWeighted, Endpoint option) turn option" where
  "rr_turn s =
     (let s = s\<lparr>rr_i := trunc_rem (rr_i s + 1) (rr_n s)\<rparr> in
      if rr_i s = 0 then
        let s = s\<lparr>cw := cw s - rr_gcd s\<rparr> in
        if cw s \<le> 0 then
          let s = s\<lparr>cw := max_weight s\<rparr> in
          if cw s = 0 then Some (Return s None) else rr_check s
        else rr_check s
      else rr_check s)"

text \<open>The loop need not end: no result is the outer \<open>None\<close>, a panic the inner.\<close>

partial_function (option) rr_next_loop ::
    "RoundRobinWeighted \<Rightarrow> (RoundRobinWeighted \<times> Endpoint option) option option" where
  "rr_next_loop s =
     (case rr_turn s of
        None \<Rightarrow> Some None
      | Some t \<Rightarrow> (case t of Return s' r \<Rightarrow> Some (Some (s', r)) | Continue s' \<Rightarrow> rr_next_loop s'))"

definition RoundRobinWeighted_next ::
    "RoundRobinWeighted \<Rightarrow> (RoundRobinWeighted \<times> Endpoint option) option option" where
  "RoundRobinWeighted_next s =
     (if rr_n s = 0 then Some (Some (s, None))
      else if rr_n s = 1 then Some (Some (s, idx (rr_items s) 0))
      else rr_next_loop s)"

definition RoundRobinWeighted_remove_item ::
    "RoundRobinWeighted \<Rightarrow> Endpoint \<Rightarrow> RoundRobinWeighted option" where
  "RoundRobinWeighted_remove_item s e =
     do { k \<leftarrow> position (\<lambda>x. name x = name e) (rr_items s);
          Some (s\<lparr>rr_items := remove_at k (rr_items s)\<rparr>) }"

definition RoundRobinWeighted_remove_all :: "RoundRobinWeighted \<Rightarrow> RoundRobinWeighted" where
  "RoundRobinWeighted_remove_all s =
     s\<lparr>rr_items := [], rr_n := 0, rr_gcd := 0, max_weight := 0, rr_i := -1, cw := 0\<rparr>"


subsection \<open>The balancer of a configuration\<close>

datatype AlgorithmName = Random | RoundRobin

datatype 'r BalanceType = BRandom "'r RandomWeighted" | BRoundRobin RoundRobinWeighted

definition AlgorithmName_default :: AlgorithmName where
  "AlgorithmName_default = Random"

definition build_balance :: "'r \<Rightarrow> AlgorithmName \<Rightarrow> 'r BalanceType" where
  "build_balance seed algorithm_name =
     (case algorithm_name of
        Random \<Rightarrow> BRandom (RandomWeighted_default seed)
      | RoundRobin \<Rightarrow> BRoundRobin RoundRobinWeighted_default)"

definition BalanceType_next ::
    "('r \<Rightarrow> int \<Rightarrow> int \<times> 'r) \<Rightarrow> 'r BalanceType \<Rightarrow> ('r BalanceType \<times> Endpoint option) option option" where
  "BalanceType_next gen_range b =
     (case b of
        BRandom s \<Rightarrow> Some (map_option (\<lambda>(s, e). (BRandom s, e)) (RandomWeighted_next gen_range s))
      | BRoundRobin s \<Rightarrow>
          map_option (map_option (\<lambda>(s, e). (BRoundRobin s, e))) (RoundRobinWeighted_next s))"

definition BalanceType_add :: "'r BalanceType \<Rightarrow> Endpoint \<Rightarrow> 'r BalanceType option" where
  "BalanceType_add b e =
     (case b of
        BRandom s \<Rightarrow> Some (BRandom (RandomWeighted_add s e))
      | BRoundRobin s \<Rightarrow> map_option BRoundRobin (RoundRobinWeighted_add s e))"

definition BalanceType_item_exists :: "'r BalanceType \<Rightarrow> Endpoint \<Rightarrow> bool" where
  "BalanceType_item_exists b e =
     (case b of
        BRandom s \<Rightarrow> RandomWeighted_item_exists s e
      | BRoundRobin s \<Rightarrow> RoundRobinWeighted_item_exists s e)"

definition BalanceType_get_all :: "'r BalanceType \<Rightarrow> Endpoint list" where
  "BalanceType_get_all b = (case b of BRandom s \<Rightarrow> rw_items s | BRoundRobin s \<Rightarrow> rr_items s)"

definition BalanceType_remove_item :: "'r BalanceType \<Rightarrow> Endpoint \<Rightarrow> 'r BalanceType option" where
  "BalanceType_remove_item b e =
     (case b of
        BRandom s \<Rightarrow> map_option BRandom (RandomWeighted_remove_item s e)
      | BRoundRobin s \<Rightarrow> map_option BRoundRobin (RoundRobinWeighted_remove_item s e))"

definition BalanceType_remove_all :: "'r \<Rightarrow> 'r BalanceType \<Rightarrow> 'r BalanceType" where
  "BalanceType_remove_all seed b =
     (case b of
        BRandom s \<Rightarrow> BRandom (RandomWeighted_remove_all seed s)
      | BRoundRobin s \<Rightarrow> BRoundRobin (RoundRobinWeighted_remove_all s))"

text \<open>The loop every caller runs to fill a balancer.\<close>

fun add_each :: "('b \<Rightarrow> Endpoint \<Rightarrow> 'b option) \<Rightarrow> 'b \<Rightarrow> Endpoint list \<Rightarrow> 'b option" where
  "add_each add b [] = Some b"
| "add_each add b (e # es) = do { b \<leftarrow> add b e; add_each add b es }"

subsection \<open>The trait\<close>

text \<open>
  What the callers of the balancer rely on: \<open>add\<close> never fails and appends an
  endpoint unless one of that name is there, \<open>item_exists\<close> tests the name, and
  \<open>next\<close>, on a balancer built from the laws, answers with one of its endpoints.
\<close>

text \<open>What filling a balancer keeps of a list: the first endpoint of each name.\<close>

fun keep_new :: "string set \<Rightarrow> Endpoint list \<Rightarrow> Endpoint list" where
  "keep_new N [] = []"
| "keep_new N (e # es) =
     (if name e \<in> N then keep_new N es else e # keep_new (insert (name e) N) es)"

lemma keep_new_names:
  "name ` set (keep_new N es) = name ` set es - N" "set (keep_new N es) \<subseteq> set es"
  "distinct (map name (keep_new N es))"
  by (induction N es rule: keep_new.induct) auto

lemma keep_new_distinct:
  "distinct (map name es) \<Longrightarrow> N \<inter> name ` set es = {} \<Longrightarrow> keep_new N es = es"
  by (induction N es rule: keep_new.induct) auto

locale load_balance =
  fixes empty :: 'b
    and add :: "'b \<Rightarrow> Endpoint \<Rightarrow> 'b option"
    and exists :: "'b \<Rightarrow> Endpoint \<Rightarrow> bool"
    and all :: "'b \<Rightarrow> Endpoint list"
    and invar :: "'b \<Rightarrow> bool"
  assumes all_empty: "all empty = []"
    and invar_empty: "invar empty"
    and exists_iff: "exists b e \<longleftrightarrow> name e \<in> name ` set (all b)"
    and add_law: "invar b \<Longrightarrow> \<exists>b'. add b e = Some b' \<and> invar b' \<and>
      all b' = (if exists b e then all b else all b @ [e])"
begin

lemma add_each_law:
  "invar b \<Longrightarrow>
   \<exists>b'. add_each add b es = Some b' \<and> invar b' \<and> all b' = all b @ keep_new (name ` set (all b)) es"
proof (induction es arbitrary: b)
  case (Cons e es)
  obtain b1 where b1: "add b e = Some b1" "invar b1"
    "all b1 = (if exists b e then all b else all b @ [e])"
    using add_law [OF Cons.prems] by blast
  with Cons.IH [OF b1(2)] show ?case
    by (auto simp: exists_iff)
qed auto

lemma built:
  "\<exists>b. add_each add empty es = Some b \<and> invar b \<and> all b = keep_new {} es"
  using add_each_law [of empty es] invar_empty all_empty by auto

end


subsection \<open>Lemmas on the items\<close>

lemma name_exists_iff: "name_exists items e \<longleftrightarrow> name e \<in> name ` set items"
  by (induction items) (auto simp: name_exists_def)


subsection \<open>Lemmas on the random choice\<close>

lemma pick_loop_in: "pick_loop w items = Some e \<Longrightarrow> e \<in> set items"
  by (induction items arbitrary: w) (auto simp: Let_def split: if_splits)

abbreviation total :: "Endpoint list \<Rightarrow> int" where
  "total items \<equiv> sum_list (map weight items)"

lemma total_nonneg: "\<forall>e \<in> set items. 0 \<le> weight e \<Longrightarrow> 0 \<le> total items"
  by (induction items) auto

lemma pick_loop_Cons:
  assumes "0 \<le> weight x" "1 \<le> w" "w < 2 ^ 63" "weight x < 2 ^ 63"
  shows "pick_loop w (x # items) = (if w \<le> weight x then Some x else pick_loop (w - weight x) items)"
  using assms by (simp add: wrap64_id)

text \<open>Every draw below the total selects something.\<close>

lemma pick_loop_total:
  assumes "\<forall>e \<in> set items. 0 \<le> weight e" "1 \<le> w" "w \<le> total items" "total items < 2 ^ 63"
  shows "\<exists>e. pick_loop w items = Some e"
  using assms
proof (induction items arbitrary: w)
  case (Cons x items)
  have "0 \<le> total items"
    using Cons.prems(1) by (intro total_nonneg) simp
  then have "pick_loop w (x # items) = (if w \<le> weight x then Some x else pick_loop (w - weight x) items)"
    using Cons.prems by (intro pick_loop_Cons) auto
  then show ?case
    using Cons by auto
qed simp

text \<open>The number of draws that select an endpoint is its weight.\<close>

lemma pick_loop_card:
  assumes "\<forall>e \<in> set items. 0 \<le> weight e" "total items < 2 ^ 63" "distinct items" "e \<in> set items"
  shows "card {d. 0 \<le> d \<and> d < total items \<and> pick_loop (d + 1) items = Some e} = nat (weight e)"
  using assms
proof (induction items)
  case (Cons x items)
  let ?w = "weight x"
  let ?D = "{d. 0 \<le> d \<and> d < total items \<and> pick_loop (d + 1) items = Some e}"
  have w: "0 \<le> ?w" and t: "0 \<le> total items"
    using Cons.prems(1) total_nonneg [of items] by auto
  have head: "pick_loop (d + 1) (x # items) =
      (if d < ?w then Some x else pick_loop (d - ?w + 1) items)"
    if "0 \<le> d" "d < total (x # items)" for d
    using pick_loop_Cons [of x "d + 1" items] that w t Cons.prems(2) by (auto simp: algebra_simps)
  show ?case
  proof (cases "e = x")
    case True
    then have "pick_loop v items \<noteq> Some e" for v
      using Cons.prems(3) pick_loop_in by fastforce
    then have "{d. 0 \<le> d \<and> d < total (x # items) \<and> pick_loop (d + 1) (x # items) = Some e} = {0..<?w}"
      using head t True by (auto split: if_splits)
    then show ?thesis
      using True by simp
  next
    case False
    then have "e \<in> set items"
      using Cons.prems(4) by simp
    moreover have "total items < 2 ^ 63"
      using Cons.prems(2) w by simp
    ultimately have "card ?D = nat (weight e)"
      using Cons.IH Cons.prems by simp
    moreover have "{d. 0 \<le> d \<and> d < total (x # items) \<and> pick_loop (d + 1) (x # items) = Some e}
        = (\<lambda>d. d + ?w) ` ?D" (is "?L = ?R")
    proof
      show "?L \<subseteq> ?R"
      proof
        fix d
        assume d: "d \<in> ?L"
        then have "d - ?w \<in> ?D"
          using head [of d] False by (auto split: if_splits)
        then show "d \<in> ?R"
          by (intro image_eqI [of _ _ "d - ?w"]) auto
      qed
      show "?R \<subseteq> ?L"
      proof
        fix d
        assume "d \<in> ?R"
        then obtain d0 where "d = d0 + ?w" "0 \<le> d0" "d0 < total items" "pick_loop (d0 + 1) items = Some e"
          by auto
        with head [of d] w show "d \<in> ?L"
          by simp
      qed
    qed
    ultimately show ?thesis
      by (simp add: card_image)
  qed
qed simp

subsection \<open>Lemmas on round robin\<close>

lemma gcd_loop_gcd: "0 < x \<Longrightarrow> 0 < y \<Longrightarrow> gcd_loop x y = Some (gcd x y)"
proof (induction x y rule: gcd_loop.induct)
  case (1 x y)
  have t: "trunc_rem x y = x mod y"
    using 1 by (simp add: trunc_rem_nonneg)
  show ?case
  proof (cases "x mod y > 0")
    case True
    with 1 t have "gcd_loop y (x mod y) = Some (gcd y (x mod y))"
      by simp
    then show ?thesis
      using 1 True by (subst gcd_loop.simps) (simp add: t Let_def gcd_red_int [of x y])
  next
    case False
    moreover have "0 \<le> x mod y"
      using 1(3) by simp
    ultimately have "y dvd x"
      by (simp add: dvd_eq_mod_eq_0)
    then show ?thesis
      using 1 False by (subst gcd_loop.simps) (simp add: t Let_def gcd_proj2_iff)
  qed
qed

text \<open>The invariant: the counters describe the items, and the position is either
  the start of a cycle or a place in the round of a positive multiple of the gcd.\<close>

definition pos_weights :: "Endpoint list \<Rightarrow> int set" where
  "pos_weights items = {w \<in> weight ` set items. 0 < w}"

definition rr_counters :: "RoundRobinWeighted \<Rightarrow> bool" where
  "rr_counters s \<longleftrightarrow>
     rr_n s = int (length (rr_items s)) \<and>
     rr_gcd s = Gcd (pos_weights (rr_items s)) \<and>
     max_weight s = Max (insert 0 (pos_weights (rr_items s)))"

definition rr_pos :: "RoundRobinWeighted \<Rightarrow> bool" where
  "rr_pos s \<longleftrightarrow> -1 \<le> rr_i s \<and>
     (if rr_gcd s = 0 then cw s = 0 \<and> rr_i s < max 1 (rr_n s)
      else (rr_i s = -1 \<and> cw s = 0) \<or>
           (0 \<le> rr_i s \<and> rr_i s < rr_n s \<and> 0 < cw s \<and> cw s \<le> max_weight s \<and> rr_gcd s dvd cw s))"

definition rr_inv :: "RoundRobinWeighted \<Rightarrow> bool" where
  "rr_inv s \<longleftrightarrow> rr_counters s \<and> rr_pos s"

lemma rr_counters_update [simp]:
  "rr_counters (s\<lparr>rr_i := v\<rparr>) = rr_counters s" "rr_counters (s\<lparr>cw := v\<rparr>) = rr_counters s"
  by (simp_all add: rr_counters_def)

lemma finite_pos_weights [simp]: "finite (pos_weights items)"
  by (simp add: pos_weights_def)

lemma pos_weights_snoc:
  "pos_weights (items @ [e]) = (if 0 < weight e then insert (weight e) (pos_weights items) else pos_weights items)"
  by (auto simp: pos_weights_def)

lemma Gcd_pos_weights:
  "Gcd (pos_weights items) = 0 \<longleftrightarrow> pos_weights items = {}"
  "0 < Gcd (pos_weights items) \<longleftrightarrow> pos_weights items \<noteq> {}"
proof -
  show *: "Gcd (pos_weights items) = 0 \<longleftrightarrow> pos_weights items = {}"
    by (auto simp: Gcd_0_iff pos_weights_def)
  have "0 \<le> Gcd (pos_weights items)"
    by (rule Gcd_int_greater_eq_0)
  with * show "0 < Gcd (pos_weights items) \<longleftrightarrow> pos_weights items \<noteq> {}"
    by linarith
qed

lemma max_if: "max a b = (if b < a then a else b :: int)"
  by (simp add: max_def)

lemma Max_pos_weights:
  "Max (insert 0 (pos_weights (items @ [e]))) =
    (if Max (insert 0 (pos_weights items)) < weight e then weight e else Max (insert 0 (pos_weights items)))"
proof -
  let ?A = "pos_weights items"
  have nonneg: "0 \<le> Max (insert 0 ?A)"
    by simp
  show ?thesis
  proof (cases "0 < weight e")
    case True
    then have "Max (insert 0 (pos_weights (items @ [e]))) = Max (insert (weight e) (insert 0 ?A))"
      by (simp only: pos_weights_snoc if_True insert_commute)
    also have "\<dots> = max (weight e) (Max (insert 0 ?A))"
      by (rule Max_insert) simp_all
    also have "\<dots> = (if Max (insert 0 ?A) < weight e then weight e else Max (insert 0 ?A))"
      by (rule max_if)
    finally show ?thesis .
  next
    case False
    with nonneg have "\<not> Max (insert 0 ?A) < weight e"
      by linarith
    with False show ?thesis
      by (simp only: pos_weights_snoc if_False)
  qed
qed

lemma rr_inv_add:
  assumes "rr_inv s"
  shows "\<exists>s'. RoundRobinWeighted_add s e = Some s' \<and> rr_inv s' \<and>
    rr_items s' = (if RoundRobinWeighted_item_exists s e then rr_items s else rr_items s @ [e]) \<and>
    (rr_i s = -1 \<or> rr_gcd s = 0 \<longrightarrow> rr_i s' = -1 \<or> rr_gcd s' = 0)"
proof -
  let ?A = "pos_weights (rr_items s)" and ?w = "weight e"
  have c: "rr_n s = int (length (rr_items s))" "rr_gcd s = Gcd ?A" "max_weight s = Max (insert 0 ?A)"
    and p: "rr_pos s"
    using assms by (simp_all add: rr_inv_def rr_counters_def)
  have A0: "rr_gcd s = 0 \<longleftrightarrow> ?A = {}"
    using Gcd_pos_weights(1) [of "rr_items s"] by (simp only: c(2))
  consider (exists) "RoundRobinWeighted_item_exists s e" | (nonpos) "\<not> RoundRobinWeighted_item_exists s e" "\<not> 0 < ?w"
    | (first) "\<not> RoundRobinWeighted_item_exists s e" "0 < ?w" "rr_gcd s = 0"
    | (more) "\<not> RoundRobinWeighted_item_exists s e" "0 < ?w" "rr_gcd s \<noteq> 0"
    by blast
  then show ?thesis
  proof cases
    case nonpos
    let ?s = "s\<lparr>rr_items := rr_items s @ [e], rr_n := rr_n s + 1\<rparr>"
    have "rr_counters ?s"
      using c nonpos by (simp add: rr_counters_def pos_weights_snoc)
    moreover have "rr_pos ?s"
      using p by (auto simp: rr_pos_def split: if_splits)
    ultimately show ?thesis
      using nonpos by (simp add: RoundRobinWeighted_add_def rr_inv_def)
  next
    case first
    then have "pos_weights (rr_items s @ [e]) = {?w}"
      using A0 by (simp add: pos_weights_snoc)
    with first c show ?thesis
      by (simp add: RoundRobinWeighted_add_def rr_inv_def rr_counters_def rr_pos_def max_def)
  next
    case more
    let ?g = "gcd (rr_gcd s) ?w"
    have g0: "0 < rr_gcd s"
      using more A0 Gcd_pos_weights(2) [of "rr_items s"] by (simp only: c(2)) simp
    have g: "Gcd (pos_weights (rr_items s @ [e])) = ?g"
      using more by (simp add: pos_weights_snoc c(2) gcd.commute)
    define m where "m = (if max_weight s < ?w then ?w else max_weight s)"
    let ?s = "s\<lparr>rr_gcd := ?g, max_weight := m, rr_items := rr_items s @ [e], rr_n := rr_n s + 1\<rparr>"
    have m: "m = Max (insert 0 (pos_weights (rr_items s @ [e])))"
      by (simp only: m_def c(3) Max_pos_weights)
    have "rr_counters ?s"
      using c(1) g m by (simp add: rr_counters_def)
    moreover have "rr_pos ?s"
      using p more g0 by (auto simp: rr_pos_def m_def intro: dvd_trans)
    moreover have "RoundRobinWeighted_add s e = Some ?s"
      using more g0 by (simp add: RoundRobinWeighted_add_def gcd_loop_gcd m_def)
    ultimately show ?thesis
      using more by (simp add: rr_inv_def)
  qed (use assms in \<open>simp add: RoundRobinWeighted_add_def\<close>)
qed

text \<open>One cycle of the schedule: a round for each multiple of the gcd, the largest
  first; in a round, the endpoints of at least that weight in order.\<close>

primrec cyc :: "int \<Rightarrow> Endpoint list \<Rightarrow> nat \<Rightarrow> Endpoint list" where
  "cyc g items 0 = []"
| "cyc g items (Suc k) = filter (\<lambda>e. int (Suc k) * g \<le> weight e) items @ cyc g items k"

definition full_cycle :: "RoundRobinWeighted \<Rightarrow> Endpoint list" where
  "full_cycle s = cyc (rr_gcd s) (rr_items s) (nat (max_weight s div rr_gcd s))"

text \<open>What is left of the cycle after the current position, and from it on.\<close>

definition sched :: "RoundRobinWeighted \<Rightarrow> Endpoint list" where
  "sched s =
     (if rr_i s < 0 then []
      else filter (\<lambda>e. cw s \<le> weight e) (drop (Suc (nat (rr_i s))) (rr_items s))
             @ cyc (rr_gcd s) (rr_items s) (nat (cw s div rr_gcd s) - 1))"

definition cand :: "RoundRobinWeighted \<Rightarrow> Endpoint list" where
  "cand s = filter (\<lambda>e. cw s \<le> weight e) (drop (nat (rr_i s)) (rr_items s))
     @ cyc (rr_gcd s) (rr_items s) (nat (cw s div rr_gcd s) - 1)"

definition rr_wf :: "RoundRobinWeighted \<Rightarrow> bool" where
  "rr_wf s \<longleftrightarrow> rr_inv s \<and> rr_gcd s \<noteq> 0"

definition wraps :: "RoundRobinWeighted \<Rightarrow> bool" where
  "wraps s \<longleftrightarrow> rr_i s = -1 \<or> (rr_i s = rr_n s - 1 \<and> cw s \<le> rr_gcd s)"

definition rr_move :: "RoundRobinWeighted \<Rightarrow> RoundRobinWeighted" where
  "rr_move s =
     (if wraps s then s\<lparr>rr_i := 0, cw := max_weight s\<rparr>
      else if rr_i s = rr_n s - 1 then s\<lparr>rr_i := 0, cw := cw s - rr_gcd s\<rparr>
      else s\<lparr>rr_i := rr_i s + 1\<rparr>)"

definition same_items :: "RoundRobinWeighted \<Rightarrow> RoundRobinWeighted \<Rightarrow> bool" where
  "same_items s s' \<longleftrightarrow> rr_items s' = rr_items s \<and> rr_n s' = rr_n s \<and> rr_gcd s' = rr_gcd s \<and>
     max_weight s' = max_weight s"

lemma div_sub_self: "g \<noteq> 0 \<Longrightarrow> (c - g) div g = c div g - 1" for c g :: int
  using div_mult_self1 [of g c "-1"] by simp

lemma rr_wfD:
  assumes "rr_wf s"
  shows "0 < rr_gcd s" "rr_gcd s dvd max_weight s" "0 < max_weight s" "rr_n s \<ge> 1"
    "rr_gcd s \<le> max_weight s" "\<exists>e \<in> set (rr_items s). weight e = max_weight s"
proof -
  let ?A = "pos_weights (rr_items s)"
  have c: "rr_counters s"
    using assms by (simp add: rr_wf_def rr_inv_def)
  then have g: "rr_gcd s = Gcd ?A" and m: "max_weight s = Max (insert 0 ?A)"
    by (simp_all add: rr_counters_def)
  have A: "?A \<noteq> {}"
    using assms Gcd_pos_weights(1) [of "rr_items s"] by (simp only: rr_wf_def g) simp
  then show "0 < rr_gcd s"
    by (simp only: g Gcd_pos_weights) simp
  have "Max ?A \<in> ?A"
    using A by simp
  moreover from this have "Max (insert 0 ?A) = Max ?A"
    using A by (simp add: pos_weights_def max_def)
  ultimately have mem: "max_weight s \<in> ?A"
    by (simp add: m)
  then show "rr_gcd s dvd max_weight s" "0 < max_weight s"
    by (auto simp: g pos_weights_def)
  then show "rr_gcd s \<le> max_weight s"
    by (rule zdvd_imp_le)
  from mem show "\<exists>e \<in> set (rr_items s). weight e = max_weight s"
    by (auto simp: pos_weights_def)
  then show "rr_n s \<ge> 1"
    using c by (cases "rr_items s") (auto simp: rr_counters_def)
qed

lemma rr_move_wf:
  assumes "rr_wf s"
  shows "rr_wf (rr_move s)" "0 \<le> rr_i (rr_move s)" "same_items s (rr_move s)"
  using assms rr_wfD [OF assms]
  by (auto simp: rr_wf_def rr_inv_def rr_pos_def rr_move_def wraps_def same_items_def)

lemma rr_turn_move:
  assumes "rr_wf s"
  shows "rr_turn s = rr_check (rr_move s)"
proof -
  note wf = rr_wfD [OF assms]
  have pos: "rr_i s = -1 \<and> cw s = 0 \<or> 0 \<le> rr_i s \<and> rr_i s < rr_n s"
    using assms by (auto simp: rr_wf_def rr_inv_def rr_pos_def)
  have "trunc_rem (rr_i s + 1) (rr_n s) = (if rr_i s = -1 \<or> rr_i s = rr_n s - 1 then 0 else rr_i s + 1)"
    using pos wf(4) by (auto simp: trunc_rem_nonneg)
  then show ?thesis
    using pos wf by (auto simp: rr_turn_def rr_move_def wraps_def Let_def)
qed

lemma rr_check_cand:
  assumes "rr_wf s" "0 \<le> rr_i s"
  shows "\<exists>e. rr_check s = Some (if cw s \<le> weight e then Return s (Some e) else Continue s) \<and>
    cand s = (if cw s \<le> weight e then e # sched s else sched s)"
proof -
  let ?k = "nat (rr_i s)"
  have k: "?k < length (rr_items s)"
    using assms by (auto simp: rr_wf_def rr_inv_def rr_pos_def rr_counters_def)
  then have "drop ?k (rr_items s) = rr_items s ! ?k # drop (Suc ?k) (rr_items s)"
    by (simp add: Cons_nth_drop_Suc)
  with assms(2) k show ?thesis
    by (intro exI [of _ "rr_items s ! ?k"]) (auto simp: rr_check_def idx_def cand_def sched_def)
qed

lemma cand_move:
  assumes "rr_wf s"
  shows "cand (rr_move s) = (if wraps s then full_cycle s else sched s)"
    and "wraps s \<Longrightarrow> sched s = []"
proof -
  note wf = rr_wfD [OF assms]
  have len: "rr_n s = int (length (rr_items s))"
    using assms by (simp add: rr_wf_def rr_inv_def rr_counters_def)
  have pos: "rr_i s = -1 \<or> 0 \<le> rr_i s \<and> rr_i s < rr_n s \<and> 0 < cw s \<and> rr_gcd s dvd cw s"
    using assms by (auto simp: rr_wf_def rr_inv_def rr_pos_def)
  have round: "filter (\<lambda>e. c \<le> weight e) (rr_items s) @ cyc (rr_gcd s) (rr_items s) (nat (c div rr_gcd s) - 1)
      = cyc (rr_gcd s) (rr_items s) (nat (c div rr_gcd s))" if c: "0 < c" "rr_gcd s dvd c" for c
  proof -
    obtain q where q: "c = rr_gcd s * q"
      using c(2) by blast
    with c(1) wf(1) have "0 < q"
      by (simp add: zero_less_mult_iff)
    then obtain k where "q = int (Suc k)"
      by (metis pos_int_cases gr0_implies_Suc)
    then have "nat (c div rr_gcd s) = Suc k" "c = int (Suc k) * rr_gcd s"
      using wf(1) q by simp_all
    then show ?thesis
      by simp
  qed
  have last: "sched s = cyc (rr_gcd s) (rr_items s) (nat (cw s div rr_gcd s) - 1)"
    if "rr_i s = rr_n s - 1" "0 \<le> rr_i s"
    using that len by (simp add: sched_def)
  show "wraps s \<Longrightarrow> sched s = []"
  proof -
    assume w: "wraps s"
    show ?thesis
    proof (cases "rr_i s = -1")
      case False
      with w pos have "rr_i s = rr_n s - 1" "0 \<le> rr_i s" "cw s = rr_gcd s"
        using zdvd_imp_le [of "rr_gcd s" "cw s"] by (auto simp: wraps_def)
      with last wf(1) show ?thesis
        by simp
    qed (simp add: sched_def)
  qed
  show "cand (rr_move s) = (if wraps s then full_cycle s else sched s)"
  proof (cases "wraps s \<or> rr_i s \<noteq> rr_n s - 1")
    case True
    with pos wf(2,3) round [of "max_weight s"] show ?thesis
      by (auto simp: cand_def rr_move_def full_cycle_def sched_def nat_add_distrib wraps_def)
  next
    case False
    then have i: "rr_i s = rr_n s - 1" "0 \<le> rr_i s" "rr_gcd s < cw s" "\<not> wraps s"
      using pos wf(4) by (auto simp: wraps_def)
    have "nat ((cw s - rr_gcd s) div rr_gcd s) = nat (cw s div rr_gcd s) - 1"
      using wf(1) by (simp add: div_sub_self)
    with i pos wf(1) round [of "cw s - rr_gcd s"] last show ?thesis
      by (simp add: cand_def rr_move_def)
  qed
qed

lemma full_cycle_nonempty: "rr_wf s \<Longrightarrow> full_cycle s \<noteq> []"
proof -
  assume wf: "rr_wf s"
  then obtain q where q: "max_weight s = rr_gcd s * q"
    using rr_wfD(2) by blast
  with rr_wfD(1,3) [OF wf] have "0 < q"
    by (simp add: zero_less_mult_iff)
  then obtain k where k: "q = int (Suc k)"
    by (metis pos_int_cases gr0_implies_Suc)
  then have "nat (max_weight s div rr_gcd s) = Suc k" "int (Suc k) * rr_gcd s = max_weight s"
    using rr_wfD(1) [OF wf] q by (simp_all add: mult.commute)
  moreover obtain e where "e \<in> set (rr_items s)" "weight e = max_weight s"
    using rr_wfD(6) [OF wf] by blast
  ultimately have "e \<in> set (full_cycle s)"
    by (simp add: full_cycle_def del: of_nat_Suc)
  then show ?thesis
    by auto
qed

text \<open>The distance to the next wrap, which every turn but a wrapping one shortens.\<close>

definition distance :: "RoundRobinWeighted \<Rightarrow> nat" where
  "distance s = nat (cw s div rr_gcd s * rr_n s - rr_i s)"

lemma distance_move:
  assumes "rr_wf s" "\<not> wraps s"
  shows "distance (rr_move s) < distance s"
proof -
  note wf = rr_wfD [OF assms(1)]
  have pos: "0 \<le> rr_i s" "rr_i s < rr_n s" "0 < cw s" "rr_gcd s dvd cw s"
    using assms by (auto simp: rr_wf_def rr_inv_def rr_pos_def wraps_def)
  then have "1 \<le> cw s div rr_gcd s"
    using wf(1) by (auto simp: zero_less_mult_iff elim!: dvdE)
  then have "rr_n s \<le> cw s div rr_gcd s * rr_n s"
    using wf(4) mult_right_mono [of 1 "cw s div rr_gcd s" "rr_n s"] by simp
  then have le: "0 < cw s div rr_gcd s * rr_n s - rr_i s"
    using pos by linarith
  have "(cw s - rr_gcd s) div rr_gcd s * rr_n s = cw s div rr_gcd s * rr_n s - rr_n s"
    using wf(1) by (simp add: div_sub_self left_diff_distrib)
  then have "distance (rr_move s) = nat (cw s div rr_gcd s * rr_n s - rr_i s - 1)"
    using assms(2) by (auto simp: distance_def rr_move_def)
  with le show ?thesis
    by (simp only: distance_def nat_mono_iff)
qed

lemma same_items_trans: "same_items s t \<Longrightarrow> same_items t u \<Longrightarrow> same_items s u"
  by (simp add: same_items_def)

lemma full_cycle_same: "same_items s t \<Longrightarrow> full_cycle t = full_cycle s"
  by (simp add: same_items_def full_cycle_def)

lemma rr_next_loop_turn:
  "rr_turn s = Some (Return s' r) \<Longrightarrow> rr_next_loop s = Some (Some (s', r))"
  "rr_turn s = Some (Continue s') \<Longrightarrow> rr_next_loop s = rr_next_loop s'"
  by (simp_all add: rr_next_loop.simps [of s])

text \<open>One turn, in terms of the schedule from the new position on.\<close>

lemma rr_turn_cand:
  assumes "rr_wf s"
  obtains (hit) e where "rr_next_loop s = Some (Some (rr_move s, Some e))" "cand (rr_move s) = e # sched (rr_move s)"
    | (miss) "rr_next_loop s = rr_next_loop (rr_move s)" "cand (rr_move s) = sched (rr_move s)"
proof -
  let ?t = "rr_move s"
  obtain e where chk: "rr_check ?t = Some (if cw ?t \<le> weight e then Return ?t (Some e) else Continue ?t)"
    and cand: "cand ?t = (if cw ?t \<le> weight e then e # sched ?t else sched ?t)"
    using rr_check_cand [OF rr_move_wf(1,2) [OF assms]] by blast
  show thesis
  proof (cases "cw ?t \<le> weight e")
    case True
    with chk rr_turn_move [OF assms] rr_next_loop_turn(1) cand show thesis
      by (intro hit) simp_all
  next
    case False
    with chk rr_turn_move [OF assms] rr_next_loop_turn(2) cand show thesis
      by (intro miss) simp_all
  qed
qed

text \<open>The loop returns the next endpoint of the schedule.\<close>

lemma rr_next_loop_sched:
  assumes "rr_wf s" "sched s = e # es"
  shows "\<exists>s'. rr_next_loop s = Some (Some (s', Some e)) \<and> rr_wf s' \<and> sched s' = es \<and> same_items s s'"
  using assms
proof (induction "distance s" arbitrary: s rule: less_induct)
  case less
  have nw: "\<not> wraps s"
    using cand_move(2) [OF less.prems(1)] less.prems(2) by auto
  note t = rr_move_wf [OF less.prems(1)]
  have eq: "cand (rr_move s) = e # es"
    using cand_move(1) [OF less.prems(1)] nw less.prems(2) by simp
  show ?case
  proof (cases rule: rr_turn_cand [OF less.prems(1)])
    case (1 e')
    with eq t show ?thesis
      by auto
  next
    case 2
    then have "sched (rr_move s) = e # es"
      using eq by simp
    from less.hyps [OF distance_move [OF less.prems(1) nw] t(1) this] 2(1) t(3)
    show ?thesis
      by (metis same_items_trans)
  qed
qed

lemma rr_next_loop_wrap:
  assumes "rr_wf s" "sched s = []" "full_cycle s = e # es"
  shows "\<exists>s'. rr_next_loop s = Some (Some (s', Some e)) \<and> rr_wf s' \<and> sched s' = es \<and> same_items s s'"
  using assms
proof (induction "distance s" arbitrary: s rule: less_induct)
  case less
  note t = rr_move_wf [OF less.prems(1)]
  have eq: "cand (rr_move s) = (if wraps s then e # es else [])"
    using cand_move(1) [OF less.prems(1)] less.prems(2,3) by simp
  show ?case
  proof (cases rule: rr_turn_cand [OF less.prems(1)])
    case (1 e')
    with eq t show ?thesis
      by (auto split: if_splits)
  next
    case 2
    show ?thesis
    proof (cases "wraps s")
      case True
      with 2 eq have "sched (rr_move s) = e # es"
        by simp
      from rr_next_loop_sched [OF t(1) this] 2(1) t(3) show ?thesis
        by (metis same_items_trans)
    next
      case False
      with 2 eq have "sched (rr_move s) = []"
        by simp
      moreover have "full_cycle (rr_move s) = e # es"
        using full_cycle_same [OF t(3)] less.prems(3) by simp
      ultimately show ?thesis
        using less.hyps [OF distance_move [OF less.prems(1) False] t(1)] 2(1) t(3)
        by (metis same_items_trans)
    qed
  qed
qed

text \<open>A sequence of calls.\<close>

fun rr_run :: "nat \<Rightarrow> RoundRobinWeighted \<Rightarrow> (RoundRobinWeighted \<times> Endpoint option list) option option" where
  "rr_run 0 s = Some (Some (s, []))"
| "rr_run (Suc m) s =
     do { r \<leftarrow> RoundRobinWeighted_next s;
          (case r of
             None \<Rightarrow> Some None
           | Some (s, e) \<Rightarrow> map_option (map_option (\<lambda>(s, es). (s, e # es))) (rr_run m s)) }"

lemma rr_run_sched:
  assumes "rr_wf s" "2 \<le> rr_n s"
  shows "\<exists>s'. rr_run (length (sched s)) s = Some (Some (s', map Some (sched s))) \<and> rr_wf s' \<and>
    sched s' = [] \<and> same_items s s'"
  using assms
proof (induction "sched s" arbitrary: s)
  case Nil
  then show ?case
    by (auto simp: same_items_def simp flip: Nil.hyps)
next
  case (Cons e es)
  then obtain s1 where s1: "rr_next_loop s = Some (Some (s1, Some e))" "rr_wf s1" "sched s1 = es"
    "same_items s s1"
    using rr_next_loop_sched [of s e es] by (metis list.distinct(1) list.sel(1,3))
  moreover have "2 \<le> rr_n s1"
    using s1(4) Cons.prems(2) by (simp add: same_items_def)
  ultimately obtain s2 where "rr_run (length es) s1 = Some (Some (s2, map Some es))" "rr_wf s2"
    "sched s2 = []" "same_items s1 s2"
    using Cons.hyps(1) [of s1] by blast
  with s1 Cons.prems(2) show ?case
    by (auto simp: RoundRobinWeighted_next_def intro: same_items_trans simp flip: Cons.hyps(2))
qed

lemma rr_run_cycle:
  assumes "rr_wf s" "2 \<le> rr_n s" "sched s = []"
  shows "\<exists>s'. rr_run (length (full_cycle s)) s = Some (Some (s', map Some (full_cycle s))) \<and> rr_wf s' \<and>
    sched s' = [] \<and> same_items s s'"
proof -
  obtain e es where full: "full_cycle s = e # es"
    using full_cycle_nonempty [OF assms(1)] by (cases "full_cycle s") auto
  obtain s1 where s1: "rr_next_loop s = Some (Some (s1, Some e))" "rr_wf s1" "sched s1 = es" "same_items s s1"
    using rr_next_loop_wrap [OF assms(1,3) full] by blast
  then have "2 \<le> rr_n s1"
    using assms(2) by (simp add: same_items_def)
  with s1 rr_run_sched [of s1] assms(2) show ?thesis
    by (auto simp: full RoundRobinWeighted_next_def intro: same_items_trans)
qed

text \<open>How often an endpoint occurs in a cycle.\<close>

lemma mult_le_iff_le_div: "0 < g \<Longrightarrow> k * g \<le> w \<longleftrightarrow> k \<le> w div g" for g k w :: int
proof
  assume g: "0 < g"
  show "k \<le> w div g" if "k * g \<le> w"
    using zdiv_mono1 [OF that g] g by simp
  assume "k \<le> w div g"
  then have "k * g \<le> w div g * g"
    using g by (simp add: mult_right_mono)
  also have "\<dots> \<le> w"
    using div_mult_mod_eq [of w g] pos_mod_sign [OF g, of w] by linarith
  finally show "k * g \<le> w" .
qed

lemma count_list_filter: "count_list (filter P xs) e = (if P e then count_list xs e else 0)"
  by (induction xs) auto

lemma count_list_distinct: "distinct xs \<Longrightarrow> e \<in> set xs \<Longrightarrow> count_list xs e = 1"
  by (induction xs) (auto simp: count_list_0_iff)

lemma count_cyc:
  assumes "0 < g" "distinct items" "e \<in> set items"
  shows "count_list (cyc g items k) e = min k (nat (weight e div g))"
proof (induction k)
  case (Suc k)
  then show ?case
    using assms by (auto simp: mult_le_iff_le_div count_list_filter count_list_distinct simp del: of_nat_Suc)
qed simp

text \<open>Without a positive weight the loop ends within one round.\<close>

lemma rr_next_loop_zero:
  assumes "rr_inv s" "rr_gcd s = 0" "2 \<le> rr_n s"
  shows "\<exists>s' r. rr_next_loop s = Some (Some (s', r)) \<and> rr_inv s' \<and> same_items s s' \<and>
    (\<forall>e. r = Some e \<longrightarrow> e \<in> set (rr_items s))"
  using assms
proof (induction "nat (rr_n s - rr_i s)" arbitrary: s rule: less_induct)
  case less
  let ?j = "rr_i s + 1"
  have c: "rr_counters s" "cw s = 0" "-1 \<le> rr_i s" "rr_i s < rr_n s" "max_weight s = 0"
    using less.prems Gcd_pos_weights(1) [of "rr_items s"]
    by (auto simp: rr_inv_def rr_pos_def rr_counters_def simp del: Gcd_0_iff)
  have len: "rr_n s = int (length (rr_items s))"
    using c(1) by (simp add: rr_counters_def)
  have inv: "rr_inv (s\<lparr>rr_i := k\<rparr>)" "same_items s (s\<lparr>rr_i := k\<rparr>)" if "-1 \<le> k" "k < rr_n s" for k
    using that less.prems c by (auto simp: rr_inv_def rr_pos_def same_items_def)
  have rem: "trunc_rem ?j (rr_n s) = (if ?j = rr_n s then 0 else ?j)"
    using c(3,4) less.prems(3) by (auto simp: trunc_rem_nonneg)
  show ?case
  proof (cases "trunc_rem ?j (rr_n s) = 0")
    case True
    then have "rr_turn s = Some (Return (s\<lparr>rr_i := 0, cw := 0\<rparr>) None)"
      using c less.prems(2) by (simp add: rr_turn_def Let_def)
    moreover have "s\<lparr>rr_i := 0, cw := 0\<rparr> = s\<lparr>rr_i := 0\<rparr>"
      using c(2) by simp
    ultimately have "rr_next_loop s = Some (Some (s\<lparr>rr_i := 0\<rparr>, None))"
      using rr_next_loop_turn(1) by simp
    then show ?thesis
      using inv [of 0] less.prems(3) by auto
  next
    case False
    then have j: "trunc_rem ?j (rr_n s) = ?j" "?j < rr_n s" "0 < ?j"
      using rem c(3,4) by (auto split: if_splits)
    let ?e = "rr_items s ! nat ?j"
    have e: "?e \<in> set (rr_items s)"
      using j len by simp
    have turn: "rr_turn s = Some (if 0 \<le> weight ?e then Return (s\<lparr>rr_i := ?j\<rparr>) (Some ?e) else Continue (s\<lparr>rr_i := ?j\<rparr>))"
      using j len c by (simp add: rr_turn_def Let_def rr_check_def idx_def)
    show ?thesis
    proof (cases "0 \<le> weight ?e")
      case True
      with turn have "rr_next_loop s = Some (Some (s\<lparr>rr_i := ?j\<rparr>, Some ?e))"
        using rr_next_loop_turn(1) by simp
      with inv [of ?j] j e c show ?thesis
        by auto
    next
      case False
      with turn have "rr_next_loop s = rr_next_loop (s\<lparr>rr_i := ?j\<rparr>)"
        using rr_next_loop_turn(2) by simp
      with less.hyps [of "s\<lparr>rr_i := ?j\<rparr>"] inv [of ?j] j less.prems c show ?thesis
        by (auto simp: same_items_def)
    qed
  qed
qed

lemma in_set_cyc: "e \<in> set (cyc g items k) \<Longrightarrow> 0 < g \<Longrightarrow> e \<in> set items \<and> 0 < weight e"
proof (induction k)
  case (Suc k)
  have "0 < int (Suc k) * g"
    using Suc.prems(2) by (intro mult_pos_pos) simp_all
  then have "int (Suc k) * g \<le> w \<Longrightarrow> 0 < w" for w
    by linarith
  with Suc show ?case
    by (auto simp del: of_nat_Suc)
qed simp

lemma rr_next_inv:
  assumes "rr_inv s"
  shows "\<exists>s' r. RoundRobinWeighted_next s = Some (Some (s', r)) \<and> rr_inv s' \<and> same_items s s' \<and>
    (\<forall>e. r = Some e \<longrightarrow> e \<in> set (rr_items s)) \<and>
    (pos_weights (rr_items s) \<noteq> {} \<longrightarrow> (\<exists>e. r = Some e \<and> 0 < weight e))"
proof -
  have len: "rr_n s = int (length (rr_items s))" and g: "rr_gcd s = 0 \<longleftrightarrow> pos_weights (rr_items s) = {}"
    using assms Gcd_pos_weights(1) [of "rr_items s"]
    by (simp_all add: rr_inv_def rr_counters_def del: Gcd_0_iff)
  consider (none) "rr_items s = []" | (one) e where "rr_items s = [e]"
    | (zero) "2 \<le> rr_n s" "rr_gcd s = 0" | (pos) "2 \<le> rr_n s" "rr_gcd s \<noteq> 0"
    using len by (cases "rr_items s" rule: remdups_adj.cases) auto
  then show ?thesis
  proof cases
    case pos
    then have wf: "rr_wf s"
      using assms by (simp add: rr_wf_def)
    have next_eq: "RoundRobinWeighted_next s = rr_next_loop s"
      using pos by (simp add: RoundRobinWeighted_next_def)
    have mem: "e \<in> set (rr_items s) \<and> 0 < weight e"
      if "e \<in> set (sched s) \<or> e \<in> set (full_cycle s)" for e
    proof -
      have "0 \<le> rr_i s \<Longrightarrow> 0 < cw s"
        using wf by (auto simp: rr_wf_def rr_inv_def rr_pos_def)
      then show ?thesis
        using that rr_wfD(1) [OF wf]
        by (auto simp: sched_def full_cycle_def dest: in_set_dropD in_set_cyc split: if_splits)
    qed
    show ?thesis
    proof (cases "sched s")
      case (Cons e es)
      with rr_next_loop_sched [OF wf Cons] next_eq mem [of e] show ?thesis
        by (auto simp: rr_wf_def)
    next
      case Nil
      obtain e es where full: "full_cycle s = e # es"
        using full_cycle_nonempty [OF wf] by (cases "full_cycle s") auto
      with rr_next_loop_wrap [OF wf Nil full] next_eq mem [of e] show ?thesis
        by (auto simp: rr_wf_def)
    qed
  next
    case zero
    with rr_next_loop_zero [OF assms] g show ?thesis
      by (auto simp: RoundRobinWeighted_next_def)
  qed (use assms len in \<open>auto simp: RoundRobinWeighted_next_def same_items_def idx_def pos_weights_def\<close>)
qed

text \<open>The states reached without removing single endpoints.\<close>

inductive rr_reach :: "RoundRobinWeighted \<Rightarrow> bool" where
  rr_reach_default: "rr_reach RoundRobinWeighted_default"
| rr_reach_add: "rr_reach s \<Longrightarrow> RoundRobinWeighted_add s e = Some s' \<Longrightarrow> rr_reach s'"
| rr_reach_next: "rr_reach s \<Longrightarrow> RoundRobinWeighted_next s = Some (Some (s', r)) \<Longrightarrow> rr_reach s'"
| rr_reach_remove_all: "rr_reach s \<Longrightarrow> rr_reach (RoundRobinWeighted_remove_all s)"

lemma rr_inv_default: "rr_inv RoundRobinWeighted_default"
  by (simp add: rr_inv_def rr_counters_def rr_pos_def RoundRobinWeighted_default_def pos_weights_def)

lemma rr_reach_inv: "rr_reach s \<Longrightarrow> rr_inv s"
proof (induction rule: rr_reach.induct)
  case (rr_reach_add s e s')
  then show ?case
    using rr_inv_add [of s e] by auto
next
  case (rr_reach_next s s' r)
  then show ?case
    using rr_next_inv [of s] by auto
next
  case (rr_reach_remove_all s)
  then show ?case
    by (simp add: rr_inv_def rr_counters_def rr_pos_def RoundRobinWeighted_remove_all_def pos_weights_def)
qed (rule rr_inv_default)


subsection \<open>The trait's laws\<close>

interpretation rr_lb: load_balance RoundRobinWeighted_default RoundRobinWeighted_add
  RoundRobinWeighted_item_exists rr_items "\<lambda>s. rr_inv s \<and> (rr_i s = -1 \<or> rr_gcd s = 0)"
proof
  fix s e
  assume "rr_inv s \<and> (rr_i s = -1 \<or> rr_gcd s = 0)"
  then show "\<exists>s'. RoundRobinWeighted_add s e = Some s' \<and> (rr_inv s' \<and> (rr_i s' = -1 \<or> rr_gcd s' = 0)) \<and>
      rr_items s' = (if RoundRobinWeighted_item_exists s e then rr_items s else rr_items s @ [e])"
    using rr_inv_add [of s e] by blast
qed (simp_all add: rr_inv_default name_exists_iff RoundRobinWeighted_item_exists_def,
    simp_all add: RoundRobinWeighted_default_def)

abbreviation rw_inv :: "'r RandomWeighted \<Rightarrow> bool" where
  "rw_inv s \<equiv> rw_n s = int (length (rw_items s)) \<and> sum_of_weights s = wrap64 (total (rw_items s))"

lemma wrap64_add: "wrap64 (wrap64 a + b) = wrap64 (a + b)"
  by (simp add: wrap64_def mod_simps algebra_simps)

lemma rw_add:
  "rw_inv s \<Longrightarrow> rw_inv (RandomWeighted_add s e)"
  "rw_items (RandomWeighted_add s e) =
    (if RandomWeighted_item_exists s e then rw_items s else rw_items s @ [e])"
  by (simp_all add: RandomWeighted_add_def wrap64_add)

interpretation rw_lb: load_balance "RandomWeighted_default seed" "\<lambda>s e. Some (RandomWeighted_add s e)"
  RandomWeighted_item_exists rw_items rw_inv for seed
proof
  show "\<exists>s'. Some (RandomWeighted_add s e) = Some s' \<and> rw_inv s' \<and>
      rw_items s' = (if RandomWeighted_item_exists s e then rw_items s else rw_items s @ [e])"
    if "rw_inv s" for s :: "'r RandomWeighted" and e
    using rw_add [of s e] that by blast
qed (simp_all add: RandomWeighted_default_def RandomWeighted_item_exists_def name_exists_iff wrap64_def)

abbreviation bt_inv :: "'r BalanceType \<Rightarrow> bool" where
  "bt_inv b \<equiv> (case b of BRandom s \<Rightarrow> rw_inv s
     | BRoundRobin s \<Rightarrow> rr_inv s \<and> (rr_i s = -1 \<or> rr_gcd s = 0))"

interpretation bt_lb: load_balance "build_balance seed alg" BalanceType_add BalanceType_item_exists
  BalanceType_get_all bt_inv for seed alg
proof
  fix b :: "'r BalanceType" and e
  assume inv: "bt_inv b"
  show "\<exists>b'. BalanceType_add b e = Some b' \<and> bt_inv b' \<and>
      BalanceType_get_all b' =
        (if BalanceType_item_exists b e then BalanceType_get_all b else BalanceType_get_all b @ [e])"
  proof (cases b)
    case (BRandom s)
    with rw_add [of s e] inv show ?thesis
      by (simp add: BalanceType_add_def BalanceType_get_all_def BalanceType_item_exists_def)
  next
    case (BRoundRobin s)
    then obtain s' where "RoundRobinWeighted_add s e = Some s'" "rr_inv s' \<and> (rr_i s' = -1 \<or> rr_gcd s' = 0)"
      "rr_items s' = (if RoundRobinWeighted_item_exists s e then rr_items s else rr_items s @ [e])"
      using rr_lb.add_law [of s e] inv by auto
    with BRoundRobin show ?thesis
      by (simp add: BalanceType_add_def BalanceType_get_all_def BalanceType_item_exists_def)
  qed
next
  show "BalanceType_item_exists b e = (name e \<in> name ` set (BalanceType_get_all b))"
    for b :: "'r BalanceType" and e
    by (cases b) (simp_all add: BalanceType_item_exists_def BalanceType_get_all_def
        RandomWeighted_item_exists_def RoundRobinWeighted_item_exists_def name_exists_iff)
next
  show "BalanceType_get_all (build_balance seed alg) = []"
    by (cases alg) (simp_all add: build_balance_def BalanceType_get_all_def rw_lb.all_empty rr_lb.all_empty)
next
  show "bt_inv (build_balance seed alg)"
    using rw_lb.invar_empty [of seed] rr_lb.invar_empty by (cases alg) (simp_all add: build_balance_def)
qed


subsection \<open>Lemmas for the properties\<close>

lemma length_full_cycle:
  assumes "rr_wf s" "distinct (rr_items s)"
  shows "e \<in> set (rr_items s) \<Longrightarrow> count_list (full_cycle s) e = nat (weight e div rr_gcd s)"
    and "length (full_cycle s) = (\<Sum>e\<leftarrow>rr_items s. nat (weight e div rr_gcd s))"
proof -
  have g: "0 < rr_gcd s"
    by (rule rr_wfD(1) [OF assms(1)])
  have count: "count_list (full_cycle s) e = nat (weight e div rr_gcd s)" if "e \<in> set (rr_items s)" for e
  proof -
    have "weight e \<le> max_weight s"
    proof (cases "0 < weight e")
      case True
      then have "weight e \<in> pos_weights (rr_items s)"
        using that by (auto simp: pos_weights_def)
      then have "weight e \<le> Max (insert 0 (pos_weights (rr_items s)))"
        by (intro Max_ge) simp_all
      then show ?thesis
        using assms(1) by (simp only: rr_wf_def rr_inv_def rr_counters_def)
    qed (use rr_wfD(3) [OF assms(1)] in simp)
    then have "nat (weight e div rr_gcd s) \<le> nat (max_weight s div rr_gcd s)"
      using g by (intro nat_mono zdiv_mono1)
    then show ?thesis
      using count_cyc [OF g assms(2) that] by (simp add: full_cycle_def)
  qed
  then show "e \<in> set (rr_items s) \<Longrightarrow> count_list (full_cycle s) e = nat (weight e div rr_gcd s)" .
  have "set (full_cycle s) \<subseteq> set (rr_items s)"
    using in_set_cyc g by (auto simp: full_cycle_def)
  then have "length (full_cycle s) = (\<Sum>e\<in>set (rr_items s). count_list (full_cycle s) e)"
    by (simp add: sum_count_set)
  also have "\<dots> = (\<Sum>e\<leftarrow>rr_items s. nat (weight e div rr_gcd s))"
    using count assms(2) by (simp add: sum_list_distinct_conv_sum_set)
  finally show "length (full_cycle s) = (\<Sum>e\<leftarrow>rr_items s. nat (weight e div rr_gcd s))" .
qed


subsection \<open>Properties\<close>

text \<open>C1.  Weighted round robin is exactly fair: a balancer filled with at least two
  endpoints of distinct names, one of them of positive weight, hands out in the first
  \<open>sum (weight / gcd)\<close> calls every endpoint exactly \<open>weight / gcd\<close> times (endpoints of
  weight zero or less never), and the same calls repeat from there on.\<close>

theorem wrr_fair:
  assumes "distinct (map name es)" "2 \<le> length es" "\<exists>e \<in> set es. 0 < weight e"
    and "g = Gcd {w \<in> weight ` set es. 0 < w}"
    and "N = (\<Sum>e\<leftarrow>es. nat (weight e div g))"
  shows "\<exists>s s' s'' picks. add_each RoundRobinWeighted_add RoundRobinWeighted_default es = Some s \<and>
    rr_run N s = Some (Some (s', map Some picks)) \<and>
    (\<forall>e \<in> set es. count_list picks e = nat (weight e div g)) \<and>
    rr_run N s' = Some (Some (s'', map Some picks))"
proof -
  obtain s where s: "add_each RoundRobinWeighted_add RoundRobinWeighted_default es = Some s"
    "rr_inv s" "rr_i s = -1 \<or> rr_gcd s = 0" "rr_items s = es"
    using rr_lb.built [of es] keep_new_distinct [of es "{}"] assms(1) by auto
  have c: "rr_gcd s = g" "rr_n s = int (length es)"
    using s(2,4) assms(4) by (auto simp: rr_inv_def rr_counters_def pos_weights_def)
  have "pos_weights es \<noteq> {}"
    using assms(3) by (auto simp: pos_weights_def)
  then have "g \<noteq> 0"
    using Gcd_pos_weights(1) [of es] assms(4) by (simp only: pos_weights_def) simp
  then have wf: "rr_wf s" and start: "sched s = []"
    using s(2,3) c by (simp_all add: rr_wf_def sched_def)
  have d: "distinct (rr_items s)"
    using assms(1) s(4) by (metis distinct_map)
  note full = length_full_cycle [OF wf d]
  have N: "N = length (full_cycle s)"
    using full(2) assms(5) c s(4) by simp
  obtain s' where s': "rr_run N s = Some (Some (s', map Some (full_cycle s)))" "rr_wf s'" "sched s' = []"
    "same_items s s'"
    using rr_run_cycle [OF wf _ start] c(2) assms(2) N by auto
  have "2 \<le> rr_n s'" "full_cycle s' = full_cycle s"
    using s'(4) c(2) assms(2) by (auto simp: same_items_def full_cycle_def)
  with rr_run_cycle [OF s'(2) _ s'(3)] N obtain s'' where
    "rr_run N s' = Some (Some (s'', map Some (full_cycle s)))"
    by auto
  with s(1) s'(1) full(1) c(1) s(4) show ?thesis
    by blast
qed

theorem wrr_fair_witness:
  "\<exists>s s' s'' picks. add_each RoundRobinWeighted_add RoundRobinWeighted_default
      [\<lparr>weight = 2, name = ''a'', db = [], user = [], password = [], addr = []\<rparr>,
       \<lparr>weight = 4, name = ''b'', db = [], user = [], password = [], addr = []\<rparr>] = Some s \<and>
    rr_run 3 s = Some (Some (s', map Some picks)) \<and>
    count_list picks \<lparr>weight = 4, name = ''b'', db = [], user = [], password = [], addr = []\<rparr> = 2 \<and>
    rr_run 3 s' = Some (Some (s'', map Some picks))"
proof -
  let ?a = "\<lparr>weight = 2, name = ''a'', db = [], user = [], password = [], addr = []\<rparr>"
  let ?b = "\<lparr>weight = 4, name = ''b'', db = [], user = [], password = [], addr = []\<rparr>"
  have "{w \<in> weight ` set [?a, ?b]. 0 < w} = {2, 4}"
    by auto
  then have g: "(2 :: int) = Gcd {w \<in> weight ` set [?a, ?b]. 0 < w}"
    by (simp add: gcd_int_def)
  have "(3 :: nat) = (\<Sum>e\<leftarrow>[?a, ?b]. nat (weight e div 2))"
    by simp
  from wrr_fair [OF _ _ _ g this] show ?thesis
    by auto
qed

text \<open>C22.  Weighted round robin always answers: in every state reached by adding
  endpoints, asking for the next and clearing, the loop of \<open>next\<close> ends without a panic,
  its answer is one of the endpoints held, and as long as one endpoint has a positive
  weight it is an endpoint of positive weight.\<close>

theorem wrr_next_total:
  assumes "rr_reach s"
  shows "\<exists>s' r. RoundRobinWeighted_next s = Some (Some (s', r)) \<and> rr_items s' = rr_items s \<and>
    (\<forall>e. r = Some e \<longrightarrow> e \<in> set (rr_items s)) \<and>
    ((\<exists>e \<in> set (rr_items s). 0 < weight e) \<longrightarrow> (\<exists>e. r = Some e \<and> 0 < weight e))"
proof -
  have "(\<exists>e \<in> set (rr_items s). 0 < weight e) \<Longrightarrow> pos_weights (rr_items s) \<noteq> {}"
    by (auto simp: pos_weights_def)
  then show ?thesis
    using rr_next_inv [OF rr_reach_inv [OF assms]] by (auto simp: same_items_def)
qed

theorem wrr_next_total_witness:
  "rr_reach RoundRobinWeighted_default \<and>
   (\<exists>s' r. RoundRobinWeighted_next RoundRobinWeighted_default = Some (Some (s', r)) \<and> rr_items s' = [])"
  using wrr_next_total [OF rr_reach_default] rr_reach_default
  by (auto simp: RoundRobinWeighted_default_def)

text \<open>C23.  Weighted random choice follows the weights: a balancer filled with endpoints
  of distinct names and non-negative weights, whose total is within \<open>i64\<close>, answers with
  an endpoint for exactly \<open>weight\<close> of the \<open>sum_of_weights\<close> numbers the generator can draw.\<close>

theorem random_proportional:
  assumes "distinct (map name es)" "\<forall>e \<in> set es. 0 \<le> weight e" "total es < 2 ^ 63" "e \<in> set es"
    and "add_each (\<lambda>s e. Some (RandomWeighted_add s e)) (RandomWeighted_default seed) es = Some s"
  shows "sum_of_weights s = total es \<and>
    card {d. 0 \<le> d \<and> d < sum_of_weights s \<and>
      RandomWeighted_next (\<lambda>r k. (d, r)) s = Some (s, Some e)} = nat (weight e)"
proof -
  have s: "rw_items s = es" "rw_n s = int (length es)" "sum_of_weights s = total es"
    using rw_lb.built [of seed es] keep_new_distinct [of es "{}"] assms total_nonneg [of es]
    by (auto simp: wrap64_id)
  have "distinct es"
    using assms(1) by (simp add: distinct_map)
  have "RandomWeighted_next (\<lambda>r k. (d, r)) s = Some (s, Some e) \<longleftrightarrow> pick_loop (d + 1) es = Some e"
    if d: "0 \<le> d" "d < total es" for d
  proof -
    obtain x where "pick_loop (d + 1) es = Some x"
      using pick_loop_total [of es "d + 1"] assms(2,3) d by auto
    moreover have "es \<noteq> []"
      using assms(4) by auto
    ultimately show ?thesis
      using s d by (simp add: RandomWeighted_next_def)
  qed
  then have "{d. 0 \<le> d \<and> d < sum_of_weights s \<and> RandomWeighted_next (\<lambda>r k. (d, r)) s = Some (s, Some e)} =
      {d. 0 \<le> d \<and> d < total es \<and> pick_loop (d + 1) es = Some e}"
    using s(3) by auto
  then show ?thesis
    using pick_loop_card [OF assms(2,3) \<open>distinct es\<close> assms(4)] s(3) by simp
qed

theorem random_proportional_witness:
  "\<exists>e s. add_each (\<lambda>s e. Some (RandomWeighted_add s e)) (RandomWeighted_default ()) [e] = Some s \<and>
    card {d. 0 \<le> d \<and> d < sum_of_weights s \<and>
      RandomWeighted_next (\<lambda>r k. (d, r)) s = Some (s, Some e)} = 3"
proof -
  let ?e = "\<lparr>weight = 3, name = ''a'', db = [], user = [], password = [], addr = []\<rparr>"
  show ?thesis
    using random_proportional [of "[?e]" ?e "()"] by fastforce
qed

text \<open>Whatever algorithm a configuration names, filling its balancer from a list
  of endpoints succeeds and leaves exactly the first endpoint of every name, in order.\<close>

lemma built_balance_endpoints:
  "\<exists>b. add_each BalanceType_add (build_balance seed alg) es = Some b \<and>
    BalanceType_get_all b = keep_new {} es"
  using bt_lb.built [of seed alg es] by blast

text \<open>Clearing the random balancer keeps its counters: once it held endpoints of
  positive total weight, \<open>next\<close> after \<open>remove_all\<close> panics (the index \<open>len() - 1\<close> of an
  empty vector) instead of answering that there is no endpoint.\<close>

lemma random_remove_all_next_panics:
  assumes "rw_n s \<noteq> 0" "0 < sum_of_weights s"
  shows "RandomWeighted_next gen_range (RandomWeighted_remove_all seed s) = None"
  using assms by (simp add: RandomWeighted_next_def RandomWeighted_remove_all_def split: prod.splits)

lemma random_remove_all_next_panics_witness:
  "RandomWeighted_next (\<lambda>r k. (0, r)) (RandomWeighted_remove_all ()
     (RandomWeighted_add (RandomWeighted_default ())
       \<lparr>weight = 1, name = ''a'', db = [], user = [], password = [], addr = []\<rparr>)) = None"
  by (rule random_remove_all_next_panics)
    (simp_all add: RandomWeighted_add_def RandomWeighted_default_def RandomWeighted_item_exists_def
      name_exists_def wrap64_def)

end
