(* ===== verification/ConnPool.thy ===== *)
theory ConnPool
  imports Prelude
begin

section \<open>Connection pool\<close>

text \<open>
  The pool of idle backend connections, \<open>proxy/pool/src/conn_pool.rs\<close>.  The pool is
  generic in the connection type: what the traits \<open>ConnLike\<close>, \<open>ConnAttr\<close> and
  \<open>ConnAttrMut\<close> offer is the record \<open>conn_ops\<close>, each operation threading the state
  \<open>'w\<close> of the outside world and returning \<open>None\<close> when it panics.  The bounded queue of idle connections belongs to a
  library and is the record \<open>queue_ops\<close>; what the pool relies on is the predicate
  \<open>array_queue\<close>.  The two concurrent maps are maps, and the handle \<open>PoolConn\<close> is the
  connection it owns: the pool it points to is the pool of the state.
\<close>


subsection \<open>Traits and library types\<close>

record ('w, 'c, 'e, 'attr) conn_ops =
  build_conn :: "'c \<Rightarrow> 'w \<Rightarrow> (('e + 'c) \<times> 'w) option"
  ping :: "'c \<Rightarrow> 'w \<Rightarrow> (('e + unit) \<times> 'c \<times> 'w) option"
  get_endpoint :: "'c \<Rightarrow> string"
  init :: "'attr list \<Rightarrow> 'c \<Rightarrow> 'w \<Rightarrow> ('c \<times> 'w) option"

record ('q, 'c) queue_ops =
  q_new :: "nat \<Rightarrow> 'q"
  q_pop :: "'q \<Rightarrow> 'c option \<times> 'q"
  q_push :: "'q \<Rightarrow> 'c \<Rightarrow> 'q"
  q_is_full :: "'q \<Rightarrow> bool"
  q_len :: "'q \<Rightarrow> nat"

text \<open>The documented behaviour of the bounded queue: first in, first out, pushing
  only while there is room.\<close>

definition array_queue :: "('q, 'c) queue_ops \<Rightarrow> ('q \<Rightarrow> 'c list) \<Rightarrow> ('q \<Rightarrow> nat) \<Rightarrow> bool" where
  "array_queue Q elems cap \<longleftrightarrow>
     (\<forall>n. elems (q_new Q n) = [] \<and> cap (q_new Q n) = n) \<and>
     (\<forall>q. q_len Q q = length (elems q) \<and> (q_is_full Q q \<longleftrightarrow> cap q \<le> length (elems q))) \<and>
     (\<forall>q. (case elems q of
             [] \<Rightarrow> fst (q_pop Q q) = None \<and> elems (snd (q_pop Q q)) = []
           | x # xs \<Rightarrow> fst (q_pop Q q) = Some x \<and> elems (snd (q_pop Q q)) = xs) \<and>
          cap (snd (q_pop Q q)) = cap q) \<and>
     (\<forall>q x. length (elems q) < cap q \<longrightarrow>
        elems (q_push Q q x) = elems q @ [x] \<and> cap (q_push Q q x) = cap q)"


subsection \<open>Operations\<close>

record ('q, 'c) Pool =
  factory :: "string \<rightharpoonup> 'c"
  pool_size :: nat
  pool :: "string \<rightharpoonup> 'q"

definition PoolInner_new :: "('q, 'c) queue_ops \<Rightarrow> nat \<Rightarrow> 'q" where
  "PoolInner_new Q n = q_new Q n"

definition PoolInner_get_conn :: "('q, 'c) queue_ops \<Rightarrow> 'q \<Rightarrow> 'c option \<times> 'q" where
  "PoolInner_get_conn Q q = q_pop Q q"

definition PoolInner_put_conn :: "('q, 'c) queue_ops \<Rightarrow> 'q \<Rightarrow> 'c \<Rightarrow> 'q" where
  "PoolInner_put_conn Q q conn = (if \<not> q_is_full Q q then q_push Q q conn else q)"

definition Pool_new :: "nat \<Rightarrow> ('q, 'c) Pool" where
  "Pool_new n = \<lparr>factory = Map.empty, pool_size = n, pool = Map.empty\<rparr>"

definition set_factory :: "('q, 'c) Pool \<Rightarrow> string \<Rightarrow> 'c \<Rightarrow> ('q, 'c) Pool" where
  "set_factory p endpoint f =
     (if factory p endpoint = None then p\<lparr>factory := (factory p)(endpoint \<mapsto> f)\<rparr> else p)"

text \<open>The connection attempt of all operations: \<open>factory.get(endpoint).unwrap()\<close>
  panics when no factory was set.\<close>

definition try_build ::
    "('w, 'c, 'e, 'attr) conn_ops \<Rightarrow> ('q, 'c) Pool \<Rightarrow> string \<Rightarrow> 'w \<Rightarrow> (('e + 'c) \<times> 'w) option" where
  "try_build C p endpoint w = do { f \<leftarrow> factory p endpoint; build_conn C f w }"

definition rebuild_conn ::
    "('w, 'c, 'e, 'attr) conn_ops \<Rightarrow> ('q, 'c) Pool \<Rightarrow> string \<Rightarrow> 'w \<Rightarrow> (('e + 'c) \<times> 'w) option" where
  "rebuild_conn C p endpoint w = try_build C p endpoint w"

definition reinit_session ::
    "('w, 'c, 'e, 'attr) conn_ops \<Rightarrow> 'attr list \<Rightarrow> ('e + 'c) \<times> 'w \<Rightarrow> (('e + 'c) \<times> 'w) option" where
  "reinit_session C attrs r =
     (case r of
        (Inl e, w) \<Rightarrow> Some (Inl e, w)
      | (Inr conn, w) \<Rightarrow> do { (conn, w) \<leftarrow> init C attrs conn w; Some (Inr conn, w) })"

definition rebuild_conn_with_session ::
    "('w, 'c, 'e, 'attr) conn_ops \<Rightarrow> ('q, 'c) Pool \<Rightarrow> string \<Rightarrow> 'attr list \<Rightarrow> 'w \<Rightarrow>
     (('e + 'c) \<times> 'w) option" where
  "rebuild_conn_with_session C p endpoint attrs w =
     do { r \<leftarrow> try_build C p endpoint w; reinit_session C attrs r }"

text \<open>The retry loop \<open>for i in 0..10\<close>; the time it sleeps is not modelled.  Running
  off its end is the \<open>unreachable!()\<close> panic.\<close>

fun retry_loop ::
    "('w, 'c, 'e, 'attr) conn_ops \<Rightarrow> ('q, 'c) Pool \<Rightarrow> string \<Rightarrow> nat list \<Rightarrow> 'w \<Rightarrow>
     (('e + 'c) \<times> 'w) option" where
  "retry_loop C p endpoint [] w = None"
| "retry_loop C p endpoint (i # is) w =
     do { r \<leftarrow> try_build C p endpoint w;
          (case r of
             (Inr conn, w) \<Rightarrow> Some (Inr conn, w)
           | (Inl err, w) \<Rightarrow> if i = 9 then Some (Inl err, w) else retry_loop C p endpoint is w) }"

definition first_attempt ::
    "('w, 'c, 'e, 'attr) conn_ops \<Rightarrow> ('q, 'c) Pool \<Rightarrow> string \<Rightarrow> 'w \<Rightarrow> (('e + 'c) \<times> 'w) option" where
  "first_attempt C p endpoint w =
     do { r \<leftarrow> try_build C p endpoint w;
          (case r of
             (Inr conn, w) \<Rightarrow> Some (Inr conn, w)
           | (Inl _, w) \<Rightarrow> retry_loop C p endpoint [0..<10] w) }"

definition get_conn_with_endpoint ::
    "('w, 'c, 'e, 'attr) conn_ops \<Rightarrow> ('q, 'c) queue_ops \<Rightarrow> ('q, 'c) Pool \<Rightarrow> string \<Rightarrow> 'w \<Rightarrow>
     (('q, 'c) Pool \<times> ('e + 'c) \<times> 'w) option" where
  "get_conn_with_endpoint C Q p endpoint w =
     (let (conn, p) =
        (case pool p endpoint of
           Some q \<Rightarrow> (let (c, q) = PoolInner_get_conn Q q in (c, p\<lparr>pool := (pool p)(endpoint \<mapsto> q)\<rparr>))
         | None \<Rightarrow> (None, p))
      in case conn of
           Some conn \<Rightarrow>
             do { (r, conn, w) \<leftarrow> ping C conn w;
                  (case r of
                     Inr _ \<Rightarrow> Some (p, Inr conn, w)
                   | Inl _ \<Rightarrow> do { r \<leftarrow> retry_loop C p endpoint [0..<10] w; Some (p, r) }) }
         | None \<Rightarrow>
             (let p = (if pool p endpoint = None
                       then p\<lparr>pool := (pool p)(endpoint \<mapsto> PoolInner_new Q (pool_size p))\<rparr> else p)
              in do { r \<leftarrow> first_attempt C p endpoint w; Some (p, r) }))"

definition get_conn_with_endpoint_session ::
    "('w, 'c, 'e, 'attr) conn_ops \<Rightarrow> ('q, 'c) queue_ops \<Rightarrow> ('q, 'c) Pool \<Rightarrow> string \<Rightarrow> 'attr list \<Rightarrow> 'w \<Rightarrow>
     (('q, 'c) Pool \<times> ('e + 'c) \<times> 'w) option" where
  "get_conn_with_endpoint_session C Q p endpoint attrs w =
     do { (p, r) \<leftarrow> get_conn_with_endpoint C Q p endpoint w;
          r \<leftarrow> reinit_session C attrs r;
          Some (p, r) }"

definition Pool_len :: "('q, 'c) queue_ops \<Rightarrow> ('q, 'c) Pool \<Rightarrow> string \<Rightarrow> nat" where
  "Pool_len Q p endpoint = (case pool p endpoint of Some q \<Rightarrow> q_len Q q | None \<Rightarrow> 0)"

text \<open>Dropping a handle: the connection it still owns goes back to the queue of its
  endpoint; \<open>get_mut(..).unwrap()\<close> panics when the pool has no such queue.\<close>

definition PoolConn_drop ::
    "('w, 'c, 'e, 'attr) conn_ops \<Rightarrow> ('q, 'c) queue_ops \<Rightarrow> ('q, 'c) Pool \<Rightarrow> 'c option \<Rightarrow>
     ('q, 'c) Pool option" where
  "PoolConn_drop C Q p conn =
     (case conn of
        None \<Rightarrow> Some p
      | Some c \<Rightarrow>
          do { q \<leftarrow> pool p (get_endpoint C c);
               Some (p\<lparr>pool := (pool p)(get_endpoint C c \<mapsto> PoolInner_put_conn Q q c)\<rparr>) })"


subsection \<open>Invariant\<close>

text \<open>What the pool relies on of a connection type: building, pinging and setting up a
  connection keep the endpoint it was configured for.\<close>

definition endpoint_stable :: "('w, 'c, 'e, 'attr) conn_ops \<Rightarrow> bool" where
  "endpoint_stable C \<longleftrightarrow>
     (\<forall>f w c w'. build_conn C f w = Some (Inr c, w') \<longrightarrow> get_endpoint C c = get_endpoint C f) \<and>
     (\<forall>c w r c' w'. ping C c w = Some (r, c', w') \<longrightarrow> get_endpoint C c' = get_endpoint C c) \<and>
     (\<forall>attrs c w c' w'. init C attrs c w = Some (c', w') \<longrightarrow> get_endpoint C c' = get_endpoint C c)"

text \<open>The pool's invariant: every factory and every idle connection belongs to the
  endpoint it is filed under, and no queue exceeds the pool size.\<close>

definition pool_inv ::
    "('w, 'c, 'e, 'attr) conn_ops \<Rightarrow> ('q \<Rightarrow> 'c list) \<Rightarrow> ('q \<Rightarrow> nat) \<Rightarrow> ('q, 'c) Pool \<Rightarrow> bool" where
  "pool_inv C elems cap p \<longleftrightarrow>
     (\<forall>ep f. factory p ep = Some f \<longrightarrow> get_endpoint C f = ep) \<and>
     (\<forall>ep q. pool p ep = Some q \<longrightarrow>
        cap q = pool_size p \<and> length (elems q) \<le> pool_size p \<and>
        (\<forall>c \<in> set (elems q). get_endpoint C c = ep))"


subsection \<open>Lemmas\<close>

lemma array_queueD:
  assumes "array_queue Q elems cap"
  shows "elems (q_new Q n) = []" "cap (q_new Q n) = n" "q_len Q q = length (elems q)"
    "q_is_full Q q \<longleftrightarrow> cap q \<le> length (elems q)"
    "cap (snd (q_pop Q q)) = cap q"
    "elems q = [] \<Longrightarrow> fst (q_pop Q q) = None"
    "elems (snd (q_pop Q q)) = tl (elems q)"
    "elems q \<noteq> [] \<Longrightarrow> fst (q_pop Q q) = Some (hd (elems q))"
    "length (elems q) < cap q \<Longrightarrow> elems (q_push Q q x) = elems q @ [x]"
    "length (elems q) < cap q \<Longrightarrow> cap (q_push Q q x) = cap q"
proof -
  note q = assms [unfolded array_queue_def]
  show "elems (q_new Q n) = []" "cap (q_new Q n) = n" "q_len Q q = length (elems q)"
    "q_is_full Q q \<longleftrightarrow> cap q \<le> length (elems q)"
    "cap (snd (q_pop Q q)) = cap q"
    "length (elems q) < cap q \<Longrightarrow> elems (q_push Q q x) = elems q @ [x]"
    "length (elems q) < cap q \<Longrightarrow> cap (q_push Q q x) = cap q"
    using q by simp_all
  have pop: "case elems q of
             [] \<Rightarrow> fst (q_pop Q q) = None \<and> elems (snd (q_pop Q q)) = []
           | x # xs \<Rightarrow> fst (q_pop Q q) = Some x \<and> elems (snd (q_pop Q q)) = xs"
    using q by blast
  show "elems q = [] \<Longrightarrow> fst (q_pop Q q) = None" "elems (snd (q_pop Q q)) = tl (elems q)"
    "elems q \<noteq> [] \<Longrightarrow> fst (q_pop Q q) = Some (hd (elems q))"
    using pop by (cases "elems q"; simp)+
qed

lemma endpoint_stableD:
  assumes "endpoint_stable C"
  shows "build_conn C f w = Some (Inr c, w') \<Longrightarrow> get_endpoint C c = get_endpoint C f"
    "ping C c w = Some (r, c', w') \<Longrightarrow> get_endpoint C c' = get_endpoint C c"
    "init C attrs c w = Some (c', w') \<Longrightarrow> get_endpoint C c' = get_endpoint C c"
  using assms unfolding endpoint_stable_def by blast+

lemma pool_invI:
  assumes "pool_inv C elems cap p" "\<And>c. c \<in> set (elems q) \<Longrightarrow> get_endpoint C c = ep"
    and "cap q = pool_size p" "length (elems q) \<le> pool_size p"
  shows "pool_inv C elems cap (p\<lparr>pool := (pool p)(ep \<mapsto> q)\<rparr>)"
  using assms by (auto simp: pool_inv_def)

lemma pool_inv_new: "pool_inv C elems cap (Pool_new n)"
  by (simp add: pool_inv_def Pool_new_def)

lemma pool_inv_set_factory:
  "pool_inv C elems cap p \<Longrightarrow> get_endpoint C f = ep \<Longrightarrow> pool_inv C elems cap (set_factory p ep f)"
  by (auto simp: pool_inv_def set_factory_def)

lemma pool_inv_drop:
  assumes "array_queue Q elems cap" "pool_inv C elems cap p" "PoolConn_drop C Q p conn = Some p'"
  shows "pool_inv C elems cap p'"
proof (cases conn)
  case (Some c)
  with assms(3) obtain q where q: "pool p (get_endpoint C c) = Some q"
    and p': "p' = p\<lparr>pool := (pool p)(get_endpoint C c \<mapsto> PoolInner_put_conn Q q c)\<rparr>"
    by (auto simp: PoolConn_drop_def bind_eq_Some_conv)
  have *: "cap q = pool_size p" "length (elems q) \<le> pool_size p"
    "\<forall>c' \<in> set (elems q). get_endpoint C c' = get_endpoint C c"
    using assms(2) q by (auto simp: pool_inv_def)
  show ?thesis
    unfolding p' using * array_queueD(4,9,10) [OF assms(1)]
    by (intro pool_invI [OF assms(2)]) (auto simp: PoolInner_put_conn_def not_le split: if_splits)
qed (use assms in \<open>simp add: PoolConn_drop_def\<close>)

text \<open>What every successful attempt returns.\<close>

lemma try_build_endpoint:
  assumes "endpoint_stable C" "pool_inv C elems cap p" "try_build C p ep w = Some (Inr c, w')"
  shows "get_endpoint C c = ep"
  using assms endpoint_stableD(1) [OF assms(1)]
  by (auto simp: try_build_def pool_inv_def bind_eq_Some_conv)

lemma retry_loop_endpoint:
  assumes "endpoint_stable C" "pool_inv C elems cap p" "retry_loop C p ep is w = Some (Inr c, w')"
  shows "get_endpoint C c = ep"
  using assms(3)
proof (induction "is" arbitrary: w)
  case (Cons i "is")
  then obtain r w1 where b: "try_build C p ep w = Some (r, w1)"
    by (auto simp: bind_eq_Some_conv)
  show ?case
  proof (cases r)
    case (Inl e)
    with Cons b show ?thesis
      by (auto split: if_splits)
  next
    case (Inr c')
    with Cons.prems b show ?thesis
      using try_build_endpoint [OF assms(1,2), of ep w c' w1] by simp
  qed
qed simp

lemma first_attempt_endpoint:
  assumes "endpoint_stable C" "pool_inv C elems cap p" "first_attempt C p ep w = Some (Inr c, w')"
  shows "get_endpoint C c = ep"
proof -
  obtain r1 w1 where b: "try_build C p ep w = Some (r1, w1)"
    using assms(3) by (auto simp: first_attempt_def bind_eq_Some_conv)
  show ?thesis
  proof (cases r1)
    case (Inl e)
    with assms(3) b retry_loop_endpoint [OF assms(1,2), of ep "[0..<10]" w1 c w'] show ?thesis
      by (simp add: first_attempt_def)
  next
    case (Inr c')
    with assms(3) b try_build_endpoint [OF assms(1,2), of ep w c' w1] show ?thesis
      by (simp add: first_attempt_def)
  qed
qed

lemma get_conn_with_endpoint_inv:
  assumes Q: "array_queue Q elems cap" and C: "endpoint_stable C" and p: "pool_inv C elems cap p"
    and get: "get_conn_with_endpoint C Q p ep w = Some (p', r, w')"
  shows "pool_inv C elems cap p' \<and> (\<forall>c. r = Inr c \<longrightarrow> get_endpoint C c = ep)"
proof (cases "pool p ep")
  case None
  let ?p = "p\<lparr>pool := (pool p)(ep \<mapsto> PoolInner_new Q (pool_size p))\<rparr>"
  have inv: "pool_inv C elems cap ?p"
    using array_queueD(1,2) [OF Q] by (intro pool_invI [OF p]) (auto simp: PoolInner_new_def)
  show ?thesis
    using first_attempt_endpoint [OF C inv, of ep w] None get inv
    by (auto simp: get_conn_with_endpoint_def Let_def bind_eq_Some_conv)
next
  case (Some q)
  let ?p = "p\<lparr>pool := (pool p)(ep \<mapsto> snd (q_pop Q q))\<rparr>"
  have q: "cap q = pool_size p" "length (elems q) \<le> pool_size p"
    and mem: "\<forall>c \<in> set (elems q). get_endpoint C c = ep"
    using p Some by (auto simp: pool_inv_def)
  have inv: "pool_inv C elems cap ?p"
    using q mem array_queueD(5,7) [OF Q]
    by (intro pool_invI [OF p]) (cases "elems q"; simp)+
  have pop: "fst (q_pop Q q) = Some c \<Longrightarrow> get_endpoint C c = ep" for c
    using mem array_queueD(6,8) [OF Q, of q] by (cases "elems q") auto
  show ?thesis
  proof (cases "fst (q_pop Q q)")
    case None
    then show ?thesis
      using first_attempt_endpoint [OF C inv, of ep w] Some get inv
      by (auto simp: get_conn_with_endpoint_def PoolInner_get_conn_def case_prod_beta Let_def
          bind_eq_Some_conv)
  next
    case conn: (Some c)
    obtain r1 c1 w1 where ping: "ping C c w = Some (r1, c1, w1)"
      using Some get conn
      by (auto simp: get_conn_with_endpoint_def PoolInner_get_conn_def case_prod_beta bind_eq_Some_conv)
    have c1: "get_endpoint C c1 = ep"
      using endpoint_stableD(2) [OF C ping] pop [OF conn] by simp
    show ?thesis
      using Some get conn ping inv c1 retry_loop_endpoint [OF C inv, of ep "[0..<10]" w1]
      by (cases r1)
        (auto simp: get_conn_with_endpoint_def PoolInner_get_conn_def case_prod_beta bind_eq_Some_conv)
  qed
qed

lemma reinit_session_endpoint:
  assumes "endpoint_stable C" "reinit_session C attrs (r, w) = Some (Inr c, w')"
    and "\<forall>c. r = Inr c \<longrightarrow> get_endpoint C c = ep"
  shows "get_endpoint C c = ep"
  using assms endpoint_stableD(3) [OF assms(1)]
  by (auto simp: reinit_session_def bind_eq_Some_conv split: sum.splits prod.splits)

text \<open>Pools reached by the operations of the proxy.\<close>

inductive pool_reach ::
    "('w, 'c, 'e, 'attr) conn_ops \<Rightarrow> ('q, 'c) queue_ops \<Rightarrow> nat \<Rightarrow> ('q, 'c) Pool \<Rightarrow> bool"
  for C Q n where
  reach_new: "pool_reach C Q n (Pool_new n)"
| reach_factory: "pool_reach C Q n p \<Longrightarrow> get_endpoint C f = ep \<Longrightarrow> pool_reach C Q n (set_factory p ep f)"
| reach_get: "pool_reach C Q n p \<Longrightarrow> get_conn_with_endpoint C Q p ep w = Some (p', r, w') \<Longrightarrow>
    pool_reach C Q n p'"
| reach_drop: "pool_reach C Q n p \<Longrightarrow> PoolConn_drop C Q p conn = Some p' \<Longrightarrow> pool_reach C Q n p'"

lemma get_conn_with_endpoint_size:
  "get_conn_with_endpoint C Q p ep w = Some (p', r, w') \<Longrightarrow> pool_size p' = pool_size p"
  by (simp add: get_conn_with_endpoint_def Let_def case_prod_beta bind_eq_Some_conv
      split: option.splits sum.splits if_splits) (auto simp: bind_eq_Some_conv)

lemma pool_reach_inv:
  assumes "array_queue Q elems cap" "endpoint_stable C" "pool_reach C Q n p"
  shows "pool_inv C elems cap p \<and> pool_size p = n"
  using assms(3)
proof (induction rule: pool_reach.induct)
  case (reach_get p ep w p' r w')
  then show ?case
    using get_conn_with_endpoint_inv [OF assms(1,2) _ reach_get(2)]
      get_conn_with_endpoint_size [OF reach_get(2)] by simp
next
  case (reach_drop p conn p')
  then show ?case
    using pool_inv_drop [OF assms(1) _ reach_drop(2)]
    by (auto simp: PoolConn_drop_def bind_eq_Some_conv split: option.splits)
next
  case reach_new
  then show ?case
    using pool_inv_new [of C elems cap n] by (simp add: Pool_new_def)
next
  case (reach_factory p f ep)
  then show ?case
    using pool_inv_set_factory [of C elems cap p f ep] by (simp add: set_factory_def)
qed

lemma session_get_endpoint:
  assumes "array_queue Q elems cap" "endpoint_stable C" "pool_reach C Q n p"
    and get: "get_conn_with_endpoint_session C Q p ep attrs w = Some (p', Inr c, w')"
  shows "get_endpoint C c = ep"
proof -
  obtain r w1 where r: "get_conn_with_endpoint C Q p ep w = Some (p', r, w1)"
    and c: "reinit_session C attrs (r, w1) = Some (Inr c, w')"
    using get by (auto simp: get_conn_with_endpoint_session_def bind_eq_Some_conv)
  have "pool_inv C elems cap p"
    using pool_reach_inv [OF assms(1-3)] by simp
  from get_conn_with_endpoint_inv [OF assms(1,2) this r] show ?thesis
    by (intro reinit_session_endpoint [OF assms(2) c]) simp
qed

lemma session_get_init:
  assumes "get_conn_with_endpoint_session C Q p ep attrs w = Some (p', Inr c, w')"
  shows "\<exists>c1 w1. init C attrs c1 w1 = Some (c, w')"
proof -
  obtain r w1 where "reinit_session C attrs (r, w1) = Some (Inr c, w')"
    using assms by (auto simp: get_conn_with_endpoint_session_def bind_eq_Some_conv)
  then show ?thesis
    by (cases r) (auto simp: reinit_session_def bind_eq_Some_conv)
qed

text \<open>A connection type that does not panic, and how many attempts a failing request makes.\<close>

definition never_panics :: "('w, 'c, 'e, 'attr) conn_ops \<Rightarrow> bool" where
  "never_panics C \<longleftrightarrow> (\<forall>c w. build_conn C c w \<noteq> None \<and> ping C c w \<noteq> None)"

fun build_fails :: "('w, 'c, 'e, 'attr) conn_ops \<Rightarrow> 'c \<Rightarrow> nat \<Rightarrow> 'w \<Rightarrow> bool" where
  "build_fails C f 0 w = True"
| "build_fails C f (Suc k) w =
     (case build_conn C f w of Some (Inl _, w) \<Rightarrow> build_fails C f k w | _ \<Rightarrow> False)"

lemma retry_loop_fails:
  assumes "factory p ep = Some f" "j + Suc k = 10" and total: "never_panics C"
  shows "\<exists>r w'. retry_loop C p ep [j..<10] w = Some (r, w') \<and> (isl r \<longleftrightarrow> build_fails C f (Suc k) w)"
  using assms(2)
proof (induction k arbitrary: j w)
  case 0
  then have "[j..<10] = [9]" and j: "j = 9"
    by (simp_all add: upt_conv_Cons)
  moreover obtain r w1 where "build_conn C f w = Some (r, w1)"
    using total by (fastforce simp: never_panics_def)
  ultimately show ?case
    using assms(1) by (cases r) (auto simp: try_build_def)
next
  case (Suc k)
  then have upt: "[j..<10] = j # [Suc j..<10]" and "j \<noteq> 9"
    by (simp_all add: upt_conv_Cons)
  moreover obtain r w1 where "build_conn C f w = Some (r, w1)"
    using total by (fastforce simp: never_panics_def)
  moreover have "Suc j + Suc k = 10"
    using Suc.prems by simp
  ultimately show ?case
    using assms(1) Suc.IH [of "Suc j" w1]
    by (cases r) (auto simp: upt try_build_def)
qed

text \<open>A concrete queue and a concrete connection type, for the witnesses: the list of
  the elements with the capacity, and a connection that is its endpoint with a world
  that counts how many attempts still fail.\<close>

definition list_queue :: "('c list \<times> nat, 'c) queue_ops" where
  "list_queue = \<lparr>q_new = (\<lambda>n. ([], n)),
     q_pop = (\<lambda>(xs, n). case xs of [] \<Rightarrow> (None, [], n) | x # xs \<Rightarrow> (Some x, xs, n)),
     q_push = (\<lambda>(xs, n) x. (xs @ [x], n)), q_is_full = (\<lambda>(xs, n). n \<le> length xs),
     q_len = (\<lambda>(xs, n). length xs)\<rparr>"

definition counting_conn :: "(nat, string, unit, unit) conn_ops" where
  "counting_conn = \<lparr>build_conn = (\<lambda>f w. Some (if w = 0 then (Inr f, 0) else (Inl (), w - 1))),
     ping = (\<lambda>c w. Some (Inr (), c, w)), get_endpoint = id, init = (\<lambda>attrs c w. Some (c, w))\<rparr>"

lemma list_queue: "array_queue list_queue fst snd"
  by (auto simp: array_queue_def list_queue_def split: list.splits)

lemma counting_conn: "endpoint_stable counting_conn"
  by (auto simp: endpoint_stable_def counting_conn_def split: if_splits)

lemma counting_conn_total: "never_panics counting_conn"
  by (simp add: never_panics_def counting_conn_def)


subsection \<open>Properties\<close>

text \<open>C24.  In every pool reached by setting factories, taking connections and dropping
  handles, each endpoint has at most \<open>size\<close> idle connections, every idle connection is
  filed under its own endpoint, and a connection handed out for an endpoint is a
  connection to that endpoint.\<close>

theorem pool_safe:
  assumes "array_queue Q elems cap" "endpoint_stable C" "pool_reach C Q n p"
  shows "Pool_len Q p ep \<le> n \<and>
    (\<forall>q c. pool p ep = Some q \<and> c \<in> set (elems q) \<longrightarrow> get_endpoint C c = ep) \<and>
    (\<forall>attrs w p' c w'. get_conn_with_endpoint_session C Q p ep attrs w = Some (p', Inr c, w') \<longrightarrow>
       get_endpoint C c = ep)"
proof -
  have inv: "pool_inv C elems cap p" "pool_size p = n"
    using pool_reach_inv [OF assms] by simp_all
  then have "Pool_len Q p ep \<le> n"
    using array_queueD(3) [OF assms(1)] by (auto simp: Pool_len_def pool_inv_def split: option.splits)
  moreover have "\<forall>q c. pool p ep = Some q \<and> c \<in> set (elems q) \<longrightarrow> get_endpoint C c = ep"
    using inv by (auto simp: pool_inv_def)
  moreover have "get_endpoint C c = ep"
    if "get_conn_with_endpoint_session C Q p ep attrs w = Some (p', Inr c, w')" for attrs w p' c w'
    using session_get_endpoint [OF assms that] .
  ultimately show ?thesis
    by blast
qed

theorem pool_safe_witness:
  "pool_reach counting_conn list_queue 2 (set_factory (Pool_new 2) ''a'' ''a'') \<and>
   Pool_len list_queue (set_factory (Pool_new 2) ''a'' ''a'') ''a'' \<le> 2"
proof -
  have reach: "pool_reach counting_conn list_queue 2 (set_factory (Pool_new 2) ''a'' ''a'')"
    by (intro reach_factory reach_new) (simp add: counting_conn_def)
  from pool_safe [OF list_queue counting_conn reach, of "''a''"] reach show ?thesis
    by blast
qed

text \<open>Asking for a connection to an endpoint whose factory is set always returns when
  the connection type does not panic.  Without an idle connection it fails exactly when the
  first attempt and all ten retries fail; with one, exactly when its ping and all ten
  retries fail.\<close>

lemma get_conn_fails_iff:
  assumes "array_queue Q elems cap" "factory p ep = Some f" "never_panics C"
  shows "\<exists>p' r w'. get_conn_with_endpoint C Q p ep w = Some (p', r, w') \<and>
    (isl r \<longleftrightarrow>
      (case pool p ep of
         Some q \<Rightarrow> (case elems q of
             c # _ \<Rightarrow> (case ping C c w of Some (r, c', w) \<Rightarrow> isl r \<and> build_fails C f 10 w | None \<Rightarrow> False)
           | [] \<Rightarrow> build_fails C f 11 w)
       | None \<Rightarrow> build_fails C f 11 w))"
proof -
  have retry: "\<exists>r w'. retry_loop C p1 ep [0..<10] v = Some (r, w') \<and> (isl r \<longleftrightarrow> build_fails C f 10 v)"
    if "factory p1 ep = Some f" for p1 :: "('a, 'b) Pool" and v
    using retry_loop_fails [OF that _ assms(3), of 0 9 v] by simp
  have first: "\<exists>r w'. first_attempt C p1 ep v = Some (r, w') \<and> (isl r \<longleftrightarrow> build_fails C f 11 v)"
    if f: "factory p1 ep = Some f" for p1 :: "('a, 'b) Pool" and v
  proof -
    obtain r v' where b: "build_conn C f v = Some (r, v')"
      using assms(3) by (fastforce simp: never_panics_def)
    have "build_fails C f 11 v = (case build_conn C f v of
        Some (Inl _, w) \<Rightarrow> build_fails C f 10 w | _ \<Rightarrow> False)"
      using build_fails.simps(2) [of C f 10 v] by (simp add: numeral_eq_Suc)
    then show ?thesis
      using b retry [OF f, of v'] f by (cases r) (auto simp: first_attempt_def try_build_def)
  qed
  show ?thesis
  proof (cases "pool p ep")
    case None
    with first [of "p\<lparr>pool := (pool p)(ep \<mapsto> PoolInner_new Q (pool_size p))\<rparr>" w] assms(2) show ?thesis
      by (auto simp: get_conn_with_endpoint_def Let_def)
  next
    case (Some q)
    let ?p = "p\<lparr>pool := (pool p)(ep \<mapsto> snd (q_pop Q q))\<rparr>"
    show ?thesis
    proof (cases "elems q")
      case Nil
      with Some array_queueD(6) [OF assms(1)] first [of ?p w] assms(2) show ?thesis
        by (auto simp: get_conn_with_endpoint_def Let_def PoolInner_get_conn_def case_prod_beta)
    next
      case (Cons c cs)
      obtain r1 c1 w1 where ping: "ping C c w = Some (r1, c1, w1)"
        using assms(3) by (fastforce simp: never_panics_def)
      show ?thesis
        using Some Cons array_queueD(8) [OF assms(1), of q] retry [of ?p w1] assms(2) ping
        by (cases r1) (auto simp: get_conn_with_endpoint_def Let_def PoolInner_get_conn_def case_prod_beta)
    qed
  qed
qed

lemma get_conn_fails_iff_witness:
  "\<exists>p' r w'. get_conn_with_endpoint counting_conn list_queue
      (set_factory (Pool_new 2) ''a'' ''a'') ''a'' 3 = Some (p', r, w') \<and>
    (isl r \<longleftrightarrow> build_fails counting_conn ''a'' 11 3)"
  using get_conn_fails_iff [OF list_queue _ counting_conn_total,
      of "set_factory (Pool_new 2) ''a'' ''a''" "''a''" "''a''" 3]
  by (simp add: set_factory_def Pool_new_def)

end
