(* ===== verification/Constants.thy ===== *)
theory Constants
  imports Wire
begin

section \<open>Protocol constants and errors\<close>

text \<open>
  The constants and enumerations of \<open>protocol/mysql/src/mysql_const.rs\<close> and the error
  types of \<open>protocol/mysql/src/err.rs\<close>.  An enumeration made from a byte by
  \<open>transmute\<close> has no value for a byte that is no discriminant (undefined behaviour in
  the source), which is \<open>None\<close> here.
\<close>


subsection \<open>Headers, status flags and authentication plugins\<close>

definition MIN_PROTOCOL_VERSION :: u8 where "MIN_PROTOCOL_VERSION = 10"
definition MORE_DATA_HEADER :: u8 where "MORE_DATA_HEADER = 0x01"
definition LOCAL_IN_FILE_HEADER :: u8 where "LOCAL_IN_FILE_HEADER = 0xfb"
definition CACHE_SHA2_FAST_AUTH :: u8 where "CACHE_SHA2_FAST_AUTH = 0x03"
definition CACHE_SHA2_FULL_AUTH :: u8 where "CACHE_SHA2_FULL_AUTH = 0x04"
definition SERVER_STATUS_IN_TRANS :: u16 where "SERVER_STATUS_IN_TRANS = 0x0001"
definition SERVER_STATUS_AUTOCOMMIT :: u16 where "SERVER_STATUS_AUTOCOMMIT = 0x0002"
definition SERVER_MORE_RESULTS_EXISTS :: u16 where "SERVER_MORE_RESULTS_EXISTS = 0x0008"
definition SERVER_STATUS_NO_GOOD_INDEX_USED :: u16 where "SERVER_STATUS_NO_GOOD_INDEX_USED = 0x0010"
definition SERVER_STATUS_NO_INDEX_USED :: u16 where "SERVER_STATUS_NO_INDEX_USED = 0x0020"
definition SERVER_STATUS_CURSOR_EXISTS :: u16 where "SERVER_STATUS_CURSOR_EXISTS = 0x0040"
definition SERVER_STATUS_LAST_ROW_SEND :: u16 where "SERVER_STATUS_LAST_ROW_SEND = 0x0080"
definition SERVER_STATUS_DB_DROPPED :: u16 where "SERVER_STATUS_DB_DROPPED = 0x0100"
definition SERVER_STATUS_NO_BACKSLASH_ESCAPED :: u16 where "SERVER_STATUS_NO_BACKSLASH_ESCAPED = 0x0200"
definition SERVER_STATUS_METADATA_CHANGED :: u16 where "SERVER_STATUS_METADATA_CHANGED = 0x0400"
definition SERVER_QUERY_WAS_SLOW :: u16 where "SERVER_QUERY_WAS_SLOW = 0x0800"
definition SERVER_PS_OUT_PARAMS :: u16 where "SERVER_PS_OUT_PARAMS = 0x1000"
definition SERVER_SESSION_STATE_CHANGED :: u16 where "SERVER_SESSION_STATE_CHANGED = 0x4000"
definition AUTH_MYSQL_OLD_PASSWORD :: string where "AUTH_MYSQL_OLD_PASSWORD = ''mysql_old_password''"
definition AUTH_CACHING_SHA2_PASSWORD :: string where "AUTH_CACHING_SHA2_PASSWORD = ''caching_sha2_password''"
definition AUTH_SHA256_PASSWORD :: string where "AUTH_SHA256_PASSWORD = ''sha256_password''"
definition AUTH_NATIVE_PASSWORD :: string where "AUTH_NATIVE_PASSWORD = ''mysql_native_password''"


subsection \<open>Commands\<close>

text \<open>The command bytes, numbered from zero in the order of the source.\<close>

definition COM_SLEEP :: u8 where "COM_SLEEP = 0"
definition COM_QUIT :: u8 where "COM_QUIT = 1"
definition COM_INIT_DB :: u8 where "COM_INIT_DB = 2"
definition COM_QUERY :: u8 where "COM_QUERY = 3"
definition COM_FIELD_LIST :: u8 where "COM_FIELD_LIST = 4"
definition COM_CREATE_DB :: u8 where "COM_CREATE_DB = 5"
definition COM_DROP_DB :: u8 where "COM_DROP_DB = 6"
definition COM_REFRESH :: u8 where "COM_REFRESH = 7"
definition COM_SHUTDOWN :: u8 where "COM_SHUTDOWN = 8"
definition COM_STATISTICS :: u8 where "COM_STATISTICS = 9"
definition COM_PROCESS_INFO :: u8 where "COM_PROCESS_INFO = 10"
definition COM_CONNECT :: u8 where "COM_CONNECT = 11"
definition COM_PROCESS_KILL :: u8 where "COM_PROCESS_KILL = 12"
definition COM_DEBUG :: u8 where "COM_DEBUG = 13"
definition COM_PING :: u8 where "COM_PING = 14"
definition COM_TIME :: u8 where "COM_TIME = 15"
definition COM_DELAYED_INSERT :: u8 where "COM_DELAYED_INSERT = 16"
definition COM_CHANGE_USER :: u8 where "COM_CHANGE_USER = 17"
definition COM_BINLOG_DUMP :: u8 where "COM_BINLOG_DUMP = 18"
definition COM_TABLE_DUMP :: u8 where "COM_TABLE_DUMP = 19"
definition COM_CONNECT_OUT :: u8 where "COM_CONNECT_OUT = 20"
definition COM_REGISTER_SLAVE :: u8 where "COM_REGISTER_SLAVE = 21"
definition COM_STMT_PREPARE :: u8 where "COM_STMT_PREPARE = 22"
definition COM_STMT_EXECUTE :: u8 where "COM_STMT_EXECUTE = 23"
definition COM_STMT_SEND_LONG_DATA :: u8 where "COM_STMT_SEND_LONG_DATA = 24"
definition COM_STMT_CLOSE :: u8 where "COM_STMT_CLOSE = 25"
definition COM_STMT_RESET :: u8 where "COM_STMT_RESET = 26"
definition COM_SET_OPTION :: u8 where "COM_SET_OPTION = 27"
definition COM_STMT_FETCH :: u8 where "COM_STMT_FETCH = 28"
definition COM_DAEMON :: u8 where "COM_DAEMON = 29"
definition COM_BINLOG_DUMP_GTID :: u8 where "COM_BINLOG_DUMP_GTID = 30"
definition COM_RESET_CONNECTION :: u8 where "COM_RESET_CONNECTION = 31"

datatype ComType =
    SLEEP | QUIT | INIT_DB | QUERY | FIELD_LIST | CREATE_DB
  | DROP_DB | REFRESH | SHUTDOWN | STATISTICS | PROCESS_INFO | CONNECT
  | PROCESS_KILL | DEBUG | PING | TIME | DELAYED_INSERT | CHANGE_USER
  | BINLOG_DUMP | TABLE_DUMP | CONNECT_OUT | REGISTER_SLAVE | STMT_PREPARE | STMT_EXECUTE
  | STMT_SEND_LONG_DATA | STMT_CLOSE | STMT_RESET | SET_OPTION | STMT_FETCH | DAEMON
  | BINLOG_DUMP_GTID | RESET_CONNECTION

definition ComType_all :: "ComType list" where
  "ComType_all = [
    SLEEP, QUIT, INIT_DB, QUERY, FIELD_LIST, CREATE_DB,
    DROP_DB, REFRESH, SHUTDOWN, STATISTICS, PROCESS_INFO, CONNECT,
    PROCESS_KILL, DEBUG, PING, TIME, DELAYED_INSERT, CHANGE_USER,
    BINLOG_DUMP, TABLE_DUMP, CONNECT_OUT, REGISTER_SLAVE, STMT_PREPARE, STMT_EXECUTE,
    STMT_SEND_LONG_DATA, STMT_CLOSE, STMT_RESET, SET_OPTION, STMT_FETCH, DAEMON,
    BINLOG_DUMP_GTID, RESET_CONNECTION]"

definition ComType_from :: "u8 \<Rightarrow> ComType option" where
  "ComType_from t = idx ComType_all (unat t)"

fun ComType_as_ref :: "ComType \<Rightarrow> string" where
  "ComType_as_ref SLEEP = ''sleep''"
| "ComType_as_ref QUIT = ''quit''"
| "ComType_as_ref INIT_DB = ''init_db''"
| "ComType_as_ref QUERY = ''query''"
| "ComType_as_ref FIELD_LIST = ''field_list''"
| "ComType_as_ref CREATE_DB = ''create_db''"
| "ComType_as_ref DROP_DB = ''drop_db''"
| "ComType_as_ref REFRESH = ''refresh''"
| "ComType_as_ref SHUTDOWN = ''shutdown''"
| "ComType_as_ref STATISTICS = ''statistics''"
| "ComType_as_ref PROCESS_INFO = ''process_info''"
| "ComType_as_ref CONNECT = ''connect''"
| "ComType_as_ref PROCESS_KILL = ''process_kill''"
| "ComType_as_ref DEBUG = ''debug''"
| "ComType_as_ref PING = ''ping''"
| "ComType_as_ref TIME = ''time''"
| "ComType_as_ref DELAYED_INSERT = ''delayed_insert''"
| "ComType_as_ref CHANGE_USER = ''change_user''"
| "ComType_as_ref BINLOG_DUMP = ''binlog_dump''"
| "ComType_as_ref TABLE_DUMP = ''table_dump''"
| "ComType_as_ref CONNECT_OUT = ''connect_out''"
| "ComType_as_ref REGISTER_SLAVE = ''register_slave''"
| "ComType_as_ref STMT_PREPARE = ''stmt_prepare''"
| "ComType_as_ref STMT_EXECUTE = ''stmt_execute''"
| "ComType_as_ref STMT_SEND_LONG_DATA = ''stmt_send_long_data''"
| "ComType_as_ref STMT_CLOSE = ''stmt_close''"
| "ComType_as_ref STMT_RESET = ''stmt_reset''"
| "ComType_as_ref SET_OPTION = ''set_option''"
| "ComType_as_ref STMT_FETCH = ''stmt_fetch''"
| "ComType_as_ref DAEMON = ''daemon''"
| "ComType_as_ref BINLOG_DUMP_GTID = ''binlog_dump_gtid''"
| "ComType_as_ref RESET_CONNECTION = ''reset_connection''"


subsection \<open>Capability flags\<close>

definition CLIENT_LONG_PASSWORD :: u32 where "CLIENT_LONG_PASSWORD = push_bit 0 1"
definition CLIENT_FOUND_ROWS :: u32 where "CLIENT_FOUND_ROWS = push_bit 1 1"
definition CLIENT_LONG_FLAG :: u32 where "CLIENT_LONG_FLAG = push_bit 2 1"
definition CLIENT_CONNECT_WITH_DB :: u32 where "CLIENT_CONNECT_WITH_DB = push_bit 3 1"
definition CLIENT_NO_SCHEMA :: u32 where "CLIENT_NO_SCHEMA = push_bit 4 1"
definition CLIENT_COMPRESS :: u32 where "CLIENT_COMPRESS = push_bit 5 1"
definition CLIENT_ODBC :: u32 where "CLIENT_ODBC = push_bit 6 1"
definition CLIENT_LOCAL_FILES :: u32 where "CLIENT_LOCAL_FILES = push_bit 7 1"
definition CLIENT_IGNORE_SPACE :: u32 where "CLIENT_IGNORE_SPACE = push_bit 8 1"
definition CLIENT_PROTOCOL_41 :: u32 where "CLIENT_PROTOCOL_41 = push_bit 9 1"
definition CLIENT_INTERACTIVE :: u32 where "CLIENT_INTERACTIVE = push_bit 10 1"
definition CLIENT_SSL :: u32 where "CLIENT_SSL = push_bit 11 1"
definition CLIENT_IGNORE_SIGPIPE :: u32 where "CLIENT_IGNORE_SIGPIPE = push_bit 12 1"
definition CLIENT_TRANSACTIONS :: u32 where "CLIENT_TRANSACTIONS = push_bit 13 1"
definition CLIENT_RESERVED :: u32 where "CLIENT_RESERVED = push_bit 14 1"
definition CLIENT_SECURE_CONNECTION :: u32 where "CLIENT_SECURE_CONNECTION = push_bit 15 1"
definition CLIENT_MULTI_STATEMENTS :: u32 where "CLIENT_MULTI_STATEMENTS = push_bit 16 1"
definition CLIENT_MULTI_RESULTS :: u32 where "CLIENT_MULTI_RESULTS = push_bit 17 1"
definition CLIENT_PS_MULTI_RESULTS :: u32 where "CLIENT_PS_MULTI_RESULTS = push_bit 18 1"
definition CLIENT_PLUGIN_AUTH :: u32 where "CLIENT_PLUGIN_AUTH = push_bit 19 1"
definition CLIENT_CONNECT_ATTRS :: u32 where "CLIENT_CONNECT_ATTRS = push_bit 20 1"
definition CLIENT_PLUGIN_AUTH_LENENC_CLIENT_DATA :: u32 where "CLIENT_PLUGIN_AUTH_LENENC_CLIENT_DATA = push_bit 21 1"
definition CLIENT_CAN_HANDLE_EXPIRED_PASSWORDS :: u32 where "CLIENT_CAN_HANDLE_EXPIRED_PASSWORDS = push_bit 22 1"
definition CLIENT_SESSION_TRACK :: u32 where "CLIENT_SESSION_TRACK = push_bit 23 1"

lemmas capability_defs =
  CLIENT_LONG_PASSWORD_def CLIENT_FOUND_ROWS_def CLIENT_LONG_FLAG_def
  CLIENT_CONNECT_WITH_DB_def CLIENT_NO_SCHEMA_def CLIENT_COMPRESS_def
  CLIENT_ODBC_def CLIENT_LOCAL_FILES_def CLIENT_IGNORE_SPACE_def
  CLIENT_PROTOCOL_41_def CLIENT_INTERACTIVE_def CLIENT_SSL_def
  CLIENT_IGNORE_SIGPIPE_def CLIENT_TRANSACTIONS_def CLIENT_RESERVED_def
  CLIENT_SECURE_CONNECTION_def CLIENT_MULTI_STATEMENTS_def CLIENT_MULTI_RESULTS_def
  CLIENT_PS_MULTI_RESULTS_def CLIENT_PLUGIN_AUTH_def CLIENT_CONNECT_ATTRS_def
  CLIENT_PLUGIN_AUTH_LENENC_CLIENT_DATA_def CLIENT_CAN_HANDLE_EXPIRED_PASSWORDS_def CLIENT_SESSION_TRACK_def


subsection \<open>Column types and flags\<close>

datatype ColumnType =
    MYSQL_TYPE_DECIMAL | MYSQL_TYPE_TINY | MYSQL_TYPE_SHORT | MYSQL_TYPE_LONG
  | MYSQL_TYPE_FLOAT | MYSQL_TYPE_DOUBLE | MYSQL_TYPE_NULL | MYSQL_TYPE_TIMESTAMP
  | MYSQL_TYPE_LONGLONG | MYSQL_TYPE_INT24 | MYSQL_TYPE_DATE | MYSQL_TYPE_TIME
  | MYSQL_TYPE_DATETIME | MYSQL_TYPE_YEAR | MYSQL_TYPE_NEWDATE | MYSQL_TYPE_VARCHAR
  | MYSQL_TYPE_BIT | MYSQL_TYPE_NEWDECIMAL | MYSQL_TYPE_ENUM | MYSQL_TYPE_SET
  | MYSQL_TYPE_TINY_BLOB | MYSQL_TYPE_MEDIUM_BLOB | MYSQL_TYPE_LONG_BLOB | MYSQL_TYPE_BLOB
  | MYSQL_TYPE_VAR_STRING | MYSQL_TYPE_STRING | MYSQL_TYPE_GEOMETRY

definition ColumnType_codes :: "(u8 \<times> ColumnType) list" where
  "ColumnType_codes = [
    (0, MYSQL_TYPE_DECIMAL), (1, MYSQL_TYPE_TINY), (2, MYSQL_TYPE_SHORT),
    (3, MYSQL_TYPE_LONG), (4, MYSQL_TYPE_FLOAT), (5, MYSQL_TYPE_DOUBLE),
    (6, MYSQL_TYPE_NULL), (7, MYSQL_TYPE_TIMESTAMP), (8, MYSQL_TYPE_LONGLONG),
    (9, MYSQL_TYPE_INT24), (10, MYSQL_TYPE_DATE), (11, MYSQL_TYPE_TIME),
    (12, MYSQL_TYPE_DATETIME), (13, MYSQL_TYPE_YEAR), (14, MYSQL_TYPE_NEWDATE),
    (15, MYSQL_TYPE_VARCHAR), (16, MYSQL_TYPE_BIT), (246, MYSQL_TYPE_NEWDECIMAL),
    (247, MYSQL_TYPE_ENUM), (248, MYSQL_TYPE_SET), (249, MYSQL_TYPE_TINY_BLOB),
    (250, MYSQL_TYPE_MEDIUM_BLOB), (251, MYSQL_TYPE_LONG_BLOB), (252, MYSQL_TYPE_BLOB),
    (253, MYSQL_TYPE_VAR_STRING), (254, MYSQL_TYPE_STRING), (255, MYSQL_TYPE_GEOMETRY)]"

definition ColumnType_from :: "u8 \<Rightarrow> ColumnType option" where
  "ColumnType_from t = map_of ColumnType_codes t"

text \<open>The discriminant of a column type, \<open>column_type as u8\<close>.\<close>

fun ColumnType_code :: "ColumnType \<Rightarrow> u8" where
  "ColumnType_code MYSQL_TYPE_DECIMAL = 0"
| "ColumnType_code MYSQL_TYPE_TINY = 1"
| "ColumnType_code MYSQL_TYPE_SHORT = 2"
| "ColumnType_code MYSQL_TYPE_LONG = 3"
| "ColumnType_code MYSQL_TYPE_FLOAT = 4"
| "ColumnType_code MYSQL_TYPE_DOUBLE = 5"
| "ColumnType_code MYSQL_TYPE_NULL = 6"
| "ColumnType_code MYSQL_TYPE_TIMESTAMP = 7"
| "ColumnType_code MYSQL_TYPE_LONGLONG = 8"
| "ColumnType_code MYSQL_TYPE_INT24 = 9"
| "ColumnType_code MYSQL_TYPE_DATE = 10"
| "ColumnType_code MYSQL_TYPE_TIME = 11"
| "ColumnType_code MYSQL_TYPE_DATETIME = 12"
| "ColumnType_code MYSQL_TYPE_YEAR = 13"
| "ColumnType_code MYSQL_TYPE_NEWDATE = 14"
| "ColumnType_code MYSQL_TYPE_VARCHAR = 15"
| "ColumnType_code MYSQL_TYPE_BIT = 16"
| "ColumnType_code MYSQL_TYPE_NEWDECIMAL = 246"
| "ColumnType_code MYSQL_TYPE_ENUM = 247"
| "ColumnType_code MYSQL_TYPE_SET = 248"
| "ColumnType_code MYSQL_TYPE_TINY_BLOB = 249"
| "ColumnType_code MYSQL_TYPE_MEDIUM_BLOB = 250"
| "ColumnType_code MYSQL_TYPE_LONG_BLOB = 251"
| "ColumnType_code MYSQL_TYPE_BLOB = 252"
| "ColumnType_code MYSQL_TYPE_VAR_STRING = 253"
| "ColumnType_code MYSQL_TYPE_STRING = 254"
| "ColumnType_code MYSQL_TYPE_GEOMETRY = 255"

fun ColumnType_as_ref :: "ColumnType \<Rightarrow> string" where
  "ColumnType_as_ref MYSQL_TYPE_DECIMAL = ''decimal''"
| "ColumnType_as_ref MYSQL_TYPE_TINY = ''tiny''"
| "ColumnType_as_ref MYSQL_TYPE_SHORT = ''short''"
| "ColumnType_as_ref MYSQL_TYPE_LONG = ''long''"
| "ColumnType_as_ref MYSQL_TYPE_FLOAT = ''float''"
| "ColumnType_as_ref MYSQL_TYPE_DOUBLE = ''double''"
| "ColumnType_as_ref MYSQL_TYPE_NULL = ''null''"
| "ColumnType_as_ref MYSQL_TYPE_TIMESTAMP = ''timestamp''"
| "ColumnType_as_ref MYSQL_TYPE_LONGLONG = ''longlong''"
| "ColumnType_as_ref MYSQL_TYPE_INT24 = ''int24''"
| "ColumnType_as_ref MYSQL_TYPE_DATE = ''date''"
| "ColumnType_as_ref MYSQL_TYPE_TIME = ''time''"
| "ColumnType_as_ref MYSQL_TYPE_DATETIME = ''datetime''"
| "ColumnType_as_ref MYSQL_TYPE_YEAR = ''year''"
| "ColumnType_as_ref MYSQL_TYPE_NEWDATE = ''newdate''"
| "ColumnType_as_ref MYSQL_TYPE_VARCHAR = ''varchar''"
| "ColumnType_as_ref MYSQL_TYPE_BIT = ''bit''"
| "ColumnType_as_ref MYSQL_TYPE_NEWDECIMAL = ''new_decimal''"
| "ColumnType_as_ref MYSQL_TYPE_ENUM = ''enum''"
| "ColumnType_as_ref MYSQL_TYPE_SET = ''set''"
| "ColumnType_as_ref MYSQL_TYPE_TINY_BLOB = ''tiny_blob''"
| "ColumnType_as_ref MYSQL_TYPE_MEDIUM_BLOB = ''medium_blob''"
| "ColumnType_as_ref MYSQL_TYPE_LONG_BLOB = ''long_blob''"
| "ColumnType_as_ref MYSQL_TYPE_BLOB = ''tiny_blob''"
| "ColumnType_as_ref MYSQL_TYPE_VAR_STRING = ''var''"
| "ColumnType_as_ref MYSQL_TYPE_STRING = ''string''"
| "ColumnType_as_ref MYSQL_TYPE_GEOMETRY = ''geometry''"

datatype ColumnFlag =
    NOT_NULL_FLAG | PRI_KEY_FLAG | UNIQUE_KEY_FLAG | MULTIPLE_KEY_FLAG
  | BLOB_FLAG | UNSIGNED_FLAG | ZEROFILL_FLAG | BINARY_FLAG
  | ENUM_FLAG | AUTO_INCREMENT_FLAG | TIMESTAMP_FLAG | SET_FLAG
  | NO_DEFAULT_VALUE_FLAG | ON_UPDATE_NOW_FLAG | PART_KEY_FLAG | NUM_FLAG

definition ColumnFlag_from :: "u16 \<Rightarrow> ColumnFlag option" where
  "ColumnFlag_from t = map_of [
    (1, NOT_NULL_FLAG), (2, PRI_KEY_FLAG), (4, UNIQUE_KEY_FLAG), (8, MULTIPLE_KEY_FLAG),
    (16, BLOB_FLAG), (32, UNSIGNED_FLAG), (64, ZEROFILL_FLAG), (128, BINARY_FLAG),
    (256, ENUM_FLAG), (512, AUTO_INCREMENT_FLAG), (1024, TIMESTAMP_FLAG), (2048, SET_FLAG),
    (4096, NO_DEFAULT_VALUE_FLAG), (8192, ON_UPDATE_NOW_FLAG), (16384, PART_KEY_FLAG), (32768, NUM_FLAG)] t"

fun ColumnFlag_as_ref :: "ColumnFlag \<Rightarrow> string" where
  "ColumnFlag_as_ref NOT_NULL_FLAG = ''not_null''"
| "ColumnFlag_as_ref PRI_KEY_FLAG = ''pri_key''"
| "ColumnFlag_as_ref UNIQUE_KEY_FLAG = ''unique_key''"
| "ColumnFlag_as_ref MULTIPLE_KEY_FLAG = ''multiple_key''"
| "ColumnFlag_as_ref BLOB_FLAG = ''blob''"
| "ColumnFlag_as_ref UNSIGNED_FLAG = ''unsigned''"
| "ColumnFlag_as_ref ZEROFILL_FLAG = ''zerofill''"
| "ColumnFlag_as_ref BINARY_FLAG = ''binary''"
| "ColumnFlag_as_ref ENUM_FLAG = ''enum''"
| "ColumnFlag_as_ref AUTO_INCREMENT_FLAG = ''auto_increment''"
| "ColumnFlag_as_ref TIMESTAMP_FLAG = ''timestamp''"
| "ColumnFlag_as_ref SET_FLAG = ''set''"
| "ColumnFlag_as_ref NO_DEFAULT_VALUE_FLAG = ''no_default''"
| "ColumnFlag_as_ref ON_UPDATE_NOW_FLAG = ''on_update_now''"
| "ColumnFlag_as_ref PART_KEY_FLAG = ''part_key''"
| "ColumnFlag_as_ref NUM_FLAG = ''num''"


subsection \<open>Errors\<close>

text \<open>The errors of TLS, I/O and key parsing carry a library value, a string here.\<close>

datatype ProtocolError =
    HandshakeError bytes
  | ProtocolVersion u8
  | ServerProtocolVersion
  | Tls
  | MakeTls string
  | InvalidPacket string bytes
  | AuthFailed bytes
  | AuthPluginUnsupport string
  | Io string
  | PubKey string
  | PrepareError bytes
  | PacketError bytes
  | StmtIdNotFound u32
  | DefaultError

datatype DecodeRowError =
    ColumnNotFound string
  | ColumnAlreadyConsumed string
  | ColumnTypeNotFound string
  | ColumnTimeLengthInvalid nat
  | ColumnDateTimeLengthInvalid nat


subsection \<open>Lemmas\<close>

lemma ComType_from_Some: "ComType_from t = Some c \<longleftrightarrow> unat t < 32 \<and> c = ComType_all ! unat t"
  by (auto simp: ComType_from_def idx_def ComType_all_def)

text \<open>A column type and its discriminant determine each other.\<close>

lemma ColumnType_from_code: "ColumnType_from (ColumnType_code c) = Some c"
  by (cases c) (simp_all add: ColumnType_from_def ColumnType_codes_def)

lemma ColumnType_code_inj: "ColumnType_code c = ColumnType_code d \<Longrightarrow> c = d"
  by (metis ColumnType_from_code option.inject)

end
