(* ===== verification/Strings.thy ===== *)
theory Strings
  imports Prelude
begin

section \<open>Strings\<close>

text \<open>
  Rust strings.  A \<open>String\<close> is the sequence of its UTF-8 bytes; a \<open>char\<close> of the logic
  is one byte, so a \<open>String\<close> is a \<open>string\<close>.  The functions of the standard library the
  sources use: checking UTF-8, trimming, and the ASCII case conversions.
\<close>

definition bytes_str :: "bytes \<Rightarrow> string" where
  "bytes_str bs = map (\<lambda>b. char_of (unat b)) bs"

text \<open>The well-formed byte sequences accepted by \<open>str::from_utf8\<close>.\<close>

definition cont_byte :: "u8 \<Rightarrow> bool" where
  "cont_byte b \<longleftrightarrow> 0x80 \<le> b \<and> b \<le> 0xbf"

fun utf8_ok :: "bytes \<Rightarrow> bool" where
  "utf8_ok [] = True"
| "utf8_ok (a # bs) =
     (if a < 0x80 then utf8_ok bs
      else if 0xc2 \<le> a \<and> a \<le> 0xdf then
        (case bs of b # cs \<Rightarrow> cont_byte b \<and> utf8_ok cs | _ \<Rightarrow> False)
      else if 0xe0 \<le> a \<and> a \<le> 0xef then
        (case bs of
           b # c # ds \<Rightarrow> cont_byte b \<and> (a = 0xe0 \<longrightarrow> 0xa0 \<le> b) \<and> (a = 0xed \<longrightarrow> b \<le> 0x9f) \<and>
             cont_byte c \<and> utf8_ok ds
         | _ \<Rightarrow> False)
      else if 0xf0 \<le> a \<and> a \<le> 0xf4 then
        (case bs of
           b # c # d # es \<Rightarrow> cont_byte b \<and> (a = 0xf0 \<longrightarrow> 0x90 \<le> b) \<and> (a = 0xf4 \<longrightarrow> b \<le> 0x8f) \<and>
             cont_byte c \<and> cont_byte d \<and> utf8_ok es
         | _ \<Rightarrow> False)
      else False)"

text \<open>\<open>str::from_utf8(..).unwrap()\<close>: a panic on other bytes.\<close>

definition from_utf8 :: "bytes \<Rightarrow> string option" where
  "from_utf8 bs = (if utf8_ok bs then Some (bytes_str bs) else None)"

text \<open>\<open>trim_matches(char::from(0))\<close>.\<close>

definition trim_nul :: "string \<Rightarrow> string" where
  "trim_nul s = rev (dropWhile (\<lambda>c. c = CHR 0x00) (rev (dropWhile (\<lambda>c. c = CHR 0x00) s)))"

text \<open>Upper case of the ASCII letters.\<close>

definition upper_char :: "char \<Rightarrow> char" where
  "upper_char c = (if 97 \<le> (of_char c :: nat) \<and> (of_char c :: nat) \<le> 122
     then char_of ((of_char c :: nat) - 32) else c)"

definition to_upper_ascii :: "string \<Rightarrow> string" where
  "to_upper_ascii s = map upper_char s"

text \<open>\<open>trim\<close> on ASCII text, \<open>split(" ")[0]\<close> and \<open>split_once(' ')\<close>.\<close>

definition white_char :: "char \<Rightarrow> bool" where
  "white_char c \<longleftrightarrow> of_char c \<in> {9, 10, 11, 12, 13, 32 :: nat}"

definition trim_white :: "string \<Rightarrow> string" where
  "trim_white s = rev (dropWhile white_char (rev (dropWhile white_char s)))"

definition before_space :: "string \<Rightarrow> string" where
  "before_space s = takeWhile (\<lambda>c. c \<noteq> CHR '' '') s"

definition split_once_space :: "string \<Rightarrow> (string \<times> string) option" where
  "split_once_space s =
     (if CHR '' '' \<in> set s then Some (before_space s, tl (dropWhile (\<lambda>c. c \<noteq> CHR '' '') s)) else None)"

text \<open>Positions between characters of UTF-8 text.\<close>

definition cont_char :: "char \<Rightarrow> bool" where
  "cont_char c \<longleftrightarrow> 128 \<le> (of_char c :: nat) \<and> (of_char c :: nat) < 192"

definition char_boundary :: "string \<Rightarrow> nat \<Rightarrow> bool" where
  "char_boundary s i \<longleftrightarrow> i = 0 \<or> i = length s \<or> (i < length s \<and> \<not> cont_char (s ! i))"

text \<open>\<open>&s[a..b]\<close>.\<close>

definition str_slice :: "string \<Rightarrow> nat \<Rightarrow> nat \<Rightarrow> string option" where
  "str_slice s a b =
     (if a \<le> b \<and> b \<le> length s \<and> char_boundary s a \<and> char_boundary s b then Some (take (b - a) (drop a s)) else None)"

text \<open>Decimal numbers: \<open>parse\<close> of an unsigned number, with an optional plus sign, and
  \<open>to_string\<close>.\<close>

definition digit_val :: "char \<Rightarrow> nat option" where
  "digit_val c = (let n = of_char c :: nat in if 48 \<le> n \<and> n \<le> 57 then Some (n - 48) else None)"

fun parse_digits :: "nat \<Rightarrow> string \<Rightarrow> nat option" where
  "parse_digits acc [] = Some acc"
| "parse_digits acc (c # cs) = do { d \<leftarrow> digit_val c; parse_digits (acc * 10 + d) cs }"

definition parse_u64 :: "string \<Rightarrow> u64 option" where
  "parse_u64 s =
     (let digits = (case s of c # cs \<Rightarrow> if c = CHR ''+'' then cs else s | [] \<Rightarrow> []) in
      if digits = [] then None
      else do { n \<leftarrow> parse_digits 0 digits; if n < 2 ^ 64 then Some (of_nat n) else None })"

fun show_nat :: "nat \<Rightarrow> string" where
  "show_nat n =
     (if n < 10 then [char_of (48 + n)] else show_nat (n div 10) @ [char_of (48 + n mod 10)])"

declare show_nat.simps [simp del]

text \<open>The regular expressions of the library: compiling one, as written or with the case
  ignored, and matching.\<close>

record 'x regex_ops =
  rx_new :: "string \<Rightarrow> string + 'x"
  rx_build :: "bool \<Rightarrow> string \<Rightarrow> string + 'x"
  rx_is_match :: "'x \<Rightarrow> string \<Rightarrow> bool"

definition any_match :: "'x regex_ops \<Rightarrow> 'x list \<Rightarrow> string \<Rightarrow> bool" where
  "any_match X regexs val = list_ex (\<lambda>r. rx_is_match X r val) regexs"


subsection \<open>Lemmas\<close>

lemma str_bytes_bytes_str [simp]: "str_bytes (bytes_str bs) = bs"
proof -
  have "of_nat (of_char (char_of (unat b) :: char)) = b" for b :: u8
    using unat_byte [of b] by (simp add: of_char_of take_bit_nat_eq_self_iff)
  then show ?thesis
    by (simp add: str_bytes_def bytes_str_def comp_def)
qed

lemma bytes_str_str_bytes [simp]: "bytes_str (str_bytes s) = s"
proof -
  have "char_of (unat (of_nat (of_char c) :: u8)) = c" for c :: char
    by (simp add: unat_of_nat)
  then show ?thesis
    by (simp add: str_bytes_def bytes_str_def comp_def)
qed

lemma from_utf8_Some: "from_utf8 bs = Some s \<Longrightarrow> str_bytes s = bs"
  by (auto simp: from_utf8_def split: if_splits)

lemma utf8_ok_ascii: "\<forall>b \<in> set bs. b < 0x80 \<Longrightarrow> utf8_ok bs"
  by (induction bs) auto

lemma digit_val_digit: "d < 10 \<Longrightarrow> digit_val (char_of (48 + d)) = Some d"
  by (simp add: digit_val_def of_char_of take_bit_nat_eq_self_iff)

lemma parse_digits_append:
  "parse_digits acc (xs @ ys) = do { a \<leftarrow> parse_digits acc xs; parse_digits a ys }"
  by (induction xs arbitrary: acc) (auto simp: Option.bind_assoc)

lemma parse_digits_show: "parse_digits 0 (show_nat n) = Some n"
proof (induction n rule: show_nat.induct)
  case (1 n)
  then show ?case
    by (subst show_nat.simps) (simp add: parse_digits_append digit_val_digit)
qed

lemma show_nat_digits: "c \<in> set (show_nat n) \<Longrightarrow> 48 \<le> (of_char c :: nat) \<and> (of_char c :: nat) \<le> 57"
proof (induction n rule: show_nat.induct)
  case (1 n)
  have "of_char (char_of (48 + d) :: char) = 48 + d" if "d < 10" for d :: nat
    using that by (simp add: of_char_of take_bit_nat_eq_self_iff)
  then show ?case
    using 1 by (subst (asm) show_nat.simps) (auto split: if_splits)
qed

lemma show_nat_nonempty: "show_nat n \<noteq> []"
  by (subst show_nat.simps) simp

lemma parse_show_u64: "parse_u64 (show_nat (unat v)) = Some v"
proof -
  obtain c cs where s: "show_nat (unat v) = c # cs"
    using show_nat_nonempty by (meson neq_Nil_conv)
  then have "c \<noteq> CHR ''+''"
    using show_nat_digits [of c "unat v"] by auto
  moreover have "unat v < 2 ^ 64"
    using unsigned_less [where ?'a = nat, of v] by simp
  ultimately show ?thesis
    using s parse_digits_show [of "unat v"] by (simp add: parse_u64_def)
qed

lemma utf8_ok_show: "utf8_ok (str_bytes (show_nat n))"
proof (rule utf8_ok_ascii, rule ballI)
  fix b
  assume "b \<in> set (str_bytes (show_nat n))"
  then obtain c where "c \<in> set (show_nat n)" "b = of_nat (of_char c)"
    by (auto simp: str_bytes_def)
  then show "b < 0x80"
    using show_nat_digits [of c n] by (simp add: word_less_nat_alt unat_of_nat)
qed

end
