(* ===== verification/ServerAuth.thy ===== *)
theory ServerAuth
  imports Packets Constants Charset Strings "HOL-Library.Sublist"
begin

section \<open>Client authentication\<close>

text \<open>
  The handshake between a client and the proxy, \<open>protocol/mysql/src/server/auth.rs\<close>: the
  codec that holds the session, the initial handshake packet, the parsing of the
  client's response, the comparison of the password scrambles and the handshake loop.
  SHA-1 is the parameter \<open>sha1\<close>, the \<open>{:?}\<close> rendering of a string in error messages is
  the parameter \<open>dbg\<close>.  The loop takes the buffers on which the framework calls the
  decoder; TLS is assumed to be set up successfully when the client asks for it.
\<close>

unbundle bit_operations_syntax


subsection \<open>State\<close>

definition DEFAULT_CAPABILITY :: u32 where
  "DEFAULT_CAPABILITY = CLIENT_LONG_PASSWORD OR CLIENT_LONG_FLAG OR CLIENT_CONNECT_WITH_DB
     OR CLIENT_PROTOCOL_41 OR CLIENT_TRANSACTIONS OR CLIENT_SECURE_CONNECTION OR CLIENT_SSL
     OR CLIENT_FOUND_ROWS OR CLIENT_MULTI_STATEMENTS OR CLIENT_PS_MULTI_RESULTS
     OR CLIENT_LOCAL_FILES OR CLIENT_CONNECT_ATTRS OR CLIENT_PLUGIN_AUTH OR CLIENT_INTERACTIVE
     OR CLIENT_PLUGIN_AUTH_LENENC_CLIENT_DATA"

datatype ServerHandshakeStatus =
    WriteInitial | ReadResponseFirst | ReadResponse | SwitchToTLS | WriteAutoSwitch
  | ReadAutoSwitchResponse | CompareAuthData | Complete

record ServerHandshakeCodec =
  hs_seq :: u8
  server_version :: string
  connection_id :: u32
  capability :: u32
  charset :: string
  salt :: bytes
  status :: u16
  hs_user :: string
  hs_db :: string
  hs_password :: string
  auth_data :: bytes
  auth_plugin_name :: string
  autocommit :: "string option"
  next_handshake_status :: ServerHandshakeStatus

text \<open>The global connection counter is passed in and returned; \<open>draws\<close> are the twenty
  numbers the random generator yields.\<close>

definition ServerHandshakeCodec_new ::
    "u32 \<Rightarrow> u8 list \<Rightarrow> string \<Rightarrow> string \<Rightarrow> string \<Rightarrow> string \<Rightarrow> ServerHandshakeCodec \<times> u32" where
  "ServerHandshakeCodec_new CONNECTION_ID draws usr pw database version =
     (\<lparr>hs_seq = 0, server_version = version, connection_id = CONNECTION_ID + 1, capability = 0,
       charset = DEFAULT_CHARSET_NAME, salt = random_buf draws, status = SERVER_STATUS_AUTOCOMMIT,
       hs_user = usr, hs_db = database, hs_password = pw, auth_data = [], auth_plugin_name = [],
       autocommit = None, next_handshake_status = ReadResponseFirst\<rparr>, CONNECTION_ID + 1)"


subsection \<open>Packets the proxy sends\<close>

text \<open>The slices \<open>salt[0..8]\<close> and the collation lookup panic when out of range.\<close>

definition encode_initial_handshake :: "ServerHandshakeCodec \<Rightarrow> bytes option" where
  "encode_initial_handshake c =
     do { (part1, part2) \<leftarrow> split_to 8 (salt c);
          cs \<leftarrow> COLLATION_NAME_ID_MYSQL5 (charset c);
          Some (replicate 4 0 @ [10] @ str_bytes (server_version c) @ [0]
            @ le_bytes 4 (unat (connection_id c)) @ part1 @ [0]
            @ [ucast DEFAULT_CAPABILITY, ucast (drop_bit 8 DEFAULT_CAPABILITY)] @ [cs]
            @ [ucast (status c), ucast (drop_bit 8 (status c))]
            @ [ucast (drop_bit 16 DEFAULT_CAPABILITY), ucast (drop_bit 24 DEFAULT_CAPABILITY)]
            @ [20 + 1] @ replicate 10 0 @ part2 @ [0] @ str_bytes AUTH_NATIVE_PASSWORD @ [0]) }"

definition generate_auth_switch_request :: "ServerHandshakeCodec \<Rightarrow> bytes" where
  "generate_auth_switch_request c =
     replicate 4 0 @ [EOF_HEADER] @ str_bytes (auth_plugin_name c) @ [0] @ salt c @ [0]"

definition make_auth_err_info :: "(string \<Rightarrow> string) \<Rightarrow> ServerHandshakeCodec \<Rightarrow> bytes" where
  "make_auth_err_info dbg c =
     make_err_packet \<lparr>code = 1045, state = str_bytes ''28000'',
       msg = str_bytes (''Access denied for user '' @ dbg (hs_user c) @ '', (using password: Yes)'')\<rparr>"

definition make_schema_err_info :: "(string \<Rightarrow> string) \<Rightarrow> ServerHandshakeCodec \<Rightarrow> bytes" where
  "make_schema_err_info dbg c =
     make_err_packet \<lparr>code = 1049, state = str_bytes ''42000'',
       msg = str_bytes (''Unknown database '' @ dbg (hs_db c))\<rparr>"

definition make_auth_plugin_err_info :: "(string \<Rightarrow> string) \<Rightarrow> ServerHandshakeCodec \<Rightarrow> bytes" where
  "make_auth_plugin_err_info dbg c =
     make_err_packet \<lparr>code = 1045, state = str_bytes ''28000'',
       msg = str_bytes (''unsupport authentication plugin name '' @ dbg (auth_plugin_name c))\<rparr>"

definition make_auth_lenc_err_info :: "ServerHandshakeCodec \<Rightarrow> bytes" where
  "make_auth_lenc_err_info c =
     make_err_packet \<lparr>code = 1045, state = str_bytes ''28000'', msg = str_bytes ''auth data is null''\<rparr>"


subsection \<open>Parsing the response\<close>

text \<open>\<open>data.iter().position(|&x| x == 0).unwrap()\<close> followed by \<open>split_to\<close>.\<close>

definition split_nul :: "bytes \<Rightarrow> (bytes \<times> bytes) option" where
  "split_nul data = do { k \<leftarrow> position (\<lambda>x. x = 0) data; split_to k data }"

definition has_cap :: "ServerHandshakeCodec \<Rightarrow> u32 \<Rightarrow> bool" where
  "has_cap c flag \<longleftrightarrow> capability c AND flag > 0"

definition decode_first :: "ServerHandshakeCodec \<Rightarrow> bytes \<Rightarrow> (ServerHandshakeCodec \<times> bytes \<times> bool) option" where
  "decode_first c data =
     do { (cap, data) \<leftarrow> get_u32_le data;
          (_, data) \<leftarrow> get_u32_le data;
          (_, data) \<leftarrow> get_u8 data;
          (_, data) \<leftarrow> split_to 23 data;
          Some (c\<lparr>capability := cap\<rparr>, data, data = []) }"

text \<open>The three forms of the authentication data; \<open>Inl\<close> is the NULL error.\<close>

definition read_auth_data ::
    "ServerHandshakeCodec \<Rightarrow> bytes \<Rightarrow> (ServerHandshakeCodec \<times> bytes \<times> (ProtocolError + unit)) option" where
  "read_auth_data c data =
     (if has_cap c CLIENT_PLUGIN_AUTH_LENENC_CLIENT_DATA then
        do { ((d, is_null), data) \<leftarrow> length_encoded_string data;
             if is_null then Some (c, data, Inl (AuthFailed (make_auth_lenc_err_info c)))
             else Some (c\<lparr>auth_data := d\<rparr>, data, Inr ()) }
      else if has_cap c CLIENT_SECURE_CONNECTION then
        do { (n, data) \<leftarrow> get_u8 data;
             (d, data) \<leftarrow> split_to (unat n) data;
             Some (c\<lparr>auth_data := d\<rparr>, data, Inr ()) }
      else
        do { (d, data) \<leftarrow> split_nul data;
             (_, data) \<leftarrow> get_u8 data;
             Some (c\<lparr>auth_data := d\<rparr>, data, Inr ()) })"

text \<open>The database name, when the client sends one.\<close>

definition read_db ::
    "(string \<Rightarrow> string) \<Rightarrow> ServerHandshakeCodec \<Rightarrow> bytes \<Rightarrow>
     (ServerHandshakeCodec \<times> bytes \<times> (ProtocolError + unit)) option" where
  "read_db dbg c data =
     (if has_cap c CLIENT_CONNECT_WITH_DB \<and> data \<noteq> [] then
        do { (d, data) \<leftarrow> split_nul data;
             database \<leftarrow> from_utf8 d;
             if hs_db c \<noteq> database
             then (let c = c\<lparr>hs_db := database\<rparr> in
                   Some (c, data, Inl (AuthFailed (make_schema_err_info dbg c))))
             else do { (_, data) \<leftarrow> get_u8 data; Some (c, data, Inr ()) } }
      else Some (c, data, Inr ()))"

definition read_plugin :: "ServerHandshakeCodec \<Rightarrow> bytes \<Rightarrow> (ServerHandshakeCodec \<times> bytes) option" where
  "read_plugin c data =
     (if has_cap c CLIENT_PLUGIN_AUTH then
        do { (p, data) \<leftarrow> split_nul data;
             plugin \<leftarrow> from_utf8 p;
             (_, data) \<leftarrow> get_u8 data;
             Some (c\<lparr>auth_plugin_name := plugin\<rparr>, data) }
      else Some (c\<lparr>auth_plugin_name := AUTH_NATIVE_PASSWORD\<rparr>, data))"

definition decode_handshake_response ::
    "(string \<Rightarrow> string) \<Rightarrow> ServerHandshakeCodec \<Rightarrow> bytes \<Rightarrow>
     (ServerHandshakeCodec \<times> bytes \<times> (ProtocolError + unit)) option" where
  "decode_handshake_response dbg c data =
     do { (u, data) \<leftarrow> split_nul data;
          usr \<leftarrow> from_utf8 u;
          if usr \<noteq> hs_user c
          then (let c = c\<lparr>hs_user := usr\<rparr> in
                Some (c, data, Inl (AuthFailed (make_auth_err_info dbg c))))
          else do {
            (_, data) \<leftarrow> get_u8 data;
            (c, data, r) \<leftarrow> read_auth_data c data;
            (case r of
               Inl e \<Rightarrow> Some (c, data, Inl e)
             | Inr _ \<Rightarrow> do {
                 (c, data, r) \<leftarrow> read_db dbg c data;
                 (case r of
                    Inl e \<Rightarrow> Some (c, data, Inl e)
                  | Inr _ \<Rightarrow> do {
                      (c, data) \<leftarrow> read_plugin c data;
                      if auth_plugin_name c \<noteq> AUTH_NATIVE_PASSWORD
                      then Some (c\<lparr>auth_plugin_name := AUTH_NATIVE_PASSWORD,
                                   next_handshake_status := WriteAutoSwitch\<rparr>, [], Inr ())
                      else Some (c\<lparr>next_handshake_status := CompareAuthData\<rparr>, [], Inr ()) }) }) } }"


subsection \<open>Checking the password\<close>

definition compare_auth_data ::
    "(bytes \<Rightarrow> bytes) \<Rightarrow> (string \<Rightarrow> string) \<Rightarrow> ServerHandshakeCodec \<Rightarrow>
     ServerHandshakeCodec \<times> (ProtocolError + unit)" where
  "compare_auth_data sha1 dbg c =
     (let c = c\<lparr>next_handshake_status := Complete\<rparr> in
      if auth_plugin_name c = AUTH_NATIVE_PASSWORD then
        if \<not> compare (auth_data c) (calc_password sha1 (salt c) (str_bytes (hs_password c)))
        then (c, Inl (AuthFailed (make_auth_err_info dbg c)))
        else (c, Inr ())
      else (c, Inl (AuthFailed (make_auth_plugin_err_info dbg c))))"

definition handle_auth_switch_response ::
    "(bytes \<Rightarrow> bytes) \<Rightarrow> (string \<Rightarrow> string) \<Rightarrow> ServerHandshakeCodec \<Rightarrow> bytes \<Rightarrow>
     ServerHandshakeCodec \<times> (ProtocolError + unit)" where
  "handle_auth_switch_response sha1 dbg c data =
     (let c = c\<lparr>next_handshake_status := Complete\<rparr> in
      if auth_plugin_name c = AUTH_NATIVE_PASSWORD then
        let passwd_salt = calc_password sha1 (salt c) (str_bytes (hs_password c)) in
        if \<not> compare passwd_salt data
        then (c, Inl (AuthFailed (make_auth_err_info dbg c)))
        else (c, Inr ())
      else (c, Inl (AuthFailed (make_auth_plugin_err_info dbg c))))"


subsection \<open>The codec\<close>

text \<open>Parsing a response and, when it names the native plugin, checking it at once:
  the part the first and the later response share.\<close>

definition response_checked ::
    "(bytes \<Rightarrow> bytes) \<Rightarrow> (string \<Rightarrow> string) \<Rightarrow> ServerHandshakeCodec \<Rightarrow> bytes \<Rightarrow>
     (ServerHandshakeCodec \<times> bytes \<times> (ProtocolError + unit option)) option" where
  "response_checked sha1 dbg c src =
     do { (c, src, r) \<leftarrow> decode_handshake_response dbg c src;
          (case r of
             Inl e \<Rightarrow> Some (c, src, Inl e)
           | Inr _ \<Rightarrow>
               if next_handshake_status c = CompareAuthData then
                 (case compare_auth_data sha1 dbg c of
                    (c, Inl e) \<Rightarrow> Some (c, src, Inl e)
                  | (c, Inr _) \<Rightarrow> Some (c, src, Inr (Some ())))
               else Some (c, src, Inr (Some ()))) }"

definition ServerHandshakeCodec_decode ::
    "(bytes \<Rightarrow> bytes) \<Rightarrow> (string \<Rightarrow> string) \<Rightarrow> ServerHandshakeCodec \<Rightarrow> bytes \<Rightarrow>
     (ServerHandshakeCodec \<times> bytes \<times> (ProtocolError + unit option)) option" where
  "ServerHandshakeCodec_decode sha1 dbg c src =
     (if src = [] \<or> length src < 3 then Some (c, src, Inr None)
      else let len = le_val (take 3 src) in
        if 4 + len > length src then Some (c, src, Inr None)
        else let src = drop 4 src; c = c\<lparr>hs_seq := hs_seq c + 1\<rparr> in
          (case next_handshake_status c of
             ReadResponseFirst \<Rightarrow>
               do { (c, src, is_empty) \<leftarrow> decode_first c src;
                    if is_empty
                    then Some (c\<lparr>next_handshake_status := SwitchToTLS\<rparr>, src, Inr (Some ()))
                    else response_checked sha1 dbg c src }
           | ReadResponse \<Rightarrow>
               do { (c, src, _) \<leftarrow> decode_first c src; response_checked sha1 dbg c src }
           | ReadAutoSwitchResponse \<Rightarrow>
               (case handle_auth_switch_response sha1 dbg c src of
                  (c, Inl e) \<Rightarrow> Some (c, src, Inl e)
                | (c, Inr _) \<Rightarrow> Some (c, src, Inr (Some ())))
           | _ \<Rightarrow> Some (c, src, Inr (Some ()))))"

text \<open>\<open>item.len() - 4\<close> underflows on less than four bytes.\<close>

definition ServerHandshakeCodec_encode ::
    "ServerHandshakeCodec \<Rightarrow> bytes \<Rightarrow> bytes \<Rightarrow> (ServerHandshakeCodec \<times> bytes) option" where
  "ServerHandshakeCodec_encode c item dst =
     (let c = (if next_handshake_status c = WriteAutoSwitch
               then c\<lparr>next_handshake_status := ReadAutoSwitchResponse\<rparr> else c);
          dst = dst @ item
      in if length item < 4 then None
         else do { dst \<leftarrow> write_at 0 (le_bytes 3 (length item - 4)) dst;
                   dst \<leftarrow> write_at 3 [hs_seq c] dst;
                   Some (c\<lparr>hs_seq := hs_seq c + 1\<rparr>, dst) })"


subsection \<open>Session attributes\<close>

definition get_db :: "ServerHandshakeCodec \<Rightarrow> string option" where
  "get_db c = (if hs_db c = [] then None else Some (hs_db c))"

definition get_charset :: "ServerHandshakeCodec \<Rightarrow> string option" where
  "get_charset c = Some (charset c)"

definition get_autocommit :: "ServerHandshakeCodec \<Rightarrow> string option" where
  "get_autocommit c = autocommit c"

definition set_db :: "ServerHandshakeCodec \<Rightarrow> string \<Rightarrow> ServerHandshakeCodec" where
  "set_db c database = c\<lparr>hs_db := database\<rparr>"

definition set_charset :: "ServerHandshakeCodec \<Rightarrow> string \<Rightarrow> ServerHandshakeCodec" where
  "set_charset c cs = c\<lparr>charset := cs\<rparr>"

definition set_autocommit :: "ServerHandshakeCodec \<Rightarrow> string \<Rightarrow> ServerHandshakeCodec" where
  "set_autocommit c ac = c\<lparr>autocommit := Some ac\<rparr>"


subsection \<open>The handshake\<close>

text \<open>
  The loop consumes the buffers on which the decoder is called.  A call that waits for
  more data (\<open>Ok(None)\<close>) does not return to the loop.  One turn decodes a buffer and acts
  on the status (\<open>after_decode\<close>).  The result is the codec, what was
  sent, and whether authentication succeeded; \<open>None\<close> as the last component means that
  the loop still waits for the client.
\<close>

definition after_decode :: "ServerHandshakeCodec \<Rightarrow> (ServerHandshakeCodec \<times> bytes list \<times> bool option) option" where
  "after_decode c =
     (if next_handshake_status c = SwitchToTLS then
        Some (c\<lparr>next_handshake_status := ReadResponse\<rparr>, [], None)
      else if next_handshake_status c = WriteAutoSwitch then
        do { (c, out) \<leftarrow> ServerHandshakeCodec_encode c (generate_auth_switch_request c) [];
             Some (c, [out], None) }
      else if next_handshake_status c = Complete then
        do { (c, out) \<leftarrow> ServerHandshakeCodec_encode c ok_packet []; Some (c, [out], Some True) }
      else Some (c, [], None))"

definition handshake_turn ::
    "(bytes \<Rightarrow> bytes) \<Rightarrow> (string \<Rightarrow> string) \<Rightarrow> ServerHandshakeCodec \<Rightarrow> bytes \<Rightarrow>
     (ServerHandshakeCodec \<times> bytes list \<times> bool option) option" where
  "handshake_turn sha1 dbg c src =
     do { (c, _, r) \<leftarrow> ServerHandshakeCodec_decode sha1 dbg c src;
          (case r of
             Inr None \<Rightarrow> Some (c, [], None)
           | Inl e \<Rightarrow>
               (case e of
                  AuthFailed data \<Rightarrow>
                    do { (c, out) \<leftarrow> ServerHandshakeCodec_encode c data []; Some (c, [out], Some False) }
                | _ \<Rightarrow> after_decode c)
           | Inr (Some _) \<Rightarrow> after_decode c) }"

fun handshake_loop ::
    "(bytes \<Rightarrow> bytes) \<Rightarrow> (string \<Rightarrow> string) \<Rightarrow> ServerHandshakeCodec \<Rightarrow> bytes list \<Rightarrow> bytes list \<Rightarrow>
     (ServerHandshakeCodec \<times> bytes list \<times> bool option) option" where
  "handshake_loop sha1 dbg c [] sent = Some (c, sent, None)"
| "handshake_loop sha1 dbg c (src # srcs) sent =
     do { (c, out, done) \<leftarrow> handshake_turn sha1 dbg c src;
          if done = None then handshake_loop sha1 dbg c srcs (sent @ out)
          else Some (c, sent @ out, done) }"

definition handshake ::
    "(bytes \<Rightarrow> bytes) \<Rightarrow> (string \<Rightarrow> string) \<Rightarrow> ServerHandshakeCodec \<Rightarrow> bytes list \<Rightarrow>
     (ServerHandshakeCodec \<times> bytes list \<times> bool option) option" where
  "handshake sha1 dbg c srcs =
     do { initial_handshake \<leftarrow> encode_initial_handshake c;
          (c, out) \<leftarrow> ServerHandshakeCodec_encode c initial_handshake [];
          handshake_loop sha1 dbg c srcs [out] }"


subsection \<open>The parts of a response\<close>

lemma split_nul_eq_Some:
  "split_nul data = Some (a, b) \<longleftrightarrow> (\<exists>z. b = 0 # z \<and> data = a @ 0 # z \<and> 0 \<notin> set a)"
proof
  assume "split_nul data = Some (a, b)"
  then obtain k where k: "position (\<lambda>x. x = 0) data = Some k" and ab: "data = a @ b" "length a = k"
    by (auto simp: split_nul_def bind_eq_Some_conv split_to_eq_Some)
  obtain y zs where "data = take k data @ y # zs" "y = 0" "\<forall>x \<in> set (take k data). x \<noteq> 0"
    using position_split [OF k] by blast
  moreover have "take k data = a"
    using ab by simp
  ultimately show "\<exists>z. b = 0 # z \<and> data = a @ 0 # z \<and> 0 \<notin> set a"
    using ab by auto
next
  assume "\<exists>z. b = 0 # z \<and> data = a @ 0 # z \<and> 0 \<notin> set a"
  then obtain z where "b = 0 # z" "data = a @ 0 # z" "\<forall>x \<in> set a. x \<noteq> 0"
    by blast
  then show "split_nul data = Some (a, b)"
    using position_append [of a "\<lambda>x. x = 0" 0 z] by (simp add: split_nul_def split_to_def)
qed

lemma split_nul_append [cursor_simps]: "0 \<notin> set a \<Longrightarrow> split_nul (a @ 0 # z) = Some (a, 0 # z)"
  by (simp add: split_nul_eq_Some)

lemma get_u8_drop: "get_u8 bs = Some (b, rest) \<Longrightarrow> rest = drop 1 bs"
  by (cases bs) auto

lemma decode_first_Some:
  assumes "decode_first c data = Some (c', rest, e)"
  shows "\<exists>cap. c' = c\<lparr>capability := cap\<rparr> \<and> rest = drop 32 data"
proof -
  obtain cap d1 u d2 v d3 w where "get_u32_le data = Some (cap, d1)" "get_u32_le d1 = Some (u, d2)"
      "get_u8 d2 = Some (v, d3)" "split_to 23 d3 = Some (w, rest)" "c' = c\<lparr>capability := cap\<rparr>"
    using assms by (auto simp: decode_first_def bind_eq_Some_conv)
  moreover from this have "d1 = drop 4 data" "d2 = drop 4 d1" "d3 = drop 1 d2" "rest = drop 23 d3"
    by (auto simp: get_u32_le_def split_to_def dest: get_u8_drop split: if_splits)
  ultimately show ?thesis
    by auto
qed

lemma length_encoded_string_Some:
  assumes "length_encoded_string data = Some ((d, False), rest)"
  shows "sublist d data \<or> d = [0xfb]"
proof -
  obtain num nul k mid where g: "get_lenc_int data = Some ((num, nul, k), mid)"
    using assms by (auto simp: length_encoded_string_def bind_eq_Some_conv)
  have mid: "mid = drop (unat k) data"
    using get_lenc_int_consumes [OF g] by blast
  have "d = [0xfb] \<or> d = [] \<or> (\<exists>n. d = take n mid)"
    using assms g by (auto simp: length_encoded_string_def split_to_def split: if_splits)
  then show ?thesis
    unfolding mid using sublist_drop sublist_take sublist_order.order_trans by blast
qed

lemma read_auth_data_Some:
  assumes "read_auth_data c data = Some (c', rest, r)"
  shows "(r = Inr () \<longrightarrow> (\<exists>d. c' = c\<lparr>auth_data := d\<rparr> \<and> (sublist d data \<or> d = [0xfb]))) \<and>
    (\<forall>e. r = Inl e \<longrightarrow> (\<exists>err. e = AuthFailed (make_err_packet err)))"
proof -
  consider (lenc) "has_cap c CLIENT_PLUGIN_AUTH_LENENC_CLIENT_DATA"
    | (secure) "\<not> has_cap c CLIENT_PLUGIN_AUTH_LENENC_CLIENT_DATA" "has_cap c CLIENT_SECURE_CONNECTION"
    | (nul) "\<not> has_cap c CLIENT_PLUGIN_AUTH_LENENC_CLIENT_DATA" "\<not> has_cap c CLIENT_SECURE_CONNECTION"
    by blast
  then show ?thesis
  proof cases
    case lenc
    then obtain d nul where "length_encoded_string data = Some ((d, nul), rest)"
        "if nul then r = Inl (AuthFailed (make_auth_lenc_err_info c))
         else c' = c\<lparr>auth_data := d\<rparr> \<and> r = Inr ()"
      using assms by (auto simp: read_auth_data_def bind_eq_Some_conv split: if_splits)
    then show ?thesis
      using length_encoded_string_Some [of data d rest]
      unfolding make_auth_lenc_err_info_def by (cases nul) (simp, blast)+
  next
    case secure
    then obtain n d where "data = n # d @ rest" "c' = c\<lparr>auth_data := d\<rparr>" "r = Inr ()"
      using assms by (auto simp: read_auth_data_def bind_eq_Some_conv get_u8_eq_Some split_to_eq_Some)
    moreover from this(1) have "sublist d data"
      using sublist_appendI [of d "[n]" rest] by simp
    ultimately show ?thesis
      by blast
  next
    case nul
    then obtain d y where "split_nul data = Some (d, y)" "c' = c\<lparr>auth_data := d\<rparr>" "r = Inr ()"
      using assms by (auto simp: read_auth_data_def bind_eq_Some_conv)
    moreover from this(1) have "sublist d data"
      using sublist_appendI [of d "[]" y] by (auto simp: split_nul_eq_Some)
    ultimately show ?thesis
      by blast
  qed
qed

lemma read_db_Some:
  assumes "read_db dbg c data = Some (c', rest, r)"
  shows "(r = Inr () \<longrightarrow> c' = c) \<and> (\<forall>e. r = Inl e \<longrightarrow> (\<exists>err. e = AuthFailed (make_err_packet err)))"
  using assms by (auto simp: read_db_def Let_def bind_eq_Some_conv make_schema_err_info_def split: if_splits)

lemma read_plugin_Some:
  "read_plugin c data = Some (c', rest) \<Longrightarrow> \<exists>p. c' = c\<lparr>auth_plugin_name := p\<rparr>"
  by (auto simp: read_plugin_def bind_eq_Some_conv split: if_splits)

text \<open>An accepted response starts with the configured user; what is left to do is either
  to switch the plugin or to compare the authentication data it carried.\<close>

lemma decode_handshake_response_Some:
  assumes "decode_handshake_response dbg c data = Some (c', rest, r)"
  shows "(r = Inr () \<longrightarrow> (\<exists>z. data = str_bytes (hs_user c) @ 0 # z) \<and>
      (\<exists>d s. c' = c\<lparr>auth_data := d, auth_plugin_name := AUTH_NATIVE_PASSWORD, next_handshake_status := s\<rparr> \<and>
        (sublist d data \<or> d = [0xfb]) \<and> s \<in> {WriteAutoSwitch, CompareAuthData})) \<and>
    (\<forall>e. r = Inl e \<longrightarrow> (\<exists>err. e = AuthFailed (make_err_packet err)))"
proof -
  obtain u b usr where u: "split_nul data = Some (u, b)" "from_utf8 u = Some usr"
    using assms by (auto simp: decode_handshake_response_def bind_eq_Some_conv)
  then obtain z where z: "data = str_bytes usr @ 0 # z" "b = 0 # z"
    by (auto simp: split_nul_eq_Some dest: from_utf8_Some)
  show ?thesis
  proof (cases "usr = hs_user c")
    case False
    then show ?thesis
      using assms u by (auto simp: decode_handshake_response_def Let_def make_auth_err_info_def)
  next
    case True
    obtain c1 d1 r1 where a: "read_auth_data c z = Some (c1, d1, r1)"
      using assms u z True by (auto simp: decode_handshake_response_def bind_eq_Some_conv)
    have sub: "sublist z data"
      unfolding z(1) using sublist_appendI [of z "str_bytes usr @ [0]" "[]"] by simp
    show ?thesis
    proof (cases r1)
      case (Inl e)
      then show ?thesis
        using assms u z True a read_auth_data_Some [OF a] by (auto simp: decode_handshake_response_def)
    next
      case (Inr un)
      then obtain d where d: "c1 = c\<lparr>auth_data := d\<rparr>" "sublist d data \<or> d = [0xfb]"
        using read_auth_data_Some [OF a] sub sublist_order.order_trans by auto
      obtain c2 d2 r2 where b: "read_db dbg c1 d1 = Some (c2, d2, r2)"
        using assms u z True a Inr by (auto simp: decode_handshake_response_def bind_eq_Some_conv)
      show ?thesis
      proof (cases r2)
        case (Inl e)
        then show ?thesis
          using assms u z True a Inr b read_db_Some [OF b] by (auto simp: decode_handshake_response_def)
      next
        case r2: (Inr un')
        then have c2: "c2 = c1"
          using read_db_Some [OF b] by simp
        obtain c3 d3 p where p: "read_plugin c2 d2 = Some (c3, d3)" "c3 = c2\<lparr>auth_plugin_name := p\<rparr>"
          using assms u z True a Inr b r2 read_plugin_Some [of c2 d2]
          by (auto simp: decode_handshake_response_def bind_eq_Some_conv)
        show ?thesis
        proof (cases "p = AUTH_NATIVE_PASSWORD")
          case native: True
          then have "c' = c3\<lparr>next_handshake_status := CompareAuthData\<rparr> \<and> r = Inr ()"
            using assms u z True a Inr b r2 p by (simp add: decode_handshake_response_def)
          then have "c' = c\<lparr>auth_data := d, auth_plugin_name := AUTH_NATIVE_PASSWORD,
              next_handshake_status := CompareAuthData\<rparr>" "r = Inr ()"
            using d c2 p native by simp_all
          then show ?thesis
            using True z d(2) by blast
        next
          case other: False
          then have "c' = c3\<lparr>auth_plugin_name := AUTH_NATIVE_PASSWORD,
              next_handshake_status := WriteAutoSwitch\<rparr> \<and> r = Inr ()"
            using assms u z True a Inr b r2 p by (simp add: decode_handshake_response_def)
          then have "c' = c\<lparr>auth_data := d, auth_plugin_name := AUTH_NATIVE_PASSWORD,
              next_handshake_status := WriteAutoSwitch\<rparr>" "r = Inr ()"
            using d c2 p by simp_all
          then show ?thesis
            using True z d(2) by blast
        qed
      qed
    qed
  qed
qed

text \<open>What one packet contributes to the handshake: the user it names, the scramble it
  carries.\<close>

definition names_user :: "string \<Rightarrow> bytes \<Rightarrow> bool" where
  "names_user usr src \<longleftrightarrow> take (length usr + 1) (drop 36 src) = str_bytes usr @ [0]"

definition scramble_of :: "(bytes \<Rightarrow> bytes) \<Rightarrow> ServerHandshakeCodec \<Rightarrow> bytes" where
  "scramble_of sha1 c = calc_password sha1 (salt c) (str_bytes (hs_password c))"

definition same_account :: "ServerHandshakeCodec \<Rightarrow> ServerHandshakeCodec \<Rightarrow> bool" where
  "same_account c c' \<longleftrightarrow> hs_user c' = hs_user c \<and> hs_password c' = hs_password c \<and> salt c' = salt c"

lemma same_account_refl [simp]: "same_account c c"
  by (simp add: same_account_def)

lemma same_account_trans: "same_account a b \<Longrightarrow> same_account b c \<Longrightarrow> same_account a c"
  by (simp add: same_account_def)

lemma scramble_of_same: "same_account c c' \<Longrightarrow> scramble_of sha1 c' = scramble_of sha1 c"
  by (simp add: same_account_def scramble_of_def)

lemma scramble_length:
  "\<forall>x. length (sha1 x) = 20 \<Longrightarrow> scramble_of sha1 c = [] \<or> length (scramble_of sha1 c) = 20"
  by (simp add: scramble_of_def calc_password_def Let_def)

lemma compare_auth_data_eq:
  "auth_plugin_name c = AUTH_NATIVE_PASSWORD \<Longrightarrow> compare_auth_data sha1 dbg c =
    (c\<lparr>next_handshake_status := Complete\<rparr>,
     if auth_data c = scramble_of sha1 c then Inr ()
     else Inl (AuthFailed (make_auth_err_info dbg (c\<lparr>next_handshake_status := Complete\<rparr>))))"
  by (simp add: compare_auth_data_def compare_eq scramble_of_def Let_def)

lemma err_infos:
  "\<exists>err. make_auth_err_info dbg c = make_err_packet err"
  "\<exists>err. make_auth_plugin_err_info dbg c = make_err_packet err"
  unfolding make_auth_err_info_def make_auth_plugin_err_info_def by blast+

lemma response_checked_Some:
  assumes "response_checked sha1 dbg c src = Some (c', rest, r)" and sha: "\<forall>x. length (sha1 x) = 20"
  shows "(\<exists>err. r = Inl (AuthFailed (make_err_packet err))) \<or>
    r = Inr (Some ()) \<and> same_account c c' \<and> (\<exists>z. src = str_bytes (hs_user c) @ 0 # z) \<and>
      (next_handshake_status c' = WriteAutoSwitch \<or>
       next_handshake_status c' = Complete \<and> sublist (scramble_of sha1 c) src)"
proof -
  obtain c1 s1 r1 where d: "decode_handshake_response dbg c src = Some (c1, s1, r1)"
    using assms by (auto simp: response_checked_def bind_eq_Some_conv)
  show ?thesis
  proof (cases r1)
    case (Inl e)
    then obtain err where "e = AuthFailed (make_err_packet err)"
      using decode_handshake_response_Some [OF d] by blast
    then show ?thesis
      using assms(1) d Inl by (auto simp: response_checked_def)
  next
    case (Inr un)
    then obtain ad st where c1: "c1 = c\<lparr>auth_data := ad, auth_plugin_name := AUTH_NATIVE_PASSWORD,
          next_handshake_status := st\<rparr>"
        and ad: "sublist ad src \<or> ad = [0xfb]" and st: "st \<in> {WriteAutoSwitch, CompareAuthData}"
        and z: "\<exists>z. src = str_bytes (hs_user c) @ 0 # z"
      using decode_handshake_response_Some [OF d] by auto
    have acc: "same_account c c1"
      by (simp add: c1 same_account_def)
    show ?thesis
    proof (cases "st = CompareAuthData")
      case False
      then have "c' = c1 \<and> r = Inr (Some ())" "st = WriteAutoSwitch"
        using assms(1) d Inr c1 st by (auto simp: response_checked_def)
      then show ?thesis
        using z acc c1 by simp
    next
      case True
      have ca: "compare_auth_data sha1 dbg c1 = (c1\<lparr>next_handshake_status := Complete\<rparr>,
         if ad = scramble_of sha1 c then Inr ()
         else Inl (AuthFailed (make_auth_err_info dbg (c1\<lparr>next_handshake_status := Complete\<rparr>))))"
        using compare_auth_data_eq [of c1] scramble_of_same [OF acc] c1 by simp
      show ?thesis
      proof (cases "ad = scramble_of sha1 c")
        case eq: True
        have "sublist (scramble_of sha1 c) src"
          using ad scramble_length [OF sha, of c] unfolding eq by auto
        moreover have "c' = c1\<lparr>next_handshake_status := Complete\<rparr>" "r = Inr (Some ())"
          using assms(1) d Inr ca True eq by (simp_all add: response_checked_def c1)
        ultimately show ?thesis
          using z acc by (simp add: same_account_def)
      next
        case neq: False
        then have "r = Inl (AuthFailed (make_auth_err_info dbg (c1\<lparr>next_handshake_status := Complete\<rparr>)))"
          using assms(1) d Inr ca True by (auto simp: response_checked_def c1)
        then show ?thesis
          using err_infos(1) by simp
      qed
    qed
  qed
qed

lemma names_user_drop: "drop 36 src = str_bytes usr @ 0 # z \<Longrightarrow> names_user usr src"
  by (simp add: names_user_def)

lemma handshake_encode_eq:
  "ServerHandshakeCodec_encode c item [] =
    (if length item < 4 then None
     else Some (c\<lparr>next_handshake_status := (if next_handshake_status c = WriteAutoSwitch
                    then ReadAutoSwitchResponse else next_handshake_status c),
                  hs_seq := hs_seq c + 1\<rparr>,
                le_bytes 3 (length item - 4) @ hs_seq c # drop 4 item))"
proof (cases "length item < 4")
  case False
  then have "write_at 0 (le_bytes 3 (length item - 4)) item = Some (le_bytes 3 (length item - 4) @ drop 3 item)"
    by (simp add: write_at_def)
  moreover have "write_at 3 [x] (le_bytes 3 (length item - 4) @ drop 3 item) =
      Some (le_bytes 3 (length item - 4) @ x # drop 4 item)" for x
    using False by (simp add: write_at_def)
  ultimately show ?thesis
    using False by (simp add: ServerHandshakeCodec_encode_def Let_def)
qed (simp add: ServerHandshakeCodec_encode_def)


subsection \<open>Soundness of the handshake\<close>

text \<open>The statuses in which the loop waits for a packet.\<close>

definition waiting :: "ServerHandshakeCodec \<Rightarrow> bool" where
  "waiting c \<longleftrightarrow> next_handshake_status c \<in> {ReadResponseFirst, ReadResponse, ReadAutoSwitchResponse}"

lemma decode_Some:
  assumes "ServerHandshakeCodec_decode sha1 dbg c src = Some (c', rest, r)"
    and sha: "\<forall>x. length (sha1 x) = 20" and "waiting c"
  shows "r = Inr None \<and> c' = c \<or> (\<exists>err. r = Inl (AuthFailed (make_err_packet err))) \<or>
    r = Inr (Some ()) \<and> same_account c c' \<and>
      (if next_handshake_status c = ReadAutoSwitchResponse
       then next_handshake_status c' = Complete \<and> sublist (scramble_of sha1 c) src
       else next_handshake_status c' = SwitchToTLS \<or>
         names_user (hs_user c) src \<and>
         (next_handshake_status c' = WriteAutoSwitch \<or>
          next_handshake_status c' = Complete \<and> sublist (scramble_of sha1 c) src))"
    (is "_ \<or> _ \<or> ?ok")
proof (cases "src = [] \<or> length src < 3 \<or> 4 + le_val (take 3 src) > length src")
  case True
  then show ?thesis
    using assms(1) by (auto simp: ServerHandshakeCodec_decode_def Let_def split: if_splits)
next
  case long: False
  define c0 where "c0 = c\<lparr>hs_seq := hs_seq c + 1\<rparr>"
  have acc0: "same_account c c0"
    by (simp add: c0_def same_account_def)
  have checked: "(\<exists>err. r = Inl (AuthFailed (make_err_packet err))) \<or> ?ok"
    if df: "decode_first c0 (drop 4 src) = Some (c1, s1, e)"
      and rc: "response_checked sha1 dbg c1 s1 = Some (c', rest, r)"
      and st: "next_handshake_status c \<noteq> ReadAutoSwitchResponse" for c1 s1 e
  proof -
    obtain cap where c1: "c1 = c0\<lparr>capability := cap\<rparr>" and s1: "s1 = drop 36 src"
      using decode_first_Some [OF df] by auto
    have acc: "same_account c c1" "hs_user c1 = hs_user c"
      using acc0 by (simp_all add: c1 same_account_def)
    have sub: "sublist (scramble_of sha1 c) src" if "sublist (scramble_of sha1 c1) s1"
      using that sublist_order.order_trans [of _ s1 src] scramble_of_same [OF acc(1)] by (simp add: s1)
    have user: "names_user (hs_user c) src" if "\<exists>z. s1 = str_bytes (hs_user c1) @ 0 # z"
      using that names_user_drop acc(2) by (auto simp: s1)
    from response_checked_Some [OF rc sha] show ?thesis
      using sub user st same_account_trans [OF acc(1), of c'] by (auto simp only: if_False)
  qed
  consider (first) "next_handshake_status c = ReadResponseFirst" | (later) "next_handshake_status c = ReadResponse"
    | (switch) "next_handshake_status c = ReadAutoSwitchResponse"
    using assms(3) by (auto simp: waiting_def)
  then show ?thesis
  proof cases
    case first
    then obtain c1 s1 e where d: "decode_first c0 (drop 4 src) = Some (c1, s1, e)"
        "if e then c' = c1\<lparr>next_handshake_status := SwitchToTLS\<rparr> \<and> r = Inr (Some ())
         else response_checked sha1 dbg c1 s1 = Some (c', rest, r)"
      using assms(1) long unfolding ServerHandshakeCodec_decode_def Let_def c0_def
      by (auto simp: bind_eq_Some_conv split: if_splits)
    obtain cap where c1: "c1 = c0\<lparr>capability := cap\<rparr>"
      using decode_first_Some [OF d(1)] by blast
    show ?thesis
    proof (cases e)
      case True
      then show ?thesis
        using d(2) first by (simp add: c1 c0_def same_account_def)
    next
      case False
      then show ?thesis
        using checked [OF d(1)] d(2) first by simp
    qed
  next
    case later
    then obtain c1 s1 e where "decode_first c0 (drop 4 src) = Some (c1, s1, e)"
        "response_checked sha1 dbg c1 s1 = Some (c', rest, r)"
      using assms(1) long unfolding ServerHandshakeCodec_decode_def Let_def c0_def
      by (auto simp: bind_eq_Some_conv)
    from checked [OF this] later show ?thesis
      by simp
  next
    case switch
    have "handle_auth_switch_response sha1 dbg c0 (drop 4 src) = (c', case r of Inl e \<Rightarrow> Inl e | Inr _ \<Rightarrow> Inr ())
        \<and> r \<noteq> Inr None"
      using assms(1) long switch unfolding ServerHandshakeCodec_decode_def Let_def c0_def
      by (auto split: prod.splits sum.splits)
    moreover have "drop 4 src = scramble_of sha1 c \<Longrightarrow> sublist (scramble_of sha1 c) src"
      by (metis sublist_drop)
    ultimately show ?thesis
      using switch err_infos scramble_of_same [OF acc0]
      unfolding handle_auth_switch_response_def Let_def compare_eq
      by (auto simp: c0_def same_account_def scramble_of_def split: if_splits sum.splits)
  qed
qed

lemma handshake_turn_Some:
  assumes "handshake_turn sha1 dbg c src = Some (c', out, dn)"
    and sha: "\<forall>x. length (sha1 x) = 20" and w: "waiting c"
  shows "dn = None \<and> waiting c' \<and> same_account c c' \<and>
      (next_handshake_status c' = ReadAutoSwitchResponse \<longrightarrow>
        next_handshake_status c = ReadAutoSwitchResponse \<or> names_user (hs_user c) src) \<or>
    dn = Some True \<and> sublist (scramble_of sha1 c) src \<and>
      (next_handshake_status c = ReadAutoSwitchResponse \<or> names_user (hs_user c) src) \<and>
      (\<exists>p. out = [p] \<and> p ! 4 = OK_HEADER) \<or>
    dn = Some False \<and> (\<exists>p. out = [p] \<and> p ! 4 = ERR_HEADER)"
proof -
  obtain c1 rest r where d: "ServerHandshakeCodec_decode sha1 dbg c src = Some (c1, rest, r)"
    using assms(1) by (auto simp: handshake_turn_def bind_eq_Some_conv)
  from decode_Some [OF d sha w]
  consider (wait) "r = Inr None" "c1 = c"
    | (err) err where "r = Inl (AuthFailed (make_err_packet err))"
    | (ok) "r = Inr (Some ())" "same_account c c1"
      "if next_handshake_status c = ReadAutoSwitchResponse
       then next_handshake_status c1 = Complete \<and> sublist (scramble_of sha1 c) src
       else next_handshake_status c1 = SwitchToTLS \<or>
         names_user (hs_user c) src \<and>
         (next_handshake_status c1 = WriteAutoSwitch \<or>
          next_handshake_status c1 = Complete \<and> sublist (scramble_of sha1 c) src)"
    by blast
  then show ?thesis
  proof cases
    case wait
    then show ?thesis
      using assms(1) d w by (auto simp: handshake_turn_def)
  next
    case err
    then show ?thesis
      using assms(1) d
      by (auto simp: handshake_turn_def handshake_encode_eq make_err_packet_def ERR_HEADER_def
          nth_append)
  next
    case ok
    then have t: "after_decode c1 = Some (c', out, dn)"
      using assms(1) d by (simp add: handshake_turn_def)
    from ok(3) consider (complete) "next_handshake_status c1 = Complete" "sublist (scramble_of sha1 c) src"
        "next_handshake_status c = ReadAutoSwitchResponse \<or> names_user (hs_user c) src"
      | (tls) "next_handshake_status c1 = SwitchToTLS"
      | (switch) "next_handshake_status c1 = WriteAutoSwitch" "names_user (hs_user c) src"
      by (auto split: if_splits)
    then show ?thesis
    proof cases
      case complete
      then show ?thesis
        using t by (auto simp: after_decode_def handshake_encode_eq ok_packet_def OK_HEADER_def nth_append)
    next
      case tls
      then show ?thesis
        using t ok(2) by (auto simp: after_decode_def waiting_def same_account_def)
    next
      case switch
      then show ?thesis
        using t ok(2) by (auto simp: after_decode_def handshake_encode_eq waiting_def same_account_def
            split: if_splits)
    qed
  qed
qed

lemma handshake_turn_None:
  assumes "handshake_turn sha1 dbg c src = Some (c', out, None)"
    and "\<forall>x. length (sha1 x) = 20" and "waiting c"
  shows "waiting c' \<and> same_account c c' \<and>
      (next_handshake_status c' = ReadAutoSwitchResponse \<longrightarrow>
        next_handshake_status c = ReadAutoSwitchResponse \<or> names_user (hs_user c) src)"
  using handshake_turn_Some [OF assms] by (simp only: option.distinct simp_thms) blast

lemma handshake_loop_sound:
  assumes "handshake_loop sha1 dbg c srcs sent = Some (c', sent', Some ok)"
    and sha: "\<forall>x. length (sha1 x) = 20" and "waiting c"
  shows "if ok then last sent' ! 4 = OK_HEADER \<and>
      (\<exists>j < length srcs. sublist (scramble_of sha1 c) (srcs ! j) \<and>
        (next_handshake_status c = ReadAutoSwitchResponse \<or> (\<exists>i \<le> j. names_user (hs_user c) (srcs ! i))))
    else last sent' ! 4 = ERR_HEADER"
  using assms(1, 3)
proof (induction srcs arbitrary: c sent)
  case (Cons src srcs)
  obtain c1 out dn where t: "handshake_turn sha1 dbg c src = Some (c1, out, dn)"
    using Cons.prems(1) by (auto simp: bind_eq_Some_conv)
  show ?case
  proof (cases dn)
    case (Some b)
    then have "sent' = sent @ out" "b = ok"
      using Cons.prems(1) t by simp_all
    then show ?thesis
      using handshake_turn_Some [OF t sha Cons.prems(2)] Some by (cases ok) force+
  next
    case None
    then have next_turn: "handshake_loop sha1 dbg c1 srcs (sent @ out) = Some (c', sent', Some ok)"
      using Cons.prems(1) t by simp
    have c1: "waiting c1" "same_account c c1"
        "next_handshake_status c1 = ReadAutoSwitchResponse \<Longrightarrow>
          next_handshake_status c = ReadAutoSwitchResponse \<or> names_user (hs_user c) src"
      using handshake_turn_None [OF t [unfolded None] sha Cons.prems(2)] by blast+
    have same: "scramble_of sha1 c1 = scramble_of sha1 c" "hs_user c1 = hs_user c"
      using c1(2) scramble_of_same [OF c1(2)] by (simp_all add: same_account_def)
    note ih = Cons.IH [OF next_turn c1(1), unfolded same]
    show ?thesis
    proof (cases ok)
      case True
      then obtain j where j: "j < length srcs" "sublist (scramble_of sha1 c) (srcs ! j)"
          "next_handshake_status c1 = ReadAutoSwitchResponse \<or> (\<exists>i \<le> j. names_user (hs_user c) (srcs ! i))"
        using ih by auto
      have "next_handshake_status c = ReadAutoSwitchResponse \<or>
          (\<exists>i \<le> Suc j. names_user (hs_user c) ((src # srcs) ! i))"
        using j(3) c1(3) by (metis Suc_le_mono le0 nth_Cons_0 nth_Cons_Suc)
      then show ?thesis
        using True ih j(1, 2) by (metis (full_types) Suc_less_eq length_Cons nth_Cons_Suc)
    qed (use ih in simp)
  qed
qed simp

lemma DEFAULT_CHARSET_NAME_known: "\<exists>i. COLLATION_NAME_ID_MYSQL5 DEFAULT_CHARSET_NAME = Some i"
proof -
  have "(DEFAULT_CHARSET_NAME, 45) \<in> set (COLLATION_NAME_ID_MYSQL5_part1 @ COLLATION_NAME_ID_MYSQL5_part2)"
    unfolding COLLATION_NAME_ID_MYSQL5_part1_def COLLATION_NAME_ID_MYSQL5_part2_def DEFAULT_CHARSET_NAME_def
    by simp
  then show ?thesis
    unfolding COLLATION_NAME_ID_MYSQL5_def by (rule hashmap_from_known)
qed


subsection \<open>Completeness of the handshake\<close>

text \<open>The response a client of protocol 4.1 sends: the capabilities, 28 bytes the proxy
  skips, the user, the authentication data in the form the capabilities announce, the
  database and the plugin.\<close>

definition nul_str :: "string \<Rightarrow> bool" where
  "nul_str s \<longleftrightarrow> utf8_ok (str_bytes s) \<and> 0 \<notin> set (str_bytes s)"

definition auth_field :: "u32 \<Rightarrow> bytes \<Rightarrow> bytes" where
  "auth_field cap auth =
     (if cap AND CLIENT_PLUGIN_AUTH_LENENC_CLIENT_DATA > 0 then put_lenc_str [] auth
      else if cap AND CLIENT_SECURE_CONNECTION > 0 then of_nat (length auth) # auth
      else auth @ [0])"

definition auth_ok :: "u32 \<Rightarrow> bytes \<Rightarrow> bool" where
  "auth_ok cap auth =
     (if cap AND CLIENT_PLUGIN_AUTH_LENENC_CLIENT_DATA > 0 then auth \<noteq> [] \<and> length auth < 2 ^ 64
      else if cap AND CLIENT_SECURE_CONNECTION > 0 then length auth < 256
      else 0 \<notin> set auth)"

definition client_payload ::
    "u32 \<Rightarrow> bytes \<Rightarrow> string \<Rightarrow> bytes \<Rightarrow> string \<Rightarrow> string \<Rightarrow> bytes" where
  "client_payload cap fixed usr auth database plugin =
     le_bytes 4 (unat cap) @ fixed @ str_bytes usr @ 0 # auth_field cap auth
       @ (if cap AND CLIENT_CONNECT_WITH_DB > 0 then str_bytes database @ [0] else [])
       @ (if cap AND CLIENT_PLUGIN_AUTH > 0 then str_bytes plugin @ [0] else [])"

lemma from_utf8_str_bytes: "nul_str s \<Longrightarrow> from_utf8 (str_bytes s) = Some s"
  by (simp add: from_utf8_def nul_str_def)

lemma split_nul_str: "nul_str s \<Longrightarrow> split_nul (str_bytes s @ 0 # z) = Some (str_bytes s, 0 # z)"
  by (simp add: nul_str_def split_nul_append)

lemma decode_first_eval:
  assumes "length fixed = 28"
  shows "decode_first c (le_bytes 4 (unat cap) @ fixed @ rest) =
    Some (c\<lparr>capability := cap\<rparr>, rest, rest = [])"
proof -
  have cap: "of_nat (unat cap mod 4294967296) = cap"
    using unsigned_less [of cap, where ?'a = nat] by simp
  have "get_u32_le (fixed @ rest) = Some (of_nat (le_val (take 4 fixed)), drop 4 fixed @ rest)"
    using assms by (simp add: get_u32_le_def)
  moreover obtain b more' where "drop 4 fixed = b # more'" "length more' = 23"
    using assms by (cases "drop 4 fixed") (auto dest: arg_cong [of _ _ length])
  ultimately show ?thesis
    by (simp add: decode_first_def get_u32_le_append cap split_to_append)
qed

lemma length_encoded_string_eval:
  assumes "s \<noteq> []" "length s < 2 ^ 64"
  shows "length_encoded_string (put_lenc_str [] s @ rest) = Some ((s, False), rest)"
proof -
  obtain k where "get_lenc_int (put_lenc_int [] (of_nat (length s)) False @ s @ rest) =
      Some ((of_nat (length s), False, k), s @ rest)"
    using get_lenc_int_put_len(1) [OF assms] by blast
  moreover have "\<not> (of_nat (length s) :: u64) < 1"
    using get_lenc_int_put_len(3) [OF assms] by (simp only: not_less)
  ultimately show ?thesis
    using assms get_lenc_int_put_len(2) [OF assms]
    by (simp add: length_encoded_string_def put_lenc_str_def split_to_append)
qed

lemma read_auth_data_eval:
  assumes "auth_ok (capability c) auth"
  shows "read_auth_data c (auth_field (capability c) auth @ rest) = Some (c\<lparr>auth_data := auth\<rparr>, rest, Inr ())"
proof -
  consider (lenc) "has_cap c CLIENT_PLUGIN_AUTH_LENENC_CLIENT_DATA"
    | (secure) "\<not> has_cap c CLIENT_PLUGIN_AUTH_LENENC_CLIENT_DATA" "has_cap c CLIENT_SECURE_CONNECTION"
    | (nul) "\<not> has_cap c CLIENT_PLUGIN_AUTH_LENENC_CLIENT_DATA" "\<not> has_cap c CLIENT_SECURE_CONNECTION"
    by blast
  then show ?thesis
  proof cases
    case lenc
    then show ?thesis
      using assms by (simp add: read_auth_data_def auth_field_def auth_ok_def has_cap_def length_encoded_string_eval)
  next
    case secure
    then have "unat (of_nat (length auth) :: u8) = length auth"
      using assms by (simp add: auth_ok_def has_cap_def unat_of_nat)
    then show ?thesis
      using secure by (simp add: read_auth_data_def auth_field_def has_cap_def split_to_append)
  next
    case nul
    then show ?thesis
      using assms by (simp add: read_auth_data_def auth_field_def auth_ok_def has_cap_def split_nul_append)
  qed
qed

lemma decode_response_eval:
  assumes "nul_str (hs_user c)" "nul_str (hs_db c)" "nul_str plugin" "auth_ok (capability c) auth"
    and fixed: "length fixed = 28" and cap: "capability c AND CLIENT_PLUGIN_AUTH > 0"
  shows "decode_handshake_response dbg c (drop 32 (client_payload (capability c) fixed
        (hs_user c) auth (hs_db c) plugin)) =
    Some (c\<lparr>auth_data := auth, auth_plugin_name := AUTH_NATIVE_PASSWORD,
            next_handshake_status := (if plugin = AUTH_NATIVE_PASSWORD then CompareAuthData
              else WriteAutoSwitch)\<rparr>, [], Inr ())"
proof -
  define tl where "tl = (if capability c AND CLIENT_CONNECT_WITH_DB > 0 then str_bytes (hs_db c) @ [0] else [])
       @ str_bytes plugin @ [0]"
  have data: "drop 32 (client_payload (capability c) fixed (hs_user c) auth (hs_db c) plugin) =
      str_bytes (hs_user c) @ 0 # auth_field (capability c) auth @ tl"
    using cap fixed by (simp add: client_payload_def tl_def)
  note a = read_auth_data_eval [OF assms(4), of tl]
  have b: "read_db dbg (c\<lparr>auth_data := auth\<rparr>) tl = Some (c\<lparr>auth_data := auth\<rparr>, str_bytes plugin @ [0], Inr ())"
    using assms by (simp add: read_db_def has_cap_def tl_def split_nul_str from_utf8_str_bytes)
  have p: "read_plugin (c\<lparr>auth_data := auth\<rparr>) (str_bytes plugin @ [0]) =
      Some (c\<lparr>auth_data := auth, auth_plugin_name := plugin\<rparr>, [])"
    using assms by (simp add: read_plugin_def has_cap_def split_nul_str from_utf8_str_bytes)
  show ?thesis
    using assms(1) unfolding data
    by (simp add: decode_handshake_response_def split_nul_str from_utf8_str_bytes a b p)
qed

lemma encode_frame:
  "length item \<ge> 4 \<Longrightarrow> ServerHandshakeCodec_encode c item [] =
    Some (c\<lparr>next_handshake_status := (if next_handshake_status c = WriteAutoSwitch
                    then ReadAutoSwitchResponse else next_handshake_status c),
            hs_seq := hs_seq c + 1\<rparr>, frame (hs_seq c) (drop 4 item))"
  by (simp add: handshake_encode_eq frame_def)

text \<open>The first response of a well-formed client, decoded: the plugin decides whether the
  data it carried is compared or a switch is requested.\<close>

lemma first_response_eval:
  assumes "next_handshake_status c = ReadResponseFirst"
    and wf: "nul_str (hs_user c)" "nul_str (hs_db c)" "nul_str plugin" "auth_ok cap auth"
    and fixed: "length fixed = 28" and cap: "cap AND CLIENT_PLUGIN_AUTH > 0"
    and len: "length (client_payload cap fixed (hs_user c) auth (hs_db c) plugin) < 2 ^ 24"
    and native: "plugin = AUTH_NATIVE_PASSWORD \<Longrightarrow> auth = scramble_of sha1 c"
  shows "ServerHandshakeCodec_decode sha1 dbg c (frame s (client_payload cap fixed (hs_user c) auth (hs_db c) plugin)) =
    Some (c\<lparr>hs_seq := hs_seq c + 1, capability := cap, auth_data := auth,
            auth_plugin_name := AUTH_NATIVE_PASSWORD,
            next_handshake_status := (if plugin = AUTH_NATIVE_PASSWORD then Complete else WriteAutoSwitch)\<rparr>,
          [], Inr (Some ()))"
proof -
  let ?p = "client_payload cap fixed (hs_user c) auth (hs_db c) plugin"
  define c1 where "c1 = c\<lparr>hs_seq := hs_seq c + 1, capability := cap\<rparr>"
  define c2 where "c2 = c1\<lparr>auth_data := auth, auth_plugin_name := AUTH_NATIVE_PASSWORD,
      next_handshake_status := (if plugin = AUTH_NATIVE_PASSWORD then CompareAuthData else WriteAutoSwitch)\<rparr>"
  have p: "?p = le_bytes 4 (unat cap) @ fixed @ drop 32 ?p" "drop 32 ?p \<noteq> []"
    using fixed by (simp_all add: client_payload_def)
  have first: "decode_first (c\<lparr>hs_seq := hs_seq c + 1\<rparr>) ?p = Some (c1, drop 32 ?p, False)"
    using decode_first_eval [OF fixed, of "c\<lparr>hs_seq := hs_seq c + 1\<rparr>" cap "drop 32 ?p"] p
    by (simp add: c1_def)
  have "decode_handshake_response dbg c1 (drop 32 ?p) = Some (c2, [], Inr ())"
    using decode_response_eval [of c1 plugin auth fixed dbg] wf fixed cap by (simp add: c1_def c2_def)
  moreover have "compare_auth_data sha1 dbg c2 = (c2\<lparr>next_handshake_status := Complete\<rparr>, Inr ())"
    if "plugin = AUTH_NATIVE_PASSWORD"
    using native [OF that] compare_auth_data_eq [of c2 sha1 dbg]
    by (simp add: c2_def c1_def scramble_of_def)
  ultimately have "response_checked sha1 dbg c1 (drop 32 ?p) =
      Some (if plugin = AUTH_NATIVE_PASSWORD then c2\<lparr>next_handshake_status := Complete\<rparr> else c2, [], Inr (Some ()))"
    by (auto simp: response_checked_def c2_def)
  then show ?thesis
    using assms(1) first frame_decode [OF len, of s]
    unfolding ServerHandshakeCodec_decode_def Let_def c2_def c1_def by simp
qed

lemma greeting_eval:
  assumes "length draws = 20"
  shows "\<exists>g. encode_initial_handshake (fst (ServerHandshakeCodec_new cid draws usr pw database version)) =
      Some g \<and> length g \<ge> 4"
proof -
  obtain i where "COLLATION_NAME_ID_MYSQL5 DEFAULT_CHARSET_NAME = Some i"
    using DEFAULT_CHARSET_NAME_known by blast
  moreover have "split_to 8 (random_buf draws) = Some (take 8 (random_buf draws), drop 8 (random_buf draws))"
    using assms(1) by (simp add: split_to_def random_buf_def)
  ultimately show ?thesis
    by (simp add: ServerHandshakeCodec_new_def encode_initial_handshake_def)
qed

lemma switch_response_eval:
  assumes "next_handshake_status c = ReadAutoSwitchResponse" "auth_plugin_name c = AUTH_NATIVE_PASSWORD"
    and "length (scramble_of sha1 c) < 2 ^ 24"
  shows "ServerHandshakeCodec_decode sha1 dbg c (frame s (scramble_of sha1 c)) =
    Some (c\<lparr>hs_seq := hs_seq c + 1, next_handshake_status := Complete\<rparr>, scramble_of sha1 c, Inr (Some ()))"
  using assms frame_decode [OF assms(3), of s]
  unfolding ServerHandshakeCodec_decode_def handle_auth_switch_response_def Let_def compare_eq
  by (simp add: scramble_of_def)

lemma handshake_accepts:
  assumes sha: "\<forall>x. length (sha1 x) = 20" and pw: "pw \<noteq> []" and draws: "length draws = 20"
    and wf: "nul_str usr" "nul_str database" "nul_str plugin" "auth_ok cap auth" "length fixed = 28"
    and cap: "cap AND CLIENT_PLUGIN_AUTH > 0"
    and len: "length (client_payload cap fixed usr auth database plugin) < 2 ^ 24"
    and native: "plugin = AUTH_NATIVE_PASSWORD \<Longrightarrow> auth = calc_password sha1 (random_buf draws) (str_bytes pw)"
  shows "\<exists>c' sent. handshake sha1 dbg (fst (ServerHandshakeCodec_new cid draws usr pw database version))
        (frame 1 (client_payload cap fixed usr auth database plugin) #
          (if plugin = AUTH_NATIVE_PASSWORD then []
           else [frame 3 (calc_password sha1 (random_buf draws) (str_bytes pw))])) =
      Some (c', sent, Some True) \<and>
    last sent = frame (if plugin = AUTH_NATIVE_PASSWORD then 2 else 4) (drop 4 ok_packet)"
proof -
  define c where "c = fst (ServerHandshakeCodec_new cid draws usr pw database version)"
  define c1 where "c1 = c\<lparr>next_handshake_status := ReadResponseFirst, hs_seq := 1\<rparr>"
  define c2 where "c2 = c1\<lparr>hs_seq := 2, capability := cap, auth_data := auth,
            auth_plugin_name := AUTH_NATIVE_PASSWORD,
            next_handshake_status := (if plugin = AUTH_NATIVE_PASSWORD then Complete else WriteAutoSwitch)\<rparr>"
  have c: "hs_seq c = 0" "next_handshake_status c = ReadResponseFirst" "hs_user c = usr" "hs_db c = database"
      "scramble_of sha1 c = calc_password sha1 (random_buf draws) (str_bytes pw)"
    by (simp_all add: c_def ServerHandshakeCodec_new_def scramble_of_def)
  obtain g where g: "encode_initial_handshake c = Some g" "length g \<ge> 4"
    unfolding c_def using greeting_eval [OF draws] by blast
  have scr: "scramble_of sha1 c1 = scramble_of sha1 c" "scramble_of sha1 c2 = scramble_of sha1 c"
    by (simp_all add: c2_def c1_def scramble_of_def)
  have d1: "ServerHandshakeCodec_decode sha1 dbg c1
      (frame 1 (client_payload cap fixed usr auth database plugin)) = Some (c2, [], Inr (Some ()))"
    using first_response_eval [of c1 plugin cap auth fixed sha1 dbg 1] wf cap len native c scr
    by (simp add: c1_def c2_def)
  have start: "handshake sha1 dbg c srcs = handshake_loop sha1 dbg c1 srcs [frame 0 (drop 4 g)]" for srcs
    using g c by (simp add: handshake_def encode_frame c1_def)
  have ok: "length ok_packet \<ge> 4" "length (generate_auth_switch_request c2) \<ge> 4"
    by (simp_all add: ok_packet_def generate_auth_switch_request_def)
  show ?thesis
  proof (cases "plugin = AUTH_NATIVE_PASSWORD")
    case True
    then have "next_handshake_status c2 = Complete" "hs_seq c2 = 2"
      by (simp_all add: c2_def)
    then show ?thesis
      using d1 start True ok unfolding c_def [symmetric]
      by (simp add: handshake_turn_def after_decode_def encode_frame)
  next
    case False
    define c3 where "c3 = c2\<lparr>next_handshake_status := ReadAutoSwitchResponse, hs_seq := 3\<rparr>"
    have c2: "next_handshake_status c2 = WriteAutoSwitch" "hs_seq c2 = 2" "auth_plugin_name c2 = AUTH_NATIVE_PASSWORD"
      using False by (simp_all add: c2_def)
    then have t1: "handshake_turn sha1 dbg c1 (frame 1 (client_payload cap fixed usr auth database plugin)) =
        Some (c3, [frame 2 (drop 4 (generate_auth_switch_request c2))], None)"
      using d1 ok by (simp add: handshake_turn_def after_decode_def encode_frame c3_def)
    have s3: "scramble_of sha1 c3 = scramble_of sha1 c"
      using scr by (simp add: c3_def scramble_of_def)
    have "length (scramble_of sha1 c3) < 2 ^ 24"
      using scramble_length [OF sha, of c3] by auto
    then have "ServerHandshakeCodec_decode sha1 dbg c3 (frame 3 (scramble_of sha1 c)) =
        Some (c3\<lparr>hs_seq := 4, next_handshake_status := Complete\<rparr>, scramble_of sha1 c, Inr (Some ()))"
      using switch_response_eval [of c3 sha1 dbg 3] c2 s3 by (simp add: c3_def)
    then show ?thesis
      using t1 start False ok c(5) unfolding c_def [symmetric]
      by (simp add: handshake_turn_def after_decode_def encode_frame)
  qed
qed

text \<open>A digest of twenty bytes and a client of the example account.\<close>

definition example_sha1 :: "bytes \<Rightarrow> bytes" where
  "example_sha1 x = replicate 20 (of_nat (length x))"

definition example_packets :: "bytes list" where
  "example_packets =
     [frame 1 (client_payload 0x280000 (replicate 28 0) ''pisa'' [1, 2, 3] ''db'' ''sha256_password''),
      frame 3 (calc_password example_sha1 (random_buf (replicate 20 7)) (str_bytes ''root''))]"

lemma example_length: "\<forall>x. length (example_sha1 x) = 20"
  by (simp add: example_sha1_def)

lemma example_plugin: "''sha256_password'' \<noteq> AUTH_NATIVE_PASSWORD"
  by (simp add: AUTH_NATIVE_PASSWORD_def)

lemma example_client:
  "nul_str ''pisa''" "nul_str ''db''" "nul_str ''sha256_password''"
  "auth_ok 0x280000 [1, 2, 3]" "(0x280000 :: u32) AND CLIENT_PLUGIN_AUTH > 0"
  "length (client_payload 0x280000 (replicate 28 0) ''pisa'' [1, 2, 3] ''db'' ''sha256_password'') < 2 ^ 24"
  by (simp_all add: nul_str_def str_bytes_def capability_defs client_payload_def put_lenc_str_def put_lenc_int_def
      auth_ok_def auth_field_def)

lemma example_accepted:
  "\<exists>c' sent. handshake example_sha1 id
      (fst (ServerHandshakeCodec_new 0 (replicate 20 7) ''pisa'' ''root'' ''db'' ''5.7.37'')) example_packets =
    Some (c', sent, Some True)"
  using handshake_accepts [OF example_length _ _ example_client(1-4) _ example_client(5-6), where pw = "''root''"
      and draws = "replicate 20 7" and dbg = id and cid = 0 and version = "''5.7.37''"] example_plugin
  by (auto simp: example_packets_def)


subsection \<open>Properties\<close>

text \<open>C2.  Only a client that names the configured user and presents the scramble of the
  configured password over this connection's challenge is accepted: when the handshake
  ends with success, some packet carries the user at its place and that or a later packet
  contains the scramble, and the last packet sent is an OK; when it ends with a refusal,
  the last packet sent is an ERR.\<close>

theorem handshake_sound:
  assumes "\<forall>x. length (sha1 x) = 20"
    and "handshake sha1 dbg (fst (ServerHandshakeCodec_new cid draws usr pw database version)) srcs =
      Some (c', sent, Some ok)"
  shows "if ok then last sent ! 4 = OK_HEADER \<and>
      (\<exists>j < length srcs. sublist (calc_password sha1 (random_buf draws) (str_bytes pw)) (srcs ! j) \<and>
        (\<exists>i \<le> j. names_user usr (srcs ! i)))
    else last sent ! 4 = ERR_HEADER"
proof -
  define c where "c = fst (ServerHandshakeCodec_new cid draws usr pw database version)"
  obtain g where g: "encode_initial_handshake c = Some g"
    using assms(2) unfolding c_def handshake_def by (auto simp: bind_eq_Some_conv)
  define c1 where "c1 = c\<lparr>next_handshake_status := ReadResponseFirst, hs_seq := 1\<rparr>"
  have "handshake_loop sha1 dbg c1 srcs [frame 0 (drop 4 g)] = Some (c', sent, Some ok)"
    using assms(2) g unfolding c_def [symmetric]
    by (auto simp: handshake_def bind_eq_Some_conv handshake_encode_eq c1_def frame_def
        c_def ServerHandshakeCodec_new_def split: if_splits)
  moreover have "waiting c1" "next_handshake_status c1 = ReadResponseFirst" "hs_user c1 = usr"
      "scramble_of sha1 c1 = calc_password sha1 (random_buf draws) (str_bytes pw)"
    by (simp_all add: c1_def c_def ServerHandshakeCodec_new_def waiting_def scramble_of_def)
  ultimately show ?thesis
    using handshake_loop_sound [of sha1 dbg c1 srcs "[frame 0 (drop 4 g)]" c' sent ok] assms(1)
    by (cases ok) simp_all
qed

theorem handshake_sound_witness:
  "\<exists>c' sent. handshake example_sha1 id
      (fst (ServerHandshakeCodec_new 0 (replicate 20 7) ''pisa'' ''root'' ''db'' ''5.7.37'')) example_packets =
    Some (c', sent, Some True) \<and> last sent ! 4 = OK_HEADER \<and>
    (\<exists>i < length example_packets. names_user ''pisa'' (example_packets ! i))"
proof -
  obtain c' sent where h: "handshake example_sha1 id
      (fst (ServerHandshakeCodec_new 0 (replicate 20 7) ''pisa'' ''root'' ''db'' ''5.7.37'')) example_packets =
    Some (c', sent, Some True)"
    using example_accepted by blast
  from handshake_sound [OF example_length h] h show ?thesis
    by (metis le_less_trans)
qed

text \<open>C20.  A client that follows the protocol is accepted: with the configured user and
  database, authentication data in the form its capabilities announce (length-encoded, with
  a length byte or NUL-terminated) and a non-empty password, the handshake succeeds
  and ends with the OK packet carrying the next sequence number - after one response when
  the client uses the native plugin, after the switch to it otherwise.\<close>

theorem handshake_complete:
  assumes "\<forall>x. length (sha1 x) = 20" and "pw \<noteq> []" and "length draws = 20"
    and "nul_str usr" "nul_str database" "nul_str plugin" "auth_ok cap auth" "length fixed = 28"
    and "cap AND CLIENT_PLUGIN_AUTH > 0"
    and "length (client_payload cap fixed usr auth database plugin) < 2 ^ 24"
    and "plugin = AUTH_NATIVE_PASSWORD \<longrightarrow> auth = calc_password sha1 (random_buf draws) (str_bytes pw)"
  shows "\<exists>c' sent. handshake sha1 dbg (fst (ServerHandshakeCodec_new cid draws usr pw database version))
        (frame 1 (client_payload cap fixed usr auth database plugin) #
          (if plugin = AUTH_NATIVE_PASSWORD then []
           else [frame 3 (calc_password sha1 (random_buf draws) (str_bytes pw))])) =
      Some (c', sent, Some True) \<and>
    last sent = frame (if plugin = AUTH_NATIVE_PASSWORD then 2 else 4) (drop 4 ok_packet)"
  using handshake_accepts [OF assms(1-10)] assms(11) by simp

theorem handshake_complete_witness:
  "\<exists>c' sent. handshake example_sha1 id
      (fst (ServerHandshakeCodec_new 0 (replicate 20 7) ''pisa'' ''root'' ''db'' ''5.7.37'')) example_packets =
    Some (c', sent, Some True) \<and> last sent = frame 4 (drop 4 ok_packet)"
  using handshake_complete [OF example_length _ _ example_client(1-4) _ example_client(5-6), where pw = "''root''"
      and draws = "replicate 20 7" and dbg = id and cid = 0 and version = "''5.7.37''"] example_plugin
  by (auto simp: example_packets_def)

text \<open>An account with an empty password cannot log in: the empty length-encoded
  authentication data such a client sends is read as the one byte \<open>0xfb\<close>, which never
  equals the empty scramble.\<close>

lemma empty_password_refused:
  assumes "has_cap c CLIENT_PLUGIN_AUTH_LENENC_CLIENT_DATA" "hs_password c = []"
  shows "\<exists>c' e. read_auth_data c (0 # rest) = Some (c', rest, Inr ()) \<and>
    snd (compare_auth_data sha1 dbg c') = Inl (AuthFailed e)"
  using assms
  by (simp add: read_auth_data_def length_encoded_string_def get_lenc_int_def compare_auth_data_def
      compare_eq calc_password_def str_bytes_def Let_def)

lemma empty_password_refused_witness:
  "\<exists>c' e. read_auth_data (fst (ServerHandshakeCodec_new 0 [] ''u'' [] [] []) \<lparr>capability := 0x200000\<rparr>) [0] =
      Some (c', [], Inr ()) \<and> snd (compare_auth_data example_sha1 id c') = Inl (AuthFailed e)"
  by (rule empty_password_refused)
    (simp_all add: has_cap_def ServerHandshakeCodec_new_def capability_defs)

end
