(* ===== verification/Framed.thy ===== *)
theory Framed
  imports Wire Constants Strings
begin

section \<open>Framed streams to the backend\<close>

text \<open>
  What the client side of the proxy uses of the framing library: a codec, the bytes read
  and not yet decoded, and the socket.  The backend is the parameter \<open>exchange\<close>: writing
  bytes to a socket makes it answer with chunks, which arrive in order in \<open>inbox\<close>; \<open>closed\<close>
  says that nothing follows them.  Polling decodes the buffer and reads the next chunk
  while the decoder asks for more, as the library documents.  The file
  \<open>protocol/mysql/src/client/stream.rs\<close> (plain or TLS socket) is the fields \<open>sock\<close>,
  \<open>inbox\<close> and \<open>closed\<close>.
\<close>

record 'c Framed =
  codec :: 'c
  rbuf :: bytes
  sock :: nat
  inbox :: "bytes list"
  closed :: bool

datatype 'i poll = Ready "'i option" | Pending

type_synonym ('c, 'i) decoder = "'c \<Rightarrow> bytes \<Rightarrow> ('c \<times> bytes \<times> (ProtocolError + 'i option)) option"

type_synonym 'w exchange = "nat \<Rightarrow> bytes \<Rightarrow> 'w \<Rightarrow> (string + bytes list \<times> bool) \<times> 'w"

fun poll_loop ::
    "('c, 'i) decoder \<Rightarrow> 'c \<Rightarrow> bytes \<Rightarrow> bytes list \<Rightarrow> bool \<Rightarrow>
     ('c \<times> bytes \<times> bytes list \<times> (ProtocolError + 'i) poll) option" where
  "poll_loop dec c rb [] eof =
     do { (c, rb, r) \<leftarrow> dec c rb;
          (case r of
             Inl e \<Rightarrow> Some (c, rb, [], Ready (Some (Inl e)))
           | Inr (Some x) \<Rightarrow> Some (c, rb, [], Ready (Some (Inr x)))
           | Inr None \<Rightarrow>
               if \<not> eof then Some (c, rb, [], Pending)
               else if rb = [] then Some (c, rb, [], Ready None)
               else Some (c, rb, [], Ready (Some (Inl (Io ''bytes remaining on stream''))))) }"
| "poll_loop dec c rb (chunk # chunks) eof =
     do { (c, rb, r) \<leftarrow> dec c rb;
          (case r of
             Inl e \<Rightarrow> Some (c, rb, chunk # chunks, Ready (Some (Inl e)))
           | Inr (Some x) \<Rightarrow> Some (c, rb, chunk # chunks, Ready (Some (Inr x)))
           | Inr None \<Rightarrow> poll_loop dec c (rb @ chunk) chunks eof) }"

definition framed_poll ::
    "('c, 'i) decoder \<Rightarrow> 'c Framed \<Rightarrow> ('c Framed \<times> (ProtocolError + 'i) poll) option" where
  "framed_poll dec f =
     do { (c, rb, chunks, r) \<leftarrow> poll_loop dec (codec f) (rbuf f) (inbox f) (closed f);
          Some (f\<lparr>codec := c, rbuf := rb, inbox := chunks\<rparr>, r) }"

text \<open>\<open>framed.next().await\<close>: pending with nothing left to arrive is waiting for ever, which is
  no result.\<close>

definition framed_next ::
    "('c, 'i) decoder \<Rightarrow> 'c Framed \<Rightarrow> ('c Framed \<times> (ProtocolError + 'i) option) option" where
  "framed_next dec f =
     do { (f, r) \<leftarrow> framed_poll dec f;
          (case r of Ready x \<Rightarrow> Some (f, x) | Pending \<Rightarrow> None) }"

text \<open>\<open>framed.send(item).await?\<close> after the encoder has produced \<open>out\<close>.\<close>

definition framed_send ::
    "'w exchange \<Rightarrow> 'c Framed \<Rightarrow> 'c \<Rightarrow> bytes \<Rightarrow> 'w \<Rightarrow> (ProtocolError + 'c Framed) \<times> 'w" where
  "framed_send ex f c out w =
     (case ex (sock f) out w of
        (Inl e, w) \<Rightarrow> (Inl (Io e), w)
      | (Inr (chunks, eof), w) \<Rightarrow>
          (Inr (f\<lparr>codec := c, inbox := inbox f @ chunks, closed := closed f \<or> eof\<rparr>), w))"

text \<open>\<open>map_codec\<close> keeps the socket and both buffers.\<close>

definition map_codec :: "('a \<Rightarrow> 'b) \<Rightarrow> 'a Framed \<Rightarrow> 'b Framed" where
  "map_codec g f = \<lparr>codec = g (codec f), rbuf = rbuf f, sock = sock f, inbox = inbox f, closed = closed f\<rparr>"

lemma map_codec_simps [simp]:
  "codec (map_codec g f) = g (codec f)" "rbuf (map_codec g f) = rbuf f" "sock (map_codec g f) = sock f"
  "inbox (map_codec g f) = inbox f" "closed (map_codec g f) = closed f"
  by (simp_all add: map_codec_def)


text \<open>What every decoding step keeps, polling keeps.\<close>

definition keeps :: "('c, 'i) decoder \<Rightarrow> ('c \<Rightarrow> bool) \<Rightarrow> bool" where
  "keeps dec P \<longleftrightarrow> (\<forall>c rb c' rb' r. dec c rb = Some (c', rb', r) \<longrightarrow> P c \<longrightarrow> P c')"

lemma keepsD: "keeps dec P \<Longrightarrow> dec c rb = Some (c', rb', r) \<Longrightarrow> P c \<Longrightarrow> P c'"
  unfolding keeps_def by blast

lemma poll_loop_keeps:
  assumes "keeps dec P"
  shows "poll_loop dec c rb chunks eof = Some (c', rb', chunks', r) \<Longrightarrow> P c \<Longrightarrow> P c'"
proof (induction chunks arbitrary: c rb)
  case Nil
  then obtain c1 rb1 r1 where d: "dec c rb = Some (c1, rb1, r1)"
    by (auto simp: bind_eq_Some_conv)
  then have "c' = c1"
    using Nil.prems(1) by (auto split: sum.splits option.splits if_splits)
  then show ?case
    using keepsD [OF assms d Nil.prems(2)] by simp
next
  case (Cons chunk chunks)
  then obtain c1 rb1 r1 where d: "dec c rb = Some (c1, rb1, r1)"
    by (auto simp: bind_eq_Some_conv)
  then show ?case
    using Cons.prems(1) Cons.IH [of c1 "rb1 @ chunk"] keepsD [OF assms d Cons.prems(2)]
    by (auto split: sum.splits option.splits)
qed

lemma framed_poll_keeps:
  assumes "keeps dec P"
    and "framed_poll dec f = Some (f', r)" "P (codec f)"
  shows "P (codec f')"
proof -
  obtain c' rb' chunks' where "poll_loop dec (codec f) (rbuf f) (inbox f) (closed f) = Some (c', rb', chunks', r)"
      "codec f' = c'"
    using assms(2) by (auto simp: framed_poll_def bind_eq_Some_conv)
  then show ?thesis
    using poll_loop_keeps [OF assms(1)] assms(3) by blast
qed

lemma framed_next_keeps:
  assumes "keeps dec P"
    and "framed_next dec f = Some (f', r)" "P (codec f)"
  shows "P (codec f')"
proof -
  obtain g q where "framed_poll dec f = Some (g, q)"
    using assms(2) by (auto simp: framed_next_def bind_eq_Some_conv)
  moreover from this have "g = f'"
    using assms(2) by (cases q) (auto simp: framed_next_def)
  ultimately show ?thesis
    using framed_poll_keeps [OF assms(1) _ assms(3)] by blast
qed


subsection \<open>Decoders of packets\<close>

text \<open>A buffer that does not hold a whole packet.\<close>

definition incomplete :: "bytes \<Rightarrow> bool" where
  "incomplete rb \<longleftrightarrow> length rb < 3 \<or> length rb < 4 + le_val (take 3 rb)"

lemma frame_or_incomplete:
  assumes "length p < 2 ^ 24" "rb @ later = frame s p @ rest"
  shows "incomplete rb \<or> (\<exists>r. rb = frame s p @ r \<and> r @ later = rest)"
proof (cases "length rb < length (frame s p)")
  case True
  then obtain z where z: "frame s p = rb @ z"
    using assms(2) by (auto simp: append_eq_append_conv2 dest: sym)
  show ?thesis
  proof (cases "length rb < 3")
    case False
    then have "take 3 rb = take 3 (frame s p)"
      using z by simp
    then have "le_val (take 3 rb) = length p"
      using frame_decode(2) [OF assms(1)] by simp
    then show ?thesis
      using True by (simp add: incomplete_def frame_def)
  qed (simp add: incomplete_def)
next
  case False
  let ?n = "length (frame s p)"
  have "take ?n rb = frame s p" "drop ?n rb @ later = rest"
    using False arg_cong [OF assms(2), of "take ?n"] arg_cong [OF assms(2), of "drop ?n"] by simp_all
  then show ?thesis
    by (metis append_take_drop_id)
qed

text \<open>The contract of a decoder of packets: it waits, unchanged, while the packet is
  incomplete; of a whole packet it accepts it makes one item and leaves what follows.  The
  items do not depend on how the bytes arrive.\<close>

locale packet_decoder =
  fixes dec :: "('c, 'i) decoder"
    and ok :: "'c \<Rightarrow> bytes \<Rightarrow> bool"
    and nxt :: "'c \<Rightarrow> u8 \<Rightarrow> bytes \<Rightarrow> bytes \<Rightarrow> 'c"
    and item :: "'c \<Rightarrow> u8 \<Rightarrow> bytes \<Rightarrow> 'i"
  assumes waits: "incomplete rb \<Longrightarrow> dec c rb = Some (c, rb, Inr None)"
    and takes: "ok c p \<Longrightarrow> length p < 2 ^ 24 \<Longrightarrow>
      dec c (frame s p @ rest) = Some (nxt c s p rest, rest, Inr (Some (item c s p)))"
begin

lemma poll_frame:
  assumes "ok c p" "length p < 2 ^ 24" "rb @ concat chunks = frame s p @ rest"
  shows "\<exists>rb' chunks'. poll_loop dec c rb chunks eof =
      Some (nxt c s p rb', rb', chunks', Ready (Some (Inr (item c s p)))) \<and> rb' @ concat chunks' = rest"
  using assms(3)
proof (induction chunks arbitrary: rb)
  case Nil
  then show ?case
    using takes [OF assms(1,2)] by simp
next
  case (Cons chunk chunks)
  from frame_or_incomplete [OF assms(2), of rb "concat (chunk # chunks)"] Cons.prems
  consider "incomplete rb" | r where "rb = frame s p @ r" "r @ concat (chunk # chunks) = rest"
    by blast
  then show ?case
  proof cases
    case 1
    then show ?thesis
      using Cons.IH [of "rb @ chunk"] Cons.prems by (simp add: waits)
  next
    case 2
    then show ?thesis
      using takes [OF assms(1,2)] by simp
  qed
qed

lemma poll_idle:
  "rb @ concat chunks = [] \<Longrightarrow> poll_loop dec c rb chunks False = Some (c, [], [], Pending)"
proof (induction chunks arbitrary: rb)
  case Nil
  then show ?case
    using waits [of "[]" c] by (simp add: incomplete_def)
next
  case (Cons chunk chunks)
  then show ?case
    using waits [of "[]" c] by (simp add: incomplete_def)
qed

end

end
