(* ===== verification/ClientAuth.thy ===== *)
theory ClientAuth
  imports Framed Wire Charset
begin

section \<open>Authentication to a backend\<close>

text \<open>
  The handshake the proxy runs as a client of a backend, \<open>protocol/mysql/src/client/auth.rs\<close>:
  the codec with its state, the reading of the greeting, the response for each
  authentication plugin, the handshake result, and the loop.  The digests, the RSA
  library and the regular expression of the server version are the parameter \<open>crypto\<close>.
\<close>

unbundle bit_operations_syntax


subsection \<open>State\<close>

datatype HandshakeState =
    InitialHandshake | WriteHandshake | WriteSslRequest | WriteClearAuth | HandshakeAutoSwitch
  | HandshakeResult | RequestPublicKey | GetPublicKey | WriteAuthPassword

record ServerVersion =
  major :: u8
  minor :: u8
  patch :: u8

record ClientAuth =
  next_state :: HandshakeState
  ca_connection_id :: u32
  ca_salt :: bytes
  ca_capability :: u32
  client_capability :: u32
  ca_charset :: string
  ca_status :: u16
  ca_auth_plugin_name :: string
  tls_config :: "unit option"
  ca_user :: string
  ca_password :: string
  ca_db :: string
  ca_seq :: u8
  ca_server_version :: ServerVersion
  auotcommit :: "string option"

record 'k crypto =
  c_sha1 :: "bytes \<Rightarrow> bytes"
  c_sha256 :: "bytes \<Rightarrow> bytes"
  c_from_pem :: "string \<Rightarrow> string + 'k"
  c_encrypt :: "'k \<Rightarrow> bytes \<Rightarrow> bytes option"
  c_captures :: "string \<Rightarrow> (string \<times> string \<times> string) option"

definition ClientAuth_new :: ClientAuth where
  "ClientAuth_new =
     \<lparr>next_state = InitialHandshake, ca_connection_id = 0, ca_salt = [], ca_capability = 0,
      client_capability = 0, ca_charset = DEFAULT_CHARSET_NAME, ca_status = 0, ca_auth_plugin_name = [],
      tls_config = None, ca_user = [], ca_password = [], ca_db = [], ca_seq = 0,
      ca_server_version = \<lparr>major = 0, minor = 0, patch = 0\<rparr>, auotcommit = None\<rparr>"

text \<open>\<open>parse::<u8>().unwrap()\<close> on the digits the expression captured.\<close>

definition parse_u8 :: "string \<Rightarrow> u8 option" where
  "parse_u8 s = (if s = [] then None
     else do { n \<leftarrow> parse_digits 0 s; if n < 256 then Some (of_nat n) else None })"

definition ServerVersion_from :: "string \<times> string \<times> string \<Rightarrow> ServerVersion option" where
  "ServerVersion_from v = (case v of (a, b, c) \<Rightarrow>
     do { ma \<leftarrow> parse_u8 a; mi \<leftarrow> parse_u8 b; pa \<leftarrow> parse_u8 c;
          Some \<lparr>major = ma, minor = mi, patch = pa\<rparr> })"


subsection \<open>The greeting\<close>

text \<open>The tail of the greeting, after the lower capability bytes.  The length of the
  authentication data is a byte: the subtraction wraps.\<close>

definition read_greeting_tail :: "nat \<Rightarrow> ClientAuth \<Rightarrow> bytes \<Rightarrow> (ClientAuth \<times> bytes) option" where
  "read_greeting_tail pos c data =
     do { (charset_id, data) \<leftarrow> get_u8 data;
          cs \<leftarrow> (if major (ca_server_version c) = 5 then COLLATION_ID_NAME_MYSQL5 charset_id
                else COLLATION_ID_NAME_MYSQL8 charset_id);
          (st, data) \<leftarrow> get_u16_le data;
          (upper, data) \<leftarrow> get_u16_le data;
          let c = c\<lparr>ca_charset := cs, ca_status := st,
                    ca_capability := ca_capability c OR push_bit 16 (ucast upper)\<rparr>;
          (_, data) \<leftarrow> split_to 10 data;
          (auth_data_len, data) \<leftarrow> get_u8 data;
          max_auth_data_len \<leftarrow>
            (if ca_capability c AND CLIENT_PLUGIN_AUTH \<noteq> 0 \<and> auth_data_len > 21 then idx data pos
             else Some (21 :: u8));
          (part2, data) \<leftarrow> split_to (unat (max_auth_data_len - 8 - 1)) data;
          let c = c\<lparr>ca_salt := ca_salt c @ part2\<rparr>;
          (_, data) \<leftarrow> split_to 1 data;
          if ca_capability c AND CLIENT_PLUGIN_AUTH \<noteq> 0
          then (if data = [] then None
                else do { plugin \<leftarrow> from_utf8 (take (length data - 1) data);
                          Some (c\<lparr>ca_auth_plugin_name := plugin\<rparr>, []) })
          else Some (c, data) }"

definition read_initial_handshake ::
    "'k crypto \<Rightarrow> ClientAuth \<Rightarrow> bytes \<Rightarrow> (ClientAuth \<times> bytes \<times> (ProtocolError + unit)) option" where
  "read_initial_handshake C c data =
     do { d0 \<leftarrow> idx data 0;
          if d0 = ERR_HEADER then Some (c, data, Inl (HandshakeError data))
          else if d0 < MIN_PROTOCOL_VERSION then Some (c, data, Inl (ProtocolVersion d0))
          else do {
            (_, data) \<leftarrow> split_to 1 data;
            pos \<leftarrow> position (\<lambda>x. x = 0) data;
            (version_bytes, data) \<leftarrow> split_to (pos + 1) data;
            version \<leftarrow> from_utf8 version_bytes;
            c \<leftarrow> (case c_captures C version of
                    Some caps \<Rightarrow> map_option (\<lambda>v. c\<lparr>ca_server_version := v\<rparr>) (ServerVersion_from caps)
                  | None \<Rightarrow> Some c);
            (cid, data) \<leftarrow> get_u32_le data;
            (part1, data) \<leftarrow> split_to 8 data;
            (_, data) \<leftarrow> split_to 1 data;
            (lower, data) \<leftarrow> get_u16_le data;
            let c = c\<lparr>ca_connection_id := cid, ca_salt := ca_salt c @ part1, ca_capability := ucast lower\<rparr>;
            if ca_capability c AND CLIENT_PROTOCOL_41 = 0 then Some (c, data, Inl ServerProtocolVersion)
            else if ca_capability c AND CLIENT_SSL = 0 \<and> tls_config c \<noteq> None then Some (c, data, Inl Tls)
            else if data = [] then Some (c, data, Inr ())
            else do { (c, data) \<leftarrow> read_greeting_tail pos c data; Some (c, data, Inr ()) } } }"


subsection \<open>The response\<close>

text \<open>The slice \<open>auth_data[..20]\<close> panics on a shorter salt.\<close>

definition gen_auth_response :: "'k crypto \<Rightarrow> ClientAuth \<Rightarrow> bytes \<Rightarrow> (ProtocolError + bytes) option" where
  "gen_auth_response C c auth =
     (if ca_auth_plugin_name c = AUTH_NATIVE_PASSWORD then
        (if length auth < 20 then None
         else Some (Inr (calc_password (c_sha1 C) (take 20 auth) (str_bytes (ca_password c)))))
      else if ca_auth_plugin_name c = AUTH_CACHING_SHA2_PASSWORD then
        Some (Inr (calc_caching_sha2password (c_sha256 C) auth (str_bytes (ca_password c))))
      else if ca_auth_plugin_name c = AUTH_SHA256_PASSWORD then
        (if ca_password c = [] then Some (Inr [0])
         else if tls_config c \<noteq> None then Some (Inr (str_bytes (ca_password c) @ [0]))
         else Some (Inr [1]))
      else Some (Inl (AuthPluginUnsupport (ca_auth_plugin_name c))))"

definition response_capability :: "ClientAuth \<Rightarrow> u32" where
  "response_capability c =
     (let cap = CLIENT_PROTOCOL_41 OR CLIENT_SECURE_CONNECTION OR CLIENT_LONG_PASSWORD
            OR CLIENT_TRANSACTIONS OR CLIENT_PLUGIN_AUTH OR (ca_capability c AND CLIENT_LONG_FLAG);
          cap = cap OR (client_capability c AND CLIENT_FOUND_ROWS)
            OR (client_capability c AND CLIENT_IGNORE_SPACE)
            OR (client_capability c AND CLIENT_MULTI_STATEMENTS)
            OR (client_capability c AND CLIENT_MULTI_RESULTS)
            OR (client_capability c AND CLIENT_PS_MULTI_RESULTS)
            OR (client_capability c AND CLIENT_CONNECT_ATTRS)
      in if tls_config c \<noteq> None then cap OR CLIENT_SSL else cap)"

definition write_auth_handshake :: "'k crypto \<Rightarrow> ClientAuth \<Rightarrow> (ProtocolError + bytes \<times> bool) option" where
  "write_auth_handshake C c =
     do { r \<leftarrow> gen_auth_response C c (ca_salt c);
          (case r of
             Inl e \<Rightarrow> Some (Inl e)
           | Inr auth \<Rightarrow>
               do { cs \<leftarrow> (if major (ca_server_version c) = 5 then COLLATION_NAME_ID_MYSQL5 DEFAULT_CHARSET_NAME
                          else COLLATION_NAME_ID_MYSQL8 DEFAULT_CHARSET_NAME);
                    let len = put_lenc_int [] (of_nat (length auth)) False;
                    let cap = response_capability c;
                    let cap = (if length len > 1 then cap OR CLIENT_PLUGIN_AUTH_LENENC_CLIENT_DATA else cap);
                    let cap = (if ca_db c \<noteq> [] then cap OR CLIENT_CONNECT_WITH_DB else cap);
                    Some (Inr ([ucast cap, ucast (drop_bit 8 cap), ucast (drop_bit 16 cap), ucast (drop_bit 24 cap)]
                      @ [0, 0, 0, 1] @ [cs] @ replicate 23 0 @ str_bytes (ca_user c) @ [0]
                      @ len @ auth @ str_bytes (ca_auth_plugin_name c) @ [0], tls_config c \<noteq> None)) }) }"


subsection \<open>The result\<close>

definition decode_handshake_result ::
    "ClientAuth \<Rightarrow> bytes \<Rightarrow> (ClientAuth \<times> bytes \<times> (ProtocolError + bytes option)) option" where
  "decode_handshake_result c data =
     do { len \<leftarrow> get_length data;
          d4 \<leftarrow> idx data 4;
          if d4 = OK_HEADER then Some (c, data, Inr None)
          else if d4 = MORE_DATA_HEADER then
            do { (pkt, data) \<leftarrow> split_to (4 + len) data;
                 if length pkt < 5 then None else Some (c, data, Inr (Some (drop 5 pkt))) }
          else if d4 = EOF_HEADER then
            do { (_, data) \<leftarrow> split_to 5 data;
                 (case position (\<lambda>x. x = 0) data of
                    Some pos \<Rightarrow>
                      do { (name, data) \<leftarrow> split_to pos data;
                           plugin \<leftarrow> from_utf8 name;
                           (auth, _) \<leftarrow> split_to 20 (drop 1 data);
                           Some (c\<lparr>ca_auth_plugin_name := plugin, ca_salt := auth\<rparr>, [], Inr (Some auth)) }
                  | None \<Rightarrow> Some (c, data, Inl (InvalidPacket ''decode_handshake_result'' data))) }
          else if d4 = ERR_HEADER then Some (c, data, Inl (AuthFailed data))
          else Some (c, data, Inl (HandshakeError data)) }"

text \<open>\<open>i % salt.len()\<close> panics on an empty salt.\<close>

definition encrypt_password :: "'k crypto \<Rightarrow> bytes \<Rightarrow> bytes \<Rightarrow> 'k \<Rightarrow> bytes option" where
  "encrypt_password C pw salt key =
     (if salt = [] then None
      else c_encrypt C key (map (\<lambda>(i, v). v XOR salt ! (i mod length salt)) (enumerate 0 (pw @ [0]))))"

definition handle_auth_data ::
    "'k crypto \<Rightarrow> ClientAuth \<Rightarrow> bytes \<Rightarrow>
     (ClientAuth \<times> (ProtocolError + (HandshakeState \<times> bytes) option)) option" where
  "handle_auth_data C c data =
     (if ca_auth_plugin_name c = AUTH_CACHING_SHA2_PASSWORD then
        (case data of
           [] \<Rightarrow> Some (c, Inr None)
         | b # _ \<Rightarrow>
             if b = 0x03 then Some (c, Inr None)
             else if b = 0x04 then
               (if tls_config c \<noteq> None
                then Some (c, Inr (Some (WriteClearAuth, str_bytes (ca_password c) @ [0])))
                else Some (c\<lparr>next_state := RequestPublicKey\<rparr>, Inr (Some (RequestPublicKey, [0x02]))))
             else Some (c, Inl (InvalidPacket ''handle_auth_data'' data)))
      else if ca_auth_plugin_name c = AUTH_SHA256_PASSWORD then
        (if data = [] then Some (c, Inr None)
         else do { pem \<leftarrow> from_utf8 data;
                   (case c_from_pem C pem of
                      Inl _ \<Rightarrow> None
                    | Inr key \<Rightarrow>
                        do { enc \<leftarrow> encrypt_password C (str_bytes (ca_password c)) (ca_salt c) key;
                             Some (c, Inr (Some (WriteAuthPassword, enc))) }) })
      else if ca_auth_plugin_name c = AUTH_NATIVE_PASSWORD then
        Some (c, Inr (Some (WriteAuthPassword, calc_password (c_sha1 C) data (str_bytes (ca_password c)))))
      else Some (c, Inl (AuthPluginUnsupport (ca_auth_plugin_name c))))"


subsection \<open>The codec\<close>

datatype HandshakeDecoderReturn =
    RetInitialHandshake bytes
  | RetWriteSslRequest bytes
  | RetWriteClearAuth bytes
  | RetAuthSwitch "bytes option"
  | RetAuthSuccess
  | RetRequestPublicKey bytes
  | RetEncryptPassword bytes
  | RetOther bytes

definition decode_initial ::
    "'k crypto \<Rightarrow> ClientAuth \<Rightarrow> bytes \<Rightarrow>
     (ClientAuth \<times> bytes \<times> (ProtocolError + HandshakeDecoderReturn option)) option" where
  "decode_initial C c data =
     do { (_, data) \<leftarrow> split_to 4 data;
          (c, data, r) \<leftarrow> read_initial_handshake C c data;
          (case r of
             Inl e \<Rightarrow> Some (c, data, Inl e)
           | Inr _ \<Rightarrow>
               do { r \<leftarrow> write_auth_handshake C c;
                    (case r of
                       Inl e \<Rightarrow> Some (c, data, Inl e)
                     | Inr (auth, is_switch_ssl) \<Rightarrow>
                         if is_switch_ssl
                         then Some (c\<lparr>next_state := WriteSslRequest\<rparr>, data, Inr (Some (RetWriteSslRequest auth)))
                         else Some (c\<lparr>next_state := WriteHandshake\<rparr>, data, Inr (Some (RetInitialHandshake auth)))) }) }"

text \<open>The state returned by \<open>handle_auth_data\<close> other than these three is the
  \<open>unreachable!()\<close> panic.\<close>

definition decode_auto_switch ::
    "'k crypto \<Rightarrow> ClientAuth \<Rightarrow> bytes \<Rightarrow>
     (ClientAuth \<times> bytes \<times> (ProtocolError + HandshakeDecoderReturn option)) option" where
  "decode_auto_switch C c data =
     do { (c, data, r) \<leftarrow> decode_handshake_result c data;
          (case r of
             Inl e \<Rightarrow> Some (c, data, Inl e)
           | Inr None \<Rightarrow> Some (c\<lparr>next_state := HandshakeResult\<rparr>, data, Inr (Some (RetAuthSwitch None)))
           | Inr (Some auth) \<Rightarrow>
               do { (c, h) \<leftarrow> handle_auth_data C c auth;
                    (case h of
                       Inl e \<Rightarrow> Some (c, data, Inl e)
                     | Inr None \<Rightarrow>
                         Some (c\<lparr>next_state := HandshakeResult\<rparr>, data, Inr (Some (RetAuthSwitch (Some auth))))
                     | Inr (Some (st, req)) \<Rightarrow>
                         if st = RequestPublicKey then Some (c, data, Inr (Some (RetRequestPublicKey req)))
                         else if st = WriteClearAuth then
                           Some (c\<lparr>next_state := HandshakeResult\<rparr>, data, Inr (Some (RetWriteClearAuth req)))
                         else if st = WriteAuthPassword then
                           Some (c\<lparr>next_state := HandshakeResult\<rparr>, data, Inr (Some (RetEncryptPassword req)))
                         else None) }) }"

definition decode_public_key ::
    "'k crypto \<Rightarrow> ClientAuth \<Rightarrow> bytes \<Rightarrow>
     (ClientAuth \<times> bytes \<times> (ProtocolError + HandshakeDecoderReturn option)) option" where
  "decode_public_key C c data =
     do { let c = c\<lparr>next_state := WriteAuthPassword\<rparr>;
          (_, data) \<leftarrow> split_to 5 data;
          pem \<leftarrow> from_utf8 data;
          (case c_from_pem C pem of
             Inl e \<Rightarrow> Some (c, data, Inl (PubKey e))
           | Inr key \<Rightarrow>
               do { enc \<leftarrow> encrypt_password C (str_bytes (ca_password c)) (ca_salt c) key;
                    Some (c, [], Inr (Some (RetEncryptPassword enc))) }) }"

definition ClientAuth_decode :: "'k crypto \<Rightarrow> (ClientAuth, HandshakeDecoderReturn) decoder" where
  "ClientAuth_decode C c data =
     (if data = [] then Some (c, data, Inr None)
      else do {
        d3 \<leftarrow> idx data 3;
        let c = c\<lparr>ca_seq := d3\<rparr>;
        if next_state c = InitialHandshake then decode_initial C c data
        else if next_state c = HandshakeAutoSwitch then decode_auto_switch C c data
        else if next_state c = GetPublicKey then decode_public_key C c data
        else if next_state c = HandshakeResult then
          (if is_ok data then Some (c, [], Inr (Some RetAuthSuccess))
           else Some (c, data, Inl (AuthFailed data)))
        else Some (c, data, Inr None) })"

definition len_bytes :: "nat \<Rightarrow> bytes" where
  "len_bytes n = [of_nat n, of_nat (n div 2 ^ 8), of_nat (n div 2 ^ 16)]"

text \<open>The encoder appends to the empty write buffer of a flushed stream.\<close>

definition ClientAuth_encode :: "ClientAuth \<Rightarrow> bytes \<Rightarrow> (ClientAuth \<times> bytes) option" where
  "ClientAuth_encode c item =
     (let s = ca_seq c + 1; c = c\<lparr>ca_seq := s\<rparr> in
      if next_state c = WriteHandshake then
        Some (c\<lparr>next_state := HandshakeAutoSwitch\<rparr>, len_bytes (length item) @ s # item)
      else if next_state c = WriteSslRequest then
        (if length item < 32 then None
         else Some (c\<lparr>next_state := WriteHandshake\<rparr>, [32, 0, 0] @ s # take 32 item))
      else if next_state c = RequestPublicKey then
        Some (c\<lparr>next_state := GetPublicKey\<rparr>, len_bytes (length item) @ s # item)
      else if next_state c = WriteAuthPassword then
        Some (c\<lparr>next_state := HandshakeResult\<rparr>, len_bytes (length item) @ s # item)
      else Some (c, len_bytes (length item) @ s # item))"


subsection \<open>The loop\<close>

definition auth_send ::
    "'w exchange \<Rightarrow> ClientAuth Framed \<Rightarrow> bytes \<Rightarrow> 'w \<Rightarrow> ((ProtocolError + ClientAuth Framed) \<times> 'w) option" where
  "auth_send ex f item w =
     do { (c, out) \<leftarrow> ClientAuth_encode (codec f) item; Some (framed_send ex f c out w) }"

text \<open>After the request for TLS the stream is \<open>Plain(None)\<close>: \<open>make_tls\<close> drops the TLS
  stream it has built, and the next write panics.\<close>

definition client_turn ::
    "'w exchange \<Rightarrow> ClientAuth Framed \<Rightarrow> HandshakeDecoderReturn \<Rightarrow> 'w \<Rightarrow>
     ((ProtocolError + (ClientAuth Framed, unit) turn) \<times> 'w) option" where
  "client_turn ex f item w =
     (case item of
        RetAuthSuccess \<Rightarrow> Some (Inr (Return f ()), w)
      | RetAuthSwitch _ \<Rightarrow> Some (Inr (Continue f), w)
      | RetOther _ \<Rightarrow> Some (Inr (Continue f), w)
      | RetWriteSslRequest _ \<Rightarrow> None
      | RetInitialHandshake req \<Rightarrow>
          map_option (\<lambda>(r, w). (map_sum id Continue r, w)) (auth_send ex f req w)
      | RetRequestPublicKey req \<Rightarrow>
          map_option (\<lambda>(r, w). (map_sum id Continue r, w)) (auth_send ex f req w)
      | RetWriteClearAuth req \<Rightarrow>
          map_option (\<lambda>(r, w). (map_sum id Continue r, w)) (auth_send ex f req w)
      | RetEncryptPassword req \<Rightarrow>
          map_option (\<lambda>(r, w). (map_sum id Continue r, w)) (auth_send ex f req w))"

partial_function (option) client_handshake ::
    "'k crypto \<Rightarrow> 'w exchange \<Rightarrow> ClientAuth Framed \<Rightarrow> 'w \<Rightarrow>
     ((ProtocolError + ClientAuth Framed) \<times> 'w) option" where
  "client_handshake C ex f w =
     do { (f, r) \<leftarrow> framed_next (ClientAuth_decode C) f;
          (case r of
             None \<Rightarrow> client_handshake C ex f w
           | Some (Inl e) \<Rightarrow> Some (Inl e, w)
           | Some (Inr item) \<Rightarrow>
               do { (t, w) \<leftarrow> client_turn ex f item w;
                    (case t of
                       Inl e \<Rightarrow> Some (Inl e, w)
                     | Inr (Continue f) \<Rightarrow> client_handshake C ex f w
                     | Inr (Return f _) \<Rightarrow> Some (Inr f, w)) }) }"


subsection \<open>Lemmas\<close>

lemma len_bytes_eq: "len_bytes n = le_bytes 3 n"
proof -
  have mod: "(of_nat (m mod 256) :: u8) = of_nat m" for m :: nat
    by (simp add: word_unat_eq_iff unat_of_nat)
  have "n div 65536 = n div 256 div 256"
    by (simp add: div_mult2_eq [symmetric])
  then show ?thesis
    by (simp add: len_bytes_def le_bytes_numeral mod)
qed

end
