(* ===== verification/ProxyChain.thy ===== *)
theory ProxyChain
  imports ServerAuth ClientAuth
begin

section \<open>A proxy in front of a proxy\<close>

text \<open>
  The two sides of the handshake composed: the client codec of
  \<open>protocol/mysql/src/client/auth.rs\<close> talks to the server codec of
  \<open>protocol/mysql/src/server/auth.rs\<close>, as when one proxy is a backend of another.
\<close>

unbundle bit_operations_syntax

text \<open>The backend that runs the proxy's own handshake: what it answers to a packet is what
  one turn of the server's loop sends; the world is its codec and the outcome.\<close>

definition proxy_backend ::
    "(bytes \<Rightarrow> bytes) \<Rightarrow> (string \<Rightarrow> string) \<Rightarrow> (ServerHandshakeCodec \<times> bool option) exchange" where
  "proxy_backend sha1 dbg s out w =
     (case handshake_turn sha1 dbg (fst w) out of
        Some (c, sent, dn) \<Rightarrow> (Inr (sent, False), (c, dn))
      | None \<Rightarrow> (Inl ''closed'', w))"

text \<open>The client codec of \<open>connect\<close> before the first packet.\<close>

definition fresh_client :: "string \<Rightarrow> string \<Rightarrow> ClientAuth" where
  "fresh_client usr pw = ClientAuth_new\<lparr>ca_user := usr, ca_password := pw, tls_config := None\<rparr>"

lemma capability_vals [simp]:
  "DEFAULT_CAPABILITY = 0x3dae8f" "CLIENT_PROTOCOL_41 = 0x200" "CLIENT_PLUGIN_AUTH = 0x80000"
  "CLIENT_SSL = 0x800" "CLIENT_PLUGIN_AUTH_LENENC_CLIENT_DATA = 0x200000" "CLIENT_SECURE_CONNECTION = 0x8000"
  "CLIENT_CONNECT_WITH_DB = 8" "CLIENT_LONG_FLAG = 4"
  by (simp_all add: DEFAULT_CAPABILITY_def capability_defs)

text \<open>The tables know the default collation and its number.\<close>

lemma collation_name_45:
  "COLLATION_NAME_ID_MYSQL5 DEFAULT_CHARSET_NAME = Some 45"
proof -
  obtain i where i: "COLLATION_NAME_ID_MYSQL5 DEFAULT_CHARSET_NAME = Some i"
    using DEFAULT_CHARSET_NAME_known by blast
  then have "(DEFAULT_CHARSET_NAME, i) \<in> set (COLLATION_NAME_ID_MYSQL5_part1 @ COLLATION_NAME_ID_MYSQL5_part2)"
    unfolding COLLATION_NAME_ID_MYSQL5_def by (rule hashmap_from_mem)
  then have "i = 45"
    by (simp add: COLLATION_NAME_ID_MYSQL5_part1_def COLLATION_NAME_ID_MYSQL5_part2_def DEFAULT_CHARSET_NAME_def)
  with i show ?thesis
    by simp
qed

lemma collation_id_45: "\<exists>n. COLLATION_ID_NAME_MYSQL5 45 = Some n" "\<exists>n. COLLATION_ID_NAME_MYSQL8 45 = Some n"
proof -
  have "(45, ''utf8mb4_general_ci'') \<in> set (COLLATION_ID_NAME_MYSQL5_part1 @ COLLATION_ID_NAME_MYSQL5_part2)"
    by (simp add: COLLATION_ID_NAME_MYSQL5_part1_def COLLATION_ID_NAME_MYSQL5_part2_def)
  then show "\<exists>n. COLLATION_ID_NAME_MYSQL5 45 = Some n"
    unfolding COLLATION_ID_NAME_MYSQL5_def using hashmap_from_distinct [OF distinct_mysql5] by blast
  have "(45, ''utf8mb4_general_ci'') \<in> set (COLLATION_ID_NAME_MYSQL8_part1 @ COLLATION_ID_NAME_MYSQL8_part2)"
    by (simp add: COLLATION_ID_NAME_MYSQL8_part1_def COLLATION_ID_NAME_MYSQL8_part2_def)
  then show "\<exists>n. COLLATION_ID_NAME_MYSQL8 45 = Some n"
    unfolding COLLATION_ID_NAME_MYSQL8_def using hashmap_from_distinct [OF distinct_mysql8] by blast
qed

lemma collation_name_mysql8: "\<exists>i. COLLATION_NAME_ID_MYSQL8 DEFAULT_CHARSET_NAME = Some i"
proof -
  have "(DEFAULT_CHARSET_NAME, 45) \<in> set (COLLATION_NAME_ID_MYSQL8_part1 @ COLLATION_NAME_ID_MYSQL8_part2)"
    unfolding COLLATION_NAME_ID_MYSQL8_part1_def COLLATION_NAME_ID_MYSQL8_part2_def DEFAULT_CHARSET_NAME_def
    by simp
  then show ?thesis
    unfolding COLLATION_NAME_ID_MYSQL8_def by (rule hashmap_from_known)
qed


subsection \<open>The client reads the proxy's greeting\<close>

definition ascii :: "string \<Rightarrow> bool" where
  "ascii s \<longleftrightarrow> (\<forall>b \<in> set (str_bytes s). 0 < b \<and> b < 0x80)"

lemma ascii_nul: "ascii s \<Longrightarrow> nul_str s" "ascii s \<Longrightarrow> utf8_ok (str_bytes s @ [0])"
  by (auto simp: ascii_def nul_str_def intro!: utf8_ok_ascii)

lemma split_to_Suc_0 [simp]: "split_to (Suc 0) (x # rest) = Some ([x], rest)"
  by (simp add: split_to_def)

lemma get_u16_le_Cons [simp]: "get_u16_le (a # b # rest) = Some (of_nat (unat a + 256 * unat b), rest)"
  by (simp add: get_u16_le_def)

lemma greeting_tail_read:
  assumes "length part2 = 12" "ca_capability c = 0xae8f"
  shows "\<exists>cs. read_greeting_tail pos c
      (45 # 2 # 0 # 0x3d # 0 # 21 # replicate 10 0 @ part2 @ 0 # str_bytes AUTH_NATIVE_PASSWORD @ [0]) =
    Some (c\<lparr>ca_charset := cs, ca_status := 2, ca_capability := 0x3dae8f, ca_salt := ca_salt c @ part2,
            ca_auth_plugin_name := AUTH_NATIVE_PASSWORD\<rparr>, [])"
proof -
  obtain cs where cs: "(if major (ca_server_version c) = 5 then COLLATION_ID_NAME_MYSQL5 45
      else COLLATION_ID_NAME_MYSQL8 45) = Some cs"
    using collation_id_45 by (cases "major (ca_server_version c) = 5") auto
  have ten: "split_to 10 (21 # replicate 10 0 @ rest) = Some (21 # replicate 9 0, 0 # rest)" for rest
    using split_to_append [of "21 # replicate 9 0" 10 "0 # rest"] by (simp add: numeral_eq_Suc)
  have "utf8_ok (str_bytes AUTH_NATIVE_PASSWORD)"
    by (simp add: AUTH_NATIVE_PASSWORD_def str_bytes_def)
  then have plugin: "from_utf8 (take (length (str_bytes AUTH_NATIVE_PASSWORD @ [0]) - 1)
      (str_bytes AUTH_NATIVE_PASSWORD @ [0])) = Some AUTH_NATIVE_PASSWORD"
    by (simp add: from_utf8_def)
  have cap: "(0xae8f :: u32) OR push_bit 16 (ucast (of_nat 61 :: u16)) = 0x3dae8f"
    by simp
  show ?thesis
    using cs assms plugin
    by (intro exI [of _ cs]) (simp add: read_greeting_tail_def ten split_to_append cap)
qed

lemma greeting_read:
  assumes "length draws = 20" "ascii version"
    and caps: "\<forall>caps. c_captures C (version @ [CHR 0x00]) = Some caps \<longrightarrow> ServerVersion_from caps \<noteq> None"
    and c: "ca_salt c = []" "tls_config c = None"
    and g: "encode_initial_handshake (fst (ServerHandshakeCodec_new cid draws usr pw database version)) = Some g"
  shows "\<exists>v cid' cs. read_initial_handshake C c (drop 4 g) =
    Some (c\<lparr>ca_server_version := v, ca_connection_id := cid', ca_salt := random_buf draws,
            ca_capability := 0x3dae8f, ca_charset := cs, ca_status := 2,
            ca_auth_plugin_name := AUTH_NATIVE_PASSWORD\<rparr>, [], Inr ())"
proof -
  define part1 where "part1 = take 8 (random_buf draws)"
  define part2 where "part2 = drop 8 (random_buf draws)"
  define tl where "tl = 45 # 2 # 0 # 0x3d # 0 # 21 # replicate 10 0 @ part2 @ 0 #
      str_bytes AUTH_NATIVE_PASSWORD @ [0 :: u8]"
  have tl_ne: "tl \<noteq> []"
    by (simp add: tl_def)
  have len: "length (random_buf draws) = 20"
    using assms(1) by (simp add: random_buf_def)
  have parts: "length part1 = 8" "length part2 = 12" "part1 @ part2 = random_buf draws"
    "split_to 8 (random_buf draws) = Some (part1, part2)"
    using len by (simp_all add: part1_def part2_def split_to_def)
  have data: "drop 4 g = 10 # str_bytes version @ 0 # le_bytes 4 (unat (cid + 1)) @ part1 @ 0 #
      0x8f # 0xae # tl"
    using g parts(4)
    by (auto simp: encode_initial_handshake_def ServerHandshakeCodec_new_def collation_name_45
        tl_def SERVER_STATUS_AUTOCOMMIT_def replicate_Suc [of 3])
  have pos: "position (\<lambda>x. x = 0) (str_bytes version @ 0 # rest) = Some (length version)" for rest
    using position_append [of "str_bytes version" "\<lambda>x. x = 0" 0 rest] assms(2) by (auto simp: ascii_def)
  have nul: "str_bytes (version @ [CHR 0x00]) = str_bytes version @ [0]"
    by (simp add: str_bytes_def)
  then have ver: "from_utf8 (str_bytes version @ [0]) = Some (version @ [CHR 0x00])"
    using ascii_nul(2) [OF assms(2)] bytes_str_str_bytes [of "version @ [CHR 0x00]"]
    by (simp add: from_utf8_def)
  obtain v where v: "(case c_captures C (version @ [CHR 0x00]) of
        Some caps \<Rightarrow> map_option (\<lambda>v. c\<lparr>ca_server_version := v\<rparr>) (ServerVersion_from caps)
      | None \<Rightarrow> Some c) = Some (c\<lparr>ca_server_version := v\<rparr>)"
  proof (cases "c_captures C (version @ [CHR 0x00])")
    case None
    then show ?thesis
      using that [of "ca_server_version c"] by simp
  next
    case (Some caps')
    then show ?thesis
      using caps that by auto
  qed
  have split: "split_to (Suc (length version)) (str_bytes version @ 0 # rest) =
      Some (str_bytes version @ [0], rest)" for rest
    using split_to_append [of "str_bytes version @ [0]" "Suc (length version)" rest] by simp
  define c1 where "c1 = c\<lparr>ca_server_version := v, ca_connection_id := of_nat (unat (cid + 1) mod 256 ^ 4),
      ca_salt := part1, ca_capability := 0xae8f\<rparr>"
  obtain cs where tail: "read_greeting_tail (length version) c1 tl =
      Some (c1\<lparr>ca_charset := cs, ca_status := 2, ca_capability := 0x3dae8f, ca_salt := part1 @ part2,
            ca_auth_plugin_name := AUTH_NATIVE_PASSWORD\<rparr>, [])"
    using greeting_tail_read [OF parts(2), of c1 "length version"] by (auto simp: c1_def tl_def)
  have "read_initial_handshake C c (drop 4 g) =
      Some (c1\<lparr>ca_charset := cs, ca_status := 2, ca_capability := 0x3dae8f, ca_salt := part1 @ part2,
            ca_auth_plugin_name := AUTH_NATIVE_PASSWORD\<rparr>, [], Inr ())"
    using tail c unfolding data read_initial_handshake_def
    by (simp add: idx_def ERR_HEADER_def MIN_PROTOCOL_VERSION_def pos split ver v get_u32_le_append
        split_to_append parts c1_def tl_ne)
  then show ?thesis
    unfolding c1_def parts(3)
    by (intro exI [of _ v] exI [of _ "of_nat (unat (cid + 1) mod 256 ^ 4)"] exI [of _ cs]) simp
qed


subsection \<open>The proxy reads the client's response\<close>

lemma response_payload:
  assumes c: "ca_capability c = 0x3dae8f" "client_capability c = 0" "tls_config c = None"
      "ca_auth_plugin_name c = AUTH_NATIVE_PASSWORD" "ca_db c = []" "length (ca_salt c) = 20"
    and sha: "\<forall>x. length (c_sha1 C x) = 20" and pw: "ca_password c \<noteq> []"
  shows "\<exists>fixed. length fixed = 28 \<and> write_auth_handshake C c =
    Some (Inr (client_payload 0x8a205 fixed (ca_user c)
      (calc_password (c_sha1 C) (ca_salt c) (str_bytes (ca_password c))) database AUTH_NATIVE_PASSWORD, False))"
proof -
  define auth where "auth = calc_password (c_sha1 C) (ca_salt c) (str_bytes (ca_password c))"
  have len: "length auth = 20"
    using sha pw by (simp add: auth_def calc_password_def Let_def str_bytes_def)
  obtain cs where cs: "(if major (ca_server_version c) = 5 then COLLATION_NAME_ID_MYSQL5 DEFAULT_CHARSET_NAME
      else COLLATION_NAME_ID_MYSQL8 DEFAULT_CHARSET_NAME) = Some cs"
    using collation_name_45 collation_name_mysql8 by (cases "major (ca_server_version c) = 5") auto
  have cap: "response_capability c = 0x8a205"
    using c by (simp add: response_capability_def Let_def CLIENT_LONG_PASSWORD_def CLIENT_TRANSACTIONS_def)
  have resp: "gen_auth_response C c (ca_salt c) = Some (Inr auth)"
    using c by (simp add: gen_auth_response_def auth_def)
  have "write_auth_handshake C c =
      Some (Inr (client_payload 0x8a205 ([0, 0, 0, 1] @ cs # replicate 23 0) (ca_user c) auth database
        AUTH_NATIVE_PASSWORD, False))"
    using cs c len resp
    by (simp add: write_auth_handshake_def cap Let_def put_lenc_int_def client_payload_def
        auth_field_def le_bytes_numeral)
  then show ?thesis
    unfolding auth_def [symmetric] by (intro exI [of _ "[0, 0, 0, 1] @ cs # replicate 23 0"]) simp
qed

lemma poll_first_chunk:
  "dec c [] = Some (c, [], Inr None) \<Longrightarrow> dec c chunk = Some (c', rest, Inr (Some x)) \<Longrightarrow>
   framed_next dec \<lparr>codec = c, rbuf = [], sock = n, inbox = [chunk], closed = eof\<rparr> =
   Some (\<lparr>codec = c', rbuf = rest, sock = n, inbox = [], closed = eof\<rparr>, Some (Inr x))"
  by (simp add: framed_next_def framed_poll_def)

lemma poll_rest:
  "dec c rest = Some (c', rest', Inr (Some x)) \<Longrightarrow>
   framed_next dec \<lparr>codec = c, rbuf = rest, sock = n, inbox = [], closed = eof\<rparr> =
   Some (\<lparr>codec = c', rbuf = rest', sock = n, inbox = [], closed = eof\<rparr>, Some (Inr x))"
  by (simp add: framed_next_def framed_poll_def)

lemma client_turn_send:
  "ClientAuth_encode c item = Some (c', out) \<Longrightarrow> ex n out w = (Inr (chunks, eof), w') \<Longrightarrow>
   client_turn ex \<lparr>codec = c, rbuf = rb, sock = n, inbox = [], closed = False\<rparr> (RetInitialHandshake item) w =
   Some (Inr (Continue \<lparr>codec = c', rbuf = rb, sock = n, inbox = chunks, closed = eof\<rparr>), w')"
  by (simp add: client_turn_def auth_send_def framed_send_def)

text \<open>One turn of the proxy on the response of its own client: the OK packet.\<close>

lemma proxy_accepts:
  fixes cid :: u32 and version :: string and draws :: "u8 list"
  assumes sha: "\<forall>x. length (sha1 x) = 20" and pw: "pw \<noteq> []"
    and wf: "nul_str usr" "nul_str database" "length usr < 2 ^ 23"
    and fixed: "length fixed = 28"
  defines "c \<equiv> (fst (ServerHandshakeCodec_new cid draws usr pw database version))\<lparr>hs_seq := 1\<rparr>"
  shows "\<exists>c'. handshake_turn sha1 dbg c (frame 1 (client_payload 0x8a205 fixed usr
      (calc_password sha1 (random_buf draws) (str_bytes pw)) database AUTH_NATIVE_PASSWORD)) =
    Some (c', [frame 2 (drop 4 ok_packet)], Some True)"
proof -
  define auth where "auth = calc_password sha1 (random_buf draws) (str_bytes pw)"
  have len: "length auth = 20"
    using sha pw by (simp add: auth_def calc_password_def Let_def str_bytes_def)
  have c: "next_handshake_status c = ReadResponseFirst" "hs_user c = usr" "hs_db c = database" "hs_seq c = 1"
      "scramble_of sha1 c = auth"
    by (simp_all add: c_def ServerHandshakeCodec_new_def scramble_of_def auth_def)
  have native: "nul_str AUTH_NATIVE_PASSWORD"
    by (simp add: nul_str_def AUTH_NATIVE_PASSWORD_def str_bytes_def)
  have ok: "auth_ok 0x8a205 auth"
    using len by (simp add: auth_ok_def)
  have size: "length (client_payload 0x8a205 fixed usr auth database AUTH_NATIVE_PASSWORD) < 2 ^ 24"
    using wf(3) fixed len by (simp add: client_payload_def auth_field_def AUTH_NATIVE_PASSWORD_def)
  note first_response_eval [of c AUTH_NATIVE_PASSWORD "0x8a205" auth fixed sha1 dbg 1, unfolded c,
      OF refl wf(1,2) native ok fixed _ size refl]
  then show ?thesis
    unfolding auth_def [symmetric]
    by (simp add: handshake_turn_def after_decode_def encode_frame c(4) ok_packet_def)
qed

lemma decode_ok_packet:
  assumes "next_state c = HandshakeAutoSwitch"
  shows "\<exists>c'. ClientAuth_decode C c (frame 2 (drop 4 ok_packet)) =
      Some (c', frame 2 (drop 4 ok_packet), Inr (Some (RetAuthSwitch None))) \<and>
    ClientAuth_decode C c' (frame 2 (drop 4 ok_packet)) = Some (c', [], Inr (Some RetAuthSuccess))"
proof -
  have pkt: "frame 2 (drop 4 ok_packet) = [7, 0, 0, 2, 0, 0, 0, 2, 0, 0, 0]"
    by (simp add: frame_def ok_packet_def le_bytes_numeral)
  define c' where "c' = c\<lparr>ca_seq := 2, next_state := HandshakeResult\<rparr>"
  have "ClientAuth_decode C c (frame 2 (drop 4 ok_packet)) =
      Some (c', frame 2 (drop 4 ok_packet), Inr (Some (RetAuthSwitch None)))"
    using assms unfolding pkt
    by (simp add: ClientAuth_decode_def decode_auto_switch_def decode_handshake_result_def idx_def
        get_length_def OK_HEADER_def c'_def)
  moreover have "ClientAuth_decode C c' (frame 2 (drop 4 ok_packet)) = Some (c', [], Inr (Some RetAuthSuccess))"
    unfolding pkt by (simp add: ClientAuth_decode_def idx_def is_ok_def OK_HEADER_def c'_def)
  ultimately show ?thesis
    by blast
qed


text \<open>An instance of the libraries for the example.\<close>

definition example_crypto :: "unit crypto" where
  "example_crypto = \<lparr>c_sha1 = example_sha1, c_sha256 = example_sha1, c_from_pem = (\<lambda>_. Inr ()),
     c_encrypt = (\<lambda>_. Some), c_captures = (\<lambda>_. Some (''5'', ''7'', ''37''))\<rparr>"

lemma example_chain:
  "\<forall>x. length (c_sha1 example_crypto x) = 20" "ascii ''5.7.37''"
  "\<forall>caps. c_captures example_crypto (''5.7.37'' @ [CHR 0x00]) = Some caps \<longrightarrow> ServerVersion_from caps \<noteq> None"
  by (simp_all add: example_crypto_def example_length ascii_def str_bytes_def ServerVersion_from_def
      parse_u8_def digit_val_def Let_def)


subsection \<open>Property\<close>

text \<open>C5.  The two handshake implementations agree: a proxy that connects to another proxy
  with the account configured there reads its greeting, answers it, is accepted after this
  one response, and both sides finish the handshake.  The digest has twenty bytes, the
  password is not empty, and the version string of the backend is plain ASCII that the
  version expression does not reject.\<close>

theorem proxy_chain:
  assumes "\<forall>x. length (c_sha1 C x) = 20" "pw \<noteq> []" "length draws = 20" "ascii version"
    and "nul_str usr" "nul_str database" "length usr < 2 ^ 23"
    and "\<forall>caps. c_captures C (version @ [CHR 0x00]) = Some caps \<longrightarrow> ServerVersion_from caps \<noteq> None"
    and "encode_initial_handshake (fst (ServerHandshakeCodec_new cid draws usr pw database version)) = Some g"
    and "ServerHandshakeCodec_encode (fst (ServerHandshakeCodec_new cid draws usr pw database version)) g [] =
      Some (s, greeting)"
  shows "\<exists>f s'. client_handshake C (proxy_backend (c_sha1 C) dbg)
      \<lparr>codec = fresh_client usr pw, rbuf = [], sock = n, inbox = [greeting], closed = False\<rparr> (s, None) =
    Some (Inr f, (s', Some True))"
proof -
  define srv where "srv = fst (ServerHandshakeCodec_new cid draws usr pw database version)"
  have srv: "hs_seq srv = 0" "next_handshake_status srv = ReadResponseFirst"
    by (simp_all add: srv_def ServerHandshakeCodec_new_def)
  have g4: "length g \<ge> 4"
    using assms(10) by (auto simp: ServerHandshakeCodec_encode_def Let_def split: if_splits)
  have s: "s = srv\<lparr>hs_seq := 1\<rparr>" "greeting = frame 0 (drop 4 g)"
    using assms(10) encode_frame [OF g4, of srv] srv unfolding srv_def [symmetric]
    by (simp_all add: srv_def ServerHandshakeCodec_new_def)
  define c0 where "c0 = (fresh_client usr pw)\<lparr>ca_seq := 0\<rparr>"
  obtain v cid' cs where rd: "read_initial_handshake C c0 (drop 4 g) =
    Some (c0\<lparr>ca_server_version := v, ca_connection_id := cid', ca_salt := random_buf draws,
            ca_capability := 0x3dae8f, ca_charset := cs, ca_status := 2,
            ca_auth_plugin_name := AUTH_NATIVE_PASSWORD\<rparr>, [], Inr ())" (is "_ = Some (?c1, _)")
    using greeting_read [OF assms(3,4,8) _ _ assms(9), of c0]
    by (auto simp: c0_def fresh_client_def ClientAuth_new_def)
  obtain fixed where fixed: "length fixed = 28" and wr: "write_auth_handshake C ?c1 =
      Some (Inr (client_payload 0x8a205 fixed usr (calc_password (c_sha1 C) (random_buf draws) (str_bytes pw))
        database AUTH_NATIVE_PASSWORD, False))" (is "_ = Some (Inr (?p, False))")
    using response_payload [of ?c1 C database] assms(1-3)
    by (auto simp: c0_def fresh_client_def ClientAuth_new_def random_buf_def)
  have hd0: "drop 4 greeting = drop 4 g" "idx greeting 3 = Some 0" "greeting \<noteq> []" "split_to 4 greeting = Some (take 4 greeting, drop 4 g)"
    using g4 by (simp_all add: s frame_def idx_def split_to_def nth_append)
  have dec0: "ClientAuth_decode C (fresh_client usr pw) greeting =
      Some (?c1\<lparr>next_state := WriteHandshake\<rparr>, [], Inr (Some (RetInitialHandshake ?p)))"
    using rd wr hd0
    by (simp add: ClientAuth_decode_def decode_initial_def c0_def fresh_client_def ClientAuth_new_def)
  define c2 where "c2 = ?c1\<lparr>next_state := HandshakeAutoSwitch, ca_seq := 1\<rparr>"
  have enc: "ClientAuth_encode (?c1\<lparr>next_state := WriteHandshake\<rparr>) ?p = Some (c2, frame 1 ?p)"
    by (simp add: ClientAuth_encode_def c2_def c0_def frame_def len_bytes_eq)
  obtain s' where "handshake_turn (c_sha1 C) dbg s (frame 1 ?p) =
      Some (s', [frame 2 (drop 4 ok_packet)], Some True)"
    using proxy_accepts [OF assms(1,2,5-7) fixed, of dbg cid draws version] s(1) srv_def by auto
  then have answer: "proxy_backend (c_sha1 C) dbg n (frame 1 ?p) (s, None) =
      (Inr ([frame 2 (drop 4 ok_packet)], False), (s', Some True))"
    by (simp add: proxy_backend_def)
  obtain c3 where c3: "ClientAuth_decode C c2 (frame 2 (drop 4 ok_packet)) =
      Some (c3, frame 2 (drop 4 ok_packet), Inr (Some (RetAuthSwitch None)))"
    "ClientAuth_decode C c3 (frame 2 (drop 4 ok_packet)) = Some (c3, [], Inr (Some RetAuthSuccess))"
    using decode_ok_packet [of c2 C] by (auto simp: c2_def)
  have empty: "ClientAuth_decode C c [] = Some (c, [], Inr None)" for c
    by (simp add: ClientAuth_decode_def)
  note steps = poll_first_chunk [where dec = "ClientAuth_decode C", OF empty dec0]
    client_turn_send [where ex = "proxy_backend (c_sha1 C) dbg", OF enc answer]
    poll_first_chunk [where dec = "ClientAuth_decode C", OF empty c3(1)]
    poll_rest [where dec = "ClientAuth_decode C", OF c3(2)]
  show ?thesis
    by (subst client_handshake.simps, simp add: steps,
        subst client_handshake.simps, simp add: steps client_turn_def [of _ _ "RetAuthSwitch _"],
        subst client_handshake.simps, simp add: steps client_turn_def [of _ _ RetAuthSuccess])
qed

theorem proxy_chain_witness:
  "\<exists>g s greeting f s'.
     encode_initial_handshake (fst (ServerHandshakeCodec_new 0 (replicate 20 7) ''pisa'' ''root'' ''db'' ''5.7.37'')) = Some g \<and>
     ServerHandshakeCodec_encode (fst (ServerHandshakeCodec_new 0 (replicate 20 7) ''pisa'' ''root'' ''db'' ''5.7.37'')) g [] =
       Some (s, greeting) \<and>
     client_handshake example_crypto (proxy_backend (c_sha1 example_crypto) id)
       \<lparr>codec = fresh_client ''pisa'' ''root'', rbuf = [], sock = 1, inbox = [greeting], closed = False\<rparr> (s, None) =
     Some (Inr f, (s', Some True))"
proof -
  let ?s = "fst (ServerHandshakeCodec_new 0 (replicate 20 7) ''pisa'' ''root'' ''db'' ''5.7.37'')"
  obtain g where g: "encode_initial_handshake ?s = Some g" "length g \<ge> 4"
    using greeting_eval [of "replicate 20 7" 0 "''pisa''" "''root''" "''db''" "''5.7.37''"] by auto
  obtain s greeting where e: "ServerHandshakeCodec_encode ?s g [] = Some (s, greeting)"
    using encode_frame [OF g(2)] by auto
  show ?thesis
    using proxy_chain [OF example_chain(1) _ _ example_chain(2) example_client(1,2) _ example_chain(3) g(1) e, of id 1] g e
    by auto
qed

end
