(* ===== verification/ClientCodec.thy ===== *)
theory ClientCodec
  imports ClientAuth
begin

section \<open>Codecs of backend connections\<close>

text \<open>
  What the proxy sends to and reads from a backend after the handshake: the command
  encoders, the codec of result sets and its stream
  (\<open>client/resultset.rs\<close>, \<open>client/codec.rs\<close>), the codec of prepared statements
  (\<open>client/stmt.rs\<close>), the codec of single packets, and the conversions between them that
  \<open>protocol/codegen/src/mysql_codec.rs\<close> derives.
\<close>


subsection \<open>Commands\<close>

definition write_command :: "u8 \<times> string \<Rightarrow> bytes" where
  "write_command item = len_bytes (length (snd item) + 1) @ [0, fst item] @ str_bytes (snd item)"

definition write_command_binary :: "u8 \<times> bytes \<Rightarrow> bytes" where
  "write_command_binary item = len_bytes (length (snd item) + 1) @ [0, fst item] @ snd item"


subsection \<open>Result sets\<close>

datatype DecodeResultsetState = ColumnCount | ColumnInfoState | Row | RowBinary | Complete

definition is_complete :: "DecodeResultsetState \<Rightarrow> bool" where
  "is_complete st \<longleftrightarrow> (case st of Complete \<Rightarrow> True | _ \<Rightarrow> False)"

record ResultsetCodec =
  rs_next_state :: DecodeResultsetState
  rs_col :: u64
  is_binary :: bool
  rs_seq :: u8
  rs_auth_info :: "ClientAuth option"

definition ResultsetCodec_new :: ResultsetCodec where
  "ResultsetCodec_new =
     \<lparr>rs_next_state = ColumnCount, rs_col = 0, is_binary = False, rs_seq = 0, rs_auth_info = None\<rparr>"

definition ResultsetCodec_renew :: "ResultsetCodec \<Rightarrow> ResultsetCodec" where
  "ResultsetCodec_renew c = c\<lparr>rs_next_state := ColumnCount, rs_col := 0, is_binary := False, rs_seq := 0\<rparr>"

definition ResultsetCodec_with_auth_info :: "ClientAuth option \<Rightarrow> ResultsetCodec" where
  "ResultsetCodec_with_auth_info ai = ResultsetCodec_new\<lparr>rs_auth_info := ai\<rparr>"

definition with_binary :: "ResultsetCodec \<Rightarrow> bool \<Rightarrow> ResultsetCodec" where
  "with_binary c b = c\<lparr>is_binary := b\<rparr>"

definition decode_try_ok :: "nat \<Rightarrow> bytes \<Rightarrow> (bytes option \<times> bytes) option" where
  "decode_try_ok len data =
     (if is_ok data then map_option (\<lambda>(pkt, data). (Some pkt, data)) (split_to (4 + len) data)
      else Some (None, data))"

definition decode_column_count ::
    "ResultsetCodec \<Rightarrow> nat \<Rightarrow> bytes \<Rightarrow> (ResultsetCodec \<times> bytes \<times> bytes \<times> bool) option" where
  "decode_column_count c len data =
     do { d4 \<leftarrow> idx data 4;
          if d4 = ERR_HEADER then Some (c\<lparr>rs_next_state := Complete\<rparr>, [], data, True)
          else do {
            (ok, data) \<leftarrow> decode_try_ok len data;
            (case ok of
               Some pkt \<Rightarrow> Some (c\<lparr>rs_next_state := Complete\<rparr>, data, pkt, True)
             | None \<Rightarrow>
                 do { (payload, data) \<leftarrow> split_to (4 + len) data;
                      (_, rest) \<leftarrow> split_to 4 payload;
                      ((n, is_null, _), _) \<leftarrow> get_lenc_int rest;
                      Some (c\<lparr>rs_next_state := ColumnInfoState, rs_col := n\<rparr>, data, payload, is_null) }) } }"

definition decode_column_eof :: "ResultsetCodec \<Rightarrow> ResultsetCodec" where
  "decode_column_eof c = c\<lparr>rs_next_state := (if is_binary c then RowBinary else Row)\<rparr>"

definition decode_column_info ::
    "ResultsetCodec \<Rightarrow> nat \<Rightarrow> bytes \<Rightarrow> (ResultsetCodec \<times> bytes \<times> bytes \<times> bool) option" where
  "decode_column_info c len data =
     do { (payload, data) \<leftarrow> split_to (4 + len) data;
          eof \<leftarrow> is_eof payload;
          if eof \<or> is_ok payload then
            (if data = [] then Some (c\<lparr>rs_next_state := Row\<rparr>, data, payload, False)
             else Some (decode_column_eof c, data, payload, False))
          else Some (c\<lparr>rs_next_state := ColumnInfoState\<rparr>, data, payload, False) }"

definition decode_row ::
    "ResultsetCodec \<Rightarrow> nat \<Rightarrow> bytes \<Rightarrow> (ResultsetCodec \<times> bytes \<times> bytes \<times> bool) option" where
  "decode_row c len data =
     do { (payload, data) \<leftarrow> split_to (4 + len) data;
          eof \<leftarrow> is_eof payload;
          if eof then Some (c\<lparr>rs_next_state := Complete\<rparr>, data, payload, True)
          else Some (c\<lparr>rs_next_state := Row\<rparr>, data, payload, False) }"

definition decode_row_binary ::
    "ResultsetCodec \<Rightarrow> nat \<Rightarrow> bytes \<Rightarrow> (ResultsetCodec \<times> bytes \<times> bytes \<times> bool) option" where
  "decode_row_binary c len data = decode_row c len data"

definition some_item :: "('c \<times> bytes \<times> 'i) option \<Rightarrow> ('c \<times> bytes \<times> (ProtocolError + 'i option)) option" where
  "some_item r = map_option (\<lambda>(c, data, x). (c, data, Inr (Some x))) r"

definition ResultsetCodec_decode :: "(ResultsetCodec, bytes \<times> bool) decoder" where
  "ResultsetCodec_decode c src =
     (if src = [] \<or> length src < 3 then Some (c, src, Inr None)
      else let len = le_val (take 3 src) in
        if 4 + len > length src then Some (c, src, Inr None)
        else do {
          s \<leftarrow> idx src 3;
          let c = c\<lparr>rs_seq := s\<rparr>;
          (case rs_next_state c of
             ColumnCount \<Rightarrow> some_item (decode_column_count c len src)
           | ColumnInfoState \<Rightarrow> some_item (decode_column_info c len src)
           | Row \<Rightarrow> some_item (decode_row c len src)
           | RowBinary \<Rightarrow> some_item (decode_row_binary c len src)
           | Complete \<Rightarrow> Some (c, src, Inr None)) })"

datatype ResultSendCommand = Plain "u8 \<times> string" | Binary "u8 \<times> bytes"

definition ResultsetCodec_encode :: "ResultsetCodec \<Rightarrow> ResultSendCommand \<Rightarrow> ResultsetCodec \<times> bytes" where
  "ResultsetCodec_encode c item =
     (c\<lparr>rs_next_state := ColumnCount\<rparr>,
      case item of Plain i \<Rightarrow> write_command i | Binary i \<Rightarrow> write_command_binary i)"

text \<open>The stream of a result set: the end-of-rows packet ends it, and so does having
  nothing to read once the codec is complete.\<close>

definition ResultsetStream_next ::
    "ResultsetCodec Framed \<Rightarrow> (ResultsetCodec Framed \<times> (ProtocolError + bytes) option) option" where
  "ResultsetStream_next f =
     (let st = rs_next_state (codec f) in
      do { (f, r) \<leftarrow> framed_poll ResultsetCodec_decode f;
           (case r of
              Ready (Some (Inr data)) \<Rightarrow>
                if st = Row \<or> st = RowBinary then
                  do { eof \<leftarrow> is_eof (fst data);
                       if eof then Some (f, None) else Some (f, Some (Inr (fst data))) }
                else Some (f, Some (Inr (fst data)))
            | Ready (Some (Inl e)) \<Rightarrow> Some (f, Some (Inl e))
            | Ready None \<Rightarrow> Some (f, None)
            | Pending \<Rightarrow> if is_complete st then Some (f, None) else None) })"


text \<open>Everything a stream delivers, as the loops that drain it see it.\<close>

partial_function (option) ResultsetStream_items ::
    "ResultsetCodec Framed \<Rightarrow> ((ProtocolError + bytes) list \<times> ResultsetCodec Framed) option" where
  "ResultsetStream_items f =
     do { (f, r) \<leftarrow> ResultsetStream_next f;
          (case r of
             None \<Rightarrow> Some ([], f)
           | Some x \<Rightarrow> do { (xs, f) \<leftarrow> ResultsetStream_items f; Some (x # xs, f) }) }"


subsection \<open>Prepared statements\<close>

datatype DecodeStmtState = PrepareFirst | PrepareCols | PrepareParams | PrepareComplete

record Stmt =
  ori_stmt_id :: bytes
  ori_cols_count :: bytes
  ori_params_count :: bytes
  stmt_id :: u32
  cols_count :: u16
  params_count :: u16
  params_data :: "bytes list"
  cols_data :: "bytes list"
  st_next_state :: DecodeStmtState
  st_seq :: u8
  st_auth_info :: "ClientAuth option"

definition Stmt_new :: Stmt where
  "Stmt_new = \<lparr>ori_stmt_id = replicate 4 0, ori_cols_count = replicate 2 0, ori_params_count = replicate 2 0,
     stmt_id = 0, cols_count = 0, params_count = 0, params_data = [], cols_data = [],
     st_next_state = PrepareFirst, st_seq = 0, st_auth_info = None\<rparr>"

definition Stmt_renew :: "Stmt \<Rightarrow> Stmt" where
  "Stmt_renew c = Stmt_new\<lparr>st_auth_info := st_auth_info c\<rparr>"

definition Stmt_with_auth_info :: "ClientAuth option \<Rightarrow> Stmt" where
  "Stmt_with_auth_info ai = Stmt_new\<lparr>st_auth_info := ai\<rparr>"

definition Stmt_is_complete :: "Stmt \<Rightarrow> bool" where
  "Stmt_is_complete c \<longleftrightarrow> st_next_state c = PrepareComplete"

definition decode_prepare_return :: "Stmt \<Rightarrow> nat \<Rightarrow> bytes \<Rightarrow> (Stmt \<times> bytes \<times> bytes option) option" where
  "decode_prepare_return c len src =
     do { (data, src) \<leftarrow> split_to (len + 4) src;
          d4 \<leftarrow> idx data 4;
          if d4 = ERR_HEADER then Some (c, src, Some data)
          else do {
            (_, data) \<leftarrow> split_to 5 data;
            (sid, data) \<leftarrow> split_to 4 data;
            (cols, data) \<leftarrow> split_to 2 data;
            (params, data) \<leftarrow> split_to 2 data;
            (_, data) \<leftarrow> split_to 1 data;
            (_, data) \<leftarrow> split_to 2 data;
            let nc = of_nat (le_val cols);
            let np = of_nat (le_val params);
            Some (c\<lparr>stmt_id := of_nat (le_val sid), ori_stmt_id := sid, cols_count := nc, ori_cols_count := cols,
                    params_count := np, ori_params_count := params,
                    st_next_state := (if np = 0 \<and> nc = 0 then PrepareComplete
                       else if np = 0 then PrepareCols else PrepareParams)\<rparr>, src, None) } }"

definition decode_prepare_params :: "Stmt \<Rightarrow> nat \<Rightarrow> bytes \<Rightarrow> (Stmt \<times> bytes \<times> bool) option" where
  "decode_prepare_params c len src =
     do { (data, src) \<leftarrow> split_to (len + 4) src;
          d4 \<leftarrow> idx data 4;
          if d4 = EOF_HEADER
          then Some (c\<lparr>st_next_state := (if cols_count c > 0 then PrepareCols else PrepareComplete)\<rparr>, src, True)
          else Some (c\<lparr>params_data := params_data c @ [data]\<rparr>, src, False) }"

definition decode_prepare_cols :: "Stmt \<Rightarrow> nat \<Rightarrow> bytes \<Rightarrow> (Stmt \<times> bytes \<times> bool) option" where
  "decode_prepare_cols c len src =
     do { (data, src) \<leftarrow> split_to (len + 4) src;
          d4 \<leftarrow> idx data 4;
          if d4 = EOF_HEADER then Some (c\<lparr>st_next_state := PrepareComplete\<rparr>, src, True)
          else Some (c\<lparr>cols_data := cols_data c @ [data]\<rparr>, src, False) }"

definition Stmt_decode :: "(Stmt, bytes option) decoder" where
  "Stmt_decode c src =
     (if src = [] \<or> length src \<le> 3 then Some (c, src, Inr None)
      else let len = le_val (take 3 src) in
        if len + 4 > length src then Some (c, src, Inr None)
        else do {
          s \<leftarrow> idx src 3;
          let c = c\<lparr>st_seq := s\<rparr>;
          (case st_next_state c of
             PrepareFirst \<Rightarrow> some_item (decode_prepare_return c len src)
           | PrepareParams \<Rightarrow> some_item (map_option (\<lambda>(c, src, _). (c, src, None)) (decode_prepare_params c len src))
           | PrepareCols \<Rightarrow> some_item (map_option (\<lambda>(c, src, _). (c, src, None)) (decode_prepare_cols c len src))
           | PrepareComplete \<Rightarrow> Some (c, src, Inr (Some None))) })"

definition Stmt_encode :: "u8 \<times> bytes \<Rightarrow> bytes" where
  "Stmt_encode item = write_command_binary item"


subsection \<open>Single packets\<close>

record CommonCodec =
  cc_seq :: u8
  cc_auth_info :: "ClientAuth option"
  cc_is_complete :: bool

definition CommonCodec_with_auth_info :: "ClientAuth option \<Rightarrow> CommonCodec" where
  "CommonCodec_with_auth_info ai = \<lparr>cc_seq = 0, cc_auth_info = ai, cc_is_complete = False\<rparr>"

text \<open>\<open>src[3]\<close> panics on one to three bytes.\<close>

definition CommonCodec_decode :: "(CommonCodec, bytes \<times> bool) decoder" where
  "CommonCodec_decode c src =
     (if src = [] then Some (c, src, Inr None)
      else do {
        s \<leftarrow> idx src 3;
        len \<leftarrow> get_length src;
        let c = c\<lparr>cc_seq := s\<rparr>;
        if length src < 4 + len then Some (c, src, Inr None)
        else do {
          (payload, src) \<leftarrow> split_to (4 + len) src;
          Some (if src = [] then c\<lparr>cc_is_complete := True\<rparr> else c, src, Inr (Some (payload, src = []))) } })"

definition CommonCodec_encode :: "u8 \<times> bytes \<Rightarrow> bytes" where
  "CommonCodec_encode item = write_command_binary item"

definition CommonStream_next ::
    "CommonCodec Framed \<Rightarrow> (CommonCodec Framed \<times> (ProtocolError + bytes) option) option" where
  "CommonStream_next f =
     (let done = cc_is_complete (codec f) in
      do { (f, r) \<leftarrow> framed_poll CommonCodec_decode f;
           (case r of
              Ready (Some (Inr data)) \<Rightarrow> Some (f, Some (Inr (fst data)))
            | Ready (Some (Inl e)) \<Rightarrow> Some (f, Some (Inl e))
            | Ready None \<Rightarrow> Some (f, None)
            | Pending \<Rightarrow> if done then Some (f, None) else None) })"



subsection \<open>The codec of a connection\<close>

datatype ClientCodec =
    ClientAuthC "ClientAuth Framed"
  | ResultsetC "ResultsetCodec Framed"
  | StmtC "Stmt Framed"
  | CommonC "CommonCodec Framed"

definition deref :: "ClientCodec \<Rightarrow> ClientAuth option" where
  "deref cc =
     (case cc of
        ClientAuthC f \<Rightarrow> Some (codec f)
      | ResultsetC f \<Rightarrow> rs_auth_info (codec f)
      | StmtC f \<Rightarrow> st_auth_info (codec f)
      | CommonC f \<Rightarrow> cc_auth_info (codec f))"

text \<open>Writing through \<open>deref_mut\<close>: \<open>unwrap\<close> panics without authentication data.\<close>

definition deref_mut :: "(ClientAuth \<Rightarrow> ClientAuth) \<Rightarrow> ClientCodec \<Rightarrow> ClientCodec option" where
  "deref_mut g cc =
     (case cc of
        ClientAuthC f \<Rightarrow> Some (ClientAuthC (f\<lparr>codec := g (codec f)\<rparr>))
      | ResultsetC f \<Rightarrow>
          map_option (\<lambda>a. ResultsetC (f\<lparr>codec := (codec f)\<lparr>rs_auth_info := Some (g a)\<rparr>\<rparr>)) (rs_auth_info (codec f))
      | StmtC f \<Rightarrow>
          map_option (\<lambda>a. StmtC (f\<lparr>codec := (codec f)\<lparr>st_auth_info := Some (g a)\<rparr>\<rparr>)) (st_auth_info (codec f))
      | CommonC f \<Rightarrow>
          map_option (\<lambda>a. CommonC (f\<lparr>codec := (codec f)\<lparr>cc_auth_info := Some (g a)\<rparr>\<rparr>)) (cc_auth_info (codec f)))"

definition codec_sock :: "ClientCodec \<Rightarrow> nat" where
  "codec_sock cc =
     (case cc of ClientAuthC f \<Rightarrow> sock f | ResultsetC f \<Rightarrow> sock f | StmtC f \<Rightarrow> sock f | CommonC f \<Rightarrow> sock f)"

text \<open>\<open>into_resultset\<close>, \<open>into_stmt\<close> and \<open>into_common\<close>: the codec of the same kind is renewed,
  the others (and \<open>Common\<close>) hand their authentication data to a new one.\<close>

definition into_resultset :: "ClientCodec \<Rightarrow> ResultsetCodec Framed" where
  "into_resultset cc =
     (case cc of
        ClientAuthC f \<Rightarrow> map_codec (\<lambda>c. ResultsetCodec_with_auth_info (Some c)) f
      | ResultsetC f \<Rightarrow> f\<lparr>codec := ResultsetCodec_renew (codec f)\<rparr>
      | StmtC f \<Rightarrow> map_codec (\<lambda>c. ResultsetCodec_with_auth_info (st_auth_info c)) f
      | CommonC f \<Rightarrow> map_codec (\<lambda>c. ResultsetCodec_with_auth_info (cc_auth_info c)) f)"

definition into_stmt :: "ClientCodec \<Rightarrow> Stmt Framed" where
  "into_stmt cc =
     (case cc of
        ClientAuthC f \<Rightarrow> map_codec (\<lambda>c. Stmt_with_auth_info (Some c)) f
      | ResultsetC f \<Rightarrow> map_codec (\<lambda>c. Stmt_with_auth_info (rs_auth_info c)) f
      | StmtC f \<Rightarrow> f\<lparr>codec := Stmt_renew (codec f)\<rparr>
      | CommonC f \<Rightarrow> map_codec (\<lambda>c. Stmt_with_auth_info (cc_auth_info c)) f)"

definition into_common :: "ClientCodec \<Rightarrow> CommonCodec Framed" where
  "into_common cc =
     (case cc of
        ClientAuthC f \<Rightarrow> map_codec (\<lambda>c. CommonCodec_with_auth_info (Some c)) f
      | ResultsetC f \<Rightarrow> map_codec (\<lambda>c. CommonCodec_with_auth_info (rs_auth_info c)) f
      | StmtC f \<Rightarrow> map_codec (\<lambda>c. CommonCodec_with_auth_info (st_auth_info c)) f
      | CommonC f \<Rightarrow> map_codec (\<lambda>c. CommonCodec_with_auth_info (cc_auth_info c)) f)"


subsection \<open>Lemmas\<close>

text \<open>Conversions keep the session data of the connection.\<close>

lemma into_keeps_auth:
  "rs_auth_info (codec (into_resultset cc)) = deref cc"
  "st_auth_info (codec (into_stmt cc)) = deref cc"
  "cc_auth_info (codec (into_common cc)) = deref cc"
  "sock (into_resultset cc) = codec_sock cc" "sock (into_stmt cc) = codec_sock cc"
  "sock (into_common cc) = codec_sock cc"
  by (cases cc; simp add: into_resultset_def into_stmt_def into_common_def deref_def codec_sock_def
      ResultsetCodec_with_auth_info_def ResultsetCodec_renew_def ResultsetCodec_new_def
      Stmt_with_auth_info_def Stmt_renew_def Stmt_new_def CommonCodec_with_auth_info_def)+

lemma write_command_frame:
  "write_command_binary (com, payload) = frame 0 (com # payload)"
  "write_command (com, sql) = frame 0 (com # str_bytes sql)"
  by (simp_all add: write_command_binary_def write_command_def frame_def len_bytes_eq)

lemma incomplete_cases:
  "incomplete rb \<longleftrightarrow> rb = [] \<or> length rb < 3 \<or> 4 + le_val (take 3 rb) > length rb"
  "incomplete rb \<longleftrightarrow> rb = [] \<or> length rb \<le> 3 \<or> le_val (take 3 rb) + 4 > length rb"
  by (auto simp: incomplete_def)

lemma frame_fields:
  assumes "length p < 2 ^ 24"
  shows "\<not> incomplete (frame s p @ rest)" "le_val (take 3 (frame s p @ rest)) = length p"
    "idx (frame s p @ rest) 3 = Some s" "split_to (4 + length p) (frame s p @ rest) = Some (frame s p, rest)"
    "split_to (length p + 4) (frame s p @ rest) = Some (frame s p, rest)"
    "p \<noteq> [] \<Longrightarrow> idx (frame s p @ rest) 4 = Some (hd p)"
proof -
  show len: "le_val (take 3 (frame s p @ rest)) = length p"
    using frame_decode(2) [OF assms, of s] by (simp add: frame_def)
  then show "\<not> incomplete (frame s p @ rest)"
    by (simp add: incomplete_def frame_def)
qed (auto simp: frame_def idx_def split_to_def nth_append hd_conv_nth)


text \<open>Packets as the codecs tell them apart.\<close>

definition eof_payload :: "bytes \<Rightarrow> bool" where
  "eof_payload p \<longleftrightarrow> length p \<le> 5 \<and> hd p = EOF_HEADER"

definition ok_payload :: "bytes \<Rightarrow> bool" where
  "ok_payload p \<longleftrightarrow> length p > 3 \<and> hd p = OK_HEADER"

lemma is_eof_frame: "p \<noteq> [] \<Longrightarrow> is_eof (frame s p) = Some (eof_payload p)"
  by (auto simp: is_eof_def eof_payload_def frame_def idx_def nth_append hd_conv_nth)

lemma is_ok_frame: "p \<noteq> [] \<Longrightarrow> is_ok (frame s p) = ok_payload p"
  by (auto simp: is_ok_def ok_payload_def frame_def nth_append hd_conv_nth)

lemma is_ok_frame_append:
  "p \<noteq> [] \<Longrightarrow> hd p \<noteq> OK_HEADER \<Longrightarrow> \<not> is_ok (frame s p @ rest)"
  "ok_payload p \<Longrightarrow> is_ok (frame s p @ rest)"
  by (cases p; auto simp: is_ok_def ok_payload_def frame_def nth_append)+

text \<open>The payloads the result-set codec accepts in a state (an error packet, after which
  nothing is left, apart), the state after them and the flag it returns.\<close>

definition rs_ok :: "ResultsetCodec \<Rightarrow> bytes \<Rightarrow> bool" where
  "rs_ok c p \<longleftrightarrow> p \<noteq> [] \<and>
     (case rs_next_state c of
        ColumnCount \<Rightarrow> ok_payload p \<or>
          hd p \<noteq> OK_HEADER \<and> hd p \<noteq> ERR_HEADER \<and> get_lenc_int p \<noteq> None
      | Complete \<Rightarrow> False
      | _ \<Rightarrow> True)"

definition rs_nxt :: "ResultsetCodec \<Rightarrow> u8 \<Rightarrow> bytes \<Rightarrow> bytes \<Rightarrow> ResultsetCodec" where
  "rs_nxt c s p rest =
     (let c = c\<lparr>rs_seq := s\<rparr> in
      case rs_next_state c of
        ColumnCount \<Rightarrow> if ok_payload p then c\<lparr>rs_next_state := Complete\<rparr>
          else c\<lparr>rs_next_state := ColumnInfoState, rs_col := fst (fst (the (get_lenc_int p)))\<rparr>
      | ColumnInfoState \<Rightarrow>
          if eof_payload p \<or> ok_payload p then (if rest = [] then c\<lparr>rs_next_state := Row\<rparr> else decode_column_eof c)
          else c
      | _ \<Rightarrow> c\<lparr>rs_next_state := (if eof_payload p then Complete else Row)\<rparr>)"

definition rs_item :: "ResultsetCodec \<Rightarrow> u8 \<Rightarrow> bytes \<Rightarrow> bytes \<times> bool" where
  "rs_item c s p =
     (frame s p,
      case rs_next_state c of
        ColumnCount \<Rightarrow> ok_payload p \<or> fst (snd (fst (the (get_lenc_int p))))
      | ColumnInfoState \<Rightarrow> False
      | _ \<Rightarrow> eof_payload p)"

lemma frame_drop4: "split_to 4 (frame s p) = Some (take 4 (frame s p), p)"
  by (simp add: frame_def split_to_def)

lemma rs_decode_dispatch:
  assumes "\<not> incomplete d" "le_val (take 3 d) = len" "idx d 3 = Some s"
  shows "ResultsetCodec_decode c d =
      (case rs_next_state c of
         ColumnCount \<Rightarrow> some_item (decode_column_count (c\<lparr>rs_seq := s\<rparr>) len d)
       | ColumnInfoState \<Rightarrow> some_item (decode_column_info (c\<lparr>rs_seq := s\<rparr>) len d)
       | Row \<Rightarrow> some_item (decode_row (c\<lparr>rs_seq := s\<rparr>) len d)
       | RowBinary \<Rightarrow> some_item (decode_row_binary (c\<lparr>rs_seq := s\<rparr>) len d)
       | Complete \<Rightarrow> Some (c\<lparr>rs_seq := s\<rparr>, d, Inr None))"
  using assms unfolding incomplete_cases(1) ResultsetCodec_decode_def Let_def
  by (cases "rs_next_state c") simp_all

lemma rs_decode_frame:
  assumes "rs_ok c p" "length p < 2 ^ 24"
  shows "ResultsetCodec_decode c (frame s p @ rest) =
    Some (rs_nxt c s p rest, rest, Inr (Some (rs_item c s p)))"
proof -
  note ff = frame_fields [OF assms(2), of s rest]
  have p: "p \<noteq> []"
    using assms(1) by (simp add: rs_ok_def)
  note dec = rs_decode_dispatch [OF ff(1-3)]
  show ?thesis
  proof (cases "rs_next_state c")
    case ColumnCount
    show ?thesis
    proof (cases "ok_payload p")
      case True
      then show ?thesis
        using ColumnCount p ff(4,6) is_ok_frame_append(2) [of p s rest]
        by (simp add: dec rs_nxt_def rs_item_def some_item_def decode_column_count_def decode_try_ok_def
            ok_payload_def OK_HEADER_def ERR_HEADER_def)
    next
      case False
      then show ?thesis
        using ColumnCount assms(1) p ff(4,6) is_ok_frame_append(1) [of p s rest] frame_drop4
        by (auto simp: dec rs_ok_def rs_nxt_def rs_item_def some_item_def decode_column_count_def decode_try_ok_def)
    qed
  next
    case ColumnInfoState
    then show ?thesis
      using p ff(4) is_eof_frame is_ok_frame
      by (auto simp: dec rs_nxt_def rs_item_def some_item_def decode_column_info_def decode_column_eof_def)
  next
    case Row
    then show ?thesis
      using p ff(4) is_eof_frame
      by (auto simp: dec rs_nxt_def rs_item_def some_item_def decode_row_def)
  next
    case RowBinary
    then show ?thesis
      using p ff(4) is_eof_frame
      by (auto simp: dec rs_nxt_def rs_item_def some_item_def decode_row_def decode_row_binary_def)
  next
    case Complete
    then show ?thesis
      using assms(1) by (simp add: rs_ok_def)
  qed
qed

interpretation rs: packet_decoder ResultsetCodec_decode rs_ok rs_nxt rs_item
proof
  fix rb c
  assume "incomplete rb"
  then show "ResultsetCodec_decode c rb = Some (c, rb, Inr None)"
    using incomplete_cases(1) [of rb] by (auto simp: ResultsetCodec_decode_def Let_def)
qed (rule rs_decode_frame)


subsection \<open>The stream of a result set\<close>

definition pending_bytes :: "'c Framed \<Rightarrow> bytes" where
  "pending_bytes f = rbuf f @ concat (inbox f)"

definition row_state :: "ResultsetCodec Framed \<Rightarrow> bool" where
  "row_state f \<longleftrightarrow> rs_next_state (codec f) = Row \<or> rs_next_state (codec f) = RowBinary"

lemma stream_poll:
  assumes "rs_ok (codec f) p" "length p < 2 ^ 24" "pending_bytes f = frame s p @ rest"
  shows "\<exists>f'. framed_poll ResultsetCodec_decode f = Some (f', Ready (Some (Inr (rs_item (codec f) s p)))) \<and>
    codec f' = rs_nxt (codec f) s p (rbuf f') \<and> pending_bytes f' = rest \<and> sock f' = sock f"
proof -
  obtain rb' chunks' where "poll_loop ResultsetCodec_decode (codec f) (rbuf f) (inbox f) (closed f) =
      Some (rs_nxt (codec f) s p rb', rb', chunks', Ready (Some (Inr (rs_item (codec f) s p))))"
      "rb' @ concat chunks' = rest"
    using rs.poll_frame [OF assms(1,2) assms(3) [unfolded pending_bytes_def]] by blast
  then show ?thesis
    by (auto simp: framed_poll_def pending_bytes_def)
qed

lemma stream_step:
  assumes "rs_ok (codec f) p" "length p < 2 ^ 24" "pending_bytes f = frame s p @ rest"
    and "row_state f \<Longrightarrow> \<not> eof_payload p"
  shows "\<exists>f'. ResultsetStream_next f = Some (f', Some (Inr (frame s p))) \<and>
    codec f' = rs_nxt (codec f) s p (rbuf f') \<and> pending_bytes f' = rest \<and> sock f' = sock f"
proof -
  have "is_eof (frame s p) = Some (eof_payload p)"
    using assms(1) is_eof_frame by (auto simp: rs_ok_def)
  then show ?thesis
    using stream_poll [OF assms(1-3)] assms(4)
    by (auto simp: ResultsetStream_next_def Let_def rs_item_def row_state_def)
qed

lemma stream_end:
  assumes "row_state f" "eof_payload p" "p \<noteq> []" "length p < 2 ^ 24" "pending_bytes f = frame s p @ rest"
  shows "\<exists>f'. ResultsetStream_next f = Some (f', None) \<and> rs_next_state (codec f') = Complete \<and>
    pending_bytes f' = rest \<and> sock f' = sock f"
proof -
  have ok: "rs_ok (codec f) p"
    using assms(1,3) by (auto simp: rs_ok_def row_state_def)
  have "is_eof (frame s p) = Some (eof_payload p)"
    using assms(3) is_eof_frame by auto
  moreover have "rs_next_state (rs_nxt (codec f) s p r) = Complete" for r
    using assms(1,2) by (auto simp: rs_nxt_def row_state_def)
  ultimately show ?thesis
    using stream_poll [OF ok assms(4,5)] assms(1,2)
    by (auto simp: ResultsetStream_next_def Let_def rs_item_def row_state_def)
qed

definition plain_packet :: "bytes \<Rightarrow> bool" where
  "plain_packet p \<longleftrightarrow> p \<noteq> [] \<and> length p < 2 ^ 24 \<and> \<not> eof_payload p"

definition eof_packet :: "bytes \<Rightarrow> bool" where
  "eof_packet p \<longleftrightarrow> p \<noteq> [] \<and> eof_payload p"

definition wire :: "(u8 \<times> bytes) list \<Rightarrow> bytes" where
  "wire ps = concat (map (\<lambda>(s, p). frame s p) ps)"

lemma wire_simps [simp]: "wire [] = []" "wire ((s, p) # ps) = frame s p @ wire ps" "wire (ps @ qs) = wire ps @ wire qs"
  by (simp_all add: wire_def)

lemma rows_items:
  assumes "row_state f" "\<forall>(s, p) \<in> set rows. plain_packet p" "eof_packet e"
    and "pending_bytes f = wire rows @ frame t e @ rest"
  shows "\<exists>f'. ResultsetStream_items f = Some (map (\<lambda>(s, p). Inr (frame s p)) rows, f') \<and>
    rs_next_state (codec f') = Complete \<and> pending_bytes f' = rest \<and> sock f' = sock f"
  using assms
proof (induction rows arbitrary: f)
  case Nil
  then show ?case
    using stream_end [of f e t rest]
    by (subst ResultsetStream_items.simps) (auto simp: eof_packet_def eof_payload_def)
next
  case (Cons r rows)
  obtain s p where r: "r = (s, p)"
    by (cases r)
  have p: "plain_packet p"
    using Cons.prems(2) r by simp
  have "\<exists>f1. ResultsetStream_next f = Some (f1, Some (Inr (frame s p))) \<and>
      codec f1 = rs_nxt (codec f) s p (rbuf f1) \<and> pending_bytes f1 = wire rows @ frame t e @ rest \<and> sock f1 = sock f"
    using Cons.prems p r
    by (intro stream_step) (auto simp: plain_packet_def rs_ok_def row_state_def)
  then obtain f1 where f1: "ResultsetStream_next f = Some (f1, Some (Inr (frame s p)))"
      "codec f1 = rs_nxt (codec f) s p (rbuf f1)" "pending_bytes f1 = wire rows @ frame t e @ rest" "sock f1 = sock f"
    by blast
  have "row_state f1"
    using f1(2) Cons.prems(1) p by (auto simp: row_state_def rs_nxt_def plain_packet_def)
  then obtain f' where "ResultsetStream_items f1 = Some (map (\<lambda>(s, p). Inr (frame s p)) rows, f')"
      "rs_next_state (codec f') = Complete" "pending_bytes f' = rest" "sock f' = sock f1"
    using Cons.IH [of f1] Cons.prems(2,3) f1(3) by auto
  then show ?case
    using f1 r by (subst ResultsetStream_items.simps) auto
qed

definition column_packet :: "bytes \<Rightarrow> bool" where
  "column_packet p \<longleftrightarrow> plain_packet p \<and> \<not> ok_payload p"

definition count_packet :: "bytes \<Rightarrow> bool" where
  "count_packet p \<longleftrightarrow> plain_packet p \<and> hd p \<noteq> OK_HEADER \<and> hd p \<noteq> ERR_HEADER \<and> get_lenc_int p \<noteq> None"

text \<open>One packet in each phase before the rows.\<close>

lemma count_step:
  assumes "rs_next_state (codec f) = ColumnCount" "count_packet p" "pending_bytes f = frame s p @ rest"
  shows "\<exists>f'. ResultsetStream_next f = Some (f', Some (Inr (frame s p))) \<and>
    rs_next_state (codec f') = ColumnInfoState \<and> pending_bytes f' = rest \<and> sock f' = sock f"
proof -
  have "rs_ok (codec f) p" "length p < 2 ^ 24" "row_state f \<Longrightarrow> \<not> eof_payload p" "\<not> ok_payload p"
    using assms(1,2) by (auto simp: count_packet_def plain_packet_def rs_ok_def row_state_def ok_payload_def)
  then show ?thesis
    using stream_step [of f p s rest] assms(1,3) by (auto simp: rs_nxt_def)
qed

lemma column_step:
  assumes "rs_next_state (codec f) = ColumnInfoState" "column_packet p" "pending_bytes f = frame s p @ rest"
  shows "\<exists>f'. ResultsetStream_next f = Some (f', Some (Inr (frame s p))) \<and>
    rs_next_state (codec f') = ColumnInfoState \<and> pending_bytes f' = rest \<and> sock f' = sock f"
proof -
  have "rs_ok (codec f) p" "length p < 2 ^ 24" "row_state f \<Longrightarrow> \<not> eof_payload p"
    using assms(1,2) by (auto simp: column_packet_def plain_packet_def rs_ok_def row_state_def)
  then show ?thesis
    using stream_step [of f p s rest] assms by (auto simp: rs_nxt_def column_packet_def plain_packet_def)
qed

lemma column_eof_step:
  assumes "rs_next_state (codec f) = ColumnInfoState" "eof_packet p" "pending_bytes f = frame s p @ rest"
  shows "\<exists>f'. ResultsetStream_next f = Some (f', Some (Inr (frame s p))) \<and>
    row_state f' \<and> pending_bytes f' = rest \<and> sock f' = sock f"
proof -
  have "rs_ok (codec f) p" "length p < 2 ^ 24" "row_state f \<Longrightarrow> \<not> eof_payload p"
    using assms(1,2) by (auto simp: eof_packet_def eof_payload_def rs_ok_def row_state_def)
  then obtain f' where f': "ResultsetStream_next f = Some (f', Some (Inr (frame s p)))"
      "codec f' = rs_nxt (codec f) s p (rbuf f')" "pending_bytes f' = rest" "sock f' = sock f"
    using stream_step [of f p s rest] assms(3) by auto
  moreover have "row_state f'"
    using assms(1,2) f'(2) by (auto simp: rs_nxt_def row_state_def eof_packet_def decode_column_eof_def Let_def)
  ultimately show ?thesis
    by blast
qed

lemma items_step:
  "ResultsetStream_next f = Some (f', Some x) \<Longrightarrow> ResultsetStream_items f' = Some (xs, g) \<Longrightarrow>
   ResultsetStream_items f = Some (x # xs, g)"
  by (subst ResultsetStream_items.simps) simp

lemma columns_items:
  assumes "rs_next_state (codec f) = ColumnInfoState" "\<forall>(s, p) \<in> set cols. column_packet p" "eof_packet e1"
    and "\<forall>(s, p) \<in> set rows. plain_packet p" "eof_packet e2"
    and "pending_bytes f = wire cols @ frame t1 e1 @ wire rows @ frame t2 e2 @ rest"
  shows "\<exists>f'. ResultsetStream_items f =
      Some (map (\<lambda>(s, p). Inr (frame s p)) (cols @ (t1, e1) # rows), f') \<and>
    rs_next_state (codec f') = Complete \<and> pending_bytes f' = rest \<and> sock f' = sock f"
  using assms
proof (induction cols arbitrary: f)
  case Nil
  then obtain f1 where f1: "ResultsetStream_next f = Some (f1, Some (Inr (frame t1 e1)))" "row_state f1"
      "pending_bytes f1 = wire rows @ frame t2 e2 @ rest" "sock f1 = sock f"
    using column_eof_step [of f e1 t1 "wire rows @ frame t2 e2 @ rest"] by auto
  obtain f' where "ResultsetStream_items f1 = Some (map (\<lambda>(s, p). Inr (frame s p)) rows, f')"
      "rs_next_state (codec f') = Complete" "pending_bytes f' = rest" "sock f' = sock f1"
    using rows_items [OF f1(2) assms(4,5) f1(3)] by blast
  then show ?case
    using items_step [OF f1(1)] f1(4) by auto
next
  case (Cons r cols)
  obtain s p where r: "r = (s, p)"
    by (cases r)
  obtain f1 where f1: "ResultsetStream_next f = Some (f1, Some (Inr (frame s p)))"
      "rs_next_state (codec f1) = ColumnInfoState"
      "pending_bytes f1 = wire cols @ frame t1 e1 @ wire rows @ frame t2 e2 @ rest" "sock f1 = sock f"
    using column_step [of f p s "wire cols @ frame t1 e1 @ wire rows @ frame t2 e2 @ rest"] Cons.prems r by auto
  obtain f' where "ResultsetStream_items f1 = Some (map (\<lambda>(s, p). Inr (frame s p)) (cols @ (t1, e1) # rows), f')"
      "rs_next_state (codec f') = Complete" "pending_bytes f' = rest" "sock f' = sock f1"
    using Cons.IH [OF f1(2) _ assms(3-5) f1(3)] Cons.prems(2) by auto
  then show ?case
    using items_step [OF f1(1)] f1(4) r by auto
qed


subsection \<open>Properties\<close>

text \<open>C9.  Reading a result set does not depend on how the network cuts it: whatever the
  chunks, the stream delivers the column count, the columns, the column EOF and the rows,
  each as the packet that was sent, then ends; the codec is complete and nothing is left
  over.\<close>

theorem resultset_stream:
  assumes "rs_next_state (codec f) = ColumnCount" "count_packet cnt" "\<forall>(s, p) \<in> set cols. column_packet p"
    and "eof_packet e1" "\<forall>(s, p) \<in> set rows. plain_packet p" "eof_packet e2"
    and "rbuf f @ concat (inbox f) = wire ((t0, cnt) # cols @ (t1, e1) # rows @ [(t2, e2)])"
  shows "\<exists>f'. ResultsetStream_items f =
      Some (map (\<lambda>(s, p). Inr (frame s p)) ((t0, cnt) # cols @ (t1, e1) # rows), f') \<and>
    rs_next_state (codec f') = Complete \<and> rbuf f' @ concat (inbox f') = []"
proof -
  obtain f1 where f1: "ResultsetStream_next f = Some (f1, Some (Inr (frame t0 cnt)))"
      "rs_next_state (codec f1) = ColumnInfoState"
      "pending_bytes f1 = wire cols @ frame t1 e1 @ wire rows @ frame t2 e2 @ []"
    using count_step [OF assms(1,2), of t0 "wire cols @ frame t1 e1 @ wire rows @ frame t2 e2"] assms(7)
    by (auto simp: pending_bytes_def)
  obtain f' where "ResultsetStream_items f1 = Some (map (\<lambda>(s, p). Inr (frame s p)) (cols @ (t1, e1) # rows), f')"
      "rs_next_state (codec f') = Complete" "pending_bytes f' = []"
    using columns_items [OF f1(2) assms(3-6) f1(3)] by blast
  then show ?thesis
    using items_step [OF f1(1)] by (auto simp: pending_bytes_def)
qed

theorem resultset_stream_witness:
  "\<exists>f'. ResultsetStream_items
      \<lparr>codec = ResultsetCodec_new, rbuf = [1, 0], sock = 0,
       inbox = [[0, 1, 1, 2], [0, 0, 2, 3, 9, 1, 0, 0, 3, 254], [2, 0, 0, 4, 1, 55, 1, 0, 0, 5, 254]], closed = False\<rparr> =
    Some ([Inr [1, 0, 0, 1, 1], Inr [2, 0, 0, 2, 3, 9], Inr [1, 0, 0, 3, 254], Inr [2, 0, 0, 4, 1, 55]], f')"
  using resultset_stream [of "\<lparr>codec = ResultsetCodec_new, rbuf = [1, 0], sock = 0,
       inbox = [[0, 1, 1, 2], [0, 0, 2, 3, 9, 1, 0, 0, 3, 254], [2, 0, 0, 4, 1, 55, 1, 0, 0, 5, 254]], closed = False\<rparr>"
      "[1]" "[(2, [3, 9])]" "[254]" "[(4, [1, 55])]" "[254]" 1 3 5]
  by (simp add: ResultsetCodec_new_def count_packet_def plain_packet_def column_packet_def eof_packet_def
      eof_payload_def ok_payload_def OK_HEADER_def ERR_HEADER_def EOF_HEADER_def get_lenc_int_def frame_def
      le_bytes_numeral) blast

end
