(* ===== verification/ClientConn.thy ===== *)
theory ClientConn
  imports ClientCodec ConnPool
begin

section \<open>Backend connections\<close>

text \<open>
  A connection to a backend, \<open>protocol/mysql/src/client/conn.rs\<close>: connecting, the commands
  the proxy sends, and the traits of the pool.  The network is the parameter \<open>backend\<close>:
  dialling an endpoint gives a socket and the first chunks, \<open>exch\<close> is the answer to what is
  written, \<open>ready\<close> the state of the socket.  Every operation takes the stream out of the
  connection first; when sending fails it returns the error without putting it back.  The
  ten-second timeout of the handshake is not modelled: a handshake that waits for ever has
  no result.
\<close>

record 'w backend =
  dial :: "string \<Rightarrow> 'w \<Rightarrow> (string + nat \<times> bytes list \<times> bool) \<times> 'w"
  exch :: "'w exchange"
  ready :: "nat \<Rightarrow> 'w \<Rightarrow> bool"

record ClientConn =
  framed :: "ClientCodec option"
  cn_user :: string
  cn_password :: string
  endpoint :: string

definition with_opts :: "string \<Rightarrow> string \<Rightarrow> string \<Rightarrow> ClientConn" where
  "with_opts usr pw ep = \<lparr>framed = None, cn_user = usr, cn_password = pw, endpoint = ep\<rparr>"

definition connect ::
    "'k crypto \<Rightarrow> 'w backend \<Rightarrow> ClientConn \<Rightarrow> 'w \<Rightarrow> ((ProtocolError + ClientConn) \<times> 'w) option" where
  "connect C B conn w =
     (case dial B (endpoint conn) w of
        (Inl e, w) \<Rightarrow> Some (Inl (Io e), w)
      | (Inr (n, chunks, eof), w) \<Rightarrow>
          do { let auth_codec = ClientAuth_new\<lparr>ca_user := cn_user conn, ca_password := cn_password conn,
                                               tls_config := None\<rparr>;
               (r, w) \<leftarrow> client_handshake C (exch B)
                 \<lparr>codec = auth_codec, rbuf = [], sock = n, inbox = chunks, closed = eof\<rparr> w;
               (case r of
                  Inl e \<Rightarrow> Some (Inl e, w)
                | Inr f \<Rightarrow> Some (Inr (conn\<lparr>framed := Some (ClientAuthC f)\<rparr>), w)) })"


subsection \<open>Commands\<close>

text \<open>\<open>framed.take().unwrap()\<close>, the conversion of the codec, \<open>send(..).await?\<close>: what all
  commands start with.  The connection given back has no stream.\<close>

definition take_framed :: "ClientConn \<Rightarrow> (ClientCodec \<times> ClientConn) option" where
  "take_framed conn = map_option (\<lambda>cc. (cc, conn\<lparr>framed := None\<rparr>)) (framed conn)"

definition send_rs ::
    "'w backend \<Rightarrow> bool \<Rightarrow> u8 \<Rightarrow> bytes \<Rightarrow> ClientConn \<Rightarrow> 'w \<Rightarrow> ((ProtocolError + unit) \<times> ClientConn \<times> 'w) option" where
  "send_rs B bin com val conn w =
     do { (cc, conn) \<leftarrow> take_framed conn;
          let f = into_resultset cc;
          let c = (if bin then with_binary (codec f) True else codec f);
          let (c, out) = ResultsetCodec_encode c (Binary (com, val));
          (case framed_send (exch B) f c out w of
             (Inl e, w) \<Rightarrow> Some (Inl e, conn, w)
           | (Inr f, w) \<Rightarrow> Some (Inr (), conn\<lparr>framed := Some (ResultsetC f)\<rparr>, w)) }"

definition send_query ::
    "'w backend \<Rightarrow> bytes \<Rightarrow> ClientConn \<Rightarrow> 'w \<Rightarrow> ((ProtocolError + unit) \<times> ClientConn \<times> 'w) option" where
  "send_query B val conn w = send_rs B False COM_QUERY val conn w"

definition send_execute ::
    "'w backend \<Rightarrow> bytes \<Rightarrow> ClientConn \<Rightarrow> 'w \<Rightarrow> ((ProtocolError + unit) \<times> ClientConn \<times> 'w) option" where
  "send_execute B val conn w = send_rs B True COM_STMT_EXECUTE val conn w"

definition send_query_without_stream ::
    "'w backend \<Rightarrow> bytes \<Rightarrow> ClientConn \<Rightarrow> 'w \<Rightarrow> ((ProtocolError + unit) \<times> ClientConn \<times> 'w) option" where
  "send_query_without_stream B val conn w = send_rs B False COM_QUERY val conn w"

definition send_execute_without_stream ::
    "'w backend \<Rightarrow> bytes \<Rightarrow> ClientConn \<Rightarrow> 'w \<Rightarrow> ((ProtocolError + unit) \<times> ClientConn \<times> 'w) option" where
  "send_execute_without_stream B val conn w = send_rs B True COM_STMT_EXECUTE val conn w"

text \<open>\<open>ResultsetStream::new\<close>: any other codec is the \<open>unreachable!\<close> panic.\<close>

definition ResultsetStream_new :: "ClientConn \<Rightarrow> ResultsetCodec Framed option" where
  "ResultsetStream_new conn = (case framed conn of Some (ResultsetC f) \<Rightarrow> Some f | _ \<Rightarrow> None)"

definition put_resultset :: "ClientConn \<Rightarrow> ResultsetCodec Framed \<Rightarrow> ClientConn" where
  "put_resultset conn f = conn\<lparr>framed := Some (ResultsetC f)\<rparr>"

text \<open>The loop of \<open>send_prepare\<close>: it goes round again also when the stream has ended.\<close>

partial_function (option) prepare_loop ::
    "Stmt Framed \<Rightarrow> (Stmt Framed \<times> (ProtocolError + unit)) option" where
  "prepare_loop f =
     (if Stmt_is_complete (codec f) then Some (f, Inr ())
      else do {
        (f, r) \<leftarrow> framed_next Stmt_decode f;
        (case r of
           Some (Inr None) \<Rightarrow> prepare_loop f
         | Some (Inr (Some data)) \<Rightarrow> if data \<noteq> [] then Some (f, Inl (PrepareError data)) else prepare_loop f
         | Some (Inl e) \<Rightarrow> Some (f, Inl e)
         | None \<Rightarrow> prepare_loop f) })"

definition send_prepare ::
    "'w backend \<Rightarrow> bytes \<Rightarrow> ClientConn \<Rightarrow> 'w \<Rightarrow> ((ProtocolError + Stmt) \<times> ClientConn \<times> 'w) option" where
  "send_prepare B val conn w =
     do { (cc, conn) \<leftarrow> take_framed conn;
          let f = into_stmt cc;
          (case framed_send (exch B) f (codec f) (Stmt_encode (COM_STMT_PREPARE, val)) w of
             (Inl e, w) \<Rightarrow> Some (Inl e, conn, w)
           | (Inr f, w) \<Rightarrow>
               do { (f, r) \<leftarrow> prepare_loop f;
                    let conn = conn\<lparr>framed := Some (StmtC f)\<rparr>;
                    (case r of
                       Inl e \<Rightarrow> Some (Inl e, conn, w)
                     | Inr _ \<Rightarrow> Some (Inr (codec f), conn, w)) }) }"

definition send_common ::
    "'w backend \<Rightarrow> u8 \<Rightarrow> bytes \<Rightarrow> ClientConn \<Rightarrow> 'w \<Rightarrow>
     ((ProtocolError + CommonCodec Framed) \<times> ClientConn \<times> 'w) option" where
  "send_common B com val conn w =
     do { (cc, conn) \<leftarrow> take_framed conn;
          let f = into_common cc;
          (case framed_send (exch B) f (codec f) (CommonCodec_encode (com, val)) w of
             (Inl e, w) \<Rightarrow> Some (Inl e, conn, w)
           | (Inr f, w) \<Rightarrow> Some (Inr f, conn, w)) }"

definition send_use_db ::
    "'w backend \<Rightarrow> string \<Rightarrow> ClientConn \<Rightarrow> 'w \<Rightarrow> ((ProtocolError + bytes \<times> bool) \<times> ClientConn \<times> 'w) option" where
  "send_use_db B val conn w =
     do { (r, conn, w) \<leftarrow> send_common B COM_INIT_DB (str_bytes val) conn w;
          (case r of
             Inl e \<Rightarrow> Some (Inl e, conn, w)
           | Inr f \<Rightarrow>
               do { (f, item) \<leftarrow> framed_next CommonCodec_decode f;
                    (case item of
                       Some (Inr data) \<Rightarrow>
                         do { d4 \<leftarrow> idx (fst data) 4;
                              if is_ok_header d4
                              then do { cc \<leftarrow> deref_mut (\<lambda>a. a\<lparr>ca_db := val\<rparr>) (CommonC f);
                                        Some (Inr (fst data, True), conn\<lparr>framed := Some cc\<rparr>, w) }
                              else Some (Inr (fst data, False), conn\<lparr>framed := Some (CommonC f)\<rparr>, w) }
                     | Some (Inl e) \<Rightarrow> Some (Inl e, conn\<lparr>framed := Some (CommonC f)\<rparr>, w)
                     | None \<Rightarrow> None) }) }"

definition send_ping ::
    "'w backend \<Rightarrow> ClientConn \<Rightarrow> 'w \<Rightarrow> ((ProtocolError + bool) \<times> ClientConn \<times> 'w) option" where
  "send_ping B conn w =
     do { (r, conn, w) \<leftarrow> send_common B COM_PING [] conn w;
          (case r of
             Inl e \<Rightarrow> Some (Inl e, conn, w)
           | Inr f \<Rightarrow>
               do { (f, item) \<leftarrow> framed_next CommonCodec_decode f;
                    let conn = conn\<lparr>framed := Some (CommonC f)\<rparr>;
                    (case item of
                       Some (Inr data) \<Rightarrow>
                         do { d4 \<leftarrow> idx (fst data) 4; Some (Inr (is_ok_header d4), conn, w) }
                     | Some (Inl e) \<Rightarrow> Some (Inl e, conn, w)
                     | None \<Rightarrow> Some (Inr False, conn, w)) }) }"

text \<open>The stream of \<open>send_common_command\<close>, and draining it.\<close>

definition send_common_command ::
    "'w backend \<Rightarrow> u8 \<Rightarrow> bytes \<Rightarrow> ClientConn \<Rightarrow> 'w \<Rightarrow> ((ProtocolError + unit) \<times> ClientConn \<times> 'w) option" where
  "send_common_command B com val conn w =
     do { (r, conn, w) \<leftarrow> send_common B com val conn w;
          (case r of
             Inl e \<Rightarrow> Some (Inl e, conn, w)
           | Inr f \<Rightarrow> Some (Inr (), conn\<lparr>framed := Some (CommonC f)\<rparr>, w)) }"

partial_function (option) drain_common :: "CommonCodec Framed \<Rightarrow> CommonCodec Framed option" where
  "drain_common f =
     do { (f, r) \<leftarrow> CommonStream_next f; (case r of Some _ \<Rightarrow> drain_common f | None \<Rightarrow> Some f) }"

definition send_query_discard_result ::
    "'w backend \<Rightarrow> string \<Rightarrow> ClientConn \<Rightarrow> 'w \<Rightarrow> ((ProtocolError + unit) \<times> ClientConn \<times> 'w) option" where
  "send_query_discard_result B val conn w =
     do { (r, conn, w) \<leftarrow> send_common_command B COM_QUERY (str_bytes val) conn w;
          (case (r, framed conn) of
             (Inr _, Some (CommonC f)) \<Rightarrow>
               do { f \<leftarrow> drain_common f; Some (Inr (), conn\<lparr>framed := Some (CommonC f)\<rparr>, w) }
           | (Inr _, _) \<Rightarrow> None
           | (Inl e, _) \<Rightarrow> Some (Inl e, conn, w)) }"

definition conn_is_ready :: "'w backend \<Rightarrow> ClientConn \<Rightarrow> 'w \<Rightarrow> bool option" where
  "conn_is_ready B conn w = map_option (\<lambda>cc. ready B (codec_sock cc) w) (framed conn)"


subsection \<open>Session attributes\<close>

definition conn_get_db :: "ClientConn \<Rightarrow> (string option) option" where
  "conn_get_db conn =
     (case framed conn of
        Some cc \<Rightarrow> map_option (\<lambda>a. if ca_db a = [] then None else Some (ca_db a)) (deref cc)
      | None \<Rightarrow> Some None)"

definition conn_get_charset :: "ClientConn \<Rightarrow> (string option) option" where
  "conn_get_charset conn =
     (case framed conn of Some cc \<Rightarrow> map_option (\<lambda>a. Some (ca_charset a)) (deref cc) | None \<Rightarrow> Some None)"

definition conn_get_autocommit :: "ClientConn \<Rightarrow> (string option) option" where
  "conn_get_autocommit conn =
     (case framed conn of Some cc \<Rightarrow> map_option auotcommit (deref cc) | None \<Rightarrow> Some None)"

definition conn_set_charset :: "string \<Rightarrow> ClientConn \<Rightarrow> ClientConn option" where
  "conn_set_charset name conn =
     do { cc \<leftarrow> framed conn; cc \<leftarrow> deref_mut (\<lambda>a. a\<lparr>ca_charset := name\<rparr>) cc;
          Some (conn\<lparr>framed := Some cc\<rparr>) }"

definition conn_set_autocommit :: "string \<Rightarrow> ClientConn \<Rightarrow> ClientConn option" where
  "conn_set_autocommit v conn =
     do { cc \<leftarrow> framed conn; cc \<leftarrow> deref_mut (\<lambda>a. a\<lparr>auotcommit := Some v\<rparr>) cc;
          Some (conn\<lparr>framed := Some cc\<rparr>) }"

datatype SessionAttr = DB "string option" | Charset string | Autocommit "string option"

definition init_attr :: "'w backend \<Rightarrow> SessionAttr \<Rightarrow> ClientConn \<Rightarrow> 'w \<Rightarrow> (ClientConn \<times> 'w) option" where
  "init_attr B attr conn w =
     (case attr of
        DB val \<Rightarrow>
          do { db \<leftarrow> conn_get_db conn;
               (case val of
                  Some d \<Rightarrow> if val \<noteq> db then map_option snd (send_use_db B d conn w) else Some (conn, w)
                | None \<Rightarrow> Some (conn, w)) }
      | Charset val \<Rightarrow>
          do { cs \<leftarrow> conn_get_charset conn;
               if Some val \<noteq> cs then
                 do { conn \<leftarrow> conn_set_charset val conn;
                      map_option snd (send_query_discard_result B (''SET NAMES '' @ val) conn w) }
               else Some (conn, w) }
      | Autocommit val \<Rightarrow>
          do { ac \<leftarrow> conn_get_autocommit conn;
               (case val of
                  Some v \<Rightarrow>
                    if val \<noteq> ac then
                      do { conn \<leftarrow> conn_set_autocommit v conn;
                           map_option snd (send_query_discard_result B (''SET AUTOCOMMIT = '' @ v) conn w) }
                    else Some (conn, w)
                | None \<Rightarrow> Some (conn, w)) })"

fun ClientConn_init :: "'w backend \<Rightarrow> SessionAttr list \<Rightarrow> ClientConn \<Rightarrow> 'w \<Rightarrow> (ClientConn \<times> 'w) option" where
  "ClientConn_init B [] conn w = Some (conn, w)"
| "ClientConn_init B (attr # items) conn w =
     do { (conn, w) \<leftarrow> init_attr B attr conn w; ClientConn_init B items conn w }"

definition ClientConn_ping :: "'w backend \<Rightarrow> ClientConn \<Rightarrow> 'w \<Rightarrow> ((ProtocolError + unit) \<times> ClientConn \<times> 'w) option" where
  "ClientConn_ping B conn w =
     map_option (\<lambda>(r, conn, w). (map_sum id (\<lambda>_. ()) r, conn, w)) (send_ping B conn w)"

text \<open>The connection type of the pool.\<close>

definition mysql_conn :: "'k crypto \<Rightarrow> 'w backend \<Rightarrow> ('w, ClientConn, ProtocolError, SessionAttr) conn_ops" where
  "mysql_conn C B = \<lparr>build_conn = connect C B, ping = ClientConn_ping B, get_endpoint = endpoint,
     init = ClientConn_init B\<rparr>"



subsection \<open>Session data of a connection\<close>

definition conn_auth :: "ClientConn \<Rightarrow> ClientAuth option" where
  "conn_auth conn = Option.bind (framed conn) deref"

lemma common_keeps: "keeps CommonCodec_decode (\<lambda>c. cc_auth_info c = a)"
  by (auto simp: keeps_def CommonCodec_decode_def Let_def bind_eq_Some_conv split: if_splits)

lemma prepare_keeps:
  "decode_prepare_return c len src = Some (c', src', r) \<Longrightarrow> st_auth_info c' = st_auth_info c"
  "decode_prepare_params c len src = Some (c', src', b) \<Longrightarrow> st_auth_info c' = st_auth_info c"
  "decode_prepare_cols c len src = Some (c', src', b) \<Longrightarrow> st_auth_info c' = st_auth_info c"
proof -
  assume r: "decode_prepare_return c len src = Some (c', src', r)"
  then obtain data d4 where "split_to (len + 4) src = Some (data, src')" "idx data 4 = Some d4"
    by (auto simp: decode_prepare_return_def bind_eq_Some_conv Let_def split: if_splits)
  then show "st_auth_info c' = st_auth_info c"
    using r by (cases "d4 = ERR_HEADER") (auto simp: decode_prepare_return_def bind_eq_Some_conv Let_def)
next
  assume "decode_prepare_params c len src = Some (c', src', b)"
  then show "st_auth_info c' = st_auth_info c"
    by (auto simp: decode_prepare_params_def bind_eq_Some_conv split: if_splits)
next
  assume "decode_prepare_cols c len src = Some (c', src', b)"
  then show "st_auth_info c' = st_auth_info c"
    by (auto simp: decode_prepare_cols_def bind_eq_Some_conv split: if_splits)
qed

lemma stmt_decode_dispatch:
  assumes "\<not> incomplete d" "le_val (take 3 d) = len" "idx d 3 = Some s"
  shows "Stmt_decode c d =
     (case st_next_state c of
        PrepareFirst \<Rightarrow> some_item (decode_prepare_return (c\<lparr>st_seq := s\<rparr>) len d)
      | PrepareParams \<Rightarrow>
          some_item (map_option (\<lambda>(c, src, _). (c, src, None)) (decode_prepare_params (c\<lparr>st_seq := s\<rparr>) len d))
      | PrepareCols \<Rightarrow>
          some_item (map_option (\<lambda>(c, src, _). (c, src, None)) (decode_prepare_cols (c\<lparr>st_seq := s\<rparr>) len d))
      | PrepareComplete \<Rightarrow> Some (c\<lparr>st_seq := s\<rparr>, d, Inr (Some None)))"
  using assms unfolding incomplete_cases(2) Stmt_decode_def Let_def
  by (cases "st_next_state c") simp_all

lemma stmt_keeps: "keeps Stmt_decode (\<lambda>c. st_auth_info c = a)"
  unfolding keeps_def
proof (intro allI impI)
  fix c rb c' rb' r
  assume d: "Stmt_decode c rb = Some (c', rb', r)" and a: "st_auth_info c = a"
  show "st_auth_info c' = a"
  proof (cases "incomplete rb")
    case True
    then show ?thesis
      using d a unfolding incomplete_cases(2) Stmt_decode_def Let_def by (auto split: if_splits)
  next
    case False
    then obtain s where "idx rb 3 = Some s"
      unfolding incomplete_cases(2) by (auto simp: idx_def)
    then show ?thesis
      using d a stmt_decode_dispatch [OF False refl, of s c] prepare_keeps
      by (cases "st_next_state c") (auto simp: some_item_def dest!: prepare_keeps)
  qed
qed

lemma framed_send_codec:
  "framed_send ex f c out w = (Inr f', w') \<Longrightarrow> codec f' = c"
  by (auto simp: framed_send_def split: sum.splits prod.splits)

lemma send_common_auth:
  assumes "send_common B com val conn w = Some (r, conn', w')"
  shows "framed conn' = None \<and> endpoint conn' = endpoint conn \<and> framed conn \<noteq> None \<and>
    (\<forall>f. r = Inr f \<longrightarrow> cc_auth_info (codec f) = conn_auth conn)"
proof -
  obtain cc where cc: "framed conn = Some cc"
    using assms by (auto simp: send_common_def take_framed_def bind_eq_Some_conv)
  show ?thesis
    using assms cc
    by (cases "framed_send (exch B) (into_common cc) (codec (into_common cc)) (CommonCodec_encode (com, val)) w")
      (auto simp: send_common_def take_framed_def conn_auth_def into_keeps_auth Let_def
        dest!: framed_send_codec split: sum.splits)
qed

lemma drain_common_auth:
  assumes "drain_common f = Some f'"
  shows "cc_auth_info (codec f') = cc_auth_info (codec f)"
proof (rule drain_common.raw_induct
    [where P = "\<lambda>f f'. cc_auth_info (codec f') = cc_auth_info (codec f)", OF _ assms], goal_cases)
  case (1 rec f f')
  obtain f1 r where n: "CommonStream_next f = Some (f1, r)"
    using 1(2) by (auto simp: bind_eq_Some_conv)
  then obtain g q where g: "framed_poll CommonCodec_decode f = Some (g, q)"
    by (auto simp: CommonStream_next_def Let_def bind_eq_Some_conv)
  then have "g = f1"
    using n by (auto simp: CommonStream_next_def Let_def split: poll.splits option.splits sum.splits if_splits)
  with g have "framed_poll CommonCodec_decode f = Some (f1, q)"
    by simp
  from framed_poll_keeps [OF common_keeps this refl] show ?case
    using 1 n by (cases r) auto
qed

text \<open>A connection after a command: the endpoint is the same, and either the stream is lost or
  the session data is as the command leaves it.\<close>

definition session_after :: "(ClientAuth \<Rightarrow> ClientAuth \<Rightarrow> bool) \<Rightarrow> ClientConn \<Rightarrow> ClientConn \<Rightarrow> bool" where
  "session_after R conn conn' \<longleftrightarrow> endpoint conn' = endpoint conn \<and>
     (framed conn' = None \<or> rel_option R (conn_auth conn) (conn_auth conn'))"

lemma session_after_mono:
  "session_after R conn conn' \<Longrightarrow> (\<And>a b. R a b \<Longrightarrow> S a b) \<Longrightarrow> session_after S conn conn'"
  unfolding session_after_def using option.rel_mono_strong by blast

lemma discard_session:
  assumes "send_query_discard_result B q conn w = Some (r, conn', w')"
  shows "session_after (=) conn conn'"
proof -
  obtain r1 conn1 w1 where c: "send_common B COM_QUERY (str_bytes q) conn w = Some (r1, conn1, w1)"
    using assms by (auto simp: send_query_discard_result_def send_common_command_def bind_eq_Some_conv)
  note a = send_common_auth [OF c]
  show ?thesis
  proof (cases r1)
    case (Inl e)
    then show ?thesis
      using assms c a
      by (auto simp: send_query_discard_result_def send_common_command_def session_after_def split: option.splits)
  next
    case (Inr f)
    then obtain f' where "drain_common f = Some f'" "conn' = conn1\<lparr>framed := Some (CommonC f')\<rparr>"
      using assms c by (auto simp: send_query_discard_result_def send_common_command_def bind_eq_Some_conv)
    then show ?thesis
      using a Inr drain_common_auth [of f f'] by (auto simp: session_after_def conn_auth_def deref_def option.rel_eq)
  qed
qed

lemma use_db_session:
  assumes "send_use_db B d conn w = Some (r, conn', w')"
  shows "session_after (\<lambda>a b. b = a \<or> b = a\<lparr>ca_db := d\<rparr>) conn conn'"
proof -
  obtain r1 conn1 w1 where c: "send_common B COM_INIT_DB (str_bytes d) conn w = Some (r1, conn1, w1)"
    using assms by (auto simp: send_use_db_def bind_eq_Some_conv)
  note a = send_common_auth [OF c]
  show ?thesis
  proof (cases r1)
    case (Inl e)
    then show ?thesis
      using assms c a by (auto simp: send_use_db_def session_after_def)
  next
    case (Inr f)
    then obtain f1 item where n: "framed_next CommonCodec_decode f = Some (f1, item)"
      using assms c by (auto simp: send_use_db_def bind_eq_Some_conv)
    have auth: "cc_auth_info (codec f1) = conn_auth conn"
      using framed_next_keeps [OF common_keeps n refl] a Inr by simp
    consider "conn' = conn1\<lparr>framed := Some (CommonC f1)\<rparr>"
      | cc where "deref_mut (\<lambda>a. a\<lparr>ca_db := d\<rparr>) (CommonC f1) = Some cc" "conn' = conn1\<lparr>framed := Some cc\<rparr>"
      using assms c Inr n
      by (cases item) (auto simp: send_use_db_def bind_eq_Some_conv split: sum.splits if_splits)
    then show ?thesis
    proof cases
      case 1
      then show ?thesis
        using a auth by (auto simp: session_after_def conn_auth_def deref_def intro: option.rel_refl)
    next
      case 2
      then show ?thesis
        using a auth
        by (cases "conn_auth conn") (auto simp: session_after_def conn_auth_def deref_def deref_mut_def)
    qed
  qed
qed

lemma deref_mut_deref: "deref_mut g cc = Some cc' \<Longrightarrow> deref cc' = map_option g (deref cc) \<and> deref cc \<noteq> None"
  by (cases cc) (auto simp: deref_mut_def deref_def)

text \<open>What one attribute of \<open>init\<close> makes of the session data.\<close>

definition attr_effect :: "SessionAttr \<Rightarrow> ClientAuth \<Rightarrow> ClientAuth \<Rightarrow> bool" where
  "attr_effect attr a b =
     (case attr of
        DB (Some d) \<Rightarrow> b = a \<or> b = a\<lparr>ca_db := d\<rparr>
      | DB None \<Rightarrow> b = a
      | Charset cs \<Rightarrow> b = a\<lparr>ca_charset := cs\<rparr>
      | Autocommit (Some v) \<Rightarrow> b = a\<lparr>auotcommit := Some v\<rparr>
      | Autocommit None \<Rightarrow> b = a)"

lemma set_attr_session:
  "conn_set_charset cs conn = Some conn' \<Longrightarrow>
   endpoint conn' = endpoint conn \<and> conn_auth conn' = map_option (\<lambda>a. a\<lparr>ca_charset := cs\<rparr>) (conn_auth conn)"
  "conn_set_autocommit v conn = Some conn' \<Longrightarrow>
   endpoint conn' = endpoint conn \<and> conn_auth conn' = map_option (\<lambda>a. a\<lparr>auotcommit := Some v\<rparr>) (conn_auth conn)"
  by (auto simp: conn_set_charset_def conn_set_autocommit_def conn_auth_def bind_eq_Some_conv
      dest!: deref_mut_deref)

lemma init_attr_session:
  assumes "init_attr B attr conn w = Some (conn', w')"
  shows "session_after (attr_effect attr) conn conn'"
proof (cases attr)
  case (DB d)
  consider "conn' = conn" | r v where "d = Some v" "send_use_db B v conn w = Some (r, conn', w')"
    using assms DB by (cases d) (auto simp: init_attr_def bind_eq_Some_conv split: if_splits)
  then show ?thesis
  proof cases
    case 1
    then show ?thesis
      using DB by (cases d) (auto simp: session_after_def attr_effect_def intro: option.rel_refl)
  next
    case 2
    then show ?thesis
      using session_after_mono [OF use_db_session [OF 2(2)]] DB by (simp add: attr_effect_def)
  qed
next
  case (Charset cs)
  consider "conn' = conn" "conn_get_charset conn = Some (Some cs)"
    | conn1 r where "conn_set_charset cs conn = Some conn1"
        "send_query_discard_result B (''SET NAMES '' @ cs) conn1 w = Some (r, conn', w')"
    using assms Charset by (auto simp: init_attr_def bind_eq_Some_conv split: if_splits)
  then show ?thesis
  proof cases
    case 1
    then show ?thesis
      using Charset
      by (auto simp: session_after_def attr_effect_def conn_get_charset_def conn_auth_def split: option.splits)
  next
    case 2
    then show ?thesis
      using discard_session [OF 2(2)] set_attr_session(1) [OF 2(1)] Charset
      by (cases "conn_auth conn"; cases "conn_auth conn'") (auto simp: session_after_def attr_effect_def option.rel_eq)
  qed
next
  case (Autocommit ac)
  consider "conn' = conn" "ac = None" | "conn' = conn" "conn_get_autocommit conn = Some ac"
    | conn1 r v where "ac = Some v" "conn_set_autocommit v conn = Some conn1"
        "send_query_discard_result B (''SET AUTOCOMMIT = '' @ v) conn1 w = Some (r, conn', w')"
    using assms Autocommit by (cases ac) (auto simp: init_attr_def bind_eq_Some_conv split: if_splits)
  then show ?thesis
  proof cases
    case 1
    then show ?thesis
      using Autocommit by (auto simp: session_after_def attr_effect_def intro: option.rel_refl)
  next
    case 2
    then show ?thesis
      using Autocommit
      by (cases ac)
        (auto simp: session_after_def attr_effect_def conn_get_autocommit_def conn_auth_def
          intro: option.rel_refl split: option.splits)
  next
    case 3
    then show ?thesis
      using discard_session [OF 3(3)] set_attr_session(2) [OF 3(2)] Autocommit
      by (cases "conn_auth conn"; cases "conn_auth conn'") (auto simp: session_after_def attr_effect_def option.rel_eq)
  qed
qed

lemma init_endpoint: "ClientConn_init B attrs conn w = Some (conn', w') \<Longrightarrow> endpoint conn' = endpoint conn"
proof (induction attrs arbitrary: conn w)
  case (Cons attr attrs)
  then show ?case
    using init_attr_session [of B attr conn w] by (fastforce simp: session_after_def bind_eq_Some_conv)
qed simp

lemma send_rs_fails:
  assumes "send_rs B bin com val conn w = Some (Inl e, conn', w')"
  shows "framed conn' = None \<and> endpoint conn' = endpoint conn"
proof -
  obtain cc where cc: "framed conn = Some cc"
    using assms by (cases "framed conn") (simp_all add: send_rs_def take_framed_def)
  obtain c out where e: "ResultsetCodec_encode (if bin then with_binary (codec (into_resultset cc)) True
      else codec (into_resultset cc)) (Binary (com, val)) = (c, out)"
    by fastforce
  obtain r w1 where "framed_send (exch B) (into_resultset cc) c out w = (r, w1)"
    by fastforce
  then show ?thesis
    using assms cc e by (cases r) (auto simp: send_rs_def take_framed_def Let_def)
qed

lemma sum_result_Inr:
  "(case x of Inl e \<Rightarrow> Some (Inl e, w) | Inr f \<Rightarrow> Some (Inr (g f), w)) = Some (Inr c, w') \<longleftrightarrow>
   (\<exists>f. x = Inr f \<and> c = g f \<and> w' = w)"
  by (cases x) auto

lemma ping_endpoint:
  assumes "send_ping B c w = Some (r, c', w')"
  shows "endpoint c' = endpoint c"
proof -
  obtain r1 c1 w1 where s: "send_common B COM_PING [] c w = Some (r1, c1, w1)"
    using assms by (auto simp: send_ping_def bind_eq_Some_conv)
  show ?thesis
  proof (cases r1)
    case (Inl e)
    then show ?thesis
      using assms s send_common_auth [OF s] by (auto simp: send_ping_def)
  next
    case (Inr f)
    then obtain f1 item where "framed_next CommonCodec_decode f = Some (f1, item)"
      using assms s by (auto simp: send_ping_def bind_eq_Some_conv)
    then show ?thesis
      using assms s Inr send_common_auth [OF s]
      by (cases item) (auto simp: send_ping_def Let_def bind_eq_Some_conv split: sum.splits)
  qed
qed

lemma mysql_conn_stable: "endpoint_stable (mysql_conn C B)"
proof -
  have "endpoint c = endpoint f" if "connect C B f w = Some (Inr c, w')" for f w c w'
    using that
    by (auto simp: connect_def bind_eq_Some_conv Let_def sum_result_Inr split: sum.splits prod.splits)
  moreover have "endpoint c' = endpoint c" if "ClientConn_ping B c w = Some (r, c', w')" for c w r c' w'
    using that ping_endpoint [of B c w] by (auto simp: ClientConn_ping_def)
  ultimately show ?thesis
    using init_endpoint by (fastforce simp: endpoint_stable_def mysql_conn_def)
qed


subsection \<open>Properties of connections\<close>

definition session_attrs :: "string option \<Rightarrow> string \<Rightarrow> string option \<Rightarrow> SessionAttr list" where
  "session_attrs db cs ac = [DB db, Charset cs, Autocommit ac]"

text \<open>What \<open>init\<close> makes of a connection that still has its stream.\<close>

lemma init_session:
  assumes "ClientConn_init B (session_attrs db cs ac) conn w = Some (conn', w')" "framed conn' \<noteq> None"
  shows "\<exists>a a'. conn_auth conn = Some a \<and> conn_auth conn' = Some a' \<and> ca_charset a' = cs \<and>
    auotcommit a' = (case ac of None \<Rightarrow> auotcommit a | Some v \<Rightarrow> Some v) \<and>
    (ca_db a' = ca_db a \<or> db = Some (ca_db a'))"
proof -
  obtain c1 w1 c2 w2 where i: "init_attr B (DB db) conn w = Some (c1, w1)"
      "init_attr B (Charset cs) c1 w1 = Some (c2, w2)" "init_attr B (Autocommit ac) c2 w2 = Some (conn', w')"
    using assms(1) by (auto simp: session_attrs_def bind_eq_Some_conv)
  have fr: "framed c2 \<noteq> None"
    using i(3) assms(2) by (cases ac) (auto simp: init_attr_def conn_get_autocommit_def conn_set_autocommit_def
        bind_eq_Some_conv split: if_splits)
  have fr1: "framed c1 \<noteq> None"
    using i(2) fr by (auto simp: init_attr_def conn_set_charset_def bind_eq_Some_conv split: if_splits)
  obtain a1 where a1: "conn_auth c1 = Some a1"
    using i(2) fr1 by (auto simp: init_attr_def conn_get_charset_def conn_auth_def bind_eq_Some_conv)
  obtain a2 where a2: "conn_auth c2 = Some a2" "a2 = a1\<lparr>ca_charset := cs\<rparr>"
    using init_attr_session [OF i(2)] fr a1 by (auto simp: session_after_def attr_effect_def option_rel_Some1)
  obtain a where a: "conn_auth conn = Some a" "attr_effect (DB db) a a1"
    using init_attr_session [OF i(1)] fr1 a1 by (auto simp: session_after_def option_rel_Some2)
  obtain a' where a': "conn_auth conn' = Some a'" "attr_effect (Autocommit ac) a2 a'"
    using init_attr_session [OF i(3)] assms(2) a2(1) by (auto simp: session_after_def option_rel_Some1)
  show ?thesis
    using a a' a2(2) by (cases db; cases ac) (auto simp: attr_effect_def)
qed


subsection \<open>Prepared statements\<close>

text \<open>The statement codec is a decoder of packets.\<close>

definition st_ok :: "Stmt \<Rightarrow> bytes \<Rightarrow> bool" where
  "st_ok c p \<longleftrightarrow> p \<noteq> [] \<and>
     (case st_next_state c of
        PrepareFirst \<Rightarrow> hd p = ERR_HEADER \<or> length p \<ge> 12
      | PrepareComplete \<Rightarrow> False
      | _ \<Rightarrow> True)"

definition prepare_header :: "Stmt \<Rightarrow> bytes \<Rightarrow> Stmt" where
  "prepare_header c p =
     (let sid = take 4 (drop 1 p); cols = take 2 (drop 5 p); params = take 2 (drop 7 p);
          nc = of_nat (le_val cols); np = of_nat (le_val params)
      in c\<lparr>stmt_id := of_nat (le_val sid), ori_stmt_id := sid, cols_count := nc, ori_cols_count := cols,
           params_count := np, ori_params_count := params,
           st_next_state := (if np = 0 \<and> nc = 0 then PrepareComplete
              else if np = 0 then PrepareCols else PrepareParams)\<rparr>)"

definition st_nxt :: "Stmt \<Rightarrow> u8 \<Rightarrow> bytes \<Rightarrow> bytes \<Rightarrow> Stmt" where
  "st_nxt c s p rest =
     (let c = c\<lparr>st_seq := s\<rparr> in
      case st_next_state c of
        PrepareFirst \<Rightarrow> if hd p = ERR_HEADER then c else prepare_header c p
      | PrepareParams \<Rightarrow>
          if hd p = EOF_HEADER
          then c\<lparr>st_next_state := (if cols_count c > 0 then PrepareCols else PrepareComplete)\<rparr>
          else c\<lparr>params_data := params_data c @ [frame s p]\<rparr>
      | _ \<Rightarrow>
          if hd p = EOF_HEADER then c\<lparr>st_next_state := PrepareComplete\<rparr>
          else c\<lparr>cols_data := cols_data c @ [frame s p]\<rparr>)"

definition st_item :: "Stmt \<Rightarrow> u8 \<Rightarrow> bytes \<Rightarrow> bytes option" where
  "st_item c s p =
     (if st_next_state c = PrepareFirst \<and> hd p = ERR_HEADER then Some (frame s p) else None)"

lemma prepare_header_decode:
  assumes "length p \<ge> 12" "length p < 2 ^ 24" "hd p \<noteq> ERR_HEADER"
  shows "decode_prepare_return c (length p) (frame s p @ rest) = Some (prepare_header c p, rest, None)"
proof -
  have p: "p \<noteq> []"
    using assms(1) by auto
  have i: "idx (frame s p) 4 = Some (hd p)"
    using frame_fields(6) [OF assms(2) p, of s "[]"] by simp
  have d: "split_to 5 (frame s p) = Some (take 5 (frame s p), drop 1 p)"
    using p by (simp add: frame_def split_to_def drop_Cons' Suc_le_eq)
  have t: "split_to n (drop m p) = Some (take n (drop m p), drop (n + m) p)" if "n + m \<le> length p" for n m
    using that by (simp add: split_to_def)
  have "split_to 4 (drop 1 p) = Some (take 4 (drop 1 p), drop 5 p)"
    "split_to 2 (drop 5 p) = Some (take 2 (drop 5 p), drop 7 p)"
    "split_to 2 (drop 7 p) = Some (take 2 (drop 7 p), drop 9 p)"
    "split_to 1 (drop 9 p) = Some (take 1 (drop 9 p), drop 10 p)"
    "split_to 2 (drop 10 p) = Some (take 2 (drop 10 p), drop 12 p)"
    using t [of 4 1] t [of 2 5] t [of 2 7] t [of 1 9] t [of 2 10] assms(1) by simp_all
  then show ?thesis
    using assms(3) i d frame_fields(5) [OF assms(2), of s rest]
    by (simp add: decode_prepare_return_def prepare_header_def Let_def del: One_nat_def)
qed

lemma st_decode_frame:
  assumes "st_ok c p" "length p < 2 ^ 24"
  shows "Stmt_decode c (frame s p @ rest) = Some (st_nxt c s p rest, rest, Inr (Some (st_item c s p)))"
proof -
  note ff = frame_fields [OF assms(2), of s rest]
  have p: "p \<noteq> []"
    using assms(1) by (simp add: st_ok_def)
  have i: "idx (frame s p) 4 = Some (hd p)"
    using frame_fields(6) [OF assms(2) p, of s "[]"] by simp
  note dec = stmt_decode_dispatch [OF ff(1-3)]
  show ?thesis
  proof (cases "st_next_state c")
    case PrepareFirst
    show ?thesis
    proof (cases "hd p = ERR_HEADER")
      case True
      then show ?thesis
        using PrepareFirst i ff(5)
        by (simp add: dec st_nxt_def st_item_def some_item_def decode_prepare_return_def)
    next
      case False
      then show ?thesis
        using PrepareFirst assms by (simp add: dec st_nxt_def st_item_def some_item_def st_ok_def prepare_header_decode)
    qed
  next
    case PrepareParams
    then show ?thesis
      using i ff(5) by (auto simp: dec st_nxt_def st_item_def some_item_def decode_prepare_params_def)
  next
    case PrepareCols
    then show ?thesis
      using i ff(5) by (auto simp: dec st_nxt_def st_item_def some_item_def decode_prepare_cols_def)
  next
    case PrepareComplete
    then show ?thesis
      using assms(1) by (simp add: st_ok_def)
  qed
qed

interpretation st: packet_decoder Stmt_decode st_ok st_nxt st_item
proof
  fix rb c
  assume "incomplete rb"
  then show "Stmt_decode c rb = Some (c, rb, Inr None)"
    using incomplete_cases(2) [of rb] by (auto simp: Stmt_decode_def Let_def)
qed (rule st_decode_frame)


text \<open>One packet of the answer to a prepare.\<close>

lemma prepare_step:
  assumes "st_ok (codec f) p" "length p < 2 ^ 24" "pending_bytes f = frame s p @ rest" "st_item (codec f) s p = None"
  shows "\<exists>f'. prepare_loop f = prepare_loop f' \<and> codec f' = st_nxt (codec f) s p (rbuf f') \<and>
    pending_bytes f' = rest \<and> sock f' = sock f"
proof -
  obtain rb' chunks' where poll: "poll_loop Stmt_decode (codec f) (rbuf f) (inbox f) (closed f) =
      Some (st_nxt (codec f) s p rb', rb', chunks', Ready (Some (Inr None)))" "rb' @ concat chunks' = rest"
    using st.poll_frame [OF assms(1,2) assms(3) [unfolded pending_bytes_def]] assms(4) by fastforce
  let ?f' = "f\<lparr>codec := st_nxt (codec f) s p rb', rbuf := rb', inbox := chunks'\<rparr>"
  have "framed_next Stmt_decode f = Some (?f', Some (Inr None))"
    using poll(1) by (simp add: framed_next_def framed_poll_def)
  moreover have "\<not> Stmt_is_complete (codec f)"
    using assms(1) by (auto simp: Stmt_is_complete_def st_ok_def)
  ultimately have "prepare_loop f = prepare_loop ?f'"
    by (subst prepare_loop.simps) simp
  then show ?thesis
    using poll(2) by (intro exI [of _ ?f']) (simp add: pending_bytes_def)
qed

definition definition_packet :: "bytes \<Rightarrow> bool" where
  "definition_packet p \<longleftrightarrow> p \<noteq> [] \<and> length p < 2 ^ 24 \<and> hd p \<noteq> EOF_HEADER"

lemma prepare_params_steps:
  assumes "st_next_state (codec f) = PrepareParams" "\<forall>(s, p) \<in> set ps. definition_packet p" "eof_packet e"
    and "pending_bytes f = wire ps @ frame t e @ rest"
  shows "\<exists>f' v. prepare_loop f = prepare_loop f' \<and>
    codec f' = (codec f)\<lparr>params_data := params_data (codec f) @ map (\<lambda>(s, p). frame s p) ps, st_seq := v,
      st_next_state := (if cols_count (codec f) > 0 then PrepareCols else PrepareComplete)\<rparr> \<and>
    pending_bytes f' = rest \<and> sock f' = sock f"
  using assms
proof (induction ps arbitrary: f)
  case Nil
  have "st_ok (codec f) e" "length e < 2 ^ 24" "st_item (codec f) t e = None" "hd e = EOF_HEADER"
    using Nil by (auto simp: st_ok_def st_item_def eof_packet_def eof_payload_def)
  from prepare_step [OF this(1,2) _ this(3), of rest] this(4) show ?case
    using Nil by (fastforce simp: st_nxt_def Let_def)
next
  case (Cons r ps)
  obtain s p where r: "r = (s, p)"
    by (cases r)
  have p: "st_ok (codec f) p" "length p < 2 ^ 24" "st_item (codec f) s p = None" "hd p \<noteq> EOF_HEADER"
    using Cons.prems r by (auto simp: st_ok_def st_item_def definition_packet_def)
  obtain f1 where f1: "prepare_loop f = prepare_loop f1" "codec f1 = st_nxt (codec f) s p (rbuf f1)"
      "pending_bytes f1 = wire ps @ frame t e @ rest" "sock f1 = sock f"
    using prepare_step [OF p(1,2) _ p(3), of "wire ps @ frame t e @ rest"] Cons.prems(4) r by auto
  have c1: "codec f1 = (codec f)\<lparr>st_seq := s, params_data := params_data (codec f) @ [frame s p]\<rparr>"
    using f1(2) Cons.prems(1) p(4) by (simp add: st_nxt_def)
  then have s1: "st_next_state (codec f1) = PrepareParams" "\<forall>(s, p) \<in> set ps. definition_packet p"
    using Cons.prems(1,2) by auto
  show ?case
    using Cons.IH [OF s1 Cons.prems(3) f1(3)] f1(1,4) c1 r by fastforce
qed

lemma prepare_cols_steps:
  assumes "st_next_state (codec f) = PrepareCols" "\<forall>(s, p) \<in> set ps. definition_packet p" "eof_packet e"
    and "pending_bytes f = wire ps @ frame t e @ rest"
  shows "\<exists>f' v. prepare_loop f = prepare_loop f' \<and>
    codec f' = (codec f)\<lparr>cols_data := cols_data (codec f) @ map (\<lambda>(s, p). frame s p) ps, st_seq := v,
      st_next_state := PrepareComplete\<rparr> \<and>
    pending_bytes f' = rest \<and> sock f' = sock f"
  using assms
proof (induction ps arbitrary: f)
  case Nil
  have "st_ok (codec f) e" "length e < 2 ^ 24" "st_item (codec f) t e = None" "hd e = EOF_HEADER"
    using Nil by (auto simp: st_ok_def st_item_def eof_packet_def eof_payload_def)
  from prepare_step [OF this(1,2) _ this(3), of rest] this(4) show ?case
    using Nil by (fastforce simp: st_nxt_def Let_def)
next
  case (Cons r ps)
  obtain s p where r: "r = (s, p)"
    by (cases r)
  have p: "st_ok (codec f) p" "length p < 2 ^ 24" "st_item (codec f) s p = None" "hd p \<noteq> EOF_HEADER"
    using Cons.prems r by (auto simp: st_ok_def st_item_def definition_packet_def)
  obtain f1 where f1: "prepare_loop f = prepare_loop f1" "codec f1 = st_nxt (codec f) s p (rbuf f1)"
      "pending_bytes f1 = wire ps @ frame t e @ rest" "sock f1 = sock f"
    using prepare_step [OF p(1,2) _ p(3), of "wire ps @ frame t e @ rest"] Cons.prems(4) r by auto
  have c1: "codec f1 = (codec f)\<lparr>st_seq := s, cols_data := cols_data (codec f) @ [frame s p]\<rparr>"
    using f1(2) Cons.prems(1) p(4) by (simp add: st_nxt_def)
  then have s1: "st_next_state (codec f1) = PrepareCols" "\<forall>(s, p) \<in> set ps. definition_packet p"
    using Cons.prems(1,2) by auto
  show ?case
    using Cons.IH [OF s1 Cons.prems(3) f1(3)] f1(1,4) c1 r by fastforce
qed

lemma prepare_done: "st_next_state (codec f) = PrepareComplete \<Longrightarrow> prepare_loop f = Some (f, Inr ())"
  by (subst prepare_loop.simps) (simp add: Stmt_is_complete_def)


definition prepare_ok :: "nat \<Rightarrow> nat \<Rightarrow> nat \<Rightarrow> bytes \<Rightarrow> bytes" where
  "prepare_ok sid nc np warn = OK_HEADER # le_bytes 4 sid @ le_bytes 2 nc @ le_bytes 2 np @ 0 # warn"

definition frames_of :: "(u8 \<times> bytes) list \<Rightarrow> bytes list" where
  "frames_of ps = map (\<lambda>(s, p). frame s p) ps"

lemma prepare_ok_header:
  assumes "sid < 2 ^ 32" "nc < 2 ^ 16" "np < 2 ^ 16"
  shows "prepare_header c (prepare_ok sid nc np warn) =
    c\<lparr>stmt_id := of_nat sid, ori_stmt_id := le_bytes 4 sid, cols_count := of_nat nc, ori_cols_count := le_bytes 2 nc,
      params_count := of_nat np, ori_params_count := le_bytes 2 np,
      st_next_state := (if np = 0 \<and> nc = 0 then PrepareComplete else if np = 0 then PrepareCols else PrepareParams)\<rparr>"
proof -
  have "le_val (le_bytes 4 sid) = sid" "le_val (le_bytes 2 nc) = nc" "le_val (le_bytes 2 np) = np"
    using assms by (simp_all add: le_val_le_bytes)
  moreover have "(of_nat nc = (0 :: u16)) = (nc = 0)" "(of_nat np = (0 :: u16)) = (np = 0)"
    using assms by (simp_all add: word_unat_eq_iff unat_of_nat)
  ultimately show ?thesis
    by (simp add: prepare_header_def prepare_ok_def Let_def)
qed

text \<open>The loop of \<open>send_prepare\<close> after the first packet.\<close>

lemma prepare_first_step:
  assumes "st_next_state (codec f) = PrepareFirst" "sid < 2 ^ 32" "nc < 2 ^ 16" "np < 2 ^ 16" "length warn = 2"
    and "pending_bytes f = frame s (prepare_ok sid nc np warn) @ rest"
  shows "\<exists>f'. prepare_loop f = prepare_loop f' \<and>
    codec f' = prepare_header ((codec f)\<lparr>st_seq := s\<rparr>) (prepare_ok sid nc np warn) \<and>
    pending_bytes f' = rest \<and> sock f' = sock f"
proof -
  let ?p = "prepare_ok sid nc np warn"
  have "length ?p = 12" "hd ?p \<noteq> ERR_HEADER" "?p \<noteq> []"
    using assms(5) by (simp_all add: prepare_ok_def OK_HEADER_def ERR_HEADER_def)
  then have "st_ok (codec f) ?p" "length ?p < 2 ^ 24" "st_item (codec f) s ?p = None" "hd ?p \<noteq> ERR_HEADER"
    using assms(1) by (simp_all add: st_ok_def st_item_def)
  with prepare_step [OF this(1,2) assms(6) this(3)] show ?thesis
    using assms(1) by (simp add: st_nxt_def)
qed

lemma prepare_loop_stuck:
  assumes "prepare_loop f = Some (f', r)"
  shows "Stmt_is_complete (codec f) \<or> rbuf f \<noteq> [] \<or> inbox f \<noteq> [] \<or> \<not> closed f"
proof (rule prepare_loop.raw_induct [where P = "\<lambda>f r. Stmt_is_complete (codec f) \<or> rbuf f \<noteq> [] \<or> inbox f \<noteq> [] \<or> \<not> closed f",
    OF _ assms], goal_cases)
  case (1 rec f y)
  show ?case
  proof (rule ccontr)
    assume "\<not> ?case"
    then have "\<not> Stmt_is_complete (codec f)" "rbuf f = []" "inbox f = []" "closed f"
      by auto
    moreover from this have "framed_next Stmt_decode f = Some (f, None)"
      by (simp add: framed_next_def framed_poll_def Stmt_decode_def)
    ultimately show False
      using 1 by (cases y) auto
  qed
qed


subsection \<open>Commands, pool and session: properties\<close>

text \<open>C11.  The answer to a prepare, however the backend's bytes are cut into reads, ends the
  loop of \<open>send_prepare\<close> with the statement number, the two counts and every parameter
  and column definition packet of the answer; what follows stays in the stream.\<close>

theorem prepare_decoded:
  assumes start: "st_next_state (codec f) = PrepareFirst" "params_data (codec f) = []" "cols_data (codec f) = []"
    and bounds: "sid < 2 ^ 32" "nc < 2 ^ 16" "np < 2 ^ 16" "length warn = 2"
    and defs: "\<forall>(s, p) \<in> set params. definition_packet p" "\<forall>(s, p) \<in> set cols. definition_packet p" "eof_packet e"
    and bytes: "pending_bytes f = frame s (prepare_ok sid nc np warn) @
      (if np = 0 then [] else wire params @ frame t e) @ (if nc = 0 then [] else wire cols @ frame u e) @ rest"
  shows "\<exists>f'. prepare_loop f = Some (f', Inr ()) \<and> unat (stmt_id (codec f')) = sid \<and>
    unat (cols_count (codec f')) = nc \<and> unat (params_count (codec f')) = np \<and>
    params_data (codec f') = (if np = 0 then [] else frames_of params) \<and>
    cols_data (codec f') = (if nc = 0 then [] else frames_of cols) \<and>
    pending_bytes f' = rest \<and> sock f' = sock f"
proof -
  have w: "unat (of_nat sid :: u32) = sid" "unat (of_nat nc :: u16) = nc" "unat (of_nat np :: u16) = np"
    using bounds by (simp_all add: unat_of_nat)
  have pos: "(0 < (of_nat nc :: u16)) = (nc \<noteq> 0)"
    using w(2) by (simp add: word_less_nat_alt)
  obtain f1 where f1: "prepare_loop f = prepare_loop f1"
      "codec f1 = prepare_header ((codec f)\<lparr>st_seq := s\<rparr>) (prepare_ok sid nc np warn)"
      "pending_bytes f1 = (if np = 0 then [] else wire params @ frame t e) @
         (if nc = 0 then [] else wire cols @ frame u e) @ rest" "sock f1 = sock f"
    using prepare_first_step [OF start(1) bounds bytes] by blast
  note c1 = f1(2) [unfolded prepare_ok_header [OF bounds(1-3)]]
  obtain f2 v where f2: "prepare_loop f1 = prepare_loop f2" "sock f2 = sock f1"
      "codec f2 = (codec f1)\<lparr>params_data := (if np = 0 then [] else frames_of params), st_seq := v,
         st_next_state := (if nc = 0 then PrepareComplete else PrepareCols)\<rparr>"
      "pending_bytes f2 = (if nc = 0 then [] else wire cols @ frame u e) @ rest"
  proof (cases "np = 0")
    case True
    with f1(3) c1 start(2) show ?thesis
      by (intro that [of f1 s]) auto
  next
    case False
    with prepare_params_steps [OF _ defs(1,3), of f1 t] c1 f1(3) start(2) pos show ?thesis
      by (fastforce simp: frames_of_def intro: that)
  qed
  obtain f3 v' where "prepare_loop f2 = prepare_loop f3" "sock f3 = sock f2"
      "codec f3 = (codec f2)\<lparr>cols_data := (if nc = 0 then [] else frames_of cols), st_seq := v',
         st_next_state := PrepareComplete\<rparr>" "pending_bytes f3 = rest"
  proof (cases "nc = 0")
    case True
    with f2 c1 start(3) show ?thesis
      by (intro that [of f2 v]) auto
  next
    case False
    with prepare_cols_steps [OF _ defs(2,3), of f2 u rest] c1 f2 start(3) show ?thesis
      by (fastforce simp: frames_of_def intro: that)
  qed
  moreover from this have "prepare_loop f3 = Some (f3, Inr ())"
    by (intro prepare_done) simp
  ultimately show ?thesis
    using f1(1,4) f2 c1 w by (intro exI [of _ f3]) simp
qed


theorem prepare_decoded_witness:
  "let f = \<lparr>codec = Stmt_new, rbuf = [], sock = 3,
       inbox = [[12], [0, 0, 1] @ prepare_ok 7 1 0 [0, 0] @ [1, 0, 0], [2, 3, 5, 0, 0, 3, 254, 0, 0, 2, 0]],
       closed = False\<rparr> :: Stmt Framed
   in \<exists>f'. prepare_loop f = Some (f', Inr ()) \<and> unat (stmt_id (codec f')) = 7 \<and>
     unat (cols_count (codec f')) = 1 \<and> unat (params_count (codec f')) = 0 \<and> params_data (codec f') = [] \<and>
     cols_data (codec f') = [[1, 0, 0, 2, 3]] \<and> pending_bytes f' = [] \<and> sock f' = 3"
  unfolding Let_def
  using prepare_decoded [where sid = 7 and nc = 1 and np = 0 and warn = "[0, 0]" and params = "[]"
      and cols = "[(2, [3])]" and e = "[254, 0, 0, 2, 0]" and s = 1 and t = 0 and u = 3 and rest = "[]"
      and f = "\<lparr>codec = Stmt_new, rbuf = [], sock = 3,
       inbox = [[12], [0, 0, 1] @ prepare_ok 7 1 0 [0, 0] @ [1, 0, 0], [2, 3, 5, 0, 0, 3, 254, 0, 0, 2, 0]],
       closed = False\<rparr>"]
  by (simp add: Stmt_new_def definition_packet_def eof_packet_def eof_payload_def EOF_HEADER_def frame_def
      pending_bytes_def prepare_ok_def frames_of_def le_bytes_numeral)


text \<open>When the backend answers a prepare by closing the connection, \<open>send_prepare\<close> never
  returns: the loop goes round on the ended stream.\<close>

lemma prepare_hangs_on_close:
  assumes "framed conn = Some cc" "rbuf (into_stmt cc) = []" "inbox (into_stmt cc) = []"
    and "exch B (codec_sock cc) (Stmt_encode (COM_STMT_PREPARE, q)) w = (Inr ([], True), w')"
  shows "send_prepare B q conn w = None"
proof -
  let ?f = "(into_stmt cc)\<lparr>inbox := [], closed := True\<rparr>"
  have "\<not> Stmt_is_complete (codec (into_stmt cc))"
    by (cases cc) (simp_all add: Stmt_is_complete_def into_stmt_def Stmt_with_auth_info_def Stmt_renew_def Stmt_new_def)
  then have "prepare_loop ?f = None"
    using prepare_loop_stuck [of ?f] assms(2) by (cases "prepare_loop ?f") auto
  moreover have "framed_send (exch B) (into_stmt cc) (codec (into_stmt cc)) (Stmt_encode (COM_STMT_PREPARE, q)) w = (Inr ?f, w')"
    using assms(3,4) by (simp add: framed_send_def into_keeps_auth)
  ultimately show ?thesis
    using assms(1) by (simp add: send_prepare_def take_framed_def Let_def)
qed


text \<open>An idle connection.\<close>

definition idle_codec :: ClientCodec where
  "idle_codec = CommonC
     \<lparr>codec = CommonCodec_with_auth_info (Some (ClientAuth_new\<lparr>ca_db := ''other'', auotcommit := Some ''1''\<rparr>)),
      rbuf = [], sock = 1, inbox = [], closed = False\<rparr>"

definition idle_conn :: ClientConn where
  "idle_conn = \<lparr>framed = Some idle_codec, cn_user = ''u'', cn_password = ''p'', endpoint = ''db''\<rparr>"

lemma prepare_hangs_on_close_witness:
  "send_prepare \<lparr>dial = (\<lambda>_ w. (Inl ''refused'', w)), exch = (\<lambda>_ _ w. (Inr ([], True), w)), ready = (\<lambda>_ _. True)\<rparr>
     (str_bytes ''SELECT 1'') idle_conn () = None"
  by (rule prepare_hangs_on_close [where cc = idle_codec]) (simp_all add: idle_conn_def idle_codec_def into_stmt_def)



text \<open>A pool with one live idle connection, and a backend that accepts every command but no
  new connection.\<close>

definition ok_backend :: "unit backend" where
  "ok_backend = \<lparr>dial = (\<lambda>_ w. (Inl ''refused'', w)),
     exch = (\<lambda>_ _ w. (Inr ([[7, 0, 0, 1, 0, 0, 0, 2, 0, 0, 0]], False), w)), ready = (\<lambda>_ _. True)\<rparr>"

definition plain_crypto :: "unit crypto" where
  "plain_crypto = \<lparr>c_sha1 = id, c_sha256 = id, c_from_pem = (\<lambda>_. Inr ()), c_encrypt = (\<lambda>_. Some), c_captures = (\<lambda>_. None)\<rparr>"

definition queue_pool :: "(ClientConn list \<times> nat, ClientConn) Pool" where
  "queue_pool = \<lparr>factory = [''db'' \<mapsto> with_opts ''u'' ''p'' ''db''], pool_size = 1, pool = [''db'' \<mapsto> ([], 1)]\<rparr>"

definition idle_pool :: "(ClientConn list \<times> nat, ClientConn) Pool" where
  "idle_pool = queue_pool\<lparr>pool := [''db'' \<mapsto> ([idle_conn], 1)]\<rparr>"

lemma idle_pool_reach: "pool_reach (mysql_conn plain_crypto ok_backend) list_queue 1 idle_pool"
proof -
  let ?C = "mysql_conn plain_crypto ok_backend"
  let ?f = "with_opts ''u'' ''p'' ''db''"
  have f: "pool_reach ?C list_queue 1 (set_factory (Pool_new 1) ''db'' ?f)"
    by (intro reach_factory reach_new) (simp add: mysql_conn_def with_opts_def)
  have "connect plain_crypto ok_backend ?f () = Some (Inl (Io ''refused''), ())"
    by (simp add: connect_def ok_backend_def)
  then have "get_conn_with_endpoint ?C list_queue (set_factory (Pool_new 1) ''db'' ?f) ''db'' () =
      Some (queue_pool, Inl (Io ''refused''), ())"
    by (simp add: get_conn_with_endpoint_def first_attempt_def try_build_def mysql_conn_def set_factory_def
        Pool_new_def queue_pool_def list_queue_def PoolInner_new_def upt_conv_Cons)
  from reach_get [OF f this] have q: "pool_reach ?C list_queue 1 queue_pool" .
  have "PoolConn_drop ?C list_queue queue_pool (Some idle_conn) = Some idle_pool"
    by (simp add: PoolConn_drop_def queue_pool_def idle_pool_def idle_conn_def mysql_conn_def
        list_queue_def PoolInner_put_conn_def)
  from reach_drop [OF q this] show ?thesis .
qed


definition common_at :: "bool \<Rightarrow> ClientAuth \<Rightarrow> CommonCodec Framed" where
  "common_at b a = \<lparr>codec = \<lparr>cc_seq = (if b then 1 else 0), cc_auth_info = Some a, cc_is_complete = b\<rparr>,
     rbuf = [], sock = 1, inbox = [], closed = False\<rparr>"

definition ok_chunk :: bytes where
  "ok_chunk = [7, 0, 0, 1, 0, 0, 0, 2, 0, 0, 0]"

lemma common_decode_ok:
  "CommonCodec_decode c ok_chunk = Some (c\<lparr>cc_seq := 1, cc_is_complete := True\<rparr>, [], Inr (Some (ok_chunk, True)))"
  "CommonCodec_decode c [] = Some (c, [], Inr None)"
  by (simp_all add: CommonCodec_decode_def ok_chunk_def get_length_def split_to_def idx_def)

lemma common_next_ok:
  "framed_next CommonCodec_decode ((common_at False a)\<lparr>inbox := [ok_chunk]\<rparr>) =
     Some (common_at True a, Some (Inr (ok_chunk, True)))"
  by (simp add: framed_next_def framed_poll_def common_at_def common_decode_ok)

lemma drain_ok: "drain_common ((common_at False a)\<lparr>inbox := [ok_chunk]\<rparr>) = Some (common_at True a)"
proof -
  have "CommonStream_next ((common_at False a)\<lparr>inbox := [ok_chunk]\<rparr>) = Some (common_at True a, Some (Inr ok_chunk))"
    "CommonStream_next (common_at True a) = Some (common_at True a, None)"
    by (simp_all add: CommonStream_next_def framed_poll_def common_at_def common_decode_ok)
  then show ?thesis
    by (subst drain_common.simps, simp) (subst drain_common.simps, simp)
qed

lemma common_send_ok:
  assumes "framed conn = Some (CommonC (common_at b a))"
  shows "send_common ok_backend com q conn () =
    Some (Inr ((common_at False a)\<lparr>inbox := [ok_chunk]\<rparr>), conn\<lparr>framed := None\<rparr>, ())"
  using assms
  by (simp add: send_common_def take_framed_def into_common_def framed_send_def ok_backend_def common_at_def
      CommonCodec_with_auth_info_def map_codec_def ok_chunk_def)

definition conn_at :: "ClientAuth \<Rightarrow> ClientConn" where
  "conn_at a = idle_conn\<lparr>framed := Some (CommonC (common_at True a))\<rparr>"

lemma conn_at_simps:
  "framed (conn_at a) = Some (CommonC (common_at True a))" "conn_auth (conn_at a) = Some a"
  "conn_get_db (conn_at a) = Some (if ca_db a = [] then None else Some (ca_db a))"
  "conn_get_charset (conn_at a) = Some (Some (ca_charset a))" "conn_get_autocommit (conn_at a) = Some (auotcommit a)"
  "conn_set_charset cs (conn_at a) = Some (conn_at (a\<lparr>ca_charset := cs\<rparr>))"
  "conn_set_autocommit v (conn_at a) = Some (conn_at (a\<lparr>auotcommit := Some v\<rparr>))"
  by (simp_all add: conn_at_def conn_auth_def conn_get_db_def conn_get_charset_def conn_get_autocommit_def
      conn_set_charset_def conn_set_autocommit_def deref_def deref_mut_def common_at_def)

lemma discard_at: "send_query_discard_result ok_backend q (conn_at a) () = Some (Inr (), conn_at a, ())"
  by (simp add: send_query_discard_result_def send_common_command_def conn_at_simps
      common_send_ok [where b = True and a = a] drain_ok)

lemma idle_pool_get:
  "\<exists>p' c a. get_conn_with_endpoint_session (mysql_conn plain_crypto ok_backend) list_queue idle_pool ''db''
      (session_attrs None ''utf8'' (Some ''0'')) () = Some (p', Inr c, ()) \<and> framed c \<noteq> None \<and>
    conn_auth c = Some a \<and> ca_db a = ''other''"
proof -
  let ?C = "mysql_conn plain_crypto ok_backend"
  let ?a = "ClientAuth_new\<lparr>ca_db := ''other'', auotcommit := Some ''1''\<rparr>"
  have f: "framed idle_conn = Some (CommonC (common_at False ?a))"
    by (simp add: idle_conn_def idle_codec_def common_at_def CommonCodec_with_auth_info_def)
  have "ClientConn_ping ok_backend idle_conn () = Some (Inr (), conn_at ?a, ())"
    by (simp add: ClientConn_ping_def send_ping_def common_send_ok [OF f] common_next_ok conn_at_def Let_def)
      (simp add: ok_chunk_def idx_def)
  then have "get_conn_with_endpoint ?C list_queue idle_pool ''db'' () = Some (queue_pool, Inr (conn_at ?a), ())"
    by (simp add: get_conn_with_endpoint_def mysql_conn_def idle_pool_def queue_pool_def list_queue_def
        PoolInner_get_conn_def)
  moreover have "ClientConn_init ok_backend (session_attrs None ''utf8'' (Some ''0'')) (conn_at ?a) () =
      Some (conn_at (?a\<lparr>ca_charset := ''utf8'', auotcommit := Some ''0''\<rparr>), ())"
    by (simp add: session_attrs_def init_attr_def conn_at_simps discard_at ClientAuth_new_def DEFAULT_CHARSET_NAME_def)
  ultimately show ?thesis
    by (simp add: get_conn_with_endpoint_session_def reinit_session_def conn_at_simps)
      (simp add: mysql_conn_def conn_at_simps)
qed




text \<open>A session that has chosen no database gets whatever database the previous user of
  the pooled connection had selected.\<close>

lemma pooled_database_kept:
  assumes "ClientConn_init B (session_attrs None cs ac) conn w = Some (conn', w')" "framed conn' \<noteq> None"
  shows "map_option ca_db (conn_auth conn') = map_option ca_db (conn_auth conn) \<and> conn_auth conn \<noteq> None"
  using init_session [OF assms] by auto

lemma pooled_database_kept_witness:
  "\<exists>conn' w'. ClientConn_init ok_backend (session_attrs None ''utf8'' None)
      (conn_at (ClientAuth_new\<lparr>ca_db := ''other''\<rparr>)) () = Some (conn', w') \<and>
    map_option ca_db (conn_auth conn') = Some ''other''"
proof -
  let ?a = "ClientAuth_new\<lparr>ca_db := ''other''\<rparr>"
  have i: "ClientConn_init ok_backend (session_attrs None ''utf8'' None) (conn_at ?a) () =
      Some (conn_at (?a\<lparr>ca_charset := ''utf8''\<rparr>), ())"
    by (simp add: session_attrs_def init_attr_def conn_at_simps discard_at ClientAuth_new_def DEFAULT_CHARSET_NAME_def)
  then show ?thesis
    using pooled_database_kept [OF i] by (simp add: conn_at_simps)
qed


text \<open>A command whose sending fails leaves a connection without a stream.  Dropped into the
  pool it is the next idle connection of its endpoint, and the next request for that
  endpoint panics in the ping.\<close>

lemma lost_stream_poisons_pool:
  assumes "array_queue Q elems cap" "pool p (endpoint conn) = Some q" "elems q = []" "cap q > 0"
    and "send_query B sql conn w = Some (Inl e, conn', w')"
  shows "framed conn' = None \<and>
    (\<exists>p'. PoolConn_drop (mysql_conn C B) Q p (Some conn') = Some p' \<and>
       get_conn_with_endpoint (mysql_conn C B) Q p' (endpoint conn) v = None)"
proof -
  have c: "framed conn' = None" "endpoint conn' = endpoint conn"
    using send_rs_fails [OF assms(5) [unfolded send_query_def]] by simp_all
  let ?q = "PoolInner_put_conn Q q conn'"
  have "elems ?q = [conn']"
    using assms(3,4) array_queueD(4,9) [OF assms(1)] by (simp add: PoolInner_put_conn_def)
  then have pop: "fst (q_pop Q ?q) = Some conn'"
    using array_queueD(6-8) [OF assms(1)] by simp
  have "ClientConn_ping B conn' v = None"
    using c(1) by (simp add: ClientConn_ping_def send_ping_def send_common_def take_framed_def)
  then have "get_conn_with_endpoint (mysql_conn C B) Q (p\<lparr>pool := (pool p)(endpoint conn \<mapsto> ?q)\<rparr>) (endpoint conn) v = None"
    using pop by (simp add: get_conn_with_endpoint_def PoolInner_get_conn_def mysql_conn_def case_prod_beta Let_def)
  then show ?thesis
    using c assms(2) by (simp add: PoolConn_drop_def mysql_conn_def)
qed

lemma lost_stream_poisons_pool_witness:
  "\<exists>conn' p'. send_query \<lparr>dial = (\<lambda>_ w. (Inl ''refused'', w)), exch = (\<lambda>_ _ w. (Inl ''broken pipe'', w)), ready = (\<lambda>_ _. True)\<rparr>
       (str_bytes ''SELECT 1'') idle_conn () = Some (Inl (Io ''broken pipe''), conn', ()) \<and>
     PoolConn_drop (mysql_conn plain_crypto ok_backend) list_queue queue_pool (Some conn') = Some p' \<and>
     get_conn_with_endpoint (mysql_conn plain_crypto
        \<lparr>dial = (\<lambda>_ w. (Inl ''refused'', w)), exch = (\<lambda>_ _ w. (Inl ''broken pipe'', w)), ready = (\<lambda>_ _. True)\<rparr>)
       list_queue p' ''db'' () = None"
proof -
  let ?B = "\<lparr>dial = (\<lambda>_ w. (Inl ''refused'', w)), exch = (\<lambda>_ _ w. (Inl ''broken pipe'', w)), ready = (\<lambda>_ _. True)\<rparr> :: unit backend"
  have s: "send_query ?B (str_bytes ''SELECT 1'') idle_conn () = Some (Inl (Io ''broken pipe''), idle_conn\<lparr>framed := None\<rparr>, ())"
    by (simp add: send_query_def send_rs_def take_framed_def idle_conn_def framed_send_def Let_def case_prod_beta)
  have "endpoint idle_conn = ''db''"
    by (simp add: idle_conn_def)
  then show ?thesis
    using lost_stream_poisons_pool [OF list_queue _ _ _ s, of queue_pool "([], 1)" plain_crypto "()"] s
    by (auto simp: queue_pool_def PoolConn_drop_def mysql_conn_def)
qed


end
