(* ===== verification/Routing.thy ===== *)
theory Routing
  imports LoadBalance Strings "HOL-Library.AList"
begin

section \<open>Routing and read-write splitting\<close>

text \<open>
  Which endpoint a statement goes to: \<open>proxy/strategy/src/route.rs\<close>, the configuration types
  of \<open>config.rs\<close> it uses, and \<open>readwritesplitting/\<close> (rule matching, static and dynamic
  splitting).  Regular expressions belong to a library and are the parameter \<open>regex_ops\<close>.
  An \<open>IndexMap\<close> is an association list in insertion order.  The random generator of a
  balancer is seeded when the balancer is built; the builders take the seeds.  A method that
  returns \<open>&mut\<close> of a balancer is modelled with its continuation: it applies a function to the
  balancer and stores the result.  \<open>None\<close> is a panic (or a round robin that does not
  return); the discovery's channel is the list \<open>rx\<close> of updates not yet received.
\<close>


subsection \<open>Configuration\<close>

datatype TargetRole = Read | ReadWrite

record Member =
  mb_name :: string
  mb_readwrite :: string
  mb_reads :: "string list"

record NodeGroup =
  members :: "Member list"

record RegexRule =
  rx_name :: string
  rx_rule_type :: string
  rx_regex :: "string list"
  rx_target :: TargetRole
  rx_algorithm_name :: AlgorithmName
  rx_node_group_name :: "string list"

record GenericRule =
  gr_name :: string
  gr_rule_type :: string
  gr_algorithm_name :: AlgorithmName
  gr_node_group_name :: "string list"

datatype ReadWriteSplittingRule = Regex RegexRule | Generic GenericRule

record ReadWriteSplittingStaticConfig =
  cfg_default_target :: TargetRole
  cfg_rules :: "ReadWriteSplittingRule list"

record ReadWriteEndpoint =
  reads :: "Endpoint list"
  readwrites :: "Endpoint list"

text \<open>The error of the expression library, boxed beside \<open>StragegyError\<close>, is the last constructor.\<close>

datatype StragegyError = EndpointNotFound string | NodeGroupNotFound string | RegexError string

datatype RouteInput =
    Statement string
  | Transaction string
  | ShardingInput Endpoint
  | ShardingStatement string string
  | ShardingTransaction string string
  | NoInput


subsection \<open>Building balancers\<close>

definition balance_add_endpoint :: "'r BalanceType \<Rightarrow> Endpoint list \<Rightarrow> 'r BalanceType option" where
  "balance_add_endpoint b endpoints = add_each BalanceType_add b endpoints"

definition build_default_balance :: "'r \<Rightarrow> TargetRole \<Rightarrow> ReadWriteEndpoint \<Rightarrow> 'r BalanceType option" where
  "build_default_balance seed default_target rw_endpoint =
     (let default_balance = build_balance seed Random in
      case default_target of
        Read \<Rightarrow> balance_add_endpoint default_balance (reads rw_endpoint)
      | ReadWrite \<Rightarrow> balance_add_endpoint default_balance (readwrites rw_endpoint))"

record ('r, 'x) RegexRuleMatchInner =
  rm_rule :: RegexRule
  rm_regexs :: "'x list"
  rm_balance :: "(string \<times> 'r BalanceType) list"

definition build_balance_inner ::
    "'r BalanceType \<Rightarrow> TargetRole \<Rightarrow> ReadWriteEndpoint \<Rightarrow> 'r BalanceType option" where
  "build_balance_inner balance target rw_endpoint =
     (case target of
        Read \<Rightarrow> balance_add_endpoint balance
          (if reads rw_endpoint = [] then readwrites rw_endpoint else reads rw_endpoint)
      | ReadWrite \<Rightarrow> balance_add_endpoint balance (readwrites rw_endpoint))"

text \<open>The loop over the node groups of a rule.\<close>

fun group_balances ::
    "(nat \<Rightarrow> 'r) \<Rightarrow> RegexRule \<Rightarrow> (string \<times> ReadWriteEndpoint) list \<Rightarrow> string list \<Rightarrow>
     (string \<times> 'r BalanceType) list \<Rightarrow> (StragegyError + (string \<times> 'r BalanceType) list) option" where
  "group_balances seeds rule endpoint_group [] balances = Some (Inr balances)"
| "group_balances seeds rule endpoint_group (grp # grps) balances =
     (case map_of endpoint_group grp of
        None \<Rightarrow> Some (Inl (NodeGroupNotFound grp))
      | Some rw \<Rightarrow>
          do { balance \<leftarrow> build_balance_inner (build_balance (seeds (length grps)) (rx_algorithm_name rule))
                 (rx_target rule) rw;
               group_balances seeds rule endpoint_group grps (AList.update grp balance balances) })"

definition regex_build_balance ::
    "(nat \<Rightarrow> 'r) \<Rightarrow> RegexRule \<Rightarrow> (string \<times> ReadWriteEndpoint) list \<Rightarrow> ReadWriteEndpoint \<Rightarrow>
     (StragegyError + (string \<times> 'r BalanceType) list) option" where
  "regex_build_balance seeds rule endpoint_group rw_endpoint =
     (if endpoint_group = [] \<or> rx_node_group_name rule = []
      then do { balance \<leftarrow> build_balance_inner (build_balance (seeds 0) (rx_algorithm_name rule))
                  (rx_target rule) rw_endpoint;
                Some (Inr [(''GLOBAL'', balance)]) }
      else group_balances seeds rule endpoint_group (rx_node_group_name rule) [])"

fun collect_results :: "('e + 'a) list \<Rightarrow> 'e + 'a list" where
  "collect_results [] = Inr []"
| "collect_results (Inl e # rs) = Inl e"
| "collect_results (Inr x # rs) = map_sum id ((#) x) (collect_results rs)"

definition RegexRuleMatchInner_new ::
    "'x regex_ops \<Rightarrow> (nat \<Rightarrow> 'r) \<Rightarrow> RegexRule \<Rightarrow> (string \<times> ReadWriteEndpoint) list \<Rightarrow> ReadWriteEndpoint \<Rightarrow>
     (StragegyError + ('r, 'x) RegexRuleMatchInner) option" where
  "RegexRuleMatchInner_new X seeds rule endpoint_group rw_endpoint =
     do { balance \<leftarrow> regex_build_balance seeds rule endpoint_group rw_endpoint;
          Some (case (balance, collect_results (map (rx_new X) (rx_regex rule))) of
             (Inl e, _) \<Rightarrow> Inl e
           | (Inr b, Inl e) \<Rightarrow> Inl (RegexError e)
           | (Inr b, Inr rs) \<Rightarrow> Inr \<lparr>rm_rule = rule, rm_regexs = rs, rm_balance = b\<rparr>) }"

record 'r GenericRuleMatchInner =
  r_balance :: "'r BalanceType"
  rw_balance :: "'r BalanceType"
  gd_default_balance :: "'r BalanceType"
  default_target_role :: TargetRole

definition generic_build_balance ::
    "'r \<Rightarrow> TargetRole \<Rightarrow> AlgorithmName \<Rightarrow> ReadWriteEndpoint \<Rightarrow> 'r BalanceType option" where
  "generic_build_balance seed role algorithm_name rw_endpoint =
     (let balance = build_balance seed algorithm_name in
      case role of
        Read \<Rightarrow>
          do { balance \<leftarrow> (if reads rw_endpoint = [] then balance_add_endpoint balance (readwrites rw_endpoint)
                          else Some balance);
               balance_add_endpoint balance (reads rw_endpoint) }
      | ReadWrite \<Rightarrow> balance_add_endpoint balance (readwrites rw_endpoint))"

definition GenericRuleMatchInner_new ::
    "(nat \<Rightarrow> 'r) \<Rightarrow> GenericRule \<Rightarrow> TargetRole \<Rightarrow> ReadWriteEndpoint \<Rightarrow> 'r GenericRuleMatchInner option" where
  "GenericRuleMatchInner_new seeds rule default_target rw_endpoint =
     do { rb \<leftarrow> generic_build_balance (seeds 0) Read (gr_algorithm_name rule) rw_endpoint;
          wb \<leftarrow> generic_build_balance (seeds 1) ReadWrite (gr_algorithm_name rule) rw_endpoint;
          db \<leftarrow> generic_build_balance (seeds 2) default_target (gr_algorithm_name rule) rw_endpoint;
          Some \<lparr>r_balance = rb, rw_balance = wb, gd_default_balance = db, default_target_role = default_target\<rparr> }"


subsection \<open>Rules\<close>

datatype ('r, 'x) RulesMatchInner =
    RegexInner "('r, 'x) RegexRuleMatchInner"
  | GenericInner "'r GenericRuleMatchInner"

record ('r, 'x) RulesMatch =
  default_target :: TargetRole
  default_balance :: "'r BalanceType"
  default_trans_balance :: "'r BalanceType"
  inner :: "('r, 'x) RulesMatchInner list"

text \<open>The two vectors of \<open>build_rules\<close>: regular expressions come first.  A rule that cannot be
  built is unwrapped.\<close>

fun build_rules_loop ::
    "'x regex_ops \<Rightarrow> (nat \<Rightarrow> nat \<Rightarrow> 'r) \<Rightarrow> ReadWriteSplittingRule list \<Rightarrow> (string \<times> ReadWriteEndpoint) list \<Rightarrow>
     ReadWriteEndpoint \<Rightarrow> TargetRole \<Rightarrow> ('r, 'x) RulesMatchInner list \<Rightarrow> ('r, 'x) RulesMatchInner list \<Rightarrow>
     ('r, 'x) RulesMatchInner list option" where
  "build_rules_loop X seeds [] endpoint_group rw_endpoint dt instances generic_instances =
     Some (instances @ generic_instances)"
| "build_rules_loop X seeds (Regex r # rules) endpoint_group rw_endpoint dt instances generic_instances =
     do { m \<leftarrow> RegexRuleMatchInner_new X (seeds (length rules)) r endpoint_group rw_endpoint;
          (case m of
             Inl _ \<Rightarrow> None
           | Inr m \<Rightarrow> build_rules_loop X seeds rules endpoint_group rw_endpoint dt
               (instances @ [RegexInner m]) generic_instances) }"
| "build_rules_loop X seeds (Generic r # rules) endpoint_group rw_endpoint dt instances generic_instances =
     do { m \<leftarrow> GenericRuleMatchInner_new (seeds (length rules)) r dt rw_endpoint;
          build_rules_loop X seeds rules endpoint_group rw_endpoint dt instances
            (generic_instances @ [GenericInner m]) }"

definition build_rules ::
    "'x regex_ops \<Rightarrow> (nat \<Rightarrow> nat \<Rightarrow> 'r) \<Rightarrow> ReadWriteSplittingRule list \<Rightarrow> (string \<times> ReadWriteEndpoint) list \<Rightarrow>
     ReadWriteEndpoint \<Rightarrow> TargetRole \<Rightarrow> ('r, 'x) RulesMatchInner list option" where
  "build_rules X seeds rules endpoint_group rw_endpoint dt =
     build_rules_loop X seeds rules endpoint_group rw_endpoint dt [] []"

definition RulesMatchBuilder_build ::
    "'x regex_ops \<Rightarrow> (nat \<Rightarrow> nat \<Rightarrow> 'r) \<Rightarrow> ReadWriteSplittingRule list \<Rightarrow> TargetRole \<Rightarrow>
     (string \<times> ReadWriteEndpoint) list \<Rightarrow> ReadWriteEndpoint \<Rightarrow> ('r, 'x) RulesMatch option" where
  "RulesMatchBuilder_build X seeds rules dt endpoint_group rw_endpoint =
     do { inn \<leftarrow> build_rules X (\<lambda>i. seeds (i + 2)) rules endpoint_group rw_endpoint dt;
          db \<leftarrow> build_default_balance (seeds 0 0) dt rw_endpoint;
          tb \<leftarrow> build_default_balance (seeds 1 0) ReadWrite rw_endpoint;
          Some \<lparr>default_target = dt, default_balance = db, default_trans_balance = tb, inner = inn\<rparr> }"

subsection \<open>Matching\<close>

definition regex_is_match ::
    "'x regex_ops \<Rightarrow> ('r, 'x) RegexRuleMatchInner \<Rightarrow> RouteInput \<Rightarrow> bool option" where
  "regex_is_match X m input =
     (case input of
        Statement val \<Rightarrow> Some (any_match X (rm_regexs m) val)
      | Transaction val \<Rightarrow> Some (any_match X (rm_regexs m) val)
      | ShardingStatement val _ \<Rightarrow> Some (any_match X (rm_regexs m) val)
      | ShardingTransaction val _ \<Rightarrow> Some (any_match X (rm_regexs m) val)
      | NoInput \<Rightarrow> Some False
      | ShardingInput _ \<Rightarrow> None)"

definition GENERIC_RULE_TOKEN :: "(string \<times> u8) list" where
  "GENERIC_RULE_TOKEN =
     [(''SELECT'', 1), (''UPDATE'', 2), (''INSERT'', 3), (''DELETE'', 4), (''SET'', 5), (''START'', 6)]"

definition generic_token :: "string \<Rightarrow> bool" where
  "generic_token sql \<longleftrightarrow> map_of GENERIC_RULE_TOKEN (to_upper_ascii (before_space sql)) \<noteq> None"

definition generic_is_match :: "'r GenericRuleMatchInner \<Rightarrow> RouteInput \<Rightarrow> bool option" where
  "generic_is_match m input =
     (case input of
        Statement sql \<Rightarrow> Some (generic_token sql)
      | Transaction sql \<Rightarrow> Some (generic_token sql)
      | NoInput \<Rightarrow> Some False
      | _ \<Rightarrow> None)"

type_synonym ('r, 'a) borrow = "'r BalanceType \<Rightarrow> ('r BalanceType \<times> 'a) option"

definition regex_get ::
    "('r, 'a) borrow \<Rightarrow> ('r, 'x) RegexRuleMatchInner \<Rightarrow> RouteInput \<Rightarrow>
     (('r, 'x) RegexRuleMatchInner \<times> 'a \<times> TargetRole) option" where
  "regex_get f m input =
     (let key = (case input of
                   ShardingStatement _ node_group \<Rightarrow> node_group
                 | ShardingTransaction _ node_group \<Rightarrow> node_group
                 | _ \<Rightarrow> ''GLOBAL'')
      in do { b \<leftarrow> map_of (rm_balance m) key;
              (b, x) \<leftarrow> f b;
              Some (m\<lparr>rm_balance := AList.update key b (rm_balance m)\<rparr>, x, rx_target (rm_rule m)) })"

datatype generic_place = PlaceRead | PlaceReadWrite | PlaceDefault

definition generic_place_of :: "RouteInput \<Rightarrow> generic_place option" where
  "generic_place_of input =
     (case input of
        Statement sql \<Rightarrow>
          (case split_once_space sql of
             Some (key_word, _) \<Rightarrow>
               (let token = trim_white (to_upper_ascii key_word) in
                if token = ''SELECT'' then Some PlaceRead
                else if token \<in> {''INSERT'', ''UPDATE'', ''DELETE'', ''SET'', ''START''} then Some PlaceReadWrite
                else Some PlaceDefault)
           | None \<Rightarrow> Some PlaceDefault)
      | Transaction _ \<Rightarrow> Some PlaceReadWrite
      | NoInput \<Rightarrow> Some PlaceDefault
      | _ \<Rightarrow> None)"

definition generic_get ::
    "('r, 'a) borrow \<Rightarrow> 'r GenericRuleMatchInner \<Rightarrow> RouteInput \<Rightarrow>
     ('r GenericRuleMatchInner \<times> 'a \<times> TargetRole) option" where
  "generic_get f m input =
     do { place \<leftarrow> generic_place_of input;
          (case place of
             PlaceRead \<Rightarrow> do { (b, x) \<leftarrow> f (r_balance m); Some (m\<lparr>r_balance := b\<rparr>, x, Read) }
           | PlaceReadWrite \<Rightarrow> do { (b, x) \<leftarrow> f (rw_balance m); Some (m\<lparr>rw_balance := b\<rparr>, x, ReadWrite) }
           | PlaceDefault \<Rightarrow>
               do { (b, x) \<leftarrow> f (gd_default_balance m);
                    Some (m\<lparr>gd_default_balance := b\<rparr>, x, default_target_role m) }) }"

text \<open>The loop over the rules: the first that matches.\<close>

fun rules_get ::
    "'x regex_ops \<Rightarrow> ('r, 'a) borrow \<Rightarrow> ('r, 'x) RulesMatchInner list \<Rightarrow> RouteInput \<Rightarrow>
     (('r, 'x) RulesMatchInner list \<times> ('a \<times> TargetRole) option) option" where
  "rules_get X f [] input = Some ([], None)"
| "rules_get X f (RegexInner m # rules) input =
     do { matched \<leftarrow> regex_is_match X m input;
          if matched then do { (m, x) \<leftarrow> regex_get f m input; Some (RegexInner m # rules, Some x) }
          else do { (rules, r) \<leftarrow> rules_get X f rules input; Some (RegexInner m # rules, r) } }"
| "rules_get X f (GenericInner m # rules) input =
     do { matched \<leftarrow> generic_is_match m input;
          if matched then do { (m, x) \<leftarrow> generic_get f m input; Some (GenericInner m # rules, Some x) }
          else do { (rules, r) \<leftarrow> rules_get X f rules input; Some (GenericInner m # rules, r) } }"

definition RulesMatch_get ::
    "'x regex_ops \<Rightarrow> ('r, 'a) borrow \<Rightarrow> ('r, 'x) RulesMatch \<Rightarrow> RouteInput \<Rightarrow>
     (('r, 'x) RulesMatch \<times> 'a \<times> TargetRole) option" where
  "RulesMatch_get X f rm input =
     (case input of
        Transaction _ \<Rightarrow>
          do { (b, x) \<leftarrow> f (default_trans_balance rm); Some (rm\<lparr>default_trans_balance := b\<rparr>, x, ReadWrite) }
      | _ \<Rightarrow>
          do { (rules, r) \<leftarrow> rules_get X f (inner rm) input;
               let rm = rm\<lparr>inner := rules\<rparr>;
               (case r of
                  Some (x, role) \<Rightarrow> Some (rm, x, role)
                | None \<Rightarrow>
                    do { (b, x) \<leftarrow> f (default_balance rm);
                         Some (rm\<lparr>default_balance := b\<rparr>, x, default_target rm) }) })"


subsection \<open>Strategies\<close>

type_synonym 'r gen = "'r \<Rightarrow> int \<Rightarrow> int \<times> 'r"

definition balance_next :: "'r gen \<Rightarrow> ('r, Endpoint option) borrow" where
  "balance_next g b = Option.bind (BalanceType_next g b) (\<lambda>x. x)"

definition static_dispatch ::
    "'x regex_ops \<Rightarrow> 'r gen \<Rightarrow> ('r, 'x) RulesMatch \<Rightarrow> RouteInput \<Rightarrow>
     (('r, 'x) RulesMatch \<times> Endpoint option \<times> TargetRole) option" where
  "static_dispatch X g rm input = RulesMatch_get X (balance_next g) rm input"

record MasterHighAvailability =
  mha_user :: string
  mha_password :: string
  monitor_period :: u64
  connect_period :: u64
  connect_timeout :: u64
  connect_failure_threshold :: u64
  ping_period :: u64
  ping_timeout :: u64
  ping_failure_threshold :: u64
  replication_lag_period :: u64
  replication_lag_timeout :: u64
  replication_lag_failure_threshold :: u64
  max_replication_lag :: u64
  read_only_period :: u64
  read_only_timeout :: u64
  read_only_failure_threshold :: u64
  read_only_enabled :: bool
  replication_lag_enabled :: bool

datatype Discovery = Mha MasterHighAvailability

record ReadWriteSplittingDynamicConfig = ReadWriteSplittingStaticConfig +
  discovery :: Discovery

record ReadWriteSplittingConfig =
  statics :: "ReadWriteSplittingStaticConfig option"
  dynamics :: "ReadWriteSplittingDynamicConfig option"

record ('r, 'x) ReadWriteSplittingDynamic =
  rx :: "ReadWriteEndpoint list"
  dyn_rules :: "ReadWriteSplittingRule list"
  node_group_config :: "NodeGroup option"
  rules_match :: "('r, 'x) RulesMatch"

text \<open>The endpoints of the node groups.  An \<open>IndexSet\<close> keeps the first of equal names.\<close>

definition index_set :: "'a list \<Rightarrow> 'a list" where
  "index_set xs = rev (remdups (rev xs))"

definition group_reads :: "Endpoint list \<Rightarrow> string list \<Rightarrow> Endpoint list" where
  "group_reads rs names =
     List.map_filter (\<lambda>x. find (\<lambda>r. name r = x) rs)
       (filter (\<lambda>x. x \<in> set names) (index_set (map name rs)))"

fun endpoint_group_loop ::
    "Member list \<Rightarrow> ReadWriteEndpoint \<Rightarrow> (string \<times> ReadWriteEndpoint) list \<Rightarrow>
     StragegyError + (string \<times> ReadWriteEndpoint) list" where
  "endpoint_group_loop [] rw_endpoint endpoint_group = Inr endpoint_group"
| "endpoint_group_loop (m # ms) rw_endpoint endpoint_group =
     (case find (\<lambda>x. name x = mb_readwrite m) (readwrites rw_endpoint) of
        None \<Rightarrow> Inl (EndpointNotFound (mb_readwrite m))
      | Some rw \<Rightarrow>
          endpoint_group_loop ms rw_endpoint
            (AList.update (mb_name m)
               \<lparr>reads = group_reads (reads rw_endpoint) (mb_reads m), readwrites = [rw]\<rparr> endpoint_group))"

definition get_endpoint_group ::
    "NodeGroup option \<Rightarrow> ReadWriteEndpoint \<Rightarrow> StragegyError + (string \<times> ReadWriteEndpoint) list" where
  "get_endpoint_group nodegroup rw_endpoint =
     (case nodegroup of
        Some grp \<Rightarrow> endpoint_group_loop (members grp) rw_endpoint []
      | None \<Rightarrow> Inr [])"

text \<open>An update of the discovery rebuilds every balancer before the input is dispatched;
  the node groups are unwrapped.\<close>

definition dynamic_refresh ::
    "'x regex_ops \<Rightarrow> (nat \<Rightarrow> nat \<Rightarrow> 'r) \<Rightarrow> ('r, 'x) ReadWriteSplittingDynamic \<Rightarrow> ReadWriteEndpoint \<Rightarrow>
     ('r, 'x) RulesMatch option" where
  "dynamic_refresh X seeds d rw_endpoint =
     do { let rm = rules_match d;
          db \<leftarrow> build_default_balance (seeds 0 0) (default_target rm) rw_endpoint;
          tb \<leftarrow> build_default_balance (seeds 1 0) ReadWrite rw_endpoint;
          (case get_endpoint_group (node_group_config d) rw_endpoint of
             Inl _ \<Rightarrow> None
           | Inr endpoint_group \<Rightarrow>
               do { inn \<leftarrow> build_rules X (\<lambda>i. seeds (i + 2)) (dyn_rules d) endpoint_group rw_endpoint (default_target rm);
                    Some (rm\<lparr>default_balance := db, default_trans_balance := tb, inner := inn\<rparr>) }) }"

definition dynamic_dispatch ::
    "'x regex_ops \<Rightarrow> 'r gen \<Rightarrow> (nat \<Rightarrow> nat \<Rightarrow> 'r) \<Rightarrow> ('r, 'x) ReadWriteSplittingDynamic \<Rightarrow> RouteInput \<Rightarrow>
     (('r, 'x) ReadWriteSplittingDynamic \<times> Endpoint option \<times> TargetRole) option" where
  "dynamic_dispatch X g seeds d input =
     do { rm \<leftarrow> (if rx d = [] then Some (rules_match d) else dynamic_refresh X seeds d (last (rx d)));
          (rm, e, role) \<leftarrow> RulesMatch_get X (balance_next g) rm input;
          Some (d\<lparr>rx := [], rules_match := rm\<rparr>, e, role) }"

datatype ('r, 'x) ReadWriteSplittingRouteStrategy =
    StaticRw "('r, 'x) RulesMatch"
  | DynamicRw "('r, 'x) ReadWriteSplittingDynamic"
  | NoRw

datatype ('r, 'x) RouteStrategy =
    ReadWriteSplitting "('r, 'x) ReadWriteSplittingRouteStrategy"
  | ShardingReadWriteSplitting "('r, 'x) ReadWriteSplittingRouteStrategy"
  | Sharding "'r BalanceType"
  | Simple "'r BalanceType"
  | NoStrategy

definition ReadWriteSplittingRouteStrategy_new ::
    "'x regex_ops \<Rightarrow> (nat \<Rightarrow> nat \<Rightarrow> 'r) \<Rightarrow> ReadWriteSplittingConfig \<Rightarrow> NodeGroup option \<Rightarrow>
     (string \<times> ReadWriteEndpoint) list \<Rightarrow> ReadWriteEndpoint \<Rightarrow> ('r, 'x) ReadWriteSplittingRouteStrategy option" where
  "ReadWriteSplittingRouteStrategy_new X seeds cfg nodegroup endpoint_group rw_endpoint =
     (case statics cfg of
        Some c \<Rightarrow>
          map_option StaticRw
            (RulesMatchBuilder_build X seeds (cfg_rules c) (cfg_default_target c) endpoint_group rw_endpoint)
      | None \<Rightarrow>
          (case dynamics cfg of
             Some c \<Rightarrow>
               map_option (\<lambda>rm. DynamicRw \<lparr>rx = [], dyn_rules = cfg_rules c, node_group_config = nodegroup, rules_match = rm\<rparr>)
                 (RulesMatchBuilder_build X seeds (cfg_rules c) (cfg_default_target c) endpoint_group rw_endpoint)
           | None \<Rightarrow> Some NoRw))"

definition RouteStrategy_new ::
    "'x regex_ops \<Rightarrow> (nat \<Rightarrow> nat \<Rightarrow> 'r) \<Rightarrow> ReadWriteSplittingConfig \<Rightarrow> NodeGroup option \<Rightarrow> ReadWriteEndpoint \<Rightarrow>
     bool \<Rightarrow> (StragegyError + ('r, 'x) RouteStrategy) option" where
  "RouteStrategy_new X seeds cfg nodegroup rw_endpoint has_sharding =
     (case get_endpoint_group nodegroup rw_endpoint of
        Inl e \<Rightarrow> Some (Inl e)
      | Inr endpoint_group \<Rightarrow>
          do { rw_strategy \<leftarrow> ReadWriteSplittingRouteStrategy_new X seeds cfg nodegroup endpoint_group rw_endpoint;
               Some (Inr (if has_sharding then ShardingReadWriteSplitting rw_strategy
                          else ReadWriteSplitting rw_strategy)) })"

definition new_with_simple_route :: "'r BalanceType \<Rightarrow> ('r, 'x) RouteStrategy" where
  "new_with_simple_route balance = Simple balance"

definition new_with_sharding_only :: "'r BalanceType \<Rightarrow> ('r, 'x) RouteStrategy" where
  "new_with_sharding_only balance = Sharding balance"

definition readwritesplitting_dispatch ::
    "'x regex_ops \<Rightarrow> 'r gen \<Rightarrow> (nat \<Rightarrow> nat \<Rightarrow> 'r) \<Rightarrow> ('r, 'x) ReadWriteSplittingRouteStrategy \<Rightarrow> RouteInput \<Rightarrow>
     (('r, 'x) ReadWriteSplittingRouteStrategy \<times> Endpoint option \<times> TargetRole) option" where
  "readwritesplitting_dispatch X g seeds strategy input =
     (case strategy of
        StaticRw rm \<Rightarrow> map_option (\<lambda>(rm, r). (StaticRw rm, r)) (static_dispatch X g rm input)
      | DynamicRw d \<Rightarrow> map_option (\<lambda>(d, r). (DynamicRw d, r)) (dynamic_dispatch X g seeds d input)
      | NoRw \<Rightarrow> None)"

definition dispatch ::
    "'x regex_ops \<Rightarrow> 'r gen \<Rightarrow> (nat \<Rightarrow> nat \<Rightarrow> 'r) \<Rightarrow> ('r, 'x) RouteStrategy \<Rightarrow> RouteInput \<Rightarrow>
     (('r, 'x) RouteStrategy \<times> Endpoint option \<times> TargetRole) option" where
  "dispatch X g seeds self input =
     (case self of
        ReadWriteSplitting st \<Rightarrow>
          map_option (\<lambda>(st, r). (ReadWriteSplitting st, r)) (readwritesplitting_dispatch X g seeds st input)
      | ShardingReadWriteSplitting st \<Rightarrow>
          map_option (\<lambda>(st, r). (ShardingReadWriteSplitting st, r)) (readwritesplitting_dispatch X g seeds st input)
      | Sharding ins \<Rightarrow>
          (case input of
             ShardingInput e \<Rightarrow> Some (Sharding ins, Some e, ReadWrite)
           | _ \<Rightarrow> map_option (\<lambda>(ins, e). (Sharding ins, e, ReadWrite)) (balance_next g ins))
      | Simple ins \<Rightarrow> map_option (\<lambda>(ins, e). (Simple ins, e, ReadWrite)) (balance_next g ins)
      | NoStrategy \<Rightarrow> None)"


subsection \<open>Lemmas on balancers\<close>

lemma rr_next_loop_items:
  assumes "rr_next_loop s = Some (Some (s', r))"
  shows "rr_items s' = rr_items s \<and> set_option r \<subseteq> set (rr_items s)"
proof -
  have "\<forall>s' r. y = Some (s', r) \<longrightarrow> rr_items s' = rr_items s \<and> set_option r \<subseteq> set (rr_items s)"
    if "rr_next_loop s = Some y" for y
  proof (rule rr_next_loop.raw_induct [where P = "\<lambda>s y. \<forall>s' r. y = Some (s', r) \<longrightarrow>
      rr_items s' = rr_items s \<and> set_option r \<subseteq> set (rr_items s)", OF _ that], goal_cases)
    case (1 rec s y)
    show ?case
    proof (cases "rr_turn s")
      case None
      then show ?thesis
        using 1(2) by auto
    next
      case (Some t)
      then have t: "case t of Return s' r \<Rightarrow> rr_items s' = rr_items s \<and> set_option r \<subseteq> set (rr_items s)
          | Continue s' \<Rightarrow> rr_items s' = rr_items s"
        by (auto simp: rr_turn_def rr_check_def Let_def idx_def bind_eq_Some_conv split: if_splits)
      show ?thesis
      proof (cases t)
        case (Continue u)
        then have "rec u = Some y"
          using 1(2) Some by simp
        moreover have "rr_items u = rr_items s"
          using t Continue by simp
        ultimately show ?thesis
          using 1(1) [of u y] by metis
      next
        case (Return u r)
        then show ?thesis
          using 1(2) Some t by auto
      qed
    qed
  qed
  then show ?thesis
    using assms by blast
qed

lemma balance_next_items:
  assumes "balance_next g b = Some (b', r)"
  shows "BalanceType_get_all b' = BalanceType_get_all b \<and> set_option r \<subseteq> set (BalanceType_get_all b)"
proof (cases b)
  case (BRandom s)
  then obtain s' where "RandomWeighted_next g s = Some (s', r)" "b' = BRandom s'"
    using assms by (auto simp: balance_next_def BalanceType_next_def bind_eq_Some_conv)
  then show ?thesis
    using BRandom pick_loop_in
    by (auto simp: RandomWeighted_next_def BalanceType_get_all_def Let_def
        split: if_splits prod.splits option.splits)
next
  case (BRoundRobin s)
  then obtain s' where s': "RoundRobinWeighted_next s = Some (Some (s', r))" "b' = BRoundRobin s'"
    using assms by (auto simp: balance_next_def BalanceType_next_def bind_eq_Some_conv)
  then show ?thesis
    using BRoundRobin rr_next_loop_items [of s s' r]
    by (auto simp: RoundRobinWeighted_next_def BalanceType_get_all_def idx_def split: if_splits)
qed

lemma balance_add_items:
  assumes "balance_add_endpoint (build_balance seed alg) es = Some b"
  shows "set (BalanceType_get_all b) \<subseteq> set es"
  using assms bt_lb.built [of seed alg es] keep_new_names(2) by (auto simp: balance_add_endpoint_def)


subsection \<open>Invariant of the rules\<close>

text \<open>Where a statement routed with a role may go.\<close>

definition allowed :: "ReadWriteEndpoint \<Rightarrow> TargetRole \<Rightarrow> Endpoint set" where
  "allowed rw role =
     (case role of Read \<Rightarrow> set (reads rw) \<union> set (readwrites rw) | ReadWrite \<Rightarrow> set (readwrites rw))"

definition serves :: "ReadWriteEndpoint \<Rightarrow> TargetRole \<Rightarrow> 'r BalanceType \<Rightarrow> bool" where
  "serves rw role b \<longleftrightarrow> set (BalanceType_get_all b) \<subseteq> allowed rw role"

fun inner_ok :: "ReadWriteEndpoint \<Rightarrow> ('r, 'x) RulesMatchInner \<Rightarrow> bool" where
  "inner_ok rw (RegexInner m) \<longleftrightarrow> (\<forall>(k, b) \<in> set (rm_balance m). serves rw (rx_target (rm_rule m)) b)"
| "inner_ok rw (GenericInner m) \<longleftrightarrow> serves rw Read (r_balance m) \<and> serves rw ReadWrite (rw_balance m) \<and>
     serves rw (default_target_role m) (gd_default_balance m)"

definition rules_ok :: "ReadWriteEndpoint \<Rightarrow> ('r, 'x) RulesMatch \<Rightarrow> bool" where
  "rules_ok rw rm \<longleftrightarrow> serves rw ReadWrite (default_trans_balance rm) \<and>
     serves rw (default_target rm) (default_balance rm) \<and> (\<forall>i \<in> set (inner rm). inner_ok rw i)"

lemma next_serves:
  "serves rw role b \<Longrightarrow> balance_next g b = Some (b', e) \<Longrightarrow> serves rw role b' \<and> set_option e \<subseteq> allowed rw role"
  using balance_next_items [of g b b' e] by (auto simp: serves_def)

lemma set_AList_update: "set (AList.update k v xs) \<subseteq> insert (k, v) (set xs)"
  by (induction xs) auto

lemma regex_get_ok:
  assumes "inner_ok rw (RegexInner m)" "regex_get (balance_next g) m input = Some (m', e, role)"
  shows "inner_ok rw (RegexInner m') \<and> set_option e \<subseteq> allowed rw role"
proof -
  obtain k b b' where b: "map_of (rm_balance m) k = Some b" "balance_next g b = Some (b', e)"
      "m' = m\<lparr>rm_balance := AList.update k b' (rm_balance m)\<rparr>" "role = rx_target (rm_rule m)"
    using assms(2) by (auto simp: regex_get_def Let_def bind_eq_Some_conv)
  have "serves rw role b"
    using map_of_SomeD [OF b(1)] assms(1) b(4) by auto
  from next_serves [OF this b(2)] show ?thesis
    using b(3,4) assms(1) set_AList_update [of k b' "rm_balance m"] by auto
qed

lemma generic_get_ok:
  assumes "inner_ok rw (GenericInner m)" "generic_get (balance_next g) m input = Some (m', e, role)"
  shows "inner_ok rw (GenericInner m') \<and> set_option e \<subseteq> allowed rw role"
proof -
  obtain place where "generic_place_of input = Some place"
    using assms(2) by (auto simp: generic_get_def bind_eq_Some_conv)
  then show ?thesis
    using assms by (cases place) (fastforce simp: generic_get_def bind_eq_Some_conv dest: next_serves)+
qed

lemma rules_get_ok:
  assumes "\<forall>i \<in> set rules. inner_ok rw i" "rules_get X (balance_next g) rules input = Some (rules', r)"
  shows "(\<forall>i \<in> set rules'. inner_ok rw i) \<and> (\<forall>e role. r = Some (e, role) \<longrightarrow> set_option e \<subseteq> allowed rw role)"
  using assms
proof (induction rules arbitrary: rules')
  case (Cons i rules)
  show ?case
  proof (cases i)
    case (RegexInner m)
    then obtain matched where "regex_is_match X m input = Some matched"
      using Cons.prems(2) by (auto simp: bind_eq_Some_conv)
    then show ?thesis
      using Cons RegexInner
      by (cases matched) (auto simp: bind_eq_Some_conv simp del: inner_ok.simps dest: regex_get_ok)
  next
    case (GenericInner m)
    then obtain matched where "generic_is_match m input = Some matched"
      using Cons.prems(2) by (auto simp: bind_eq_Some_conv)
    then show ?thesis
      using Cons GenericInner
      by (cases matched) (auto simp: bind_eq_Some_conv simp del: inner_ok.simps dest: generic_get_ok)
  qed
qed simp

lemma RulesMatch_get_ok:
  assumes "rules_ok rw rm" "RulesMatch_get X (balance_next g) rm input = Some (rm', e, role)"
  shows "rules_ok rw rm' \<and> set_option e \<subseteq> allowed rw role \<and> default_target rm' = default_target rm"
proof (cases "\<exists>sql. input = Transaction sql")
  case True
  then obtain b where b: "balance_next g (default_trans_balance rm) = Some (b, e)"
      "rm' = rm\<lparr>default_trans_balance := b\<rparr>" "role = ReadWrite"
    using assms(2) by (auto simp: RulesMatch_get_def bind_eq_Some_conv)
  then show ?thesis
    using assms(1) next_serves [OF _ b(1), of rw ReadWrite] by (auto simp: rules_ok_def)
next
  case False
  then have "RulesMatch_get X (balance_next g) rm input =
      do { (rules, r) \<leftarrow> rules_get X (balance_next g) (inner rm) input;
           let rm = rm\<lparr>inner := rules\<rparr>;
           (case r of
              Some (x, role) \<Rightarrow> Some (rm, x, role)
            | None \<Rightarrow> do { (b, x) \<leftarrow> balance_next g (default_balance rm);
                         Some (rm\<lparr>default_balance := b\<rparr>, x, default_target rm) }) }"
    by (cases input) (simp_all add: RulesMatch_get_def)
  note get = assms(2) [unfolded this]
  obtain rules r where r: "rules_get X (balance_next g) (inner rm) input = Some (rules, r)"
    using get by (auto simp: bind_eq_Some_conv)
  note ok = rules_get_ok [OF _ r, of rw]
  show ?thesis
  proof (cases r)
    case (Some x)
    then show ?thesis
      using assms(1) get r ok by (cases x) (auto simp: rules_ok_def)
  next
    case None
    then obtain b where b: "balance_next g (default_balance rm) = Some (b, e)"
        "rm' = rm\<lparr>inner := rules, default_balance := b\<rparr>" "role = default_target rm"
      using get r by (auto simp: bind_eq_Some_conv)
    then show ?thesis
      using assms(1) ok next_serves [OF _ b(1), of rw "default_target rm"] by (auto simp: rules_ok_def)
  qed
qed

text \<open>Building the rules establishes the invariant.\<close>

lemma build_default_balance_ok:
  "build_default_balance seed role rw = Some b \<Longrightarrow> serves rw role b"
  by (cases role) (auto simp: build_default_balance_def Let_def serves_def allowed_def dest: balance_add_items)

definition sub_endpoint :: "ReadWriteEndpoint \<Rightarrow> ReadWriteEndpoint \<Rightarrow> bool" where
  "sub_endpoint a b \<longleftrightarrow> set (reads a) \<subseteq> set (reads b) \<and> set (readwrites a) \<subseteq> set (readwrites b)"

lemma build_balance_inner_ok:
  assumes "build_balance_inner (build_balance seed alg) role a = Some b" "sub_endpoint a rw"
  shows "serves rw role b"
  using assms by (cases role)
    (force simp: build_balance_inner_def serves_def allowed_def sub_endpoint_def
      dest: balance_add_items split: if_splits)+

lemma group_balances_ok:
  assumes "group_balances seeds rule eg grps bs = Some (Inr bs')"
    and "\<forall>(k, a) \<in> set eg. sub_endpoint a rw" "\<forall>(k, b) \<in> set bs. serves rw (rx_target rule) b"
  shows "\<forall>(k, b) \<in> set bs'. serves rw (rx_target rule) b"
  using assms(1,3)
proof (induction grps arbitrary: bs)
  case (Cons grp grps)
  then obtain a b where a: "map_of eg grp = Some a"
      "build_balance_inner (build_balance (seeds (length grps)) (rx_algorithm_name rule)) (rx_target rule) a = Some b"
      "group_balances seeds rule eg grps (AList.update grp b bs) = Some (Inr bs')"
    by (auto simp: bind_eq_Some_conv split: option.splits)
  have "sub_endpoint a rw"
    using map_of_SomeD [OF a(1)] assms(2) by auto
  from build_balance_inner_ok [OF a(2) this] show ?case
    using Cons.IH [OF a(3)] Cons.prems(2) set_AList_update [of grp b bs] by blast
qed simp

lemma regex_new_ok:
  assumes "RegexRuleMatchInner_new X seeds rule eg rw = Some (Inr m)" "\<forall>(k, a) \<in> set eg. sub_endpoint a rw"
  shows "inner_ok rw (RegexInner m)"
proof -
  obtain y where y: "regex_build_balance seeds rule eg rw = Some y"
    using assms(1) by (auto simp: RegexRuleMatchInner_new_def bind_eq_Some_conv)
  then obtain bs where bs: "regex_build_balance seeds rule eg rw = Some (Inr bs)" "rm_balance m = bs" "rm_rule m = rule"
    using assms(1) by (cases y) (auto simp: RegexRuleMatchInner_new_def split: sum.splits)
  have "sub_endpoint rw rw"
    by (simp add: sub_endpoint_def)
  then have "\<forall>(k, b) \<in> set bs. serves rw (rx_target rule) b"
    using bs(1) group_balances_ok [OF _ assms(2), of seeds rule "rx_node_group_name rule" "[]" bs]
    by (auto simp: regex_build_balance_def bind_eq_Some_conv dest: build_balance_inner_ok split: if_splits)
  then show ?thesis
    using bs by simp
qed

lemma generic_build_ok:
  assumes "generic_build_balance seed role alg rw = Some b"
  shows "serves rw role b"
proof (cases role)
  case Read
  show ?thesis
  proof (cases "reads rw = []")
    case True
    then have "balance_add_endpoint (build_balance seed alg) (readwrites rw) = Some b"
      using assms Read by (auto simp: generic_build_balance_def balance_add_endpoint_def Let_def bind_eq_Some_conv)
    then show ?thesis
      using Read by (auto simp: serves_def allowed_def dest: balance_add_items)
  next
    case False
    then have "balance_add_endpoint (build_balance seed alg) (reads rw) = Some b"
      using assms Read by (auto simp: generic_build_balance_def Let_def bind_eq_Some_conv)
    then show ?thesis
      using Read by (auto simp: serves_def allowed_def dest: balance_add_items)
  qed
next
  case ReadWrite
  then show ?thesis
    using assms by (auto simp: generic_build_balance_def Let_def serves_def allowed_def dest: balance_add_items)
qed

lemma build_rules_loop_ok:
  assumes "build_rules_loop X seeds rules eg rw dt is gs = Some rs" "\<forall>(k, a) \<in> set eg. sub_endpoint a rw"
    and "\<forall>i \<in> set is \<union> set gs. inner_ok rw i"
  shows "\<forall>i \<in> set rs. inner_ok rw i"
  using assms(1,3)
proof (induction rules arbitrary: "is" gs)
  case (Cons r rules)
  show ?case
  proof (cases r)
    case (Regex r')
    then obtain y where y: "RegexRuleMatchInner_new X (seeds (length rules)) r' eg rw = Some y"
      using Cons.prems(1) by (auto simp: bind_eq_Some_conv)
    then obtain m where m: "RegexRuleMatchInner_new X (seeds (length rules)) r' eg rw = Some (Inr m)"
        "build_rules_loop X seeds rules eg rw dt (is @ [RegexInner m]) gs = Some rs"
      using Cons.prems(1) Regex by (cases y) auto
    show ?thesis
      using Cons.IH [OF m(2)] Cons.prems(2) regex_new_ok [OF m(1) assms(2)] by auto
  next
    case (Generic r')
    then obtain m where m: "GenericRuleMatchInner_new (seeds (length rules)) r' dt rw = Some m"
        "build_rules_loop X seeds rules eg rw dt is (gs @ [GenericInner m]) = Some rs"
      using Cons.prems(1) by (auto simp: bind_eq_Some_conv)
    have "inner_ok rw (GenericInner m)"
      using m(1) by (auto simp: GenericRuleMatchInner_new_def bind_eq_Some_conv dest: generic_build_ok)
    then show ?thesis
      using Cons.IH [OF m(2)] Cons.prems(2) by auto
  qed
qed auto

lemma find_in: "find P xs = Some y \<Longrightarrow> y \<in> set xs"
  by (auto simp: find_Some_iff)

lemma group_reads_sub: "set (group_reads rs names) \<subseteq> set rs"
  by (auto simp: group_reads_def List.map_filter_def dest: find_in)

lemma endpoint_group_sub:
  assumes "endpoint_group_loop ms rw eg = Inr eg'" "\<forall>(k, a) \<in> set eg. sub_endpoint a rw"
  shows "\<forall>(k, a) \<in> set eg'. sub_endpoint a rw"
  using assms
proof (induction ms arbitrary: eg)
  case (Cons m ms)
  then obtain r where r: "find (\<lambda>x. name x = mb_readwrite m) (readwrites rw) = Some r"
    by (auto split: option.splits)
  then have "r \<in> set (readwrites rw)"
    by (auto simp: find_Some_iff)
  then have "sub_endpoint \<lparr>reads = group_reads (reads rw) (mb_reads m), readwrites = [r]\<rparr> rw"
    using group_reads_sub by (simp add: sub_endpoint_def)
  then show ?case
    using Cons r set_AList_update [of "mb_name m" _ eg] by fastforce
qed simp

lemma get_endpoint_group_sub:
  "get_endpoint_group ng rw = Inr eg \<Longrightarrow> \<forall>(k, a) \<in> set eg. sub_endpoint a rw"
  by (cases ng) (auto simp: get_endpoint_group_def dest: endpoint_group_sub)

lemma rules_built_ok:
  assumes "RulesMatchBuilder_build X seeds rules dt eg rw = Some rm" "\<forall>(k, a) \<in> set eg. sub_endpoint a rw"
  shows "rules_ok rw rm"
  using assms build_rules_loop_ok [OF _ assms(2)]
  by (fastforce simp: RulesMatchBuilder_build_def build_rules_def rules_ok_def bind_eq_Some_conv
      dest: build_default_balance_ok)

lemma refresh_ok:
  assumes "dynamic_refresh X seeds d rw = Some rm"
  shows "rules_ok rw rm"
proof -
  obtain eg where eg: "get_endpoint_group (node_group_config d) rw = Inr eg"
    using assms by (cases "get_endpoint_group (node_group_config d) rw")
      (auto simp: dynamic_refresh_def Let_def bind_eq_Some_conv)
  then show ?thesis
    using assms build_rules_loop_ok [OF _ get_endpoint_group_sub [OF eg]]
    by (fastforce simp: dynamic_refresh_def Let_def build_rules_def rules_ok_def bind_eq_Some_conv
        dest: build_default_balance_ok)
qed

text \<open>The endpoints in force: those of the configuration until the discovery has sent others.\<close>

fun strategy_rules :: "('r, 'x) ReadWriteSplittingRouteStrategy \<Rightarrow> ('r, 'x) RulesMatch option" where
  "strategy_rules (StaticRw rm) = Some rm"
| "strategy_rules (DynamicRw d) = Some (rules_match d)"
| "strategy_rules NoRw = None"

fun in_force :: "ReadWriteEndpoint \<Rightarrow> ('r, 'x) ReadWriteSplittingRouteStrategy \<Rightarrow> ReadWriteEndpoint" where
  "in_force rw (DynamicRw d) = (if rx d = [] then rw else last (rx d))"
| "in_force rw _ = rw"

text \<open>Strategies reached from a configuration: built, receiving updates, dispatching.\<close>

inductive route_reach ::
    "'x regex_ops \<Rightarrow> 'r gen \<Rightarrow> ReadWriteEndpoint \<Rightarrow> ('r, 'x) ReadWriteSplittingRouteStrategy \<Rightarrow> bool"
  for X g where
  reach_built: "get_endpoint_group ng rw = Inr eg \<Longrightarrow>
    ReadWriteSplittingRouteStrategy_new X seeds cfg ng eg rw = Some st \<Longrightarrow> route_reach X g rw st"
| reach_update: "route_reach X g rw (DynamicRw d) \<Longrightarrow> route_reach X g rw (DynamicRw (d\<lparr>rx := rx d @ [u]\<rparr>))"
| reach_dispatch: "route_reach X g rw st \<Longrightarrow>
    readwritesplitting_dispatch X g seeds st input = Some (st', e, role) \<Longrightarrow> route_reach X g (in_force rw st) st'"

lemma dispatch_rules:
  assumes "readwritesplitting_dispatch X g seeds st input = Some (st', e, role)"
  shows "\<exists>rm rm'. RulesMatch_get X (balance_next g) rm input = Some (rm', e, role) \<and>
    strategy_rules st' = Some rm' \<and>
    (strategy_rules st = Some rm \<and> in_force rw st = rw \<or> rules_ok (in_force rw st) rm)"
proof (cases st)
  case (DynamicRw d)
  then obtain rm rm' where "(if rx d = [] then Some (rules_match d) else dynamic_refresh X seeds d (last (rx d))) = Some rm"
      "RulesMatch_get X (balance_next g) rm input = Some (rm', e, role)" "strategy_rules st' = Some rm'"
    using assms by (auto simp: readwritesplitting_dispatch_def dynamic_dispatch_def bind_eq_Some_conv)
  then show ?thesis
    using DynamicRw refresh_ok [of X seeds d "last (rx d)" rm] by (auto split: if_splits)
qed (use assms in \<open>auto simp: readwritesplitting_dispatch_def static_dispatch_def\<close>)

lemma route_reach_ok:
  "route_reach X g rw st \<Longrightarrow> \<forall>rm. strategy_rules st = Some rm \<longrightarrow> rules_ok rw rm"
proof (induction rule: route_reach.induct)
  case (reach_built ng rw eg seeds cfg st)
  have sub: "\<forall>(k, a) \<in> set eg. sub_endpoint a rw"
    using get_endpoint_group_sub [OF reach_built(1)] .
  show ?case
    using reach_built(2) rules_built_ok [OF _ sub]
    by (auto simp: ReadWriteSplittingRouteStrategy_new_def split: option.splits)
next
  case (reach_update rw d u)
  then show ?case
    by simp
next
  case (reach_dispatch rw st seeds input st' e role)
  then show ?case
    using dispatch_rules [OF reach_dispatch(2), of rw] RulesMatch_get_ok by fastforce
qed


subsection \<open>Properties\<close>

text \<open>C3.  Read-write splitting never sends a statement astray: whatever updates the discovery
  has sent and whatever was routed before, an endpoint answered with the role \<open>ReadWrite\<close> is
  one of the readwrite endpoints in force, one answered with \<open>Read\<close> is an endpoint in force,
  and a transaction is always answered with \<open>ReadWrite\<close>.\<close>

theorem rw_splitting_sound:
  assumes "route_reach X g rw st" "readwritesplitting_dispatch X g seeds st input = Some (st', Some e, role)"
  shows "e \<in> allowed (in_force rw st) role \<and> (\<forall>sql. input = Transaction sql \<longrightarrow> role = ReadWrite)"
proof -
  obtain rm rm' where rm: "RulesMatch_get X (balance_next g) rm input = Some (rm', Some e, role)"
      "rules_ok (in_force rw st) rm"
    using dispatch_rules [OF assms(2), of rw] route_reach_ok [OF assms(1)] by metis
  have "role = ReadWrite" if "input = Transaction sql" for sql
    using rm(1) that by (auto simp: RulesMatch_get_def bind_eq_Some_conv)
  then show ?thesis
    using RulesMatch_get_ok [OF rm(2,1)] by auto
qed

text \<open>An example: one master, one replica, statements that start with \<open>select\<close> go to replicas.\<close>

definition prefix_regex :: "string regex_ops" where
  "prefix_regex = \<lparr>rx_new = Inr, rx_build = (\<lambda>_. Inr), rx_is_match = (\<lambda>r s. take (length r) s = r)\<rparr>"

definition example_node :: "string \<Rightarrow> Endpoint" where
  "example_node n = \<lparr>weight = 1, name = n, db = [], user = [], password = [], addr = n\<rparr>"

definition example_rw :: ReadWriteEndpoint where
  "example_rw = \<lparr>reads = [example_node ''replica''], readwrites = [example_node ''master'']\<rparr>"

definition select_rule :: RegexRule where
  "select_rule = \<lparr>rx_name = ''r'', rx_rule_type = ''regex'', rx_regex = [''select''], rx_target = Read,
     rx_algorithm_name = Random, rx_node_group_name = []\<rparr>"

definition example_config :: ReadWriteSplittingConfig where
  "example_config = \<lparr>statics = Some \<lparr>cfg_default_target = ReadWrite, cfg_rules = [Regex select_rule]\<rparr>, dynamics = None\<rparr>"

definition one_endpoint :: "Endpoint \<Rightarrow> unit BalanceType" where
  "one_endpoint e = BRandom \<lparr>rw_items = [e], rw_n = 1, sum_of_weights = weight e, rw_r = ()\<rparr>"

definition example_rules :: "(unit, string) RulesMatch" where
  "example_rules = \<lparr>default_target = ReadWrite, default_balance = one_endpoint (example_node ''master''),
     default_trans_balance = one_endpoint (example_node ''master''),
     inner = [RegexInner \<lparr>rm_rule = select_rule, rm_regexs = [''select''],
       rm_balance = [(''GLOBAL'', one_endpoint (example_node ''replica''))]\<rparr>]\<rparr>"

lemma example_balance:
  "balance_add_endpoint (build_balance () Random) [example_node n] = Some (one_endpoint (example_node n))"
  by (simp add: balance_add_endpoint_def build_balance_def BalanceType_add_def RandomWeighted_add_def
      RandomWeighted_default_def RandomWeighted_item_exists_def name_exists_def one_endpoint_def example_node_def wrap64_def)

lemma example_next:
  "balance_next (\<lambda>_ _. (0, ())) (one_endpoint (example_node n)) =
     Some (one_endpoint (example_node n), Some (example_node n))"
  by (simp add: balance_next_def BalanceType_next_def one_endpoint_def example_node_def RandomWeighted_next_def wrap64_def)

lemma example_built:
  "ReadWriteSplittingRouteStrategy_new prefix_regex (\<lambda>_ _. ()) example_config None [] example_rw = Some (StaticRw example_rules)"
  by (simp add: ReadWriteSplittingRouteStrategy_new_def example_config_def RulesMatchBuilder_build_def build_rules_def
      RegexRuleMatchInner_new_def regex_build_balance_def build_balance_inner_def build_default_balance_def
      select_rule_def example_rw_def example_balance prefix_regex_def example_rules_def)

lemma example_reach: "route_reach prefix_regex (\<lambda>_ _. (0, ())) example_rw (StaticRw example_rules)"
  by (rule reach_built [where ng = None, OF _ example_built]) (simp add: get_endpoint_group_def)

theorem rw_splitting_sound_witness:
  "\<exists>st' e role. readwritesplitting_dispatch prefix_regex (\<lambda>_ _. (0, ())) (\<lambda>_ _. ()) (StaticRw example_rules)
      (Transaction ''begin'') = Some (st', Some e, role) \<and> e \<in> {example_node ''master''} \<and> role = ReadWrite"
proof -
  have d: "readwritesplitting_dispatch prefix_regex (\<lambda>_ _. (0, ())) (\<lambda>_ _. ()) (StaticRw example_rules)
      (Transaction ''begin'') = Some (StaticRw example_rules, Some (example_node ''master''), ReadWrite)"
    by (simp add: readwritesplitting_dispatch_def static_dispatch_def RulesMatch_get_def example_rules_def example_next)
  then show ?thesis
    using rw_splitting_sound [OF example_reach d] by (auto simp: allowed_def example_rw_def)
qed


text \<open>When a node group names a readwrite endpoint that an update of the discovery has
  replaced, the next statement panics: the update is not applied but unwrapped, and the
  failover takes the proxy down instead of redirecting it.\<close>

lemma failover_panics_with_node_groups:
  assumes "rx d \<noteq> []" "node_group_config d = Some ng" "m \<in> set (members ng)"
    and "mb_readwrite m \<notin> name ` set (readwrites (last (rx d)))"
  shows "dynamic_dispatch X g seeds d input = None"
proof -
  let ?rw = "last (rx d)"
  have "\<exists>e. endpoint_group_loop ms ?rw eg = Inl e" if "m \<in> set ms" for ms eg
    using that
  proof (induction ms arbitrary: eg)
    case (Cons m' ms)
    show ?case
    proof (cases "find (\<lambda>x. name x = mb_readwrite m') (readwrites ?rw)")
      case (Some r)
      then have "r \<in> set (readwrites ?rw)" "name r = mb_readwrite m'"
        by (auto simp: find_Some_iff)
      then have "m' \<noteq> m"
        using assms(4) by (metis image_eqI)
      then show ?thesis
        using Cons Some by auto
    qed simp
  qed simp
  then obtain e where "get_endpoint_group (node_group_config d) ?rw = Inl e"
    using assms(2,3) by (auto simp: get_endpoint_group_def)
  then have "dynamic_refresh X seeds d ?rw = None"
    by (simp add: dynamic_refresh_def bind_eq_None_conv)
  then show ?thesis
    using assms(1) by (simp add: dynamic_dispatch_def)
qed

lemma failover_panics_with_node_groups_witness:
  "dynamic_dispatch prefix_regex (\<lambda>_ _. (0, ())) (\<lambda>_ _. ())
     \<lparr>rx = [\<lparr>reads = [], readwrites = [example_node ''replica'']\<rparr>], dyn_rules = [],
      node_group_config = Some \<lparr>members = [\<lparr>mb_name = ''g'', mb_readwrite = ''master'', mb_reads = [''replica'']\<rparr>]\<rparr>,
      rules_match = example_rules\<rparr> (Statement ''select 1'') = None"
  by (rule failover_panics_with_node_groups
      [where ng = "\<lparr>members = [\<lparr>mb_name = ''g'', mb_readwrite = ''master'', mb_reads = [''replica'']\<rparr>]\<rparr>"
        and m = "\<lparr>mb_name = ''g'', mb_readwrite = ''master'', mb_reads = [''replica'']\<rparr>"])
    (simp_all add: example_node_def)


text \<open>The balancer of transactions: random over the readwrite endpoints.\<close>

definition trans_ready :: "ReadWriteEndpoint \<Rightarrow> 'r BalanceType \<Rightarrow> bool" where
  "trans_ready rw b \<longleftrightarrow> (\<exists>s. b = BRandom s \<and> rw_inv s \<and> rw_items s = keep_new {} (readwrites rw))"

lemma trans_ready_built:
  "build_default_balance seed ReadWrite rw = Some b \<Longrightarrow> trans_ready rw b"
proof -
  assume b: "build_default_balance seed ReadWrite rw = Some b"
  have lift: "\<exists>s. add_each BalanceType_add (BRandom s0) es = Some (BRandom s) \<and>
      add_each (\<lambda>s e. Some (RandomWeighted_add s e)) s0 es = Some s" for s0 :: "'r RandomWeighted" and es
    by (induction es arbitrary: s0) (simp_all add: BalanceType_add_def)
  obtain s where "add_each (\<lambda>s e. Some (RandomWeighted_add s e)) (RandomWeighted_default seed) (readwrites rw) = Some s"
      "rw_inv s" "rw_items s = keep_new {} (readwrites rw)"
    using rw_lb.built [of seed "readwrites rw"] by blast
  with lift [of "RandomWeighted_default seed" "readwrites rw"] show "trans_ready rw b"
    using b by (auto simp: build_default_balance_def balance_add_endpoint_def build_balance_def trans_ready_def)
qed

lemma trans_ready_next: "trans_ready rw b \<Longrightarrow> balance_next g b = Some (b', e) \<Longrightarrow> trans_ready rw b'"
  by (auto simp: trans_ready_def balance_next_def BalanceType_next_def RandomWeighted_next_def Let_def
      split: if_splits prod.splits option.splits)

lemma RulesMatch_get_trans:
  assumes "RulesMatch_get X (balance_next g) rm input = Some (rm', e, role)"
    and "trans_ready rw (default_trans_balance rm)"
  shows "trans_ready rw (default_trans_balance rm')"
proof (cases "\<exists>sql. input = Transaction sql")
  case True
  then show ?thesis
    using assms trans_ready_next by (fastforce simp: RulesMatch_get_def bind_eq_Some_conv)
next
  case False
  then have "default_trans_balance rm' = default_trans_balance rm"
    using assms(1)
    by (cases input) (auto simp: RulesMatch_get_def bind_eq_Some_conv Let_def split: option.splits prod.splits)
  then show ?thesis
    using assms(2) by simp
qed

lemma route_reach_trans:
  "route_reach X g rw st \<Longrightarrow> \<forall>rm. strategy_rules st = Some rm \<longrightarrow> trans_ready rw (default_trans_balance rm)"
proof (induction rule: route_reach.induct)
  case (reach_built ng rw eg seeds cfg st)
  then show ?case
    by (auto simp: ReadWriteSplittingRouteStrategy_new_def RulesMatchBuilder_build_def bind_eq_Some_conv
        split: option.splits) (erule trans_ready_built)+
next
  case (reach_dispatch rw st seeds input st' e role)
  show ?case
  proof (cases st)
    case (StaticRw rm)
    then show ?thesis
      using reach_dispatch
      by (auto simp: readwritesplitting_dispatch_def static_dispatch_def dest: RulesMatch_get_trans)
  next
    case (DynamicRw d)
    then obtain rm rm' where rm: "(if rx d = [] then Some (rules_match d) else dynamic_refresh X seeds d (last (rx d))) = Some rm"
        "RulesMatch_get X (balance_next g) rm input = Some (rm', e, role)" "strategy_rules st' = Some rm'"
      using reach_dispatch(2) by (auto simp: readwritesplitting_dispatch_def dynamic_dispatch_def bind_eq_Some_conv)
    have "trans_ready (in_force rw st) (default_trans_balance rm)"
    proof (cases "rx d = []")
      case True
      then show ?thesis
        using rm(1) reach_dispatch DynamicRw by simp
    next
      case False
      then show ?thesis
        using rm(1) DynamicRw
        by (cases "get_endpoint_group (node_group_config d) (last (rx d))")
          (auto simp: dynamic_refresh_def Let_def bind_eq_Some_conv intro: trans_ready_built)
    qed
    from RulesMatch_get_trans [OF rm(2) this] rm(3) show ?thesis
      by simp
  next
    case NoRw
    then show ?thesis
      using reach_dispatch(2) by (simp add: readwritesplitting_dispatch_def)
  qed
qed simp

text \<open>C16.  A transaction is always routed: when no update is pending and the readwrite endpoints
  in force have non-negative weights of positive total, dispatching a transaction answers with
  one of them, after any history of updates and statements.\<close>

theorem transaction_routed:
  assumes "route_reach X g rw st" "strategy_rules st \<noteq> None" "in_force rw st = rw"
    and "\<forall>d. st = DynamicRw d \<longrightarrow> rx d = []"
    and "\<forall>e \<in> set (readwrites rw). 0 \<le> weight e"
    and "0 < total (keep_new {} (readwrites rw))" "total (keep_new {} (readwrites rw)) < 2 ^ 63"
    and "\<forall>r k. 0 < k \<longrightarrow> 0 \<le> fst (g r k) \<and> fst (g r k) < k"
  shows "\<exists>st' e. readwritesplitting_dispatch X g seeds st (Transaction sql) = Some (st', Some e, ReadWrite) \<and>
    e \<in> set (readwrites rw)"
proof -
  obtain rm where rm: "strategy_rules st = Some rm"
    using assms(2) by blast
  then obtain s where s: "default_trans_balance rm = BRandom s" "rw_inv s" "rw_items s = keep_new {} (readwrites rw)"
    using route_reach_trans [OF assms(1)] by (auto simp: trans_ready_def)
  have sum: "sum_of_weights s = total (rw_items s)" "rw_n s \<noteq> 0"
    using s(2,3) assms(6,7) by (auto simp: wrap64_id)
  obtain d r where d: "g (rw_r s) (sum_of_weights s) = (d, r)"
    by fastforce
  then have "0 \<le> d" "d < total (rw_items s)"
    using assms(6,8) s(3) sum(1) by (metis fst_conv)+
  then obtain e where e: "pick_loop (d + 1) (rw_items s) = Some e"
    using pick_loop_total [of "rw_items s" "d + 1"] s(3) assms(5,7) keep_new_names(2) [of "{}" "readwrites rw"] by auto
  then have "balance_next g (default_trans_balance rm) = Some (BRandom (s\<lparr>rw_r := r\<rparr>), Some e)"
    using s sum d assms(6) by (simp add: balance_next_def BalanceType_next_def RandomWeighted_next_def)
  then have get: "RulesMatch_get X (balance_next g) rm (Transaction sql) =
      Some (rm\<lparr>default_trans_balance := BRandom (s\<lparr>rw_r := r\<rparr>)\<rparr>, Some e, ReadWrite)"
    by (simp add: RulesMatch_get_def)
  have "e \<in> set (readwrites rw)"
    using pick_loop_in [OF e] s(3) keep_new_names(2) by fastforce
  with get rm assms(4) show ?thesis
    by (cases st) (auto simp: readwritesplitting_dispatch_def static_dispatch_def dynamic_dispatch_def)
qed

theorem transaction_routed_witness:
  "\<exists>st' e. readwritesplitting_dispatch prefix_regex (\<lambda>_ _. (0, ())) (\<lambda>_ _. ()) (StaticRw example_rules)
      (Transaction ''begin'') = Some (st', Some e, ReadWrite) \<and> e \<in> {example_node ''master''}"
  using transaction_routed [OF example_reach, of "\<lambda>_ _. ()" "''begin''"]
  by (simp add: example_rw_def example_node_def)


text \<open>With sharding, a generic rule makes the proxy panic on every statement that no regular
  expression matches: its matching has no case for statements of a node group.\<close>

lemma generic_rule_panics_when_sharding:
  assumes "GenericInner m \<in> set (inner rm)"
    and "\<forall>r. RegexInner r \<in> set (inner rm) \<longrightarrow> \<not> any_match X (rm_regexs r) sql"
  shows "static_dispatch X g rm (ShardingStatement sql grp) = None"
proof -
  have "rules_get X f rules (ShardingStatement sql grp) = None"
    if "GenericInner m \<in> set rules" "\<forall>r. RegexInner r \<in> set rules \<longrightarrow> \<not> any_match X (rm_regexs r) sql"
    for f :: "('a, Endpoint option) borrow" and rules
    using that
  proof (induction rules)
    case (Cons i rules)
    then show ?case
      by (cases i) (auto simp: regex_is_match_def generic_is_match_def)
  qed simp
  then show ?thesis
    using assms by (simp add: static_dispatch_def RulesMatch_get_def)
qed

lemma generic_rule_panics_when_sharding_witness:
  "static_dispatch prefix_regex (\<lambda>_ _. (0, ()))
     (example_rules\<lparr>inner := [GenericInner \<lparr>r_balance = one_endpoint (example_node ''replica''),
        rw_balance = one_endpoint (example_node ''master''), gd_default_balance = one_endpoint (example_node ''master''),
        default_target_role = ReadWrite\<rparr>]\<rparr>) (ShardingStatement ''select 1'' ''g'') = None"
  by (rule generic_rule_panics_when_sharding
      [where m = "\<lparr>r_balance = one_endpoint (example_node ''replica''),
        rw_balance = one_endpoint (example_node ''master''), gd_default_balance = one_endpoint (example_node ''master''),
        default_target_role = ReadWrite\<rparr>"]) simp_all


text \<open>With sharding, the first rule that matches decides where a transaction goes too: a rule
  with target \<open>Read\<close> sends it to a replica, which without sharding never happens.\<close>

lemma sharding_transaction_follows_rule:
  assumes "inner rm = RegexInner m # rest" "any_match X (rm_regexs m) sql" "rx_target (rm_rule m) = Read"
    and "map_of (rm_balance m) grp = Some b" "balance_next g b = Some (b', Some e)"
  shows "\<exists>rm'. static_dispatch X g rm (ShardingTransaction sql grp) = Some (rm', Some e, Read)"
  using assms by (simp add: static_dispatch_def RulesMatch_get_def regex_is_match_def regex_get_def)

lemma sharding_transaction_follows_rule_witness:
  "\<exists>rm'. static_dispatch prefix_regex (\<lambda>_ _. (0, ()))
     (example_rules\<lparr>inner := [RegexInner \<lparr>rm_rule = select_rule, rm_regexs = [''select''],
        rm_balance = [(''g'', one_endpoint (example_node ''replica''))]\<rparr>]\<rparr>)
     (ShardingTransaction ''select 1 for update'' ''g'') = Some (rm', Some (example_node ''replica''), Read)"
  by (rule sharding_transaction_follows_rule
      [where m = "\<lparr>rm_rule = select_rule, rm_regexs = [''select''],
        rm_balance = [(''g'', one_endpoint (example_node ''replica''))]\<rparr>" and rest = "[]"
        and b = "one_endpoint (example_node ''replica'')" and b' = "one_endpoint (example_node ''replica'')"])
    (simp_all add: example_next select_rule_def any_match_def prefix_regex_def)

end
