(* ===== verification/Plugins.thy ===== *)
theory Plugins
  imports Strings "HOL-Library.Multiset"
begin

section \<open>Plugins\<close>

text \<open>
  The two plugins a command passes before it is handled, \<open>plugin/src\<close>: the circuit breaker
  (\<open>circuit_break/mod.rs\<close>) and the concurrency control (\<open>concurrency_control/mod.rs\<close>), the
  layers and services they are built from (\<open>layer.rs\<close>) and their assembly
  (\<open>build_phase.rs\<close>).  The rules of the concurrency control are shared by all sessions: an
  operation of one session is a step on the shared rules.  A semaphore is its number of
  permits; \<open>forget\<close> on a permit is not returning it.  The clock is an argument.
\<close>


subsection \<open>Layers and services\<close>

datatype PluginError = ConcurrencyControlPluginReject | CircuitBreakPluginReject | Unknown

definition PluginError_to_string :: "PluginError \<Rightarrow> string" where
  "PluginError_to_string e =
     (case e of
        ConcurrencyControlPluginReject \<Rightarrow> ''concurrency control plugin rejected''
      | CircuitBreakPluginReject \<Rightarrow> ''audit plugin rejected''
      | Unknown \<Rightarrow> ''unknown error'')"

type_synonym ('i, 'o) service_fn = "'i \<Rightarrow> PluginError + 'o"

definition ServiceFn_handle :: "('i, 'o) service_fn \<Rightarrow> 'i \<Rightarrow> PluginError + 'o" where
  "ServiceFn_handle f input = f input"

definition Empty_layer :: "'s \<Rightarrow> 's" where
  "Empty_layer s = s"

definition LayerTrans_layer :: "('s \<Rightarrow> 't) \<Rightarrow> ('t \<Rightarrow> 'u) \<Rightarrow> 's \<Rightarrow> 'u" where
  "LayerTrans_layer input output service = output (input service)"

text \<open>A service builder is the layer it holds.\<close>

definition ServiceBuilder_new :: "'s \<Rightarrow> 's" where
  "ServiceBuilder_new = Empty_layer"

definition with_layer :: "('t \<Rightarrow> 'u) \<Rightarrow> ('s \<Rightarrow> 't) \<Rightarrow> 's \<Rightarrow> 'u" where
  "with_layer self s = LayerTrans_layer s self"

definition ServiceBuilder_build :: "('s \<Rightarrow> 't) \<Rightarrow> 's \<Rightarrow> 't" where
  "ServiceBuilder_build self s = self s"


subsection \<open>Circuit breaker\<close>

record CircuitBreakConfig =
  cb_regex :: "string list"
  case_insensitive :: bool

record 'x CircuitBreak =
  cb_inner :: "(string, unit) service_fn"
  cb_instances :: "'x list list option"

text \<open>\<open>unwrap\<close> panics on an expression that does not compile.\<close>

fun compile_all :: "(string \<Rightarrow> string + 'x) \<Rightarrow> string list \<Rightarrow> 'x list option" where
  "compile_all build [] = Some []"
| "compile_all build (r # rs) =
     (case build r of Inl _ \<Rightarrow> None | Inr x \<Rightarrow> do { xs \<leftarrow> compile_all build rs; Some (x # xs) })"

fun circuit_create_instances :: "'x regex_ops \<Rightarrow> CircuitBreakConfig list \<Rightarrow> 'x list list option" where
  "circuit_create_instances X [] = Some []"
| "circuit_create_instances X (c # cs) =
     do { regex \<leftarrow> compile_all (rx_build X (case_insensitive c)) (cb_regex c);
          instances \<leftarrow> circuit_create_instances X cs;
          Some (regex # instances) }"

definition CircuitBreakLayer_layer ::
    "'x regex_ops \<Rightarrow> CircuitBreakConfig list option \<Rightarrow> (string, unit) service_fn \<Rightarrow> 'x CircuitBreak option" where
  "CircuitBreakLayer_layer X config inner =
     (case config of
        Some cs \<Rightarrow>
          do { instances \<leftarrow> circuit_create_instances X cs;
               Some \<lparr>cb_inner = inner, cb_instances = Some instances\<rparr> }
      | None \<Rightarrow> Some \<lparr>cb_inner = inner, cb_instances = None\<rparr>)"

definition circuit_is_allow :: "'x regex_ops \<Rightarrow> 'x CircuitBreak \<Rightarrow> string \<Rightarrow> bool" where
  "circuit_is_allow X self input =
     (case cb_instances self of
        Some instances \<Rightarrow> \<not> list_ex (\<lambda>c. any_match X c input) instances
      | None \<Rightarrow> True)"

definition circuit_handle :: "'x regex_ops \<Rightarrow> 'x CircuitBreak \<Rightarrow> string \<Rightarrow> PluginError + unit" where
  "circuit_handle X self input =
     (if circuit_is_allow X self input then ServiceFn_handle (cb_inner self) input
      else Inl CircuitBreakPluginReject)"


subsection \<open>Concurrency control\<close>

record ConcurrencyControlConfig =
  cc_regex :: "string list"
  cfg_max_concurrency :: u32
  cfg_duration :: nat

record 'x ConcurrencyControlInstance =
  ci_regex :: "'x list"
  max_concurrency :: nat
  semaphore :: nat
  duration :: nat
  start_at :: "nat option"

record 'x ConcurrencyControl =
  cc_inner :: "(string, unit) service_fn"
  cc_instances :: "'x ConcurrencyControlInstance list option"

fun concurrency_create_instances ::
    "'x regex_ops \<Rightarrow> ConcurrencyControlConfig list \<Rightarrow> 'x ConcurrencyControlInstance list option" where
  "concurrency_create_instances X [] = Some []"
| "concurrency_create_instances X (c # cs) =
     do { regex \<leftarrow> compile_all (rx_new X) (cc_regex c);
          instances \<leftarrow> concurrency_create_instances X cs;
          Some (\<lparr>ci_regex = regex, max_concurrency = unat (cfg_max_concurrency c),
                 semaphore = unat (cfg_max_concurrency c), duration = cfg_duration c, start_at = None\<rparr> # instances) }"

definition ConcurrencyControlLayer_layer ::
    "'x regex_ops \<Rightarrow> ConcurrencyControlConfig list option \<Rightarrow> (string, unit) service_fn \<Rightarrow> 'x ConcurrencyControl option" where
  "ConcurrencyControlLayer_layer X config inner =
     (case config of
        Some cs \<Rightarrow>
          do { instances \<leftarrow> concurrency_create_instances X cs;
               Some \<lparr>cc_inner = inner, cc_instances = Some instances\<rparr> }
      | None \<Rightarrow> Some \<lparr>cc_inner = inner, cc_instances = None\<rparr>)"

text \<open>\<open>try_acquire_owned\<close>, the permit forgotten.\<close>

definition try_acquire :: "'x ConcurrencyControlInstance \<Rightarrow> ('x ConcurrencyControlInstance \<times> bool)" where
  "try_acquire c = (if semaphore c = 0 then (c, False) else (c\<lparr>semaphore := semaphore c - 1\<rparr>, True))"

definition rule_allow ::
    "nat \<Rightarrow> nat \<Rightarrow> 'x ConcurrencyControlInstance \<Rightarrow> 'x ConcurrencyControlInstance \<times> nat option \<times> bool" where
  "rule_allow now i c =
     (case start_at c of
        None \<Rightarrow> (let (c, ok) = try_acquire (c\<lparr>start_at := Some now\<rparr>) in (c, Some i, ok))
      | Some t \<Rightarrow>
          if now - t > duration c
          then (c\<lparr>start_at := None, semaphore := max_concurrency c\<rparr>, None, True)
          else (let (c, ok) = try_acquire c in (c, Some i, ok)))"

fun rules_allow ::
    "'x regex_ops \<Rightarrow> nat \<Rightarrow> nat \<Rightarrow> 'x ConcurrencyControlInstance list \<Rightarrow> string \<Rightarrow>
     'x ConcurrencyControlInstance list \<times> nat option \<times> bool" where
  "rules_allow X now i [] input = ([], None, True)"
| "rules_allow X now i (c # cs) input =
     (if \<not> any_match X (ci_regex c) input
      then (let (cs, r) = rules_allow X now (Suc i) cs input in (c # cs, r))
      else (let (c, r) = rule_allow now i c in (c # cs, r)))"

definition concurrency_is_allow ::
    "'x regex_ops \<Rightarrow> nat \<Rightarrow> 'x ConcurrencyControl \<Rightarrow> string \<Rightarrow> 'x ConcurrencyControl \<times> nat option \<times> bool" where
  "concurrency_is_allow X now self input =
     (case cc_instances self of
        Some instances \<Rightarrow>
          (let (instances, r) = rules_allow X now 0 instances input in (self\<lparr>cc_instances := Some instances\<rparr>, r))
      | None \<Rightarrow> (self, None, True))"

definition concurrency_handle ::
    "'x regex_ops \<Rightarrow> nat \<Rightarrow> 'x ConcurrencyControl \<Rightarrow> string \<Rightarrow>
     'x ConcurrencyControl \<times> (PluginError + nat option \<times> unit)" where
  "concurrency_handle X now self input =
     (let (self, rule, is_allow) = concurrency_is_allow X now self input in
      (self,
       if is_allow
       then (case ServiceFn_handle (cc_inner self) input of Inr out \<Rightarrow> Inr (rule, out) | Inl e \<Rightarrow> Inl e)
       else Inl ConcurrencyControlPluginReject))"

definition add_permits :: "'x ConcurrencyControl \<Rightarrow> nat \<Rightarrow> 'x ConcurrencyControl option" where
  "add_permits self i =
     do { instances \<leftarrow> cc_instances self;
          c \<leftarrow> idx instances i;
          Some (self\<lparr>cc_instances := Some (instances[i := c\<lparr>semaphore := semaphore c + 1\<rparr>])\<rparr>) }"


subsection \<open>Both plugins\<close>

record PluginConfig =
  pc_concurrency_control :: "ConcurrencyControlConfig list option"
  pc_circuit_break :: "CircuitBreakConfig list option"

definition concurrency_control_phase :: "(string, unit) service_fn" where
  "concurrency_control_phase input = Inr ()"

definition circuit_break_phase :: "(string, unit) service_fn" where
  "circuit_break_phase input = Inr ()"

record 'x PluginPhase =
  concurrency_control :: "'x ConcurrencyControl"
  circuit_break :: "'x CircuitBreak"

definition PluginPhase_new :: "'x regex_ops \<Rightarrow> PluginConfig \<Rightarrow> 'x PluginPhase option" where
  "PluginPhase_new X config =
     do { cc \<leftarrow> ServiceBuilder_build
            (with_layer ServiceBuilder_new (ConcurrencyControlLayer_layer X (pc_concurrency_control config)))
            concurrency_control_phase;
          cb \<leftarrow> ServiceBuilder_build
            (with_layer ServiceBuilder_new (CircuitBreakLayer_layer X (pc_circuit_break config)))
            circuit_break_phase;
          Some \<lparr>concurrency_control = cc, circuit_break = cb\<rparr> }"


subsection \<open>Sessions sharing the concurrency control\<close>

text \<open>The steps of all sessions on the shared rules, with the multiset of the commands in
  flight, each as the rule whose permit it holds: a command enters (and is rejected or let
  through), or one in flight is done.  The window of a rule does not expire in these steps.\<close>

inductive cc_reach ::
    "'x regex_ops \<Rightarrow> 'x ConcurrencyControl \<Rightarrow> 'x ConcurrencyControl \<Rightarrow> nat multiset \<Rightarrow> bool"
  for X cc0 where
  cc_start: "cc_reach X cc0 cc0 {#}"
| cc_enter: "cc_reach X cc0 cc F \<Longrightarrow> concurrency_handle X now cc input = (cc', Inr (Some i, ())) \<Longrightarrow>
    cc_reach X cc0 cc' (add_mset i F)"
| cc_pass: "cc_reach X cc0 cc F \<Longrightarrow> concurrency_handle X now cc input = (cc, Inr (None, ())) \<Longrightarrow>
    cc_reach X cc0 cc F"
| cc_reject: "cc_reach X cc0 cc F \<Longrightarrow> concurrency_handle X now cc input = (cc', Inl e) \<Longrightarrow> cc_reach X cc0 cc' F"
| cc_leave: "cc_reach X cc0 cc F \<Longrightarrow> i \<in># F \<Longrightarrow> add_permits cc i = Some cc' \<Longrightarrow> cc_reach X cc0 cc' (F - {#i#})"

definition rule_balanced :: "nat multiset \<Rightarrow> nat \<Rightarrow> 'x ConcurrencyControlInstance \<Rightarrow> bool" where
  "rule_balanced F i c \<longleftrightarrow> semaphore c + count F i = max_concurrency c"

text \<open>What the search for a rule does to the list: nothing, or one change of the rule found.\<close>

lemma rules_allow_cases:
  assumes "rules_allow X now k cs input = (cs', r)"
  shows "cs' = cs \<and> r = (None, True) \<and> \<not> list_ex (\<lambda>c. any_match X (ci_regex c) input) cs \<or>
    (\<exists>j c'. j < length cs \<and> any_match X (ci_regex (cs ! j)) input \<and>
       rule_allow now (k + j) (cs ! j) = (c', r) \<and> cs' = cs[j := c'])"
  using assms
proof (induction cs arbitrary: k cs')
  case (Cons c cs)
  show ?case
  proof (cases "any_match X (ci_regex c) input")
    case True
    then show ?thesis
      using Cons.prems by (intro disjI2 exI [of _ 0]) (auto split: prod.splits)
  next
    case False
    then obtain cs1 where cs1: "rules_allow X now (Suc k) cs input = (cs1, r)" "cs' = c # cs1"
      using Cons.prems by (auto split: prod.splits)
    from Cons.IH [OF cs1(1)] show ?thesis
    proof (elim disjE exE conjE)
      fix j c'
      assume "j < length cs" "any_match X (ci_regex (cs ! j)) input" "rule_allow now (Suc k + j) (cs ! j) = (c', r)"
        "cs1 = cs[j := c']"
      then show ?thesis
        using cs1(2) by (intro disjI2 exI [of _ "Suc j"]) simp
    qed (use False cs1(2) in simp)
  qed
qed simp

lemma rule_allow_acquire:
  "rule_allow now i c = (c', Some k, b) \<Longrightarrow>
   k = i \<and> max_concurrency c' = max_concurrency c \<and>
   (if b then semaphore c = Suc (semaphore c') else semaphore c = 0 \<and> semaphore c' = 0)"
  by (auto simp: rule_allow_def try_acquire_def Let_def split: option.splits if_splits)

lemma rule_allow_reset: "rule_allow now i c = (c', None, b) \<Longrightarrow> b \<and> (\<exists>t. start_at c = Some t \<and> now - t > duration c)"
  by (auto simp: rule_allow_def try_acquire_def Let_def split: option.splits if_splits)

lemma handle_cases:
  assumes "concurrency_handle X now cc input = (cc', r)" "cc_instances cc = Some cs"
    and "cc_inner cc = concurrency_control_phase"
  obtains "cc' = cc" "r = Inr (None, ())" "\<not> list_ex (\<lambda>c. any_match X (ci_regex c) input) cs"
  | j c' k b where "j < length cs" "any_match X (ci_regex (cs ! j)) input" "rule_allow now j (cs ! j) = (c', k, b)"
      "cc' = cc\<lparr>cc_instances := Some (cs[j := c'])\<rparr>"
      "r = (if b then Inr (k, ()) else Inl ConcurrencyControlPluginReject)"
proof -
  obtain cs' k b where a: "rules_allow X now 0 cs input = (cs', k, b)"
    by (cases "rules_allow X now 0 cs input") auto
  then have h: "cc' = cc\<lparr>cc_instances := Some cs'\<rparr>"
      "r = (if b then Inr (k, ()) else Inl ConcurrencyControlPluginReject)"
    using assms
    by (auto simp: concurrency_handle_def concurrency_is_allow_def ServiceFn_handle_def concurrency_control_phase_def)
  from rules_allow_cases [OF a] show ?thesis
  proof (elim disjE exE conjE)
    assume "cs' = cs" "(k, b) = (None, True)" "\<not> list_ex (\<lambda>c. any_match X (ci_regex c) input) cs"
    then show ?thesis
      using that(1) h assms(2) by simp
  next
    fix j c'
    assume "j < length cs" "any_match X (ci_regex (cs ! j)) input" "rule_allow now (0 + j) (cs ! j) = (c', k, b)"
      "cs' = cs[j := c']"
    then show ?thesis
      using that(2) h by simp
  qed
qed

lemma cc_reach_balanced:
  assumes "cc_reach X cc0 cc F" "cc_instances cc0 = Some cs0" "cc_inner cc0 = concurrency_control_phase"
    and "\<forall>c \<in> set cs0. semaphore c = max_concurrency c"
  shows "cc_inner cc = concurrency_control_phase \<and>
    (\<exists>cs. cc_instances cc = Some cs \<and> (\<forall>i < length cs. rule_balanced F i (cs ! i)))"
  using assms(1)
proof (induction rule: cc_reach.induct)
  case cc_start
  then show ?case
    using assms(2-4) by (auto simp: rule_balanced_def)
next
  case (cc_enter cc F now input cc' i)
  then obtain cs where cs: "cc_instances cc = Some cs" "\<forall>i < length cs. rule_balanced F i (cs ! i)"
      "cc_inner cc = concurrency_control_phase"
    by blast
  from cc_enter(2) cs(1,3) show ?case
  proof (cases rule: handle_cases)
    case (2 j c' k b)
    then have "rule_allow now j (cs ! j) = (c', Some i, True)"
      by (auto split: if_splits)
    from rule_allow_acquire [OF this] 2 cs show ?thesis
      by (auto simp: rule_balanced_def nth_list_update)
  qed simp
next
  case (cc_reject cc F now input cc' e)
  then obtain cs where cs: "cc_instances cc = Some cs" "\<forall>i < length cs. rule_balanced F i (cs ! i)"
      "cc_inner cc = concurrency_control_phase"
    by blast
  from cc_reject(2) cs(1,3) show ?case
  proof (cases rule: handle_cases)
    case (2 j c' k b)
    then have b: "\<not> b"
      by (auto split: if_splits)
    with 2(3) rule_allow_reset [of now j "cs ! j" c' b] have "rule_allow now j (cs ! j) = (c', Some (the k), False)"
      by (cases k) auto
    from rule_allow_acquire [OF this] 2 cs show ?thesis
      by (auto simp: rule_balanced_def nth_list_update)
  qed simp
next
  case (cc_leave cc F i cc')
  then obtain cs where cs: "cc_instances cc = Some cs" "\<forall>i < length cs. rule_balanced F i (cs ! i)"
      "cc_inner cc = concurrency_control_phase"
    by blast
  obtain len: "i < length cs" and cc': "cc' = cc\<lparr>cc_instances := Some (cs[i := (cs ! i)\<lparr>semaphore := semaphore (cs ! i) + 1\<rparr>])\<rparr>"
    using cs(1) cc_leave(3) by (auto simp: add_permits_def idx_def bind_eq_Some_conv split: if_splits)
  have "semaphore (cs ! i) + count F i = max_concurrency (cs ! i)" "count F i > 0"
    using cs(2) len cc_leave(2) by (simp_all add: rule_balanced_def)
  then have "semaphore (cs ! i) + 1 + (count F i - 1) = max_concurrency (cs ! i)"
    by linarith
  then show ?case
    using cs cc' by (auto simp: rule_balanced_def nth_list_update)
qed blast


subsection \<open>Properties\<close>

lemma created_full:
  "concurrency_create_instances X cfgs = Some cs \<Longrightarrow> \<forall>c \<in> set cs. semaphore c = max_concurrency c"
  by (induction cfgs arbitrary: cs) (auto simp: bind_eq_Some_conv)

text \<open>C14.  While its window is open, a rule never lets more commands run at once than its limit,
  whatever the interleaving of the sessions, and it rejects a command only when as many
  commands as the limit are running.\<close>

theorem concurrency_bounded:
  assumes "ConcurrencyControlLayer_layer X (Some cfgs) concurrency_control_phase = Some cc0"
    and "cc_reach X cc0 cc F" "cc_instances cc = Some cs" "i < length cs"
  shows "count F i \<le> max_concurrency (cs ! i) \<and>
    (\<forall>now input cc' e. concurrency_handle X now cc input = (cc', Inl e) \<longrightarrow>
       (\<exists>j < length cs. any_match X (ci_regex (cs ! j)) input \<and> count F j = max_concurrency (cs ! j)))"
proof -
  obtain cs0 where cs0: "cc_instances cc0 = Some cs0" "cc_inner cc0 = concurrency_control_phase"
      "\<forall>c \<in> set cs0. semaphore c = max_concurrency c"
    using assms(1) by (auto simp: ConcurrencyControlLayer_layer_def bind_eq_Some_conv dest: created_full)
  have inv: "cc_inner cc = concurrency_control_phase" "\<forall>i < length cs. rule_balanced F i (cs ! i)"
    using cc_reach_balanced [OF assms(2) cs0] assms(3) by auto
  have "\<exists>j < length cs. any_match X (ci_regex (cs ! j)) input \<and> count F j = max_concurrency (cs ! j)"
    if h: "concurrency_handle X now cc input = (cc', Inl e)" for now input cc' e
    using h assms(3) inv(1)
  proof (cases rule: handle_cases)
    case (2 j c' k b)
    then have "\<not> b"
      by (auto split: if_splits)
    with 2(3) rule_allow_reset [of now j "cs ! j" c' b] have "rule_allow now j (cs ! j) = (c', Some (the k), False)"
      by (cases k) auto
    from rule_allow_acquire [OF this] have "count F j = max_concurrency (cs ! j)"
      using inv(2) [rule_format, OF 2(1)] by (simp add: rule_balanced_def)
    then show ?thesis
      using 2(1,2) by blast
  qed simp
  then show ?thesis
    using inv(2) assms(4) by (auto simp: rule_balanced_def)
qed

definition example_rule :: "string ConcurrencyControlInstance" where
  "example_rule = \<lparr>ci_regex = [''select''], max_concurrency = 1, semaphore = 1, duration = 10, start_at = None\<rparr>"

definition prefix_ops :: "string regex_ops" where
  "prefix_ops = \<lparr>rx_new = Inr, rx_build = (\<lambda>_. Inr), rx_is_match = (\<lambda>r s. take (length r) s = r)\<rparr>"

definition example_control :: "nat \<Rightarrow> nat option \<Rightarrow> string ConcurrencyControl" where
  "example_control permits t = \<lparr>cc_inner = concurrency_control_phase,
     cc_instances = Some [example_rule\<lparr>semaphore := permits, start_at := t\<rparr>]\<rparr>"

lemma example_enter:
  "concurrency_handle prefix_ops 0 (example_control 1 None) ''select 1'' = (example_control 0 (Some 0), Inr (Some 0, ()))"
  by (simp add: concurrency_handle_def concurrency_is_allow_def example_control_def example_rule_def rule_allow_def
      try_acquire_def any_match_def prefix_ops_def ServiceFn_handle_def concurrency_control_phase_def)

theorem concurrency_bounded_witness:
  "cc_reach prefix_ops (example_control 1 None) (example_control 0 (Some 0)) {#0#} \<and> count {#0 :: nat#} 0 \<le> 1"
proof -
  have l: "ConcurrencyControlLayer_layer prefix_ops
      (Some [\<lparr>cc_regex = [''select''], cfg_max_concurrency = 1, cfg_duration = 10\<rparr>]) concurrency_control_phase =
      Some (example_control 1 None)"
    by (simp add: ConcurrencyControlLayer_layer_def prefix_ops_def example_control_def example_rule_def)
  have r: "cc_reach prefix_ops (example_control 1 None) (example_control 0 (Some 0)) {#0#}"
    using cc_enter [OF cc_start example_enter] .
  show ?thesis
    using concurrency_bounded [OF l r] r by (simp add: example_control_def example_rule_def)
qed


fun leave_times :: "nat \<Rightarrow> 'x ConcurrencyControl \<Rightarrow> 'x ConcurrencyControl option" where
  "leave_times 0 cc = Some cc"
| "leave_times (Suc k) cc = do { cc \<leftarrow> add_permits cc 0; leave_times k cc }"

lemma leave_times_permits:
  "cc_instances cc = Some [c] \<Longrightarrow>
   \<exists>cc'. leave_times k cc = Some cc' \<and> cc_instances cc' = Some [c\<lparr>semaphore := semaphore c + k\<rparr>]"
proof (induction k arbitrary: cc c)
  case (Suc k)
  have "add_permits cc 0 = Some (cc\<lparr>cc_instances := Some [c\<lparr>semaphore := semaphore c + 1\<rparr>]\<rparr>)"
    using Suc.prems by (simp add: add_permits_def idx_def)
  then show ?case
    using Suc.IH [of "cc\<lparr>cc_instances := Some [c\<lparr>semaphore := semaphore c + 1\<rparr>]\<rparr>" "c\<lparr>semaphore := semaphore c + 1\<rparr>"]
    by simp
qed simp

text \<open>When a window has expired, the next command of its rule makes a new semaphore while the
  commands in flight still return their permits to the rule: with \<open>k\<close> of them the rule
  afterwards lets \<open>k\<close> more commands than its limit run at once.\<close>

lemma permits_grow_after_window:
  assumes "cc_instances cc = Some [c]" "cc_inner cc = concurrency_control_phase" "any_match X (ci_regex c) input"
    and "start_at c = Some t" "now - t > duration c"
  shows "\<exists>cc1 cc2 c2. concurrency_handle X now cc input = (cc1, Inr (None, ())) \<and>
    leave_times k cc1 = Some cc2 \<and> cc_instances cc2 = Some [c2] \<and> semaphore c2 = max_concurrency c2 + k"
proof -
  let ?c = "c\<lparr>start_at := None, semaphore := max_concurrency c\<rparr>"
  have "concurrency_handle X now cc input = (cc\<lparr>cc_instances := Some [?c]\<rparr>, Inr (None, ()))"
    using assms by (simp add: concurrency_handle_def concurrency_is_allow_def rule_allow_def ServiceFn_handle_def
        concurrency_control_phase_def)
  then show ?thesis
    using leave_times_permits [of "cc\<lparr>cc_instances := Some [?c]\<rparr>" ?c k] by auto
qed

lemma permits_grow_after_window_witness:
  "\<exists>cc1 cc2 c2. concurrency_handle prefix_ops 11 (example_control 0 (Some 0)) ''select 2'' = (cc1, Inr (None, ())) \<and>
    leave_times 1 cc1 = Some cc2 \<and> cc_instances cc2 = Some [c2] \<and> semaphore c2 = max_concurrency c2 + 1"
  by (rule permits_grow_after_window
      [where t = 0 and c = "example_rule\<lparr>semaphore := 0, start_at := Some 0\<rparr>"])
    (simp_all add: example_control_def example_rule_def any_match_def prefix_ops_def)

end
