(* ===== verification/Columns.thy ===== *)
theory Columns
  imports Wire Constants Strings
begin

section \<open>Column definitions\<close>

text \<open>
  Decoding, encoding and editing of column definition packets,
  \<open>protocol/mysql/src/column.rs\<close>.  The buffers of \<open>remove_column_by_idx\<close> and
  \<open>add_column_by_idx\<close> are sequences of packets; the positions are counted in packets.
\<close>

record ColumnInfo =
  col_schema :: "string option"
  col_table_name :: "string option"
  col_column_name :: string
  col_charset :: u8
  col_column_length :: u32
  col_column_type :: ColumnType
  col_column_flag :: u16
  col_decimals :: u8

text \<open>An optional name: \<open>String::from_utf8(..).unwrap()\<close> unless it is NULL.\<close>

definition get_opt_name :: "bytes \<Rightarrow> (string option \<times> bytes) option" where
  "get_opt_name bs =
     do { ((s, is_null), bs) \<leftarrow> get_lenc_str_bytes bs;
          if \<not> is_null then do { n \<leftarrow> from_utf8 s; Some (Some n, bs) } else Some (None, bs) }"

definition decode_column :: "bytes \<Rightarrow> (ColumnInfo \<times> bytes) option" where
  "decode_column bs =
     do { bs \<leftarrow> skip_lenc_length bs;
          (schema, bs) \<leftarrow> get_opt_name bs;
          (table_name, bs) \<leftarrow> get_opt_name bs;
          bs \<leftarrow> skip_lenc_length bs;
          ((s, _), bs) \<leftarrow> get_lenc_str_bytes bs;
          column_name \<leftarrow> from_utf8 s;
          bs \<leftarrow> skip_lenc_length bs;
          (_, bs) \<leftarrow> get_u8 bs;
          (cs, bs) \<leftarrow> get_u8 bs;
          (_, bs) \<leftarrow> get_u8 bs;
          (column_length, bs) \<leftarrow> get_u32_le bs;
          (t, bs) \<leftarrow> get_u8 bs;
          column_type \<leftarrow> ColumnType_from t;
          (column_flag, bs) \<leftarrow> get_u16_le bs;
          (decimals, bs) \<leftarrow> get_u8 bs;
          (_, bs) \<leftarrow> get_u16_le bs;
          Some (\<lparr>col_schema = schema, col_table_name = table_name, col_column_name = column_name, col_charset = cs,
                 col_column_length = column_length, col_column_type = column_type, col_column_flag = column_flag,
                 col_decimals = decimals\<rparr>, bs) }"

text \<open>The loop of \<open>decode_columns\<close>; the fuel is one turn per byte, each turn takes four.\<close>

fun decode_columns_loop :: "nat \<Rightarrow> bytes \<Rightarrow> ColumnInfo list option" where
  "decode_columns_loop fuel [] = Some []"
| "decode_columns_loop 0 (b # bs) = None"
| "decode_columns_loop (Suc fuel) (b # bs) =
     do { bs \<leftarrow> advance 4 (b # bs);
          (c, bs) \<leftarrow> decode_column bs;
          cs \<leftarrow> decode_columns_loop fuel bs;
          Some (c # cs) }"

definition decode_columns :: "bytes \<Rightarrow> ColumnInfo list option" where
  "decode_columns bs = decode_columns_loop (length bs) bs"

definition put_opt_name :: "bytes \<Rightarrow> string option \<Rightarrow> bytes" where
  "put_opt_name bf n =
     (case n of
        Some s \<Rightarrow> put_lenc_int bf (of_nat (length s)) False @ str_bytes s
      | None \<Rightarrow> put_lenc_int bf 0 True)"

definition ColumnInfo_encode :: "ColumnInfo \<Rightarrow> bytes \<Rightarrow> bytes" where
  "ColumnInfo_encode c bf =
     (let bf = put_lenc_int bf 3 False @ str_bytes ''def'';
          bf = put_opt_name bf (col_schema c);
          bf = put_opt_name bf (col_table_name c);
          bf = put_lenc_int bf 0 True;
          bf = put_lenc_int bf (of_nat (length (col_column_name c))) False @ str_bytes (col_column_name c);
          bf = put_lenc_int bf 0 True
      in bf @ [0x0c] @ [col_charset c] @ [0] @ le_bytes 4 (unat (col_column_length c))
           @ [ColumnType_code (col_column_type c)] @ le_bytes 2 (unat (col_column_flag c))
           @ [col_decimals c] @ le_bytes 2 0)"


subsection \<open>Editing a sequence of packets\<close>

text \<open>\<open>for _ in 0..n { pos += get_length(&columns[pos..]) + 4 }\<close>.\<close>

fun skip_packets :: "nat \<Rightarrow> bytes \<Rightarrow> nat \<Rightarrow> nat option" where
  "skip_packets 0 columns pos = Some pos"
| "skip_packets (Suc n) columns pos =
     (if pos > length columns then None
      else do { len \<leftarrow> get_length (drop pos columns); skip_packets n columns (pos + len + 4) })"

text \<open>The second loop stops adding at the end of the buffer.\<close>

fun skip_packets_within :: "nat \<Rightarrow> bytes \<Rightarrow> nat \<Rightarrow> nat option" where
  "skip_packets_within 0 columns pos = Some pos"
| "skip_packets_within (Suc n) columns pos =
     (if length columns \<le> pos then skip_packets_within n columns pos
      else do { len \<leftarrow> get_length (drop pos columns); skip_packets_within n columns (pos + len + 4) })"

definition remove_column_by_idx :: "bytes \<Rightarrow> nat list \<Rightarrow> bytes option" where
  "remove_column_by_idx columns chunk =
     (let start_idx = (case chunk of [] \<Rightarrow> 0 | i # _ \<Rightarrow> i) in
      do { pos \<leftarrow> skip_packets start_idx columns 0;
           if pos > length columns then None
           else do {
             let remain_part = drop pos columns;
             pos2 \<leftarrow> skip_packets_within (length chunk) remain_part 0;
             remain_part \<leftarrow> advance pos2 remain_part;
             Some (take pos columns @ remain_part) } })"

definition add_column_by_idx :: "bytes \<Rightarrow> nat \<Rightarrow> bytes \<Rightarrow> bytes option" where
  "add_column_by_idx columns i add =
     do { pos \<leftarrow> skip_packets i columns 0;
          if pos > length columns then None
          else Some (take pos columns @ add @ drop pos columns) }"


subsection \<open>The averages of a sharded query\<close>

text \<open>\<open>server/util.rs\<close>: an average that was rewritten to a sum and a count is put back.\<close>

record AvgChange =
  count_field :: string
  sum_field :: string
  ori_field :: string

datatype ChangeTargetMeta = TableMeta string | AvgMeta AvgChange | OrderGroup "string list" "string list"

definition filter_avg_column :: "AvgChange \<Rightarrow> ColumnInfo \<Rightarrow> bool \<Rightarrow> bytes \<times> ColumnInfo option" where
  "filter_avg_column change column_info is_added =
     (let avg_column = \<lparr>col_schema = None, col_table_name = None, col_column_name = ori_field change, col_charset = 0x3f,
            col_column_length = 0x46, col_column_type = MYSQL_TYPE_NEWDECIMAL, col_column_flag = 0x0080, col_decimals = 4\<rparr>
      in if col_column_name column_info = count_field change \<or> col_column_name column_info = sum_field change
         then if \<not> is_added then (ColumnInfo_encode avg_column [], Some avg_column) else ([], Some avg_column)
         else ([], None))"

fun find_avg :: "ChangeTargetMeta list \<Rightarrow> AvgChange option" where
  "find_avg [] = None"
| "find_avg (AvgMeta change # metas) = Some change"
| "find_avg (_ # metas) = find_avg metas"

definition get_avg_change :: "(u8 \<rightharpoonup> ChangeTargetMeta list) \<Rightarrow> AvgChange option" where
  "get_avg_change changes = (case changes 1 of Some cs \<Rightarrow> find_avg cs | None \<Rightarrow> None)"


subsection \<open>Lemmas on decoding\<close>

definition name_ok :: "string \<Rightarrow> bool" where
  "name_ok s \<longleftrightarrow> s \<noteq> [] \<and> length s < 2 ^ 63 \<and> utf8_ok (str_bytes s)"

definition column_ok :: "ColumnInfo \<Rightarrow> bool" where
  "column_ok c \<longleftrightarrow> pred_option name_ok (col_schema c) \<and> pred_option name_ok (col_table_name c) \<and>
     name_ok (col_column_name c)"

lemma get_lenc_str_put:
  assumes "name_ok s"
  shows "get_lenc_str_bytes (put_lenc_int [] (of_nat (length s)) False @ str_bytes s @ rest) =
    Some ((str_bytes s, False), rest)"
proof -
  have "str_bytes s \<noteq> []" "length (str_bytes s) < 2 ^ 63"
    using assms by (simp_all add: name_ok_def str_bytes_def)
  moreover from this obtain k where
      "get_lenc_int (put_lenc_int [] (of_nat (length s)) False @ str_bytes s @ rest) =
       Some ((of_nat (length s), False, k), str_bytes s @ rest)"
    using get_lenc_int_put_len(1) [of "str_bytes s" "str_bytes s @ rest"] by auto
  moreover have "\<not> (of_nat (length s) :: u64) < 1" "unat (of_nat (length s) :: u64) = length s"
    using get_lenc_int_put_len(2,3) [of "str_bytes s"] calculation(1,2) by auto
  ultimately show ?thesis
    using assms by (simp add: get_lenc_str_bytes_def name_ok_def)
qed

lemma get_opt_name_put:
  "pred_option name_ok n \<Longrightarrow> get_opt_name (put_opt_name [] n @ rest) = Some (n, rest)"
proof (cases n)
  case None
  have "get_lenc_int (put_lenc_int [] 0 True @ rest) = Some ((0, False, 1), rest)"
    by (simp add: get_lenc_int_put)
  then show ?thesis
    using None by (simp add: get_opt_name_def put_opt_name_def get_lenc_str_bytes_def)
next
  case (Some s)
  assume "pred_option name_ok n"
  then have s: "name_ok s"
    using Some by simp
  then show ?thesis
    using Some get_lenc_str_put [OF s]
    by (simp add: get_opt_name_def put_opt_name_def from_utf8_def name_ok_def)
qed

lemma skip_zero: "skip_lenc_length (put_lenc_int [] 0 True @ rest) = Some rest"
  by (simp add: skip_lenc_length_def get_lenc_int_put advance_def)

lemma skip_def: "skip_lenc_length (put_lenc_int [] 3 False @ str_bytes ''def'' @ rest) = Some rest"
  by (simp add: skip_lenc_length_def get_lenc_int_put advance_def)

lemma put_opt_name_append: "put_opt_name bf n = bf @ put_opt_name [] n"
  by (cases n) (simp_all add: put_opt_name_def put_lenc_int_append [of bf])

lemma column_encode_append: "ColumnInfo_encode c bf = bf @ ColumnInfo_encode c []"
  by (simp add: ColumnInfo_encode_def Let_def put_opt_name_append [of "_ @ _"] put_opt_name_append [of "put_lenc_int _ _ _"]
      put_lenc_int_append [of bf] put_lenc_int_append [of "_ @ _"])

lemma decode_column_encode:
  assumes "column_ok c"
  shows "decode_column (ColumnInfo_encode c [] @ rest) = Some (c, rest)"
proof -
  have "from_utf8 (str_bytes (col_column_name c)) = Some (col_column_name c)"
    using assms by (simp add: column_ok_def name_ok_def from_utf8_def)
  moreover have "unat (col_column_length c) mod 4294967296 = unat (col_column_length c)"
    "unat (col_column_flag c) mod 65536 = unat (col_column_flag c)"
    using unsigned_less [where ?'a = nat, of "col_column_length c"] unsigned_less [where ?'a = nat, of "col_column_flag c"] by simp_all
  ultimately show ?thesis
    using assms
    by (simp add: decode_column_def ColumnInfo_encode_def Let_def column_ok_def put_opt_name_append [of "_ @ _"]
        put_opt_name_append [of "put_lenc_int _ _ _"] put_lenc_int_append [of "_ @ _"] skip_zero skip_def
        get_opt_name_put get_lenc_str_put ColumnType_from_code cursor_simps)
qed

text \<open>A sequence of column packets, each with its sequence number.\<close>

abbreviation packets_of :: "(u8 \<times> bytes) list \<Rightarrow> bytes" where
  "packets_of ps \<equiv> concat (map (\<lambda>(s, p). frame s p) ps)"

abbreviation small_packets :: "(u8 \<times> bytes) list \<Rightarrow> bool" where
  "small_packets ps \<equiv> list_all (\<lambda>(s, p). length p < 2 ^ 24) ps"

lemma advance_frame: "advance 4 (frame s p @ rest) = Some (p @ rest)"
  by (simp add: advance_def frame_def)

lemma decode_columns_loop_frame:
  "decode_columns_loop (Suc n) (frame s p @ rest) =
   do { (c, bs) \<leftarrow> decode_column (p @ rest); cs \<leftarrow> decode_columns_loop n bs; Some (c # cs) }"
proof -
  obtain b bs where f: "frame s p = b # bs"
    by (cases "frame s p") (auto simp: frame_def)
  then show ?thesis
    using advance_frame [of s p rest] by simp
qed

lemma decode_columns_loop_encode:
  "list_all (\<lambda>(s, c). column_ok c) cs \<Longrightarrow> length cs \<le> fuel \<Longrightarrow>
   decode_columns_loop fuel (packets_of (map (\<lambda>(s, c). (s, ColumnInfo_encode c [])) cs)) = Some (map snd cs)"
proof (induction cs arbitrary: fuel)
  case (Cons sc cs)
  obtain s c where sc: "sc = (s, c)"
    by fastforce
  obtain n where n: "fuel = Suc n"
    using Cons.prems(2) by (cases fuel) auto
  show ?case
    using Cons unfolding sc n by (simp add: decode_columns_loop_frame decode_column_encode)
qed simp

lemma length_packets_of: "length ps \<le> length (packets_of ps)"
  by (induction ps) (auto simp: frame_def)

lemma get_length_frame:
  "length p < 2 ^ 24 \<Longrightarrow> get_length (frame s p @ rest) = Some (length p)"
  using frame_decode(1,2) [of p s] by (simp add: get_length_def)

lemma skip_packets_frames:
  "small_packets ps \<Longrightarrow> small_packets qs \<Longrightarrow> n \<le> length qs \<Longrightarrow>
   skip_packets n (packets_of (ps @ qs)) (length (packets_of ps)) = Some (length (packets_of (ps @ take n qs)))"
proof (induction n arbitrary: ps qs)
  case (Suc n)
  obtain s p qs' where qs: "qs = (s, p) # qs'"
    using Suc.prems(3) by (cases qs) auto
  then show ?case
    using Suc.IH [of "ps @ [(s, p)]" qs'] Suc.prems get_length_frame [of p s "packets_of qs'"]
    by (simp add: frame_def ac_simps)
qed simp

lemma skip_within_frames:
  "small_packets ps \<Longrightarrow> small_packets qs \<Longrightarrow>
   skip_packets_within n (packets_of (ps @ qs)) (length (packets_of ps)) = Some (length (packets_of (ps @ take n qs)))"
proof (induction n arbitrary: ps qs)
  case (Suc n)
  show ?case
  proof (cases qs)
    case Nil
    then show ?thesis
      using Suc.IH [of ps "[]"] Suc.prems by simp
  next
    case (Cons q qs')
    then show ?thesis
      using Suc.IH [of "ps @ [q]" qs'] Suc.prems get_length_frame [of "snd q" "fst q" "packets_of qs'"]
      by (cases q) (simp add: frame_def ac_simps)
  qed
qed simp

lemma packets_of_split: "packets_of ps = packets_of (take i ps) @ packets_of (drop i ps)"
  by (metis append_take_drop_id concat_append map_append)

lemma small_packets_split: "small_packets ps \<Longrightarrow> small_packets (take i ps) \<and> small_packets (drop i ps)"
  by (metis append_take_drop_id list_all_append)

lemma add_column_frames:
  assumes "small_packets ps" "i \<le> length ps"
  shows "add_column_by_idx (packets_of ps) i add = Some (packets_of (take i ps) @ add @ packets_of (drop i ps))"
proof -
  have "skip_packets i (packets_of ps) 0 = Some (length (packets_of (take i ps)))"
    using skip_packets_frames [of "[]" ps i] assms by simp
  then show ?thesis
    using packets_of_split [of ps i] by (simp add: add_column_by_idx_def)
qed

lemma remove_column_frames:
  assumes "small_packets ps" "chunk = i # is" "i \<le> length ps"
  shows "remove_column_by_idx (packets_of ps) chunk = Some (packets_of (take i ps @ drop (i + length chunk) ps))"
proof -
  have "skip_packets i (packets_of ps) 0 = Some (length (packets_of (take i ps)))"
    using skip_packets_frames [of "[]" ps i] assms by simp
  moreover have "skip_packets_within (length chunk) (packets_of (drop i ps)) 0 =
      Some (length (packets_of (take (length chunk) (drop i ps))))"
    using skip_within_frames [of "[]" "drop i ps" "length chunk"] small_packets_split [OF assms(1), of i] by simp
  moreover have "drop (length (packets_of (take i ps))) (packets_of ps) = packets_of (drop i ps)"
    "take (length (packets_of (take i ps))) (packets_of ps) = packets_of (take i ps)"
    "length (packets_of (take i ps)) \<le> length (packets_of ps)"
    using packets_of_split [of ps i] by simp_all
  moreover have "advance (length (packets_of (take (length chunk) (drop i ps)))) (packets_of (drop i ps)) =
      Some (packets_of (drop (i + length chunk) ps))"
    using packets_of_split [of "drop i ps" "length chunk"] by (simp add: advance_def ac_simps)
  ultimately show ?thesis
    using assms(2) by (simp add: remove_column_by_idx_def)
qed


subsection \<open>Properties\<close>

text \<open>C25.  Column definitions survive encoding: whatever the sequence numbers of the packets, decoding the
  packets of a list of columns with non-empty UTF-8 names gives the same list, with every
  attribute, an absent schema or table name included.
\<close>

theorem columns_roundtrip:
  assumes "list_all (\<lambda>(s, c). column_ok c) cs"
  shows "decode_columns (packets_of (map (\<lambda>(s, c). (s, ColumnInfo_encode c [])) cs)) = Some (map snd cs)"
proof -
  have "length cs \<le> length (packets_of (map (\<lambda>(s, c). (s, ColumnInfo_encode c [])) cs))"
    by (metis length_map length_packets_of)
  then show ?thesis
    using assms by (simp only: decode_columns_def decode_columns_loop_encode)
qed

theorem columns_roundtrip_witness:
  "\<exists>c bs. c = \<lparr>col_schema = None, col_table_name = Some ''t'', col_column_name = ''id'', col_charset = 0x3f,
      col_column_length = 11, col_column_type = MYSQL_TYPE_LONG, col_column_flag = 1, col_decimals = 0\<rparr> \<and>
     bs = frame 2 (ColumnInfo_encode c []) \<and> decode_columns bs = Some [c]"
  using columns_roundtrip [of "[(2, \<lparr>col_schema = None, col_table_name = Some ''t'', col_column_name = ''id'',
      col_charset = 0x3f, col_column_length = 11, col_column_type = MYSQL_TYPE_LONG, col_column_flag = 1,
      col_decimals = 0\<rparr>)]"]
  by (auto simp: column_ok_def name_ok_def str_bytes_def utf8_ok_ascii)

text \<open>C27.  Editing the columns of a result set replaces packets in place: removing a chunk of consecutive
  positions and adding one packet where it began gives the packets before the chunk, the new one
  and those after the chunk, whatever the packets contain.
\<close>

theorem columns_edited:
  assumes "small_packets ps" "i \<le> length ps" "length p < 2 ^ 24" "0 < k"
  shows "do { bs \<leftarrow> remove_column_by_idx (packets_of ps) [i..<i + k]; add_column_by_idx bs i (frame s p) } =
    Some (packets_of (take i ps @ (s, p) # drop (i + k) ps))"
proof -
  let ?qs = "take i ps @ drop (i + k) ps"
  have "remove_column_by_idx (packets_of ps) [i..<i + k] = Some (packets_of ?qs)"
    using remove_column_frames [of ps "[i..<i + k]" i "[Suc i..<i + k]"] assms by (simp add: upt_conv_Cons)
  moreover have "small_packets ?qs"
    using small_packets_split [OF assms(1)] by (simp only: list_all_append simp_thms)
  then have "add_column_by_idx (packets_of ?qs) i (frame s p) = Some (packets_of (take i ps @ (s, p) # drop (i + k) ps))"
    using add_column_frames [of ?qs i "frame s p"] assms(2) by simp
  ultimately show ?thesis
    by simp
qed

theorem columns_edited_witness:
  "do { bs \<leftarrow> remove_column_by_idx [1, 0, 0, 2, 7, 1, 0, 0, 3, 8, 1, 0, 0, 4, 9] [1, 2];
        add_column_by_idx bs 1 [1, 0, 0, 5, 6] } = Some [1, 0, 0, 2, 7, 1, 0, 0, 5, 6]"
proof -
  have chunk: "[1..<1 + 2] = [1, 2 :: nat]"
    by (simp add: upt_rec)
  show ?thesis
    using columns_edited [of "[(2, [7]), (3, [8]), (4, [9])]" 1 "[6]" 2 5, unfolded chunk]
    by (simp add: frame_def numeral_3_eq_3)
qed

end
