(* ===== verification/Transactions.thy ===== *)
theory Transactions
  imports ClientConn Routing ServerAuth
begin

section \<open>Transaction state and prepared statements of a session\<close>

text \<open>
  The state machine that decides on which backend connection a command runs,
  \<open>runtime/mysql/src/transaction_fsm.rs\<close>, and the cache of prepared statements,
  \<open>runtime/mysql/src/server/stmt_cache.rs\<close>.  The pool is shared by all sessions: functions
  that use it take it and return it.  A connection owned by a session is a \<open>PoolConn\<close>:
  letting go of it puts the connection back into the pool, which the model writes out as
  \<open>PoolConn_drop\<close>.  Rewriting for shards is not part of this theory.
\<close>


subsection \<open>States and events\<close>

datatype TransState =
    TransDummyState | TransUseState | TransSetSessionState | TransStartState | TransPrepareState

datatype TransEventName =
    DummyEvent | UseEvent | SetSessionEvent | QueryEvent | StartEvent | PrepareEvent | SendLongDataEvent
  | ExecuteEvent | CloseEvent | ResetEvent | CommitRollBackEvent | DropEvent

record TransEvent =
  ev_name :: TransEventName
  src_state :: TransState
  dst_state :: TransState

definition init_trans_events :: "TransEvent list" where
  "init_trans_events =
     [\<lparr>ev_name = UseEvent, src_state = TransDummyState, dst_state = TransUseState\<rparr>,
      \<lparr>ev_name = UseEvent, src_state = TransUseState, dst_state = TransUseState\<rparr>,
      \<lparr>ev_name = SetSessionEvent, src_state = TransDummyState, dst_state = TransSetSessionState\<rparr>,
      \<lparr>ev_name = SetSessionEvent, src_state = TransUseState, dst_state = TransSetSessionState\<rparr>,
      \<lparr>ev_name = SetSessionEvent, src_state = TransSetSessionState, dst_state = TransSetSessionState\<rparr>,
      \<lparr>ev_name = QueryEvent, src_state = TransSetSessionState, dst_state = TransSetSessionState\<rparr>,
      \<lparr>ev_name = QueryEvent, src_state = TransUseState, dst_state = TransUseState\<rparr>,
      \<lparr>ev_name = QueryEvent, src_state = TransDummyState, dst_state = TransDummyState\<rparr>,
      \<lparr>ev_name = StartEvent, src_state = TransDummyState, dst_state = TransStartState\<rparr>,
      \<lparr>ev_name = StartEvent, src_state = TransUseState, dst_state = TransStartState\<rparr>,
      \<lparr>ev_name = StartEvent, src_state = TransSetSessionState, dst_state = TransStartState\<rparr>,
      \<lparr>ev_name = PrepareEvent, src_state = TransDummyState, dst_state = TransPrepareState\<rparr>,
      \<lparr>ev_name = PrepareEvent, src_state = TransUseState, dst_state = TransPrepareState\<rparr>,
      \<lparr>ev_name = PrepareEvent, src_state = TransStartState, dst_state = TransPrepareState\<rparr>,
      \<lparr>ev_name = SendLongDataEvent, src_state = TransPrepareState, dst_state = TransPrepareState\<rparr>,
      \<lparr>ev_name = ExecuteEvent, src_state = TransPrepareState, dst_state = TransPrepareState\<rparr>,
      \<lparr>ev_name = CloseEvent, src_state = TransPrepareState, dst_state = TransDummyState\<rparr>,
      \<lparr>ev_name = ResetEvent, src_state = TransPrepareState, dst_state = TransDummyState\<rparr>,
      \<lparr>ev_name = DropEvent, src_state = TransPrepareState, dst_state = TransDummyState\<rparr>,
      \<lparr>ev_name = CommitRollBackEvent, src_state = TransPrepareState, dst_state = TransDummyState\<rparr>,
      \<lparr>ev_name = CommitRollBackEvent, src_state = TransDummyState, dst_state = TransDummyState\<rparr>,
      \<lparr>ev_name = CommitRollBackEvent, src_state = TransStartState, dst_state = TransDummyState\<rparr>,
      \<lparr>ev_name = QueryEvent, src_state = TransSetSessionState, dst_state = TransDummyState\<rparr>]"

record TransFsm =
  events :: "TransEvent list"
  current_state :: TransState
  current_event :: TransEventName
  client_conn :: "ClientConn option"
  fsm_endpoint :: "Endpoint option"
  shard_cache_conn :: "ClientConn list"
  fsm_db :: "string option"
  fsm_charset :: string
  fsm_autocommit :: "string option"

definition TransFsm_new :: TransFsm where
  "TransFsm_new =
     \<lparr>events = init_trans_events, current_state = TransDummyState, current_event = DummyEvent, client_conn = None,
      fsm_endpoint = None, shard_cache_conn = [], fsm_db = None, fsm_charset = ''utf8mb4'', fsm_autocommit = None\<rparr>"

text \<open>The first entry for the event in the current state; \<open>True\<close> asks for a new connection.\<close>

definition trigger :: "TransFsm \<Rightarrow> TransEventName \<Rightarrow> TransFsm \<times> bool" where
  "trigger self state_name =
     (case find (\<lambda>e. ev_name e = state_name \<and> src_state e = current_state self) (events self) of
        Some e \<Rightarrow>
          (self\<lparr>current_state := dst_state e, current_event := ev_name e\<rparr>, src_state e = TransDummyState)
      | None \<Rightarrow> (self, False))"

definition reset_fsm_state :: "TransFsm \<Rightarrow> TransFsm" where
  "reset_fsm_state self =
     fst (trigger (self\<lparr>current_state := TransDummyState, current_event := DummyEvent\<rparr>) QueryEvent)"

definition fsm_set_db :: "TransFsm \<Rightarrow> string option \<Rightarrow> TransFsm" where
  "fsm_set_db self d = self\<lparr>fsm_db := d\<rparr>"

definition fsm_set_charset :: "TransFsm \<Rightarrow> string \<Rightarrow> TransFsm" where
  "fsm_set_charset self cs = self\<lparr>fsm_charset := cs\<rparr>"

definition fsm_set_autocommit :: "TransFsm \<Rightarrow> string \<Rightarrow> TransFsm" where
  "fsm_set_autocommit self v = self\<lparr>fsm_autocommit := Some v\<rparr>"


subsection \<open>Connections of a session\<close>

datatype ErrorKind = Runtime string | IoError string | ParserError string | Protocol ProtocolError

definition build_conn_attrs :: "ServerHandshakeCodec \<Rightarrow> SessionAttr list option" where
  "build_conn_attrs sess =
     do { cs \<leftarrow> get_charset sess; Some [DB (get_db sess), Charset cs, Autocommit (get_autocommit sess)] }"

definition fsm_build_conn_attrs :: "TransFsm \<Rightarrow> SessionAttr list" where
  "fsm_build_conn_attrs self = [DB (fsm_db self), Charset (fsm_charset self), Autocommit (fsm_autocommit self)]"

type_synonym ('q, 'w) pool_state = "('q, ClientConn) Pool \<times> 'w"

text \<open>A pooled connection that is not ready is replaced by a new one and goes back to the pool.\<close>

definition check_get_conn ::
    "'k crypto \<Rightarrow> 'w backend \<Rightarrow> ('q, ClientConn) queue_ops \<Rightarrow> ('q, ClientConn) Pool \<Rightarrow> string \<Rightarrow> SessionAttr list \<Rightarrow> 'w \<Rightarrow>
     (('q, ClientConn) Pool \<times> (ErrorKind + ClientConn) \<times> 'w) option" where
  "check_get_conn C B Q p ep attrs w =
     do { (p, r, w) \<leftarrow> get_conn_with_endpoint_session (mysql_conn C B) Q p ep attrs w;
          (case r of
             Inl err \<Rightarrow> Some (p, Inl (Protocol err), w)
           | Inr conn \<Rightarrow>
               do { ready \<leftarrow> conn_is_ready B conn w;
                    if ready then Some (p, Inr conn, w)
                    else do {
                      (r, w) \<leftarrow> rebuild_conn_with_session (mysql_conn C B) p ep attrs w;
                      p \<leftarrow> PoolConn_drop (mysql_conn C B) Q p (Some conn);
                      Some (p, map_sum Protocol id r, w) } }) }"

definition fsm_get_conn_with_endpoint ::
    "'k crypto \<Rightarrow> 'w backend \<Rightarrow> ('q, ClientConn) queue_ops \<Rightarrow> TransFsm \<Rightarrow> ('q, ClientConn) Pool \<Rightarrow> Endpoint \<Rightarrow>
     SessionAttr list \<Rightarrow> 'w \<Rightarrow> (TransFsm \<times> ('q, ClientConn) Pool \<times> (ErrorKind + ClientConn) \<times> 'w) option" where
  "fsm_get_conn_with_endpoint C B Q self p ep attrs w =
     (case client_conn self of
        Some conn \<Rightarrow> Some (self\<lparr>client_conn := None\<rparr>, p, Inr conn, w)
      | None \<Rightarrow>
          do { let p = set_factory p (addr ep) (with_opts (user ep) (password ep) (addr ep));
               (p, r, w) \<leftarrow> get_conn_with_endpoint_session (mysql_conn C B) Q p (addr ep) attrs w;
               Some (self, p, map_sum Protocol id r, w) })"

definition fsm_get_conn :: "TransFsm \<Rightarrow> (TransFsm \<times> ClientConn) option" where
  "fsm_get_conn self = map_option (\<lambda>conn. (self\<lparr>client_conn := None\<rparr>, conn)) (client_conn self)"

text \<open>The connection held before, if any, is let go of.\<close>

definition fsm_put_conn ::
    "'k crypto \<Rightarrow> 'w backend \<Rightarrow> ('q, ClientConn) queue_ops \<Rightarrow> TransFsm \<Rightarrow> ('q, ClientConn) Pool \<Rightarrow> ClientConn \<Rightarrow>
     (TransFsm \<times> ('q, ClientConn) Pool) option" where
  "fsm_put_conn C B Q self p conn =
     do { p \<leftarrow> PoolConn_drop (mysql_conn C B) Q p (client_conn self);
          Some (self\<lparr>client_conn := Some conn\<rparr>, p) }"

definition get_shard_conns :: "TransFsm \<Rightarrow> TransFsm \<times> ClientConn list" where
  "get_shard_conns self = (self\<lparr>shard_cache_conn := []\<rparr>, shard_cache_conn self)"

fun drop_all ::
    "'k crypto \<Rightarrow> 'w backend \<Rightarrow> ('q, ClientConn) queue_ops \<Rightarrow> ('q, ClientConn) Pool \<Rightarrow> ClientConn list \<Rightarrow>
     ('q, ClientConn) Pool option" where
  "drop_all C B Q p [] = Some p"
| "drop_all C B Q p (c # cs) = do { p \<leftarrow> PoolConn_drop (mysql_conn C B) Q p (Some c); drop_all C B Q p cs }"

definition put_shard_conns ::
    "'k crypto \<Rightarrow> 'w backend \<Rightarrow> ('q, ClientConn) queue_ops \<Rightarrow> TransFsm \<Rightarrow> ('q, ClientConn) Pool \<Rightarrow> ClientConn list \<Rightarrow>
     (TransFsm \<times> ('q, ClientConn) Pool) option" where
  "put_shard_conns C B Q self p conns =
     do { p \<leftarrow> drop_all C B Q p (shard_cache_conn self); Some (self\<lparr>shard_cache_conn := conns\<rparr>, p) }"

datatype RouteInputTyp = StatementTyp | TransactionTyp | NoneTyp

definition route ::
    "'x regex_ops \<Rightarrow> 'r gen \<Rightarrow> (nat \<Rightarrow> nat \<Rightarrow> 'r) \<Rightarrow> RouteInputTyp \<Rightarrow> string \<Rightarrow> ('r, 'x) RouteStrategy \<Rightarrow>
     (('r, 'x) RouteStrategy \<times> Endpoint) option" where
  "route X g seeds input_typ raw_sql strategy =
     do { let input = (case input_typ of
                         StatementTyp \<Rightarrow> Statement raw_sql
                       | TransactionTyp \<Rightarrow> Transaction raw_sql
                       | NoneTyp \<Rightarrow> NoInput);
          (strategy, ep, _) \<leftarrow> dispatch X g seeds strategy input;
          ep \<leftarrow> ep;
          Some (strategy, ep) }"


subsection \<open>Prepared statements\<close>

record Entry =
  en_id :: u32
  en_conn :: ClientConn

record ShardingColumn =
  sh_database :: "string option"
  sh_table :: "string option"

record StmtCache =
  sc_cache :: "u32 \<rightharpoonup> Entry list"
  sharding_column_cache :: "u32 \<rightharpoonup> ShardingColumn"

definition StmtCache_new :: "StmtCache" where
  "StmtCache_new = \<lparr>sc_cache = Map.empty, sharding_column_cache = Map.empty\<rparr>"

definition entries :: "StmtCache \<Rightarrow> u32 \<Rightarrow> Entry list" where
  "entries self i = (case sc_cache self i of Some es \<Rightarrow> es | None \<Rightarrow> [])"

definition StmtCache_put :: "StmtCache \<Rightarrow> u32 \<Rightarrow> u32 \<Rightarrow> ClientConn \<Rightarrow> StmtCache" where
  "StmtCache_put self server_id sid conn =
     self\<lparr>sc_cache := (sc_cache self)(server_id \<mapsto> entries self server_id @ [\<lparr>en_id = sid, en_conn = conn\<rparr>])\<rparr>"

definition StmtCache_get :: "StmtCache \<Rightarrow> u32 \<Rightarrow> u32 \<Rightarrow> StmtCache \<times> ClientConn option" where
  "StmtCache_get self server_id sid =
     (case sc_cache self server_id of
        None \<Rightarrow> (self, None)
      | Some value \<Rightarrow>
          (case position (\<lambda>x. en_id x = sid) value of
             Some i \<Rightarrow>
               (self\<lparr>sc_cache := (sc_cache self)(server_id \<mapsto> remove_at i value)\<rparr>, Some (en_conn (value ! i)))
           | None \<Rightarrow> (self, None)))"

definition StmtCache_get_all :: "StmtCache \<Rightarrow> u32 \<Rightarrow> StmtCache \<times> (u32 \<times> ClientConn) list" where
  "StmtCache_get_all self server_id =
     (self\<lparr>sc_cache := (sc_cache self)(server_id := None)\<rparr>,
      map (\<lambda>x. (en_id x, en_conn x)) (entries self server_id))"

text \<open>The loop of \<open>put_all\<close>, with the connections it lets go of.\<close>

fun put_all_loop :: "Entry list \<Rightarrow> (u32 \<times> ClientConn) list \<Rightarrow> Entry list \<times> ClientConn list" where
  "put_all_loop value [] = (value, [])"
| "put_all_loop value ((sid, conn) # conns) =
     (case position (\<lambda>x. en_id x = sid) value of
        Some i \<Rightarrow>
          (let (v, dropped) = put_all_loop (value[i := \<lparr>en_id = sid, en_conn = conn\<rparr>]) conns
           in (v, en_conn (value ! i) # dropped))
      | None \<Rightarrow> put_all_loop (value @ [\<lparr>en_id = sid, en_conn = conn\<rparr>]) conns)"

definition StmtCache_put_all ::
    "StmtCache \<Rightarrow> u32 \<Rightarrow> (u32 \<times> ClientConn) list \<Rightarrow> StmtCache \<times> ClientConn list" where
  "StmtCache_put_all self server_id conns =
     (let (v, dropped) = put_all_loop (entries self server_id) conns
      in (self\<lparr>sc_cache := (sc_cache self)(server_id \<mapsto> v)\<rparr>, dropped))"

definition StmtCache_remove :: "StmtCache \<Rightarrow> u32 \<Rightarrow> StmtCache \<times> ClientConn list" where
  "StmtCache_remove self server_id =
     (self\<lparr>sc_cache := (sc_cache self)(server_id := None)\<rparr>, map en_conn (entries self server_id))"

definition put_sharding_column :: "StmtCache \<Rightarrow> u32 \<Rightarrow> ShardingColumn \<Rightarrow> StmtCache" where
  "put_sharding_column self server_id col =
     self\<lparr>sharding_column_cache := (sharding_column_cache self)(server_id \<mapsto> col)\<rparr>"

definition get_sharding_column :: "StmtCache \<Rightarrow> u32 \<Rightarrow> ShardingColumn" where
  "get_sharding_column self server_id =
     (case sharding_column_cache self server_id of
        Some c \<Rightarrow> c
      | None \<Rightarrow> \<lparr>sh_database = None, sh_table = None\<rparr>)"


subsection \<open>Lemmas on the state machine\<close>

lemmas trigger_eval = trigger_def init_trans_events_def

text \<open>A connection is asked for only when the session leaves the dummy state.\<close>

lemma trigger_asks:
  assumes "events fsm = init_trans_events" "trigger fsm e = (fsm', True)"
  shows "current_state fsm = TransDummyState"
  using assms by (auto simp: trigger_def dest!: find_Some_iff [THEN iffD1] split: option.splits)

lemma trigger_keeps:
  "trigger fsm e = (fsm', b) \<Longrightarrow> events fsm' = events fsm \<and> client_conn fsm' = client_conn fsm \<and>
     shard_cache_conn fsm' = shard_cache_conn fsm \<and> fsm_db fsm' = fsm_db fsm \<and> fsm_charset fsm' = fsm_charset fsm \<and>
     fsm_autocommit fsm' = fsm_autocommit fsm"
  by (auto simp: trigger_def split: option.splits)


subsection \<open>Lemmas on prepared statements\<close>

lemma position_snoc_fresh:
  "\<forall>x \<in> set xs. \<not> P x \<Longrightarrow> position P (xs @ [y]) = (if P y then Some (length xs) else None)"
  by (induction xs) auto

lemma put_all_loop_fresh:
  "distinct (map fst conns) \<Longrightarrow> en_id ` set value \<inter> fst ` set conns = {} \<Longrightarrow>
   put_all_loop value conns = (value @ map (\<lambda>(i, c). \<lparr>en_id = i, en_conn = c\<rparr>) conns, [])"
proof (induction "value" conns rule: put_all_loop.induct)
  case (2 vs sid conn conns)
  have "position (\<lambda>x. en_id x = sid) vs = None"
    using 2(4) by (auto simp: position_None)
  moreover have "en_id ` set (vs @ [\<lparr>en_id = sid, en_conn = conn\<rparr>]) \<inter> fst ` set conns = {}"
    using 2(3,4) by auto
  ultimately show ?case
    using 2 by simp
qed simp

lemma entry_id: "map (\<lambda>x. \<lparr>en_id = en_id x, en_conn = en_conn x\<rparr>) es = es"
  by (induction es) simp_all

lemma put_all_loop_same:
  "\<forall>p \<in> set conns. fst p = i \<Longrightarrow> en_id v = i \<Longrightarrow>
   put_all_loop [v] conns =
     ([\<lparr>en_id = i, en_conn = last (en_conn v # map snd conns)\<rparr>], butlast (en_conn v # map snd conns))"
proof (induction conns arbitrary: v)
  case Nil
  then show ?case
    by (cases v) simp
next
  case (Cons p conns)
  obtain c where p: "p = (i, c)"
    using Cons.prems(1) by (cases p) auto
  show ?case
    using Cons.IH [of "\<lparr>en_id = i, en_conn = c\<rparr>"] Cons.prems by (simp add: p)
qed


subsection \<open>Properties\<close>

text \<open>Executing a prepared statement takes its connections out of the cache and puts them back.  When
  the backend statement ids differ, the cache afterwards is the one before.  When the shards gave
  the same statement id, only the connection of the last shard is kept and the others are let go
  of, so the next execution runs on that shard alone.
\<close>

lemma statement_connections_collapse:
  assumes "sc_cache sc i = Some es" "es \<noteq> []" "StmtCache_get_all sc i = (sc', conns)"
    "StmtCache_put_all sc' i conns = (sc'', dropped)"
  shows "(distinct (map en_id es) \<longrightarrow> sc'' = sc \<and> dropped = []) \<and>
    ((\<forall>e \<in> set es. en_id e = n) \<longrightarrow> entries sc'' i = [last es] \<and> dropped = map en_conn (butlast es))"
proof -
  let ?conns = "map (\<lambda>x. (en_id x, en_conn x)) es"
  have conns: "conns = ?conns" "entries sc' i = []"
    using assms(1,3) by (auto simp: StmtCache_get_all_def entries_def)
  have sc': "sc' = sc\<lparr>sc_cache := (sc_cache sc)(i := None)\<rparr>"
    using assms(3) by (auto simp: StmtCache_get_all_def)
  have put: "(v, dropped) = put_all_loop [] ?conns \<Longrightarrow> sc'' = sc'\<lparr>sc_cache := (sc_cache sc')(i \<mapsto> v)\<rparr>" for v
    using assms(4) conns by (auto simp: StmtCache_put_all_def split: prod.splits)
  show ?thesis
  proof (intro conjI impI)
    assume "distinct (map en_id es)"
    then have *: "put_all_loop [] ?conns = (es, [])"
      using put_all_loop_fresh [of ?conns "[]"] by (simp add: comp_def entry_id)
    then have "dropped = []"
      using assms(4) conns by (simp add: StmtCache_put_all_def)
    then show "sc'' = sc" "dropped = []"
      using * put [of es] sc' assms(1) by (simp_all add: map_upd_triv)
  next
    assume same: "\<forall>e \<in> set es. en_id e = n"
    obtain e es' where es: "es = e # es'"
      using assms(2) by (cases es) auto
    have "put_all_loop [] ?conns = put_all_loop [e] (map (\<lambda>x. (en_id x, en_conn x)) es')"
      by (cases e) (simp add: es)
    also have "\<dots> = ([\<lparr>en_id = n, en_conn = last (map en_conn es)\<rparr>], butlast (map en_conn es))"
      using put_all_loop_same [of "map (\<lambda>x. (en_id x, en_conn x)) es'" n e] same by (simp add: es comp_def)
    also have "\<lparr>en_id = n, en_conn = last (map en_conn es)\<rparr> = last es"
      using same assms(2) by (cases "last es") (metis Entry.select_convs last_in_set last_map)
    finally have *: "put_all_loop [] ?conns = ([last es], map en_conn (butlast es))"
      by (simp add: map_butlast)
    then have "dropped = map en_conn (butlast es)"
      using assms(4) conns by (simp add: StmtCache_put_all_def)
    then show "entries sc'' i = [last es]" "dropped = map en_conn (butlast es)"
      using * put [of "[last es]"] by (simp_all add: entries_def)
  qed
qed

lemma statement_connections_collapse_witness:
  "\<exists>sc sc' sc'' a b. a \<noteq> b \<and> sc = StmtCache_put (StmtCache_put StmtCache_new 1 7 a) 1 7 b \<and>
     StmtCache_get_all sc 1 = (sc', [(7, a), (7, b)]) \<and> StmtCache_put_all sc' 1 [(7, a), (7, b)] = (sc'', [a]) \<and>
     entries sc'' 1 = [\<lparr>en_id = 7, en_conn = b\<rparr>]"
proof -
  let ?b = "idle_conn\<lparr>endpoint := ''other''\<rparr>"
  let ?sc = "StmtCache_put (StmtCache_put StmtCache_new 1 7 idle_conn) 1 7 ?b"
  let ?es = "[\<lparr>en_id = 7, en_conn = idle_conn\<rparr>, \<lparr>en_id = 7, en_conn = ?b\<rparr>]"
  have es: "sc_cache ?sc 1 = Some ?es"
    by (simp add: StmtCache_put_def StmtCache_new_def entries_def)
  obtain sc' conns where g: "StmtCache_get_all ?sc 1 = (sc', conns)"
    by fastforce
  then have conns: "conns = [(7, idle_conn), (7, ?b)]"
    using es by (auto simp: StmtCache_get_all_def entries_def)
  obtain sc'' dropped where p: "StmtCache_put_all sc' 1 conns = (sc'', dropped)"
    by fastforce
  have "entries sc'' 1 = [last ?es] \<and> dropped = map en_conn (butlast ?es)"
    using statement_connections_collapse [OF es _ g p, of 7] by simp
  moreover have "idle_conn \<noteq> ?b"
    by (simp add: idle_conn_def)
  ultimately show ?thesis
    using g p conns by (intro exI [of _ ?sc] exI [of _ sc'] exI [of _ sc''] exI [of _ idle_conn] exI [of _ ?b]) simp
qed

end
