(* ===== verification/Rows.thy ===== *)
theory Rows
  imports Columns
begin

section \<open>Rows of a result set\<close>

text \<open>
  Values and rows of result sets, \<open>protocol/mysql/src/value.rs\<close> and
  \<open>protocol/mysql/src/row.rs\<close>: finding a column in a text or binary row and decoding it.
  The calendar library is the parameter \<open>chrono\<close>.  Positions are 64-bit numbers as in the
  source; a slice out of range is a panic, \<open>None\<close>.
\<close>


subsection \<open>Values\<close>

datatype RowError = DecodeRow DecodeRowError | FromUtf8Error | ParseIntError | ParseFloatError

record ('date, 'time, 'dt) chrono =
  from_ymd_opt :: "int \<Rightarrow> nat \<Rightarrow> nat \<Rightarrow> 'date option"
  and_hms_opt :: "'date \<Rightarrow> nat \<Rightarrow> nat \<Rightarrow> nat \<Rightarrow> 'dt option"
  and_hms_micro_opt :: "'date \<Rightarrow> nat \<Rightarrow> nat \<Rightarrow> nat \<Rightarrow> nat \<Rightarrow> 'dt option"
  from_hms_opt :: "nat \<Rightarrow> nat \<Rightarrow> nat \<Rightarrow> 'time option"
  from_hms_micro_opt :: "nat \<Rightarrow> nat \<Rightarrow> nat \<Rightarrow> nat \<Rightarrow> 'time option"

definition String_new :: "bytes \<Rightarrow> (RowError + string option) option" where
  "String_new val = Some (case from_utf8 val of Some s \<Rightarrow> Inr (Some s) | None \<Rightarrow> Inl FromUtf8Error)"

text \<open>\<open>get_uint_le\<close> panics above eight bytes.\<close>

definition u64_new :: "bytes \<Rightarrow> (RowError + u64 option) option" where
  "u64_new val = (if length val > 8 then None else Some (Inr (Some (of_nat (le_val val)))))"

text \<open>Microseconds as a signed 64-bit number; the first byte is read before the length is
  looked at.\<close>

definition Duration_new :: "bytes \<Rightarrow> (RowError + int option) option" where
  "Duration_new val =
     (let len = length val in
      do { (is_neg, val) \<leftarrow> get_u8 val;
           if len = 8 \<or> len = 12 then
             do { (day, val) \<leftarrow> get_uint_le 4 val;
                  (hour, val) \<leftarrow> get_u8 val;
                  (minute, val) \<leftarrow> get_u8 val;
                  (second, val) \<leftarrow> get_u8 val;
                  let total = (day * 24 * 60 * 60 + ucast hour * 60 * 60 + ucast minute * 60 + ucast second) * 1000 * 1000;
                  total \<leftarrow> (if val \<noteq> [] then do { (micro, _) \<leftarrow> get_uint_le 4 val; Some (total + micro) } else Some total);
                  Some (Inr (Some (sint (if is_neg = 1 then - total else total)))) }
           else if len = 0 then Some (Inr (Some 0))
           else Some (Inl (DecodeRow (ColumnTimeLengthInvalid len))) })"

definition read_ymd :: "('date, 'time, 'dt) chrono \<Rightarrow> bytes \<Rightarrow> ('date option \<times> bytes) option" where
  "read_ymd K val =
     do { (year, val) \<leftarrow> get_uint_le 2 val;
          (month, val) \<leftarrow> get_u8 val;
          (day, val) \<leftarrow> get_u8 val;
          Some (from_ymd_opt K (uint year) (unat month) (unat day), val) }"

definition read_hms :: "bytes \<Rightarrow> ((nat \<times> nat \<times> nat \<times> nat option) \<times> bytes) option" where
  "read_hms val =
     do { (hour, val) \<leftarrow> get_u8 val;
          (minute, val) \<leftarrow> get_u8 val;
          (second, val) \<leftarrow> get_u8 val;
          if val \<noteq> [] then do { (micro, val) \<leftarrow> get_u32_le val; Some ((unat hour, unat minute, unat second, Some (unat micro)), val) }
          else Some ((unat hour, unat minute, unat second, None), val) }"

definition NaiveDateTime_new :: "('date, 'time, 'dt) chrono \<Rightarrow> bytes \<Rightarrow> (RowError + 'dt option) option" where
  "NaiveDateTime_new K val =
     (let len = length val in
      if len = 0 then Some (Inr None)
      else if len = 4 then
        do { (d, val) \<leftarrow> read_ymd K val; d \<leftarrow> d; Some (Inr (and_hms_opt K d 0 0 0)) }
      else if len = 7 \<or> len = 11 then
        do { (d, val) \<leftarrow> read_ymd K val;
             ((h, m, s, micro), _) \<leftarrow> read_hms val;
             d \<leftarrow> d;
             Some (Inr (case micro of Some u \<Rightarrow> and_hms_micro_opt K d h m s u | None \<Rightarrow> and_hms_opt K d h m s)) }
      else Some (Inl (DecodeRow (ColumnDateTimeLengthInvalid len))))"

definition NaiveDate_new :: "('date, 'time, 'dt) chrono \<Rightarrow> bytes \<Rightarrow> (RowError + 'date option) option" where
  "NaiveDate_new K val =
     (let len = length val in
      if len = 0 then Some (Inr None)
      else if len = 4 \<or> len = 7 \<or> len = 11 then do { (d, _) \<leftarrow> read_ymd K val; Some (Inr d) }
      else Some (Inl (DecodeRow (ColumnDateTimeLengthInvalid len))))"

definition NaiveTime_new :: "('date, 'time, 'dt) chrono \<Rightarrow> bytes \<Rightarrow> (RowError + 'time option) option" where
  "NaiveTime_new K val =
     (let len = length val in
      if len = 0 \<or> len = 4 then Some (Inr None)
      else if len = 7 \<or> len = 11 then
        do { val \<leftarrow> advance 4 val;
             ((h, m, s, micro), _) \<leftarrow> read_hms val;
             Some (Inr (case micro of Some u \<Rightarrow> from_hms_micro_opt K h m s u | None \<Rightarrow> from_hms_opt K h m s)) }
      else Some (Inl (DecodeRow (ColumnDateTimeLengthInvalid len))))"


subsection \<open>Rows\<close>

record RowPartData =
  rp_data :: bytes
  start_idx :: nat
  part_encode_length :: nat
  part_data_length :: nat

record RowDataText =
  rt_columns :: "ColumnInfo list"
  rt_buf :: bytes

record RowDataBinary =
  rb_columns :: "ColumnInfo list"
  null_map :: bytes
  rb_buf :: bytes
  start_pos :: u64

datatype RowDataTyp = TextRow RowDataText | BinaryRow RowDataBinary

definition get_idx :: "ColumnInfo list \<Rightarrow> string \<Rightarrow> RowError + nat" where
  "get_idx columns nm =
     (case position (\<lambda>x. col_column_name x = nm) columns of
        Some i \<Rightarrow> Inr i
      | None \<Rightarrow> Inl (DecodeRow (ColumnNotFound nm)))"

text \<open>\<open>&buf[a..]\<close> and \<open>&buf[a..b]\<close>.\<close>

definition slice_from :: "bytes \<Rightarrow> u64 \<Rightarrow> bytes option" where
  "slice_from bs a = (if unat a \<le> length bs then Some (drop (unat a) bs) else None)"

definition slice :: "bytes \<Rightarrow> u64 \<Rightarrow> u64 \<Rightarrow> bytes option" where
  "slice bs a b = (if a \<le> b \<and> unat b \<le> length bs then Some (take (unat b - unat a) (drop (unat a) bs)) else None)"

fun text_skip :: "nat \<Rightarrow> bytes \<Rightarrow> u64 \<Rightarrow> u64 option" where
  "text_skip 0 bs i = Some i"
| "text_skip (Suc n) bs i =
     do { d \<leftarrow> slice_from bs i; (len, _, pos) \<leftarrow> length_encode_int d; text_skip n bs (i + (len + pos)) }"

definition RowDataText_get :: "RowDataText \<Rightarrow> string \<Rightarrow> (RowError + RowPartData option) option" where
  "RowDataText_get r nm =
     (case get_idx (rt_columns r) nm of
        Inl e \<Rightarrow> Some (Inl e)
      | Inr name_idx \<Rightarrow>
          do { i \<leftarrow> text_skip name_idx (rt_buf r) 0;
               d \<leftarrow> slice_from (rt_buf r) i;
               (len, is_null, pos) \<leftarrow> length_encode_int d;
               if is_null \<or> len = 0 then Some (Inr None)
               else do {
                 data \<leftarrow> slice (rt_buf r) (i + pos) (i + (pos + len));
                 Some (Inr (Some \<lparr>rp_data = data, start_idx = unat i, part_encode_length = unat pos,
                                  part_data_length = unat len\<rparr>)) } })"

definition RowDataBinary_new :: "ColumnInfo list \<Rightarrow> bytes \<Rightarrow> RowDataBinary" where
  "RowDataBinary_new columns bs = \<lparr>rb_columns = columns, null_map = [], rb_buf = bs, start_pos = 0\<rparr>"

text \<open>The bitmap is copied from the start of the row, where the header byte is.\<close>

definition RowDataBinary_with_buf :: "RowDataBinary \<Rightarrow> bytes \<Rightarrow> RowDataBinary option" where
  "RowDataBinary_with_buf r bs =
     (let n = (length (rb_columns r) + 7 + 2) div 8 in
      if length bs < n then None
      else Some (r\<lparr>null_map := take n bs, start_pos := 1 + of_nat n, rb_buf := bs\<rparr>))"

definition lenc_columns :: "ColumnType list" where
  "lenc_columns = [MYSQL_TYPE_STRING, MYSQL_TYPE_VARCHAR, MYSQL_TYPE_VAR_STRING, MYSQL_TYPE_ENUM, MYSQL_TYPE_SET,
     MYSQL_TYPE_LONG_BLOB, MYSQL_TYPE_MEDIUM_BLOB, MYSQL_TYPE_BLOB, MYSQL_TYPE_TINY_BLOB, MYSQL_TYPE_GEOMETRY,
     MYSQL_TYPE_BIT, MYSQL_TYPE_DECIMAL, MYSQL_TYPE_NEWDECIMAL]"

text \<open>Length, NULL and width of the length of the value at \<open>pos\<close>; dates and times read the
  length at the start of the row instead.\<close>

definition binary_extent :: "RowDataBinary \<Rightarrow> u64 \<Rightarrow> ColumnType \<Rightarrow> (RowError + u64 \<times> bool \<times> u64) option" where
  "binary_extent r pos t =
     (if t \<in> set lenc_columns then
        do { d \<leftarrow> slice_from (rb_buf r) pos; e \<leftarrow> length_encode_int d; Some (Inr e) }
      else if t = MYSQL_TYPE_LONGLONG then Some (Inr (8, False, 0))
      else if t = MYSQL_TYPE_LONG \<or> t = MYSQL_TYPE_INT24 then Some (Inr (4, False, 0))
      else if t = MYSQL_TYPE_SHORT \<or> t = MYSQL_TYPE_YEAR then Some (Inr (2, False, 0))
      else if t = MYSQL_TYPE_TINY then Some (Inr (1, False, 0))
      else if t = MYSQL_TYPE_DOUBLE then Some (Inr (8, False, 0))
      else if t = MYSQL_TYPE_FLOAT then Some (Inr (4, False, 0))
      else if t = MYSQL_TYPE_DATE \<or> t = MYSQL_TYPE_DATETIME \<or> t = MYSQL_TYPE_TIMESTAMP \<or> t = MYSQL_TYPE_TIME then
        do { d \<leftarrow> slice_from (rb_buf r) (start_pos r); (len, _, p) \<leftarrow> length_encode_int d; Some (Inr (len, False, p)) }
      else if t = MYSQL_TYPE_NULL then Some (Inr (0, False, 0))
      else Some (Inl (DecodeRow (ColumnTypeNotFound (ColumnType_as_ref t)))))"

text \<open>The loop over the columns, with their numbers.\<close>

fun binary_find ::
    "RowDataBinary \<Rightarrow> string \<Rightarrow> nat \<Rightarrow> ColumnInfo list \<Rightarrow> u64 \<Rightarrow> (RowError + RowPartData option) option" where
  "binary_find r nm i [] pos = Some (Inr None)"
| "binary_find r nm i (info # infos) pos =
     do { m \<leftarrow> idx (null_map r) ((i + 2) div 8);
          if bit m ((i + 2) mod 256 mod 8) then binary_find r nm (Suc i) infos pos
          else do {
            e \<leftarrow> binary_extent r pos (col_column_type info);
            (case e of
               Inl e \<Rightarrow> Some (Inl e)
             | Inr (len, is_null, p) \<Rightarrow>
                 if col_column_name info \<noteq> nm then binary_find r nm (Suc i) infos (pos + (len + p))
                 else if is_null then Some (Inr None)
                 else do {
                   data \<leftarrow> slice (rb_buf r) (pos + p) (pos + p + len);
                   Some (Inr (Some \<lparr>rp_data = data, start_idx = unat pos, part_encode_length = unat p,
                                    part_data_length = unat len\<rparr>)) }) } }"

definition RowDataBinary_get :: "RowDataBinary \<Rightarrow> string \<Rightarrow> (RowError + RowPartData option) option" where
  "RowDataBinary_get r nm = binary_find r nm 0 (rb_columns r) (start_pos r)"

text \<open>Both kinds, \<open>gen_row_data!\<close>.\<close>

definition update_columns :: "RowDataTyp \<Rightarrow> ColumnInfo list \<Rightarrow> RowDataTyp" where
  "update_columns r columns =
     (case r of
        TextRow t \<Rightarrow> TextRow (t\<lparr>rt_columns := columns\<rparr>)
      | BinaryRow b \<Rightarrow> BinaryRow (b\<lparr>rb_columns := columns\<rparr>))"

definition with_buf :: "RowDataTyp \<Rightarrow> bytes \<Rightarrow> RowDataTyp option" where
  "with_buf r bs =
     (case r of
        TextRow t \<Rightarrow> Some (TextRow (t\<lparr>rt_buf := bs\<rparr>))
      | BinaryRow b \<Rightarrow> map_option BinaryRow (RowDataBinary_with_buf b bs))"

definition get_row_data_with_name :: "RowDataTyp \<Rightarrow> string \<Rightarrow> (RowError + RowPartData option) option" where
  "get_row_data_with_name r nm = (case r of TextRow t \<Rightarrow> RowDataText_get t nm | BinaryRow b \<Rightarrow> RowDataBinary_get b nm)"

definition row_decode ::
    "(bytes \<Rightarrow> (RowError + 'v option) option) \<Rightarrow> RowDataTyp \<Rightarrow> string \<Rightarrow> (RowError + 'v option) option" where
  "row_decode conv r nm =
     do { d \<leftarrow> get_row_data_with_name r nm;
          (case d of
             Inl e \<Rightarrow> Some (Inl e)
           | Inr (Some p) \<Rightarrow> conv (rp_data p)
           | Inr None \<Rightarrow> Some (Inr None)) }"

text \<open>\<open>decode_with_name::<_, u64>\<close>: the only instance the proxy uses.\<close>

definition decode_with_name :: "RowDataTyp \<Rightarrow> string \<Rightarrow> bool \<Rightarrow> (RowError + u64 option) option" where
  "decode_with_name r nm is_binary =
     (if is_binary then row_decode u64_new r nm
      else do {
        v \<leftarrow> row_decode String_new r nm;
        (case v of
           Inl e \<Rightarrow> Some (Inl e)
         | Inr None \<Rightarrow> Some (Inr None)
         | Inr (Some s) \<Rightarrow>
             (case parse_u64 s of Some n \<Rightarrow> Some (Inr (Some n)) | None \<Rightarrow> Some (Inl ParseIntError))) })"



subsection \<open>Lemmas on text rows\<close>

text \<open>A cell of a text row as the protocol has it: NULL, or a length and the bytes.\<close>

definition text_cell :: "bytes option \<Rightarrow> bytes" where
  "text_cell c = (case c of None \<Rightarrow> [0xfb] | Some s \<Rightarrow> put_lenc_int [] (of_nat (length s)) True @ s)"

definition cell_data :: "bytes option \<Rightarrow> bytes" where
  "cell_data c = (case c of None \<Rightarrow> [] | Some s \<Rightarrow> s)"

abbreviation text_row :: "bytes option list \<Rightarrow> bytes" where
  "text_row cells \<equiv> concat (map text_cell cells)"

lemma length_encode_int_put:
  "\<exists>pos. length_encode_int (put_lenc_int [] n True @ rest) = Some (n, False, pos) \<and>
     unat pos = length (put_lenc_int [] n True)"
proof -
  obtain k where k: "get_lenc_int (put_lenc_int [] n True @ rest) = Some ((n, False, k), rest)"
    by (simp add: get_lenc_int_put)
  then have le: "unat k \<le> length (put_lenc_int [] n True @ rest)"
    and "rest = drop (unat k) (put_lenc_int [] n True @ rest)"
    using get_lenc_int_consumes by blast+
  from this(2) have "length rest = length (put_lenc_int [] n True) + length rest - unat k"
    by (metis length_append length_drop)
  then have "unat k = length (put_lenc_int [] n True)"
    using le unfolding length_append by linarith
  moreover have "unat (ucast k :: u64) = unat k"
    by (rule unat_ucast_byte)
  ultimately show ?thesis
    using k by (simp add: length_encode_int_eq)
qed

lemma text_cell_lenc:
  assumes "length (text_cell c) < 2 ^ 63"
  obtains len pos where "length_encode_int (text_cell c @ rest) = Some (len, c = None, pos)"
    "unat len = length (cell_data c)" "unat pos + unat len = length (text_cell c)"
    "drop (unat pos) (text_cell c) = cell_data c"
proof (cases c)
  case None
  then show ?thesis
    using that [of 0 1] by (simp add: text_cell_def cell_data_def length_encode_int_def)
next
  case (Some s)
  let ?n = "of_nat (length s) :: u64"
  have "length s < 2 ^ 64"
    using assms Some by (simp add: text_cell_def)
  then have n: "unat ?n = length s"
    by (simp add: unat_of_nat take_bit_nat_eq_self_iff)
  obtain pos where "length_encode_int (put_lenc_int [] ?n True @ s @ rest) = Some (?n, False, pos)"
      "unat pos = length (put_lenc_int [] ?n True)"
    using length_encode_int_put by blast
  then show ?thesis
    using that [of ?n pos] n Some by (simp add: text_cell_def cell_data_def)
qed

lemma slice_from_append:
  "length pre < 2 ^ 63 \<Longrightarrow> slice_from (pre @ bs) (of_nat (length pre)) = Some bs"
  by (simp add: slice_from_def unat_of_nat take_bit_nat_eq_self_iff)

lemma slice_mid:
  assumes "length pre + length mid + length post < 2 ^ 63"
  shows "slice (pre @ mid @ post) (of_nat (length pre)) (of_nat (length pre + length mid)) = Some mid"
proof -
  have "unat (of_nat (length pre) :: u64) = length pre"
    "unat (of_nat (length pre + length mid) :: u64) = length pre + length mid"
    using assms by (simp_all only: unat_of_nat take_bit_nat_eq_self_iff) (simp_all add: take_bit_nat_eq_self_iff)
  then show ?thesis
    by (simp add: slice_def word_le_nat_alt del: of_nat_add)
qed

lemma text_skip_row:
  "length (pre @ text_row cells @ post) < 2 ^ 63 \<Longrightarrow> n \<le> length cells \<Longrightarrow>
   text_skip n (pre @ text_row cells @ post) (of_nat (length pre)) =
     Some (of_nat (length (pre @ text_row (take n cells))))"
proof (induction n arbitrary: pre cells)
  case (Suc n)
  obtain c cs where cells: "cells = c # cs"
    using Suc.prems(2) by (cases cells) auto
  have small: "length (text_cell c) < 2 ^ 63" "length pre < 2 ^ 63"
    using Suc.prems(1) cells by simp_all
  obtain len pos where e: "length_encode_int (text_cell c @ text_row cs @ post) = Some (len, c = None, pos)"
      "unat pos + unat len = length (text_cell c)"
    using text_cell_lenc [OF small(1)] by metis
  have "len + pos = of_nat (length (text_cell c))"
    unfolding e(2) [symmetric] by simp
  then have "of_nat (length pre) + (len + pos) = (of_nat (length (pre @ text_cell c)) :: u64)"
    by simp
  moreover have "text_skip n ((pre @ text_cell c) @ text_row cs @ post) (of_nat (length (pre @ text_cell c))) =
      Some (of_nat (length ((pre @ text_cell c) @ text_row (take n cs))))"
    by (rule Suc.IH) (use Suc.prems cells in simp_all)
  ultimately show ?case
    using e(1) slice_from_append [OF small(2), of "text_row cells @ post"] by (simp add: cells)
qed simp

lemma text_cell_split: "text_row cells = text_row (take i cells) @ text_cell (cells ! i) @ text_row (drop (Suc i) cells)"
  if "i < length cells"
  by (metis Cons_nth_drop_Suc append_take_drop_id concat.simps(2) concat_append list.simps(9) map_append that)

text \<open>What looking up a column of a text row gives.\<close>

lemma text_row_get:
  assumes "position (\<lambda>x. col_column_name x = nm) columns = Some i" "i < length cells" "length (text_row cells) < 2 ^ 63"
  shows "RowDataText_get \<lparr>rt_columns = columns, rt_buf = text_row cells\<rparr> nm =
    Some (Inr (if cell_data (cells ! i) = [] then None
      else Some \<lparr>rp_data = cell_data (cells ! i), start_idx = length (text_row (take i cells)),
             part_encode_length = length (text_cell (cells ! i)) - length (cell_data (cells ! i)),
             part_data_length = length (cell_data (cells ! i))\<rparr>))"
proof -
  let ?pre = "text_row (take i cells)" and ?c = "cells ! i" and ?post = "text_row (drop (Suc i) cells)"
  have row: "text_row cells = ?pre @ text_cell ?c @ ?post"
    by (rule text_cell_split [OF assms(2)])
  have len: "length ?pre + length (text_cell ?c) + length ?post < 2 ^ 63"
    using assms(3) unfolding row by simp
  obtain len pos where e: "length_encode_int (text_cell ?c @ ?post) = Some (len, ?c = None, pos)"
      "unat len = length (cell_data ?c)" "unat pos + unat len = length (text_cell ?c)"
      "drop (unat pos) (text_cell ?c) = cell_data ?c"
    by (rule text_cell_lenc [of ?c ?post]) (use len in linarith)
  have skip: "text_skip i (text_row cells) 0 = Some (of_nat (length ?pre))"
    using text_skip_row [of "[]" cells "[]" i] assms(2,3) by simp
  have here: "slice_from (text_row cells) (of_nat (length ?pre)) = Some (text_cell ?c @ ?post)"
    unfolding row using slice_from_append len by simp
  let ?h = "take (unat pos) (text_cell ?c)"
  have cell: "text_cell ?c = ?h @ cell_data ?c" "length ?h = unat pos"
    using e(3,4) by (simp_all flip: e(4))
  have "of_nat (length ?pre) + pos = (of_nat (length (?pre @ ?h)) :: u64)"
    "of_nat (length ?pre) + (pos + len) = (of_nat (length (?pre @ ?h) + length (cell_data ?c)) :: u64)"
    unfolding length_append cell(2) e(2) [symmetric] by (simp_all add: ac_simps)
  moreover have "text_row cells = (?pre @ ?h) @ cell_data ?c @ ?post"
    unfolding row by (subst cell(1)) simp
  ultimately have sl: "slice (text_row cells) (of_nat (length ?pre) + pos) (of_nat (length ?pre) + (pos + len)) =
      Some (cell_data ?c)"
    using slice_mid [of "?pre @ ?h" "cell_data ?c" ?post] len e(3) cell(2) e(2)
    by (simp add: add.assoc)
  have null: "(?c = None \<or> len = 0) = (cell_data ?c = [])"
    using e(2) by (auto simp: cell_data_def unat_eq_0)
  have i: "unat (of_nat (length ?pre) :: u64) = length ?pre"
    using len by (simp add: unat_of_nat take_bit_nat_eq_self_iff)
  show ?thesis
    using assms(1) skip here e(1) sl null i e(2,3) by (auto simp: RowDataText_get_def get_idx_def)
qed


subsection \<open>Properties\<close>

text \<open>In a binary row of two four-byte columns of which the first is NULL, the lookup takes the
  NULL bitmap from the header byte: the first column is given the value of the second, and
  looking up the second panics.
\<close>

lemma binary_null_misread:
  assumes "col_column_name a \<noteq> col_column_name b"
    "col_column_type a = MYSQL_TYPE_LONG" "col_column_type b = MYSQL_TYPE_LONG"
    "length v = 4" "RowDataBinary_with_buf (RowDataBinary_new [a, b] []) ([0, 0x04] @ v) = Some r"
  shows "RowDataBinary_get r (col_column_name a) =
      Some (Inr (Some \<lparr>rp_data = v, start_idx = 2, part_encode_length = 0, part_data_length = 4\<rparr>)) \<and>
    RowDataBinary_get r (col_column_name b) = None"
proof -
  have r: "r = \<lparr>rb_columns = [a, b], null_map = [0], rb_buf = [0, 0x04] @ v, start_pos = 2\<rparr>"
    using assms(4,5) by (simp add: RowDataBinary_with_buf_def RowDataBinary_new_def)
  show ?thesis
    using assms(1-4) by (simp add: r RowDataBinary_get_def binary_extent_def lenc_columns_def idx_def slice_def)
qed

definition long_column :: "string \<Rightarrow> ColumnInfo" where
  "long_column nm = \<lparr>col_schema = None, col_table_name = None, col_column_name = nm, col_charset = 0x3f,
     col_column_length = 11, col_column_type = MYSQL_TYPE_LONG, col_column_flag = 0, col_decimals = 0\<rparr>"

lemma binary_null_misread_witness:
  "\<exists>r. RowDataBinary_with_buf (RowDataBinary_new [long_column ''a'', long_column ''b''] []) [0, 0x04, 7, 0, 0, 0] = Some r \<and>
     RowDataBinary_get r ''a'' =
       Some (Inr (Some \<lparr>rp_data = [7, 0, 0, 0], start_idx = 2, part_encode_length = 0, part_data_length = 4\<rparr>)) \<and>
     RowDataBinary_get r ''b'' = None"
proof -
  let ?r = "\<lparr>rb_columns = [long_column ''a'', long_column ''b''], null_map = [0], rb_buf = [0, 0x04, 7, 0, 0, 0], start_pos = 2\<rparr>"
  have r: "RowDataBinary_with_buf (RowDataBinary_new [long_column ''a'', long_column ''b''] []) ([0, 0x04] @ [7, 0, 0, 0]) =
      Some ?r"
    by (simp add: RowDataBinary_with_buf_def RowDataBinary_new_def)
  show ?thesis
    using binary_null_misread [OF _ _ _ _ r] r by (simp add: long_column_def)
qed

end
