(* ===== verification/Merge.thy ===== *)
theory Merge
  imports ClientCodec
begin

section \<open>Merging the result sets of shards\<close>

text \<open>
  \<open>MergeStream\<close> of \<open>protocol/mysql/src/client/codec.rs\<close>: the packets of several result sets
  are taken round by round, one from each shard, and handed out in batches of at most a
  hundred rounds.  The type of the inner streams is a parameter, with the function that
  awaits their next item (no result when it waits for ever); they are fused, so a stream
  that has ended is not polled again.  The counters are natural numbers: a 64-bit counter
  would wrap around after \<open>2 ^ 64\<close> polls.
\<close>

datatype MergeResultsetState = Header | MergeColumnInfo | ColumnEof | MergeRow

record ('s, 'i) MergeStream =
  ms_inner :: "('s \<times> bool) list"
  ms_idx :: nat
  ms_buf :: "'i option list"
  base_length :: nat
  ms_limit :: nat
  limit_idx :: nat
  none_count :: nat
  ms_state :: MergeResultsetState

definition MergeStream_new :: "'s list \<Rightarrow> nat \<Rightarrow> ('s, 'i) MergeStream" where
  "MergeStream_new inner n =
     \<lparr>ms_inner = map (\<lambda>s. (s, False)) inner, ms_idx = 0, ms_buf = [], base_length = n, ms_limit = n * 100,
      limit_idx = 0, none_count = 0, ms_state = Header\<rparr>"

definition merge_set_state :: "('s, 'i) MergeStream \<Rightarrow> MergeResultsetState \<Rightarrow> ('s, 'i) MergeStream" where
  "merge_set_state m st = m\<lparr>ms_state := st\<rparr>"

type_synonym ('s, 'i) await = "'s \<Rightarrow> ('s \<times> 'i option) option"

definition fuse_next :: "('s, 'i) await \<Rightarrow> 's \<times> bool \<Rightarrow> (('s \<times> bool) \<times> 'i option) option" where
  "fuse_next nxt s =
     (case s of (s, done) \<Rightarrow>
        if done then Some ((s, True), None)
        else do { (s, r) \<leftarrow> nxt s; Some ((s, r = None), r) })"

text \<open>One turn of the loop; \<open>True\<close> leaves it.\<close>

definition merge_turn :: "('s, 'i) await \<Rightarrow> ('s, 'i) MergeStream \<Rightarrow> (('s, 'i) MergeStream \<times> bool) option" where
  "merge_turn nxt m =
     do { s \<leftarrow> idx (ms_inner m) (ms_idx m);
          (s, data) \<leftarrow> fuse_next nxt s;
          let m = m\<lparr>ms_inner := (ms_inner m)[ms_idx m := s]\<rparr>;
          if ms_state m \<noteq> MergeRow then
            do { let m = m\<lparr>ms_idx := ms_idx m + 1, ms_buf := ms_buf m @ [data]\<rparr>;
                 if ms_idx m = base_length m then Some (m\<lparr>ms_idx := 0\<rparr>, True) else Some (m, False) }
          else
            do { let m = (case data of
                   Some x \<Rightarrow> m\<lparr>ms_idx := ms_idx m + 1, limit_idx := limit_idx m + 1, ms_buf := ms_buf m @ [Some x]\<rparr>
                 | None \<Rightarrow> m\<lparr>ms_idx := ms_idx m + 1, limit_idx := limit_idx m + 1, none_count := none_count m + 1\<rparr>);
                 if ms_idx m = base_length m \<and> none_count m = base_length m
                 then Some (m\<lparr>ms_idx := 0, none_count := 0\<rparr>, True)
                 else do {
                   let m = (if ms_idx m = base_length m then m\<lparr>ms_idx := 0\<rparr> else m);
                   if limit_idx m = ms_limit m then Some (m\<lparr>limit_idx := 0, none_count := 0\<rparr>, True)
                   else Some (m, False) } } }"

partial_function (option) merge_loop :: "('s, 'i) await \<Rightarrow> ('s, 'i) MergeStream \<Rightarrow> ('s, 'i) MergeStream option" where
  "merge_loop nxt m =
     do { (m, stop) \<leftarrow> merge_turn nxt m; if stop then Some m else merge_loop nxt m }"

definition merge_next ::
    "('s, 'i) await \<Rightarrow> ('s, 'i) MergeStream \<Rightarrow> (('s, 'i) MergeStream \<times> 'i option list option) option" where
  "merge_next nxt m =
     do { m \<leftarrow> merge_loop nxt m;
          if ms_buf m = [] then Some (m, None) else Some (m\<lparr>ms_buf := []\<rparr>, Some (ms_buf m)) }"

text \<open>All batches until the merged stream ends, as \<open>while let Some(chunk) = stream.next().await\<close>
  of the executor sees them.\<close>

partial_function (option) merge_items :: "('s, 'i) await \<Rightarrow> ('s, 'i) MergeStream \<Rightarrow> 'i option list list option" where
  "merge_items nxt m =
     do { (m, r) \<leftarrow> merge_next nxt m;
          (case r of
             None \<Rightarrow> Some []
           | Some chunk \<Rightarrow> do { chunks \<leftarrow> merge_items nxt m; Some (chunk # chunks) }) }"


subsection \<open>Streams that deliver a list\<close>

text \<open>\<open>delivers nxt s xs\<close>: the stream gives exactly the items \<open>xs\<close> and then ends.\<close>

inductive delivers :: "('s, 'i) await \<Rightarrow> 's \<Rightarrow> 'i list \<Rightarrow> bool" for nxt where
  delivers_end: "nxt s = Some (s', None) \<Longrightarrow> delivers nxt s []"
| delivers_item: "nxt s = Some (s', Some x) \<Longrightarrow> delivers nxt s' xs \<Longrightarrow> delivers nxt s (x # xs)"

inductive_cases delivers_NilE: "delivers nxt s []"
inductive_cases delivers_ConsE: "delivers nxt s (x # xs)"

definition fused :: "('s, 'i) await \<Rightarrow> 's \<times> bool \<Rightarrow> 'i list \<Rightarrow> bool" where
  "fused nxt s xs \<longleftrightarrow> (if snd s then xs = [] else delivers nxt (fst s) xs)"

lemma fuse_next_fused:
  assumes "fused nxt s xs"
  obtains s' where "fuse_next nxt s = Some (s', case xs of [] \<Rightarrow> None | x # _ \<Rightarrow> Some x)" "fused nxt s' (tl xs)"
proof (cases "snd s")
  case True
  then show ?thesis
    using assms that [of s] by (cases s) (auto simp: fused_def fuse_next_def)
next
  case False
  then have d: "delivers nxt (fst s) xs"
    using assms by (simp add: fused_def)
  show ?thesis
  proof (cases xs)
    case Nil
    then obtain s' where "nxt (fst s) = Some (s', None)"
      using d by (auto elim: delivers_NilE)
    then show ?thesis
      using that [of "(s', True)"] False Nil by (cases s) (auto simp: fused_def fuse_next_def)
  next
    case (Cons x ys)
    then obtain s' where "nxt (fst s) = Some (s', Some x)" "delivers nxt s' ys"
      using d by (auto elim: delivers_ConsE)
    then show ?thesis
      using that [of "(s', False)"] False Cons by (cases s) (auto simp: fused_def fuse_next_def)
  qed
qed

text \<open>The rows of all shards, round by round.\<close>

function rounds :: "'i list list \<Rightarrow> 'i list" where
  "rounds ss = (if \<forall>s \<in> set ss. s = [] then [] else concat (map (take 1) ss) @ rounds (map tl ss))"
  by pat_completeness auto

lemma sum_length_tl: "\<exists>s \<in> set ss. s \<noteq> [] \<Longrightarrow> sum_list (map length (map tl ss)) < sum_list (map length ss)"
proof (induction ss)
  case (Cons s ss)
  have "sum_list (map length (map tl ss)) \<le> sum_list (map length ss)"
    by (induction ss) auto
  then show ?case
    using Cons by (cases s) (auto simp: add_mono_thms_linordered_field)
qed simp

termination rounds
  by (relation "measure (\<lambda>ss. sum_list (map length ss))") (use sum_length_tl in auto)

declare rounds.simps [simp del]

lemma rounds_empty: "\<forall>s \<in> set ss. s = [] \<Longrightarrow> rounds ss = []"
  by (simp add: rounds.simps)

lemma rounds_step: "rounds ss = concat (map (take 1) ss) @ rounds (map tl ss)"
proof (cases "\<forall>s \<in> set ss. s = []")
  case True
  then have "\<forall>s \<in> set (map tl ss). s = []"
    by (metis (no_types, lifting) imageE list.sel(2) list.set_map)
  then show ?thesis
    using True by (simp add: rounds_empty)
next
  case False
  then show ?thesis
    by (subst rounds.simps) (simp only: if_False)
qed

text \<open>The rows still to come: those of this round from the current shard on, then round by
  round.\<close>

definition to_come :: "nat \<Rightarrow> 'i list list \<Rightarrow> 'i list" where
  "to_come i ss = concat (map (take 1) (drop i ss)) @ rounds (take i ss @ map tl (drop i ss))"

lemma to_come_0: "to_come 0 ss = rounds ss"
  using rounds_step [of ss] by (simp add: to_come_def)

lemma to_come_length: "to_come (length ss) ss = rounds ss"
  by (simp add: to_come_def)

lemma to_come_step:
  assumes "i < length ss"
  shows "to_come i ss = take 1 (ss ! i) @ to_come (Suc i) (ss[i := tl (ss ! i)])"
proof -
  have "drop i ss = ss ! i # drop (Suc i) ss" "take (Suc i) (ss[i := tl (ss ! i)]) = take i ss @ [tl (ss ! i)]"
    "drop (Suc i) (ss[i := tl (ss ! i)]) = drop (Suc i) ss"
    using assms by (simp_all add: Cons_nth_drop_Suc take_Suc_conv_app_nth)
  then show ?thesis
    by (simp add: to_come_def)
qed

text \<open>The state of the merged stream while rows are read, with the rows each shard still has.\<close>

definition merging :: "('s, 'i) await \<Rightarrow> ('s, 'i) MergeStream \<Rightarrow> 'i list list \<Rightarrow> bool" where
  "merging nxt m ss \<longleftrightarrow> ms_state m = MergeRow \<and> list_all2 (fused nxt) (ms_inner m) ss \<and> base_length m = length ss \<and>
     ms_idx m < length ss \<and> None \<notin> set (ms_buf m)"

lemma merge_turn_row:
  assumes "merging nxt m ss"
  obtains m' stop where "merge_turn nxt m = Some (m', stop)" "merging nxt m' (ss[ms_idx m := tl (ss ! ms_idx m)])"
    "ms_buf m' = ms_buf m @ map Some (take 1 (ss ! ms_idx m))"
    "ms_idx m' = (if Suc (ms_idx m) = length ss then 0 else Suc (ms_idx m))"
    "ms_limit m' = ms_limit m"
    "stop = (Suc (ms_idx m) = length ss \<and> none_count m + (if ss ! ms_idx m = [] then 1 else 0) = length ss \<or>
             Suc (limit_idx m) = ms_limit m)"
    "limit_idx m' = (if stop \<and> \<not> (Suc (ms_idx m) = length ss \<and> none_count m + (if ss ! ms_idx m = [] then 1 else 0) = length ss)
       then 0 else Suc (limit_idx m))"
    "none_count m' = (if stop then 0 else none_count m + (if ss ! ms_idx m = [] then 1 else 0))"
proof -
  let ?i = "ms_idx m"
  have i: "?i < length (ms_inner m)" "length (ms_inner m) = length ss"
    using assms by (auto simp: merging_def dest: list_all2_lengthD)
  have "fused nxt (ms_inner m ! ?i) (ss ! ?i)"
    using assms i by (auto simp: merging_def list_all2_conv_all_nth)
  then obtain s' where s': "fuse_next nxt (ms_inner m ! ?i) = Some (s', case ss ! ?i of [] \<Rightarrow> None | x # _ \<Rightarrow> Some x)"
      "fused nxt s' (tl (ss ! ?i))"
    by (rule fuse_next_fused)
  then have inner: "list_all2 (fused nxt) ((ms_inner m)[?i := s']) (ss[?i := tl (ss ! ?i)])"
    using assms by (simp add: merging_def list_all2_update_cong)
  have "merge_turn nxt m \<noteq> None"
    using assms i s'(1) by (cases "ss ! ?i") (auto simp: merge_turn_def idx_def merging_def Let_def)
  then obtain m' stop where t: "merge_turn nxt m = Some (m', stop)"
    by auto
  show ?thesis
  proof (cases "ss ! ?i")
    case Nil
    then show ?thesis
      by (intro that [OF t])
        (use t assms i s'(1) inner in \<open>auto simp: merge_turn_def idx_def merging_def Let_def split: if_splits\<close>)
  next
    case (Cons x xs)
    then show ?thesis
      by (intro that [OF t])
        (use t assms i s'(1) inner in \<open>auto simp: merge_turn_def idx_def merging_def Let_def split: if_splits\<close>)
  qed
qed


text \<open>The limit is reached only at the end of a round.\<close>

definition aligned :: "('s, 'i) MergeStream \<Rightarrow> bool" where
  "aligned m \<longleftrightarrow> ms_limit m = base_length m * 100 \<and> limit_idx m mod base_length m = ms_idx m"

lemma merging_length: "merging nxt m ss \<Longrightarrow> base_length m = length ss"
  by (simp add: merging_def)

lemma aligned_turn:
  assumes "aligned m" "merging nxt m ss" "merge_turn nxt m = Some (m', stop)"
  shows "aligned m' \<and> (stop \<longrightarrow> ms_idx m' = 0 \<and> Suc (ms_idx m) = length ss \<and> none_count m' = 0)"
proof -
  have n: "0 < length ss"
    using assms(2) by (auto simp: merging_def)
  have "Suc (limit_idx m) mod length ss = (if Suc (ms_idx m) = length ss then 0 else Suc (ms_idx m))"
    using assms(1,2) by (auto simp: aligned_def merging_def mod_Suc)
  moreover from this have "Suc (limit_idx m) = ms_limit m \<Longrightarrow> Suc (ms_idx m) = length ss"
    using assms(1) merging_length [OF assms(2)] by (auto simp: aligned_def split: if_splits)
  moreover obtain m'' stop' where "merge_turn nxt m = Some (m'', stop')"
      "merging nxt m'' (ss[ms_idx m := tl (ss ! ms_idx m)])"
      "ms_idx m'' = (if Suc (ms_idx m) = length ss then 0 else Suc (ms_idx m))" "ms_limit m'' = ms_limit m"
      "stop' = (Suc (ms_idx m) = length ss \<and> none_count m + (if ss ! ms_idx m = [] then 1 else 0) = length ss \<or>
             Suc (limit_idx m) = ms_limit m)"
      "limit_idx m'' = (if stop' \<and> \<not> (Suc (ms_idx m) = length ss \<and> none_count m + (if ss ! ms_idx m = [] then 1 else 0) = length ss)
       then 0 else Suc (limit_idx m))"
      "none_count m'' = (if stop' then 0 else none_count m + (if ss ! ms_idx m = [] then 1 else 0))"
    by (rule merge_turn_row [OF assms(2)]) blast
  ultimately show ?thesis
    using assms(1,3) merging_length [OF assms(2)] merging_length [of nxt m''] by (auto simp: aligned_def)
qed

text \<open>Everything a call of the merged stream reads is in its batch, in the order of the rounds;
  an empty batch means that nothing is left.\<close>

lemma merge_turn_rows:
  assumes "merging nxt m ss" "ms_buf m = [] \<Longrightarrow> \<forall>j < ms_idx m. ss ! j = []"
  obtains m' stop ss' where "merge_turn nxt m = Some (m', stop)" "merging nxt m' ss'" "length ss' = length ss"
    "map the (ms_buf m') @ to_come (ms_idx m') ss' = map the (ms_buf m) @ to_come (ms_idx m) ss"
    "ms_buf m' = [] \<Longrightarrow> \<forall>j < Suc (ms_idx m). ss' ! j = []" "ms_idx m' \<le> Suc (ms_idx m)"
proof -
  let ?i = "ms_idx m"
  let ?ss = "ss[?i := tl (ss ! ?i)]"
  have i: "?i < length ss"
    using assms(1) by (simp add: merging_def)
  obtain m' stop where t: "merge_turn nxt m = Some (m', stop)" "merging nxt m' ?ss"
      "ms_buf m' = ms_buf m @ map Some (take 1 (ss ! ?i))" "ms_idx m' = (if Suc ?i = length ss then 0 else Suc ?i)"
    by (rule merge_turn_row [OF assms(1)]) blast
  have "to_come (ms_idx m') ?ss = to_come (Suc ?i) ?ss"
    using t(4) to_come_0 [of ?ss] to_come_length [of ?ss] by auto
  then have "map the (ms_buf m') @ to_come (ms_idx m') ?ss = map the (ms_buf m) @ to_come ?i ss"
    using to_come_step [OF i] t(3) by (simp add: comp_def)
  moreover have "\<forall>j < Suc ?i. ?ss ! j = []" if "ms_buf m' = []"
    using that t(3) assms(2) i by (auto simp: less_Suc_eq nth_list_update)
  ultimately show ?thesis
    using that [OF t(1,2)] t(4) by simp
qed

lemma merge_loop_rows:
  assumes "merge_loop nxt m = Some m'"
  shows "\<forall>ss. merging nxt m ss \<longrightarrow> aligned m \<longrightarrow> (ms_buf m = [] \<longrightarrow> (\<forall>j < ms_idx m. ss ! j = [])) \<longrightarrow>
    (\<exists>ss'. merging nxt m' ss' \<and> aligned m' \<and> ms_idx m' = 0 \<and> length ss' = length ss \<and>
     map the (ms_buf m') @ to_come 0 ss' = map the (ms_buf m) @ to_come (ms_idx m) ss \<and>
     (ms_buf m' = [] \<longrightarrow> (\<forall>s \<in> set ss'. s = [])))"
proof (rule merge_loop.raw_induct [where P = "\<lambda>nxt m m'. \<forall>ss. merging nxt m ss \<longrightarrow> aligned m \<longrightarrow>
    (ms_buf m = [] \<longrightarrow> (\<forall>j < ms_idx m. ss ! j = [])) \<longrightarrow>
    (\<exists>ss'. merging nxt m' ss' \<and> aligned m' \<and> ms_idx m' = 0 \<and> length ss' = length ss \<and>
     map the (ms_buf m') @ to_come 0 ss' = map the (ms_buf m) @ to_come (ms_idx m) ss \<and>
     (ms_buf m' = [] \<longrightarrow> (\<forall>s \<in> set ss'. s = [])))", OF _ assms], intro allI impI, goal_cases)
  case (1 rec nxt m m' ss)
  obtain m1 stop ss1 where t: "merge_turn nxt m = Some (m1, stop)" "merging nxt m1 ss1" "length ss1 = length ss"
    "map the (ms_buf m1) @ to_come (ms_idx m1) ss1 = map the (ms_buf m) @ to_come (ms_idx m) ss"
    "ms_buf m1 = [] \<Longrightarrow> \<forall>j < Suc (ms_idx m). ss1 ! j = []" "ms_idx m1 \<le> Suc (ms_idx m)"
    using merge_turn_rows [OF 1(3)] 1(5) by metis
  have a: "aligned m1" "stop \<Longrightarrow> ms_idx m1 = 0 \<and> Suc (ms_idx m) = length ss"
    using aligned_turn [OF 1(4,3) t(1)] by simp_all
  show ?case
  proof (cases stop)
    case True
    then have "m' = m1"
      using 1(2) t(1) by simp
    moreover have "\<forall>s \<in> set ss1. s = []" if "ms_buf m1 = []"
      using t(5) [OF that] a(2) [OF True] t(3) by (auto simp: in_set_conv_nth)
    ultimately show ?thesis
      using t a True by (intro exI [of _ ss1]) auto
  next
    case False
    then have "rec nxt m1 = Some m'"
      using 1(2) t(1) by simp
    moreover have "ms_buf m1 = [] \<longrightarrow> (\<forall>j < ms_idx m1. ss1 ! j = [])"
      using t(5,6) by (meson less_le_trans)
    ultimately obtain ss' where "merging nxt m' ss' \<and> aligned m' \<and> ms_idx m' = 0 \<and> length ss' = length ss1 \<and>
        map the (ms_buf m') @ to_come 0 ss' = map the (ms_buf m1) @ to_come (ms_idx m1) ss1 \<and>
        (ms_buf m' = [] \<longrightarrow> (\<forall>s \<in> set ss'. s = []))"
      using 1(1) t(2) a(1) by blast
    then show ?thesis
      using t(3,4) by (intro exI [of _ ss']) simp
  qed
qed

text \<open>Between two calls: no rows kept, the position at the first shard.\<close>

definition at_rest :: "('s, 'i) await \<Rightarrow> ('s, 'i) MergeStream \<Rightarrow> 'i list list \<Rightarrow> bool" where
  "at_rest nxt m ss \<longleftrightarrow> merging nxt m ss \<and> aligned m \<and> ms_idx m = 0 \<and> ms_buf m = []"

lemma at_rest_start:
  assumes "list_all2 (delivers nxt) inner ss" "ss \<noteq> []"
  shows "at_rest nxt (merge_set_state (MergeStream_new inner (length ss)) MergeRow) ss"
  using assms list_all2_lengthD [OF assms(1)]
  by (auto simp: at_rest_def merging_def aligned_def merge_set_state_def MergeStream_new_def fused_def
      list_all2_conv_all_nth)

lemma map_Some_the: "None \<notin> set xs \<Longrightarrow> map Some (map the xs) = xs"
  by (induction xs) auto

lemma merge_next_rows:
  assumes "merge_next nxt m = Some (m', r)" "at_rest nxt m ss"
  obtains ss' where "at_rest nxt m' ss'" "map Some (rounds ss) = (case r of None \<Rightarrow> [] | Some b \<Rightarrow> b) @ map Some (rounds ss')"
    "r = None \<Longrightarrow> rounds ss' = []" "length ss' = length ss"
proof -
  obtain m1 where l: "merge_loop nxt m = Some m1"
    using assms(1) by (auto simp: merge_next_def bind_eq_Some_conv)
  obtain ss' where ss': "merging nxt m1 ss'" "aligned m1" "ms_idx m1 = 0" "length ss' = length ss"
      "map the (ms_buf m1) @ rounds ss' = rounds ss" "ms_buf m1 = [] \<longrightarrow> (\<forall>s \<in> set ss'. s = [])"
    using merge_loop_rows [OF l, rule_format, of ss] assms(2) by (auto simp: at_rest_def to_come_0)
  have m': "m' = m1\<lparr>ms_buf := []\<rparr>" "r = (if ms_buf m1 = [] then None else Some (ms_buf m1))"
    using assms(1) l by (auto simp: merge_next_def split: if_splits)
  have "None \<notin> set (ms_buf m1)"
    using ss'(1) by (simp add: merging_def)
  then have "map Some (rounds ss) = ms_buf m1 @ map Some (rounds ss')"
    unfolding ss'(5) [symmetric] map_append using map_Some_the by metis
  moreover have "at_rest nxt m' ss'"
    using ss'(1-3) m'(1) by (simp add: at_rest_def merging_def aligned_def)
  moreover have "rounds ss' = []" if "r = None"
    using that m'(2) ss'(6) by (simp add: rounds_empty split: if_splits)
  ultimately show ?thesis
    using that [of ss'] m'(2) ss'(4) by auto
qed

lemma merge_items_rows:
  assumes "merge_items nxt m = Some chunks"
  shows "\<forall>ss. at_rest nxt m ss \<longrightarrow> concat chunks = map Some (rounds ss)"
proof (rule merge_items.raw_induct [where P = "\<lambda>nxt m chunks. \<forall>ss. at_rest nxt m ss \<longrightarrow> concat chunks = map Some (rounds ss)",
      OF _ assms], intro allI impI, goal_cases)
  case (1 rec nxt m chunks ss)
  then obtain m1 r where n: "merge_next nxt m = Some (m1, r)"
    by (auto simp: bind_eq_Some_conv)
  obtain ss' where ss': "at_rest nxt m1 ss'" "map Some (rounds ss) = (case r of None \<Rightarrow> [] | Some b \<Rightarrow> b) @ map Some (rounds ss')"
    "r = None \<Longrightarrow> rounds ss' = []"
    by (rule merge_next_rows [OF n 1(3)]) blast
  show ?case
  proof (cases r)
    case None
    then show ?thesis
      using 1(2) n ss' by simp
  next
    case (Some b)
    then obtain cs where "rec nxt m1 = Some cs" "chunks = b # cs"
      using 1(2) n by (auto simp: bind_eq_Some_conv)
    then show ?thesis
      using 1(1) ss' Some by auto
  qed
qed

text \<open>A whole round.\<close>

lemma merge_loop_turn:
  "merge_turn nxt m = Some (m1, stop) \<Longrightarrow> merge_loop nxt m = (if stop then Some m1 else merge_loop nxt m1)"
  by (subst merge_loop.simps) simp

lemma update_split:
  assumes "i < length ss"
  shows "ss[i := x] = take i ss @ x # drop (Suc i) ss" "drop i ss = ss ! i # drop (Suc i) ss"
  using assms by (simp_all add: upd_conv_take_nth_drop Cons_nth_drop_Suc)

lemma merge_round_from:
  assumes "merging nxt m ss" "aligned m" "length ss = ms_idx m + Suc d"
  shows "\<exists>m'. merging nxt m' (take (ms_idx m) ss @ map tl (drop (ms_idx m) ss)) \<and> aligned m' \<and> ms_idx m' = 0 \<and>
     ms_limit m' = ms_limit m \<and>
     ms_buf m' = ms_buf m @ map Some (concat (map (take 1) (drop (ms_idx m) ss))) \<and>
     (let nc = none_count m + length (filter (\<lambda>s. s = []) (drop (ms_idx m) ss)); li = limit_idx m + Suc d in
      if nc = length ss then merge_loop nxt m = Some m' \<and> none_count m' = 0 \<and> limit_idx m' = li
      else if li = ms_limit m then merge_loop nxt m = Some m' \<and> none_count m' = 0 \<and> limit_idx m' = 0
      else merge_loop nxt m = merge_loop nxt m' \<and> none_count m' = nc \<and> limit_idx m' = li)"
  using assms
proof (induction d arbitrary: m ss)
  case 0
  let ?i = "ms_idx m"
  have i: "?i < length ss" "Suc ?i = length ss" "drop (Suc ?i) ss = []"
    using 0(3) by simp_all
  obtain m1 stop where t: "merge_turn nxt m = Some (m1, stop)" "merging nxt m1 (ss[?i := tl (ss ! ?i)])"
      "ms_buf m1 = ms_buf m @ map Some (take 1 (ss ! ?i))" "ms_idx m1 = 0" "ms_limit m1 = ms_limit m"
      "stop = (none_count m + (if ss ! ?i = [] then 1 else 0) = length ss \<or> Suc (limit_idx m) = ms_limit m)"
      "limit_idx m1 = (if stop \<and> \<not> none_count m + (if ss ! ?i = [] then 1 else 0) = length ss then 0 else Suc (limit_idx m))"
      "none_count m1 = (if stop then 0 else none_count m + (if ss ! ?i = [] then 1 else 0))"
    by (rule merge_turn_row [OF 0(1)]) (simp add: i(2))
  have "aligned m1"
    using aligned_turn [OF 0(2,1) t(1)] by simp
  then show ?case
    using t(2-8) merge_loop_turn [OF t(1)] update_split [OF i(1)] i(3) by (intro exI [of _ m1]) (simp add: Let_def)
next
  case (Suc d)
  let ?i = "ms_idx m"
  let ?ss = "ss[?i := tl (ss ! ?i)]"
  have i: "?i < length ss" "Suc ?i \<noteq> length ss"
    using Suc.prems(3) by simp_all
  obtain m1 stop where t: "merge_turn nxt m = Some (m1, stop)" "merging nxt m1 ?ss"
      "ms_buf m1 = ms_buf m @ map Some (take 1 (ss ! ?i))" "ms_idx m1 = Suc ?i" "ms_limit m1 = ms_limit m"
      "limit_idx m1 = (if stop then 0 else Suc (limit_idx m))"
      "none_count m1 = (if stop then 0 else none_count m + (if ss ! ?i = [] then 1 else 0))"
    by (rule merge_turn_row [OF Suc.prems(1)]) (simp add: i(2))
  have a: "aligned m1" "\<not> stop"
    using aligned_turn [OF Suc.prems(2,1) t(1)] i(2) by auto
  have ss: "take (Suc ?i) ?ss = take ?i ss @ [tl (ss ! ?i)]" "drop (Suc ?i) ?ss = drop (Suc ?i) ss"
    using i(1) by (simp_all add: take_Suc_conv_app_nth)
  show ?case
    using Suc.IH [OF t(2) a(1)] t(3-7) a(2) merge_loop_turn [OF t(1)] update_split(2) [OF i(1)] ss Suc.prems(3)
    by (auto simp: Let_def)
qed

lemma merge_round:
  assumes "merging nxt m ss" "aligned m" "ms_idx m = 0"
  obtains m' where "merging nxt m' (map tl ss)" "aligned m'" "ms_idx m' = 0" "ms_limit m' = ms_limit m"
    "ms_buf m' = ms_buf m @ map Some (concat (map (take 1) ss))"
    "let nc = none_count m + length (filter (\<lambda>s. s = []) ss); li = limit_idx m + length ss in
      if nc = length ss then merge_loop nxt m = Some m' \<and> none_count m' = 0 \<and> limit_idx m' = li
      else if li = ms_limit m then merge_loop nxt m = Some m' \<and> none_count m' = 0 \<and> limit_idx m' = 0
      else merge_loop nxt m = merge_loop nxt m' \<and> none_count m' = nc \<and> limit_idx m' = li"
proof -
  obtain d where d: "length ss = Suc d"
    using assms(1) by (cases ss) (auto simp: merging_def)
  show ?thesis
    using merge_round_from [OF assms(1,2), of d] assms(3) d that by auto
qed

text \<open>Shards with the same number of rows: no stream ends before the others, so the count of
  ended streams is reached exactly.\<close>

lemma merge_loop_even:
  assumes "merging nxt m ss" "aligned m" "ms_idx m = 0" "none_count m = 0" "\<forall>s \<in> set ss. length s = k"
  shows "\<exists>m' ss' k'. merge_loop nxt m = Some m' \<and> merging nxt m' ss' \<and> aligned m' \<and> ms_idx m' = 0 \<and> none_count m' = 0 \<and>
     (\<forall>s \<in> set ss'. length s = k') \<and> (k' < k \<or> k' = 0 \<and> k = 0 \<and> ms_buf m' = ms_buf m)"
  using assms
proof (induction k arbitrary: m ss)
  case 0
  then have e: "filter (\<lambda>s. s = []) ss = ss" "concat (map (take 1) ss) = []" "\<forall>s \<in> set (map tl ss). length s = 0"
    by (auto simp: filter_id_conv)
  obtain m' where "merging nxt m' (map tl ss)" "aligned m'" "ms_idx m' = 0" "ms_buf m' = ms_buf m"
      "merge_loop nxt m = Some m' \<and> none_count m' = 0"
    by (rule merge_round [OF 0(1-3)]) (use e(1,2) 0(4) in \<open>simp add: Let_def\<close>)
  then show ?case
    using e(3) by blast
next
  case (Suc k)
  have e: "filter (\<lambda>s. s = []) ss = []" "\<forall>s \<in> set (map tl ss). length s = k" "0 < length ss"
    using Suc.prems by (auto simp: merging_def filter_empty_conv)
  obtain m1 where m1: "merging nxt m1 (map tl ss)" "aligned m1" "ms_idx m1 = 0" "none_count m1 = 0"
      "merge_loop nxt m = Some m1 \<or> merge_loop nxt m = merge_loop nxt m1"
    by (rule merge_round [OF Suc.prems(1-3)]) (use e(1,3) Suc.prems(4) in \<open>auto simp: Let_def split: if_splits\<close>)
  from m1(5) show ?case
  proof
    assume "merge_loop nxt m = Some m1"
    then show ?thesis
      using m1(1-4) e(2) by blast
  next
    assume "merge_loop nxt m = merge_loop nxt m1"
    moreover obtain m' ss' k' where "merge_loop nxt m1 = Some m'" "merging nxt m' ss'" "aligned m'" "ms_idx m' = 0"
        "none_count m' = 0" "\<forall>s \<in> set ss'. length s = k'" "k' < k \<or> k' = 0"
      using Suc.IH [OF m1(1-4) e(2)] by blast
    ultimately show ?thesis
      by (intro exI [of _ m'] exI [of _ ss'] exI [of _ k']) auto
  qed
qed

lemma merge_items_even:
  "at_rest nxt m ss \<Longrightarrow> none_count m = 0 \<Longrightarrow> \<forall>s \<in> set ss. length s = k \<Longrightarrow> \<exists>chunks. merge_items nxt m = Some chunks"
proof (induction k arbitrary: m ss rule: less_induct)
  case (less k)
  then obtain m1 ss1 k1 where l: "merge_loop nxt m = Some m1" "merging nxt m1 ss1" "aligned m1" "ms_idx m1 = 0"
      "none_count m1 = 0" "\<forall>s \<in> set ss1. length s = k1" "k1 < k \<or> k1 = 0 \<and> k = 0 \<and> ms_buf m1 = ms_buf m"
    using merge_loop_even [of nxt m ss k] by (auto simp: at_rest_def)
  show ?case
  proof (cases "ms_buf m1 = []")
    case True
    then show ?thesis
      using l(1) by (subst merge_items.simps) (simp add: merge_next_def)
  next
    case False
    let ?m = "m1\<lparr>ms_buf := []\<rparr>"
    have "k1 < k"
      using l(7) False less.prems(1) by (auto simp: at_rest_def)
    moreover have "at_rest nxt ?m ss1"
      using l(2-4) by (simp add: at_rest_def merging_def aligned_def)
    ultimately obtain chunks where "merge_items nxt ?m = Some chunks"
      using less.IH [of k1 ?m ss1] l(5,6) by auto
    then show ?thesis
      using l(1) False by (subst merge_items.simps) (simp add: merge_next_def)
  qed
qed


subsection \<open>Properties\<close>

text \<open>C18.  Merging loses, duplicates and reorders nothing: whenever the merged stream ends, its batches
  together are the rows of the shards taken round by round.  It does end when the shards have the
  same number of rows, however many.
\<close>

theorem merged_rows:
  assumes "list_all2 (delivers nxt) inner ss" "ss \<noteq> []"
  shows "(\<forall>chunks. merge_items nxt (merge_set_state (MergeStream_new inner (length ss)) MergeRow) = Some chunks \<longrightarrow>
      concat chunks = map Some (rounds ss)) \<and>
    ((\<exists>k. \<forall>s \<in> set ss. length s = k) \<longrightarrow>
      (\<exists>chunks. merge_items nxt (merge_set_state (MergeStream_new inner (length ss)) MergeRow) = Some chunks))"
proof -
  let ?m = "merge_set_state (MergeStream_new inner (length ss)) MergeRow"
  have r: "at_rest nxt ?m ss" "none_count ?m = 0"
    using at_rest_start [OF assms] by (simp_all add: merge_set_state_def MergeStream_new_def)
  show ?thesis
    using merge_items_rows r merge_items_even [OF r] by blast
qed

text \<open>Lists as streams.\<close>

fun list_next :: "('i list, 'i) await" where
  "list_next [] = Some ([], None)"
| "list_next (x # xs) = Some (xs, Some x)"

lemma list_next_delivers: "delivers list_next xs xs"
  by (induction xs) (auto intro: delivers.intros)

theorem merged_rows_witness:
  "\<exists>chunks. merge_items list_next (merge_set_state (MergeStream_new [[1 :: nat, 2], [3, 4]] 2) MergeRow) = Some chunks \<and>
     concat chunks = [Some 1, Some 3, Some 2, Some 4]"
proof -
  have "\<exists>k. \<forall>s \<in> set [[1 :: nat, 2], [3, 4]]. length s = k"
    by auto
  moreover have "rounds [[1 :: nat, 2], [3, 4]] = [1, 3, 2, 4]"
    by (simp add: rounds.simps)
  ultimately show ?thesis
    using merged_rows [of list_next "[[1 :: nat, 2], [3, 4]]" "[[1, 2], [3, 4]]"]
    by (auto simp: list_next_delivers numeral_2_eq_2)
qed

text \<open>Once the limit was passed without being noticed and more streams were counted as ended
  than there are, nothing stops the loop.\<close>

definition stuck :: "('s, 'i) await \<Rightarrow> ('s, 'i) MergeStream \<Rightarrow> bool" where
  "stuck nxt m \<longleftrightarrow> (\<exists>ss. merging nxt m ss \<and> (\<forall>s \<in> set ss. s = []) \<and> ms_limit m \<le> limit_idx m \<and> ms_idx m < none_count m)"

lemma stuck_turn:
  assumes "stuck nxt m" "merge_turn nxt m = Some (m', stop)"
  shows "\<not> stop \<and> stuck nxt m'"
proof -
  obtain ss where ss: "merging nxt m ss" "\<forall>s \<in> set ss. s = []" "ms_limit m \<le> limit_idx m" "ms_idx m < none_count m"
    using assms(1) by (auto simp: stuck_def)
  let ?i = "ms_idx m"
  have i: "?i < length ss" "ss ! ?i = []"
    using ss(1,2) by (auto simp: merging_def)
  obtain m1 where t: "merge_turn nxt m = Some (m1, False)" "merging nxt m1 (ss[?i := tl (ss ! ?i)])"
      "ms_idx m1 \<le> Suc ?i" "ms_limit m1 = ms_limit m" "limit_idx m1 = Suc (limit_idx m)" "none_count m1 = Suc (none_count m)"
    by (rule merge_turn_row [OF ss(1)]) (use ss(3,4) i(2) in \<open>auto split: if_splits\<close>)
  have "ss[?i := tl (ss ! ?i)] = ss"
    using i by (metis list.sel(2) list_update_id)
  then have "stuck nxt m1"
    unfolding stuck_def using t(2-6) ss(2-4) by (intro exI [of _ ss]) auto
  then show ?thesis
    using t(1) assms(2) by simp
qed

lemma stuck_loop: "stuck nxt m \<Longrightarrow> merge_loop nxt m = None"
proof (rule ccontr)
  assume "stuck nxt m" "merge_loop nxt m \<noteq> None"
  then obtain m' where l: "merge_loop nxt m = Some m'"
    by auto
  have "\<not> stuck nxt m"
  proof (rule merge_loop.raw_induct [where P = "\<lambda>nxt m m'. \<not> stuck nxt m", OF _ l], goal_cases)
    case (1 rec nxt m m')
    then obtain m1 stop where t: "merge_turn nxt m = Some (m1, stop)"
      by (auto simp: bind_eq_Some_conv)
    then show ?case
      using 1 stuck_turn [OF _ t] by (auto split: if_splits)
  qed
  then show False
    using \<open>stuck nxt m\<close> by simp
qed

text \<open>Two shards, the first with three rows more: until the second ends.\<close>

lemma merge_two_rounds:
  assumes "merging nxt m [xs, ys]" "aligned m" "ms_idx m = 0" "none_count m = 0" "length xs = k + 3" "length ys = k"
    "limit_idx m + 2 * k = 196"
  shows "\<exists>m' xs'. merge_loop nxt m = merge_loop nxt m' \<and> merging nxt m' [xs', []] \<and> aligned m' \<and> ms_idx m' = 0 \<and>
     none_count m' = 0 \<and> length xs' = 3 \<and> limit_idx m' = 196 \<and> length (ms_buf m') = length (ms_buf m) + 2 * k"
  using assms
proof (induction k arbitrary: m xs ys)
  case 0
  then show ?case
    by (intro exI [of _ m] exI [of _ xs]) simp
next
  case (Suc k)
  have lim: "ms_limit m = 200"
    using Suc.prems(1,2) by (simp add: aligned_def merging_def)
  obtain x xs1 y ys1 where xy: "xs = x # xs1" "ys = y # ys1"
    using Suc.prems(5,6) by (metis Suc_length_conv add_Suc)
  obtain m1 where m1: "merging nxt m1 [xs1, ys1]" "aligned m1" "ms_idx m1 = 0" "none_count m1 = 0"
      "limit_idx m1 = limit_idx m + 2" "merge_loop nxt m = merge_loop nxt m1"
      "length (ms_buf m1) = length (ms_buf m) + 2"
    by (rule merge_round [OF Suc.prems(1-3)]) (use Suc.prems(4,7) lim xy in \<open>auto simp: Let_def split: if_splits\<close>)
  then show ?case
    using Suc.IH [OF m1(1-4)] Suc.prems(5-7) xy by auto
qed

text \<open>Two shards with 101 and 98 rows: the hundredth round reaches the count of ended streams and the
  limit of the batch together, only the former is reset, and the call for the next batch never
  returns (the last row of the first shard is never delivered).
\<close>

lemma merge_hangs:
  fixes nxt :: "('s, 'i) await"
  assumes "delivers nxt s1 xs" "delivers nxt s2 ys" "length xs = 101" "length ys = 98"
  shows "\<exists>m chunk. merge_next nxt (merge_set_state (MergeStream_new [s1, s2] 2) MergeRow) = Some (m, Some chunk) \<and>
    length chunk = 198 \<and> merge_next nxt m = None"
proof -
  let ?m = "merge_set_state (MergeStream_new [s1, s2] 2) MergeRow :: ('s, 'i) MergeStream"
  have m: "merging nxt ?m [xs, ys]" "aligned ?m" "ms_idx ?m = 0" "ms_buf ?m = []"
    using at_rest_start [of nxt "[s1, s2]" "[xs, ys]"] assms(1,2) by (simp_all add: at_rest_def numeral_2_eq_2)
  obtain m1 xs1 where m1: "merge_loop nxt ?m = merge_loop nxt m1" "merging nxt m1 [xs1, []]" "aligned m1" "ms_idx m1 = 0"
      "none_count m1 = 0" "length xs1 = 3" "limit_idx m1 = 196" "length (ms_buf m1) = 196"
    using merge_two_rounds [OF m(1-3), of 98] assms(3,4) m(4) by (auto simp: merge_set_state_def MergeStream_new_def)
  obtain a b c where xs1: "xs1 = [a, b, c]"
    using m1(6) by (auto simp: length_Suc_conv numeral_3_eq_3)
  have lim: "ms_limit m1 = 200"
    using m1(2,3) by (simp add: aligned_def merging_def)
  obtain m2 where m2: "merge_loop nxt m1 = merge_loop nxt m2" "merging nxt m2 [[b, c], []]" "aligned m2" "ms_idx m2 = 0"
      "none_count m2 = 1" "limit_idx m2 = 198" "length (ms_buf m2) = 197" "ms_limit m2 = 200"
    by (rule merge_round [OF m1(2-4)]) (use m1(5,7,8) lim xs1 in \<open>auto simp: Let_def split: if_splits\<close>)
  obtain m3 where m3: "merge_loop nxt m2 = Some m3" "merging nxt m3 [[c], []]" "aligned m3" "ms_idx m3 = 0"
      "none_count m3 = 0" "limit_idx m3 = 200" "length (ms_buf m3) = 198" "ms_limit m3 = 200"
    by (rule merge_round [OF m2(2-4)]) (use m2(5-8) in \<open>auto simp: Let_def split: if_splits\<close>)
  let ?m4 = "m3\<lparr>ms_buf := []\<rparr>"
  have r4: "merging nxt ?m4 [[c], []]" "aligned ?m4" "ms_idx ?m4 = 0"
    using m3(2-4) by (simp_all add: merging_def aligned_def)
  obtain m5 where m5: "merge_loop nxt ?m4 = merge_loop nxt m5" "merging nxt m5 [[], []]" "ms_idx m5 = 0"
      "none_count m5 = 1" "limit_idx m5 = 202" "ms_limit m5 = 200"
    by (rule merge_round [OF r4]) (use m3(5,6,8) in \<open>auto simp: Let_def split: if_splits\<close>)
  then have "stuck nxt m5"
    unfolding stuck_def by (intro exI [of _ "[[], []]"]) simp
  then have "merge_next nxt ?m4 = None"
    using m5(1) stuck_loop [of nxt m5] by (simp add: merge_next_def)
  moreover have "merge_next nxt ?m = Some (?m4, Some (ms_buf m3))"
    using m1(1) m2(1) m3(1,7) by (auto simp: merge_next_def)
  ultimately show ?thesis
    using m3(7) by blast
qed

lemma merge_hangs_witness:
  "\<exists>m chunk. merge_next list_next (merge_set_state (MergeStream_new [replicate 101 (1 :: nat), replicate 98 2] 2) MergeRow) =
     Some (m, Some chunk) \<and> length chunk = 198 \<and> merge_next list_next m = None"
  using merge_hangs [OF list_next_delivers list_next_delivers, of "replicate 101 (1 :: nat)" "replicate 98 2"] by simp

end
