(* ===== verification/Ast.thy ===== *)
theory Ast
  imports Strings
begin

section \<open>Syntax trees of SQL statements\<close>

text \<open>
  The syntax trees the parser builds for queries and data changes,
  \<open>parser/mysql/src/ast/dml.rs\<close> and \<open>base.rs\<close>, and the visitor that walks them,
  \<open>Visitor::visit\<close> with a \<open>Transformer\<close> of \<open>api.rs\<close>.  The parser itself is generated from
  a grammar and is not part of the model.

  The Rust types are mutually recursive through boxes.  Here a type that occurs inside an
  expression or a query takes the expressions \<open>'e\<close> and the queries \<open>'s\<close> in it as type
  parameters; \<open>SelectStmt\<close> and \<open>Expr\<close> close the recursion.  A structure is a datatype with one
  constructor where it contains expressions, and a record otherwise.  A \<open>Span\<close> is a range of
  bytes of the statement.

  The only transformer of the program collects the metadata of a statement and changes no
  node, so the visitor passes nodes by value.
\<close>


subsection \<open>Leaves\<close>

record Span =
  span_start :: nat
  span_end :: nat

definition span_len :: "Span \<Rightarrow> nat" where
  "span_len s = span_end s - span_start s"

datatype Op =
    OpEQ | OpASSIGN_EQ | OpNE | OpGT | OpGE | OpLT | OpLE | OpSHIFT_LEFT | OpSHIFT_RIGHT | OpOR | OpBIT_OR
  | OpAND | OpBIT_AND | OpPLUS | OpMINUS | OpMUL | OpDIV | OpMOD | OpBIT_XOR | OpNOT | OpNEG

fun Op_format :: "Op \<Rightarrow> string" where
  "Op_format OpASSIGN_EQ = '':=''"
| "Op_format OpEQ = ''=''"
| "Op_format OpNE = ''!=''"
| "Op_format OpGT = ''>''"
| "Op_format OpGE = ''>=''"
| "Op_format OpLT = ''<''"
| "Op_format OpLE = ''<=''"
| "Op_format OpSHIFT_LEFT = ''<<''"
| "Op_format OpSHIFT_RIGHT = ''>>''"
| "Op_format OpBIT_XOR = ''^''"
| "Op_format OpOR = ''OR''"
| "Op_format OpBIT_OR = ''|''"
| "Op_format OpAND = ''AND''"
| "Op_format OpBIT_AND = ''&''"
| "Op_format OpPLUS = ''+''"
| "Op_format OpMINUS = ''-''"
| "Op_format OpMUL = ''*''"
| "Op_format OpDIV = ''/''"
| "Op_format OpMOD = ''%''"
| "Op_format OpNOT = ''NOT''"
| "Op_format OpNEG = ''~''"

datatype SqlValue =
    VText Span string
  | VTextN Span string
  | VIdent Span string bool
  | VTableIdent Span string string "string option"
  | VSelectVarIdent Span string bool
  | VNum Span string bool
  | VHexNum Span string
  | VFloatNum Span string bool
  | VBinNum Span string
  | VTrue
  | VFalse
  | VNull
  | VDefaultIdent
  | VError
  | VDefault Span SqlValue

fun Value_format :: "SqlValue \<Rightarrow> string" where
  "Value_format (VText _ v) = v"
| "Value_format (VTextN _ v) = v"
| "Value_format (VIdent _ v _) = v"
| "Value_format (VTableIdent _ field tbl schema) =
     (case schema of Some s \<Rightarrow> s | None \<Rightarrow> []) @ tbl @ ''.'' @ field"
| "Value_format (VSelectVarIdent _ v is_at) = (if is_at then ''@'' @ v else v)"
| "Value_format (VNum _ v sg) = (if sg then ''-'' @ v else v)"
| "Value_format (VFloatNum _ v sg) = (if sg then ''-'' @ v else v)"
| "Value_format (VHexNum _ v) = v"
| "Value_format (VBinNum _ v) = v"
| "Value_format VTrue = ''true''"
| "Value_format VFalse = ''false''"
| "Value_format VNull = ''NULL''"
| "Value_format VDefaultIdent = ''DEFAULT''"
| "Value_format VError = ''ERROR''"
| "Value_format (VDefault _ v) = Value_format v"

record TableIdent =
  ti_span :: Span
  ti_schema :: "string option"
  ti_name :: string

record TableWild =
  tw_span :: Span
  tw_schema :: "string option"
  tw_table :: string

record SingleTable =
  st_span :: Span
  st_table_name :: TableIdent
  st_partition_names :: "string list"
  st_alias_name :: "string option"
  st_index_hints :: "string option"
  st_is_parens :: bool

record LimitOption =
  lo_span :: Span
  lo_opt :: string

record LimitClause =
  lc_span :: Span
  lc_opts :: "LimitOption list"
  lc_offset :: bool

record WindowDef =
  wd_span :: Span
  wd_name :: string
  wd_spec :: string

record WindowClause =
  wn_span :: Span
  wn_defs :: "WindowDef list"

datatype QuerySpecOpt =
    StraightJoin | HighPriority | LowPriority | Delayed | Distinct | Distinctrow | SqlSmallResult
  | SqlBigResult | SqlBufferResult | SqlCache | SqlNoCache | SqlCalcFoundRows | AllOpt

datatype UnionOpt = UnionDistinct | UnionAll

datatype LockStrength = LockUpdate | LockShare | LockInShare

datatype LockedRowAction = SkipLocked | NoWait

record LockClause =
  lk_strength :: LockStrength
  lk_action :: "LockedRowAction option"
  lk_tables :: "string list"

record CharsetName =
  cn_span :: Span
  cn_set_type :: string
  cn_name :: string

record FieldTerm =
  ft_span :: Span
  ft_term_type :: string
  ft_value :: string

record LineTerm =
  lt_span :: Span
  lt_term_type :: string
  lt_value :: string

record FieldTermColumn =
  fc_span :: Span
  fc_column_type :: string
  fc_terms :: "FieldTerm list"

record OutFile =
  of_span :: Span
  of_name :: string
  of_character_set :: "CharsetName option"
  of_field_term :: "FieldTermColumn option"
  of_line_term :: "LineTerm list"

record DumpFile =
  df_span :: Span
  df_name :: string

datatype IntoClause = IntoOutFile OutFile | IntoDumpFile DumpFile | IntoVars "SqlValue list"

datatype AggFuncName =
    AggFnAvg | AggFnCount | AggFnBitAnd | AggFnBitOr | AggFnBitXor | AggFnJsonArrayAgg | AggFnJsonObjectAgg
  | AggFnStCollect | AggFnMin | AggFnMax | AggFnVariance | AggFnStd | AggFnStdDev | AggFnStdDevPop
  | AggFnStdDevSamp | AggFnVarPop | AggFnVarSamp | AggFnSum | AggFnGroupConcat


subsection \<open>Clauses\<close>

datatype 'e OrderExpr = OrderExpr (oe_span: Span) (oe_expr: 'e) (oe_direction: "string option")

datatype 'e OrderClause = OrderClause (oc_span: Span) (oc_orders: "'e OrderExpr list")

datatype 'e WhereClause = WhereClause (wc_span: Span) (wc_expr: 'e)

datatype 'e GroupClause = GroupClause (gc_span: Span) (gc_exprs: "'e list") (gc_olap: bool)

datatype 'e HavingClause = HavingClause (hc_span: Span) (hc_expr: 'e)

datatype 'e ItemExpr = ItemExpr (ie_span: Span) (ie_expr: 'e) (ie_alias_name: "string option")

datatype 'e Item = ItemWild Span | ItemTableWild TableWild | ItemExprItem "'e ItemExpr"

datatype 'e Items = Items (it_span: Span) (it_items: "'e Item list")

datatype 'e TableFunc =
  TableFunc (tf_span: Span) (tf_expr: 'e) (tf_text: SqlValue) (tf_columns: "string list") (tf_alias: "string option")

datatype 's DerivedTable =
  DerivedTable (dt_span: Span) (dt_subquery: 's) (dt_alias: "string option") (dt_columns: "SqlValue list")
    (dt_lateral: bool) (dt_is_parens: bool)

datatype ('e, 's) TableRef =
    TableFactorRef "('e, 's) TableFactor"
  | JoinedTableRef "('e, 's) JoinedTable"
  | OjTableFactor "('e, 's) TableFactor"
  | OjJoinedTable "('e, 's) JoinedTable"
and ('e, 's) TableFactor =
    SingleTableFactor SingleTable
  | SingleTableParens SingleTable
  | DerivedTableFactor "'s DerivedTable"
  | JoinedTableParens "('e, 's) JoinedTable"
  | TableRefsParens "('e, 's) TableRef list"
  | TableFuncFactor "'e TableFunc"
and ('e, 's) JoinedTable =
  JoinedTable Span "('e, 's) TableRef" string "('e, 's) TableRef" "'e option" "string list"

datatype ('e, 's) FromClause = Dual | TableRefs "('e, 's) TableRef list"

datatype 's CommonTableExpr =
  CommonTableExpr (ct_span: Span) (ct_ident: string) (ct_columns: "SqlValue list") (ct_subquery: 's)

datatype 's WithClause =
  WithClause (wt_span: Span) (wt_with_exprs: "'s CommonTableExpr list") (wt_recursive: bool)

datatype 's WithQuery = WithQuery (wq_with_clause: "'s WithClause") (wq_expr_body: 's)


subsection \<open>Queries and expressions\<close>

datatype ('e, 's) Query =
  Query (q_span: Span) (q_opts: "QuerySpecOpt list") (q_items: "'e Items") (q_into: "IntoClause option")
    (q_from: "('e, 's) FromClause option") (q_where: "'e WhereClause option") (q_group: "'e GroupClause option")
    (q_having: "'e HavingClause option") (q_window: "WindowClause option") (q_union_opt: "UnionOpt option")
    (q_union_query: "'s option") (q_locks: "LockClause list") (q_order: "'e OrderClause option")
    (q_limit: "LimitClause option")

datatype ('e, 's) SubQuery =
  SubQuery (sq_span: Span) (sq_query: 's) (sq_union_opt: "UnionOpt option") (sq_union_query: "'s option")
    (sq_into: "IntoClause option") (sq_order: "'e OrderClause option") (sq_limit: "LimitClause option")

datatype 'e SelectStmt =
    SelectQuery "('e, 'e SelectStmt) Query"
  | SelectSubQuery "('e, 'e SelectStmt) SubQuery"
  | SelectWith "'e SelectStmt WithQuery"
  | ValueConstructor "'e list list"
  | ExplicitTable TableIdent
  | SelectNone

datatype 'e AggExpr =
  AggExpr (ag_span: Span) (ag_name: AggFuncName) (ag_distinct: bool) (ag_exprs: "'e list")
    (ag_group_concat_distinct: "string option") (ag_gorder: "'e OrderExpr list") (ag_separator: "string option")

datatype 'e WhenExpr = WhenExpr Span 'e 'e

datatype (plugins only: code size) Expr =
    BinaryOperationExpr Span Op Expr Expr
  | UnaryOperationExpr Span Expr Op
  | IsTruthExpr Span Expr bool bool
  | IsUnknownExpr Span Expr bool
  | IsNullExpr Span Expr bool
  | InExpr Span Expr bool "Expr list"
  | MemberOfExpr Span Expr Expr
  | BetweenExpr Span bool Expr Expr Expr
  | SoundsExpr Span Expr Expr
  | LikeExpr Span Expr bool Expr "Expr option"
  | RegexpExpr Span Expr Expr bool
  | FuncCallExpr Span string "Expr list"
  | VarExpr string
  | ValuesExpr SqlValue
  | SimpleIdentExpr SqlValue
  | LiteralExpr SqlValue
  | RowExpr "Expr list"
  | MatchAgainstExpr Span "string list" Expr "string list"
  | BinaryExpr Expr
  | CastExpr Span Expr string
  | CaseExpr Span "Expr option" "Expr WhenExpr list" "Expr option"
  | SubQueryExpr "Expr SelectStmt"
  | CompSubQueryExpr Span Expr "Expr SelectStmt" Op string
  | ExistsSubQuery "Expr SelectStmt"
  | DefaultExpr
  | TimeIntervalUnit string
  | CollateExpr Span string Expr
  | ParamMarkerExpr
  | InSumExpr Span Expr bool
  | SetFuncSpecExpr Expr
  | ExprNone
  | ExprOri string
  | ExprAggExpr "Expr AggExpr"


subsection \<open>Statements that change data\<close>

record UpdateElem =
  ue_span :: Span
  ue_var_name :: SqlValue
  ue_equal :: string
  ue_expr :: Expr

record ValuesRef =
  vr_span :: Span
  vr_alias_name :: string
  vr_derived_columns :: "SqlValue list"

record InsUpdates =
  iu_span :: Span
  iu_modifers :: string
  iu_updates :: "UpdateElem list"

record RowValue =
  rv_span :: Span
  rv_values :: "Expr list"

datatype ValOrVals = ValueWord | ValuesWord

record InsertVals =
  iv_span :: Span
  iv_val_ident :: ValOrVals
  iv_values :: "RowValue list"

datatype InsertIdent = InsertIdentValue SqlValue | InsertTableWild TableWild

record InsertFromConstruct =
  if_span :: Span
  if_values :: InsertVals
  if_is_parens :: bool
  if_fields :: "InsertIdent list"

record InsertQueryExpr =
  iq_span :: Span
  iq_query :: "Expr SelectStmt"
  iq_fields :: "InsertIdent list"
  iq_is_parens :: bool

datatype InsertLockOpt = InsertLowPriority | InsertDelayed | InsertHighPriority | InsertLockNone

record InsertStmt =
  in_span :: Span
  in_lock :: InsertLockOpt
  in_ignore :: bool
  in_into :: bool
  in_table_name :: TableIdent
  in_partition_names :: "string list"
  in_is_set :: bool
  in_from_construct :: "InsertFromConstruct option"
  in_values_ref :: "ValuesRef option"
  in_ins_updates :: "InsUpdates option"
  in_updates :: "UpdateElem list"
  in_query_expr :: "InsertQueryExpr option"

record UpdateStmt =
  up_span :: Span
  up_with :: "Expr SelectStmt WithClause option"
  up_low_priority :: bool
  up_ignore :: bool
  up_table_refs :: "(Expr, Expr SelectStmt) TableRef list"
  up_updates :: "UpdateElem list"
  up_where :: "Expr WhereClause option"
  up_order :: "Expr OrderClause option"
  up_simple_limit :: "LimitOption option"

record DeleteStmt =
  de_span :: Span
  de_with :: "Expr SelectStmt WithClause option"
  de_quick :: bool
  de_ignore :: bool
  de_low_priority :: bool
  de_is_using :: bool
  de_table_name :: "TableIdent option"
  de_alias_name :: "string option"
  de_partition_names :: "string list"
  de_where :: "Expr WhereClause option"
  de_order :: "Expr OrderClause option"
  de_simple_limit :: "LimitOption option"
  de_table_alias_refs :: "string list"
  de_table_refs :: "(Expr, Expr SelectStmt) TableRef list"


subsection \<open>SET statements\<close>

datatype ExprOrDefault =
    SetExpr Expr | SetDefault | SetOn | SetAll | SetBinary | SetRow | SetSystem

record SetVariable =
  sv_var :: string
  sv_value :: ExprOrDefault

record SetUserVar =
  su_var :: string
  su_expr :: Expr

datatype SetVarIdentType = VarPersist | VarPersistOnly | VarGlobal | VarLocal | VarSession | VarNone

record SetSystemVar =
  ss_opt_var :: SetVarIdentType
  ss_var :: string
  ss_value :: ExprOrDefault

datatype NewCharset = NewCharsetName string | NewCharsetDefault | NewCharsetBinary

record SetCharset =
  sc_charset :: string
  sc_new_value :: NewCharset

record SetNames =
  sn_charset_name :: "string option"
  sn_collate :: "string option"

datatype SetOpts =
    SetOptVariable SetVariable | SetOptUserVar SetUserVar | SetOptSystemVar SetSystemVar | SetOptCharset SetCharset
  | SetOptNames SetNames

datatype OptType = OptGlobal | OptPersist | OptPersistOnly | OptLocal | OptSession

record OptValueType =
  ov_opt_type :: OptType
  ov_set_var :: SetVariable

datatype OptValue = OptValueTyped OptValueType | OptValueSetOpts SetOpts

record OptValues =
  os_opt :: SetOpts
  os_values :: "OptValue list"

datatype TransactionType = TransReadOnly | TransReadWrite

datatype IsolationType = ReadUncommitted | ReadCommitted | RepeatableRead | Serializable

record Transaction =
  tx_mode :: "TransactionType option"
  tx_isolation_level :: "IsolationType option"

record FollowingOptTypeEq =
  fe_opt_type :: SetVariable
  fe_values :: "OptValue list"

datatype FollowingOptType = FollowingTypeEq FollowingOptTypeEq | FollowingTransaction Transaction

record OptTypeFollowing =
  fo_opt_type :: OptType
  fo_following :: FollowingOptType

datatype SetOptValues =
    SetOptValuesValues OptValues | SetTransaction Transaction | SetOptTypeFollowing OptTypeFollowing

text \<open>The statements; \<open>OtherStmt\<close> stands for the variants whose content nothing reads
  (\<open>PREPARE\<close>, \<open>SHOW\<close>, \<open>CREATE\<close> and the like).\<close>

datatype SqlStmt =
    SelectStmt "Expr SelectStmt"
  | InsertStmt InsertStmt
  | UpdateStmt UpdateStmt
  | DeleteStmt DeleteStmt
  | Set SetOptValues
  | BeginStmt
  | Start
  | Commit
  | Rollback
  | OtherStmt nat


subsection \<open>Visitors\<close>

text \<open>The nodes a transformer sees; the generated enumeration has one variant for every type
  of the syntax tree, here are those the visitor reaches; the variants for the parts of a
  \<open>SET\<close> statement are grouped.\<close>

datatype (plugins only: size) SetNode =
    NodeSetOptValues SetOptValues
  | NodeOptValues OptValues
  | NodeOptValue OptValue
  | NodeOptValueType OptValueType
  | NodeOptType OptType
  | NodeSetOpts SetOpts
  | NodeSetVariable SetVariable
  | NodeSetUserVar SetUserVar
  | NodeSetSystemVar SetSystemVar
  | NodeSetVarIdentType SetVarIdentType
  | NodeSetCharset SetCharset
  | NodeNewCharset NewCharset
  | NodeSetNames SetNames
  | NodeExprOrDefault ExprOrDefault
  | NodeTransaction Transaction
  | NodeTransactionType TransactionType
  | NodeIsolationType IsolationType
  | NodeOptTypeFollowing OptTypeFollowing
  | NodeFollowingOptType FollowingOptType
  | NodeFollowingOptTypeEq FollowingOptTypeEq

datatype (plugins only: size) Node =
    NodeSelectStmt "Expr SelectStmt"
  | NodeQuery "(Expr, Expr SelectStmt) Query"
  | NodeSubQuery "(Expr, Expr SelectStmt) SubQuery"
  | NodeWithQuery "Expr SelectStmt WithQuery"
  | NodeWithClause "Expr SelectStmt WithClause"
  | NodeCommonTableExpr "Expr SelectStmt CommonTableExpr"
  | NodeItems "Expr Items"
  | NodeItem "Expr Item"
  | NodeItemExpr "Expr ItemExpr"
  | NodeTableWild TableWild
  | NodeIntoClause IntoClause
  | NodeOutFile OutFile
  | NodeDumpFile DumpFile
  | NodeFromClause "(Expr, Expr SelectStmt) FromClause"
  | NodeTableRef "(Expr, Expr SelectStmt) TableRef"
  | NodeTableFactor "(Expr, Expr SelectStmt) TableFactor"
  | NodeJoinedTable "(Expr, Expr SelectStmt) JoinedTable"
  | NodeSingleTable SingleTable
  | NodeDerivedTable "Expr SelectStmt DerivedTable"
  | NodeTableFunc "Expr TableFunc"
  | NodeWhereClause "Expr WhereClause"
  | NodeGroupClause "Expr GroupClause"
  | NodeHavingClause "Expr HavingClause"
  | NodeWindowClause WindowClause
  | NodeWindowDef WindowDef
  | NodeOrderClause "Expr OrderClause"
  | NodeOrderExpr "Expr OrderExpr"
  | NodeLimitClause LimitClause
  | NodeLockClause LockClause
  | NodeExpr Expr
  | NodeWhenExpr "Expr WhenExpr"
  | NodeAggExpr "Expr AggExpr"
  | NodeCompSubQueryExpr Expr
  | NodeValue SqlValue
  | NodeInsertStmt InsertStmt
  | NodeInsertFromConstruct InsertFromConstruct
  | NodeInsertVals InsertVals
  | NodeRowValue RowValue
  | NodeInsertIdent InsertIdent
  | NodeInsertQueryExpr InsertQueryExpr
  | NodeValuesRef ValuesRef
  | NodeInsUpdates InsUpdates
  | NodeUpdateElem UpdateElem
  | NodeUpdateStmt UpdateStmt
  | NodeDeleteStmt DeleteStmt
  | NodeSet SetNode

end
