(* ===== verification/Session.thy ===== *)
theory Session
  imports Transactions Columns Plugins Packets Ast
begin

section \<open>Sessions\<close>

text \<open>
  What a client session of the proxy does between receiving a command and answering it,
  \<open>runtime/mysql/src/server/server.rs\<close> (the inner functions; the handlers are in the theory
  of the service), with the types of \<open>runtime/mysql/src/mysql.rs\<close>.

  The environment of a session is the record \<open>env\<close>: cryptography, the backends, the socket
  of the client, the queue of the pool, regular expressions, random numbers, the SQL parser
  (a generated table), the LRU cache and the sharding rewriter are parameters.  The context
  \<open>ReqContext\<close> is the state; the pool, the routing strategy, the cache and the plugins in it
  are shared with the other sessions, and the record holds their current values.  Bytes that
  could not be written to the client stay in \<open>rq_wbuf\<close>.

  A panic is \<open>None\<close>, and so is waiting for ever.  A connection that goes out of scope is put
  back into the pool, written out as \<open>drop_conn\<close>.
\<close>


subsection \<open>Rewritten statements\<close>

datatype FieldAggFunc = AggAvg string string Span | AggMin | AggMax | AggCount | AggSum | AggNone

record FieldMetaIdent =
  fm_span :: Span
  fm_name :: string
  agg_func :: FieldAggFunc

datatype DataSource = DsEndpoint Endpoint | DsNodeGroup string | DsNone

record ShardingIdx =
  si_table :: "u64 option"
  si_database :: "u64 option"

record DataSourceShardingIdx =
  ds :: DataSource
  ds_shard :: ShardingIdx
  ds_column :: ShardingColumn

record ShardingRewriteResult =
  ds_idx :: DataSourceShardingIdx
  changes :: "(u8 \<times> ChangeTargetMeta list) list"
  target_sql :: string

record ShardingRewriteOutput =
  results :: "ShardingRewriteResult list"
  agg_fields :: "(u8 \<times> FieldMetaIdent list) list"

definition no_outputs :: ShardingRewriteOutput where
  "no_outputs = \<lparr>results = [], agg_fields = []\<rparr>"


subsection \<open>Environment and context\<close>

record ('w, 'k, 'q, 'x, 'r, 'l, 's) env =
  env_crypto :: "'k crypto"
  env_backend :: "'w backend"
  env_client :: "'w exchange"
  env_queue :: "('q, ClientConn) queue_ops"
  env_regex :: "'x regex_ops"
  env_gen :: "'r gen"
  env_seeds :: "nat \<Rightarrow> nat \<Rightarrow> 'r"
  env_parse :: "string \<Rightarrow> string list + SqlStmt list"
  env_lru_get :: "'l \<Rightarrow> string \<Rightarrow> 'l \<times> SqlStmt list option"
  env_lru_put :: "'l \<Rightarrow> string \<Rightarrow> SqlStmt list \<Rightarrow> 'l"
  env_rewrite :: "'s \<Rightarrow> string \<Rightarrow> SqlStmt \<Rightarrow> string option \<Rightarrow> ('s \<times> (string + ShardingRewriteOutput)) option"
  env_endpoints :: "'s \<Rightarrow> Endpoint list"
  env_lossy :: "bytes \<Rightarrow> bytes"

record ('q, 'x, 'r, 'l, 's) ReqContext =
  fsm :: TransFsm
  route_strategy :: "('r, 'x) RouteStrategy"
  rq_pool :: "('q, ClientConn) Pool"
  ast_cache :: 'l
  plugin :: "'x PluginPhase option"
  concurrency_control_rule_idx :: "nat option"
  rq_framed :: "ServerHandshakeCodec PacketCodec Framed"
  rq_wbuf :: bytes
  rewriter :: "'s option"
  rewrite_outputs :: ShardingRewriteOutput
  stmt_cache :: StmtCache
  rq_stmt_id :: u32

type_synonym ('q, 'x, 'r, 'l, 's, 'a, 'w) reply =
  "(('q, 'x, 'r, 'l, 's) ReqContext \<times> (ErrorKind + 'a) \<times> 'w) option"

definition get_session :: "('q, 'x, 'r, 'l, 's) ReqContext \<Rightarrow> ServerHandshakeCodec" where
  "get_session cx = session (codec (rq_framed cx))"

definition session_mut ::
    "(ServerHandshakeCodec \<Rightarrow> ServerHandshakeCodec) \<Rightarrow> ('q, 'x, 'r, 'l, 's) ReqContext \<Rightarrow> ('q, 'x, 'r, 'l, 's) ReqContext" where
  "session_mut g cx =
     cx\<lparr>rq_framed := (rq_framed cx)\<lparr>codec := (codec (rq_framed cx))\<lparr>session := g (get_session cx)\<rparr>\<rparr>\<rparr>"

text \<open>\<open>req.framed.codec_mut().encode(item, &mut buf)\<close>.\<close>

definition codec_encode ::
    "('q, 'x, 'r, 'l, 's) ReqContext \<Rightarrow> PacketSend \<Rightarrow> bytes \<Rightarrow> (('q, 'x, 'r, 'l, 's) ReqContext \<times> bytes) option" where
  "codec_encode cx item dst =
     do { (c, dst) \<leftarrow> PacketCodec_encode (codec (rq_framed cx)) item dst;
          Some (cx\<lparr>rq_framed := (rq_framed cx)\<lparr>codec := c\<rparr>\<rparr>, dst) }"

text \<open>\<open>req.framed.send(item).await\<close>.\<close>

definition client_send ::
    "('w, 'k, 'q, 'x, 'r, 'l, 's) env \<Rightarrow> ('q, 'x, 'r, 'l, 's) ReqContext \<Rightarrow> PacketSend \<Rightarrow> 'w \<Rightarrow>
     (('q, 'x, 'r, 'l, 's) ReqContext \<times> (ProtocolError + unit) \<times> 'w) option" where
  "client_send E cx item w =
     do { (c, out) \<leftarrow> PacketCodec_encode (codec (rq_framed cx)) item (rq_wbuf cx);
          (case framed_send (env_client E) (rq_framed cx) c out w of
             (Inl e, w) \<Rightarrow> Some (cx\<lparr>rq_framed := (rq_framed cx)\<lparr>codec := c\<rparr>, rq_wbuf := out\<rparr>, Inl e, w)
           | (Inr f, w) \<Rightarrow> Some (cx\<lparr>rq_framed := f, rq_wbuf := []\<rparr>, Inr (), w)) }"

definition send_packet ::
    "('w, 'k, 'q, 'x, 'r, 'l, 's) env \<Rightarrow> ('q, 'x, 'r, 'l, 's) ReqContext \<Rightarrow> bytes \<Rightarrow> 'w \<Rightarrow> ('q, 'x, 'r, 'l, 's, unit, 'w) reply" where
  "send_packet E cx packet w =
     do { (cx, r, w) \<leftarrow> client_send E cx (Encode (drop 4 packet)) w; Some (cx, map_sum Protocol id r, w) }"

text \<open>A checked \<open>data[4..]\<close>.\<close>

definition payload_of :: "bytes \<Rightarrow> bytes option" where
  "payload_of data = (if length data < 4 then None else Some (drop 4 data))"

text \<open>A connection that goes out of scope.\<close>

definition drop_conn ::
    "('w, 'k, 'q, 'x, 'r, 'l, 's) env \<Rightarrow> ('q, 'x, 'r, 'l, 's) ReqContext \<Rightarrow> ClientConn option \<Rightarrow>
     ('q, 'x, 'r, 'l, 's) ReqContext option" where
  "drop_conn E cx conn =
     do { p \<leftarrow> PoolConn_drop (mysql_conn (env_crypto E) (env_backend E)) (env_queue E) (rq_pool cx) conn;
          Some (cx\<lparr>rq_pool := p\<rparr>) }"

definition put_conn ::
    "('w, 'k, 'q, 'x, 'r, 'l, 's) env \<Rightarrow> ('q, 'x, 'r, 'l, 's) ReqContext \<Rightarrow> ClientConn \<Rightarrow>
     ('q, 'x, 'r, 'l, 's) ReqContext option" where
  "put_conn E cx conn =
     do { (fs, p) \<leftarrow> fsm_put_conn (env_crypto E) (env_backend E) (env_queue E) (fsm cx) (rq_pool cx) conn;
          Some (cx\<lparr>fsm := fs, rq_pool := p\<rparr>) }"

definition fsm_trigger_event ::
    "('q, 'x, 'r, 'l, 's) ReqContext \<Rightarrow> TransEventName \<Rightarrow> ('q, 'x, 'r, 'l, 's) ReqContext \<times> bool" where
  "fsm_trigger_event cx e = (let (fs, b) = trigger (fsm cx) e in (cx\<lparr>fsm := fs\<rparr>, b))"

definition route_endpoint ::
    "('w, 'k, 'q, 'x, 'r, 'l, 's) env \<Rightarrow> ('q, 'x, 'r, 'l, 's) ReqContext \<Rightarrow> RouteInputTyp \<Rightarrow> string \<Rightarrow>
     (('q, 'x, 'r, 'l, 's) ReqContext \<times> Endpoint) option" where
  "route_endpoint E cx input_typ raw_sql =
     do { (st, ep) \<leftarrow> route (env_regex E) (env_gen E) (env_seeds E) input_typ raw_sql (route_strategy cx);
          Some (cx\<lparr>route_strategy := st\<rparr>, ep) }"

text \<open>\<open>from_utf8(payload).unwrap().trim_matches(char::from(0))\<close>.\<close>

definition payload_text :: "bytes \<Rightarrow> string option" where
  "payload_text payload = map_option trim_nul (from_utf8 payload)"


subsection \<open>Connections\<close>

definition fsm_get_new_conn ::
    "('w, 'k, 'q, 'x, 'r, 'l, 's) env \<Rightarrow> ('q, 'x, 'r, 'l, 's) ReqContext \<Rightarrow> string \<Rightarrow> RouteInputTyp \<Rightarrow> SessionAttr list \<Rightarrow> 'w \<Rightarrow>
     ('q, 'x, 'r, 'l, 's, ClientConn, 'w) reply" where
  "fsm_get_new_conn E cx raw_sql input_typ attrs w =
     do { (cx, ep) \<leftarrow> route_endpoint E cx input_typ raw_sql;
          let p = set_factory (rq_pool cx) (addr ep) (with_opts (user ep) (password ep) (addr ep));
          (p, r, w) \<leftarrow> check_get_conn (env_crypto E) (env_backend E) (env_queue E) p (addr ep) attrs w;
          Some (cx\<lparr>rq_pool := p\<rparr>, r, w) }"

definition fsm_trigger ::
    "('w, 'k, 'q, 'x, 'r, 'l, 's) env \<Rightarrow> ('q, 'x, 'r, 'l, 's) ReqContext \<Rightarrow> TransEventName \<Rightarrow> RouteInputTyp \<Rightarrow> string \<Rightarrow> 'w \<Rightarrow>
     ('q, 'x, 'r, 'l, 's, ClientConn, 'w) reply" where
  "fsm_trigger E cx state_name input_typ raw_sql w =
     do { attrs \<leftarrow> build_conn_attrs (get_session cx);
          let (cx, is_get_conn) = fsm_trigger_event cx state_name;
          if is_get_conn then fsm_get_new_conn E cx raw_sql input_typ attrs w
          else do {
            (cx, ep) \<leftarrow> route_endpoint E cx input_typ raw_sql;
            (fs, p, r, w) \<leftarrow> fsm_get_conn_with_endpoint (env_crypto E) (env_backend E) (env_queue E) (fsm cx) (rq_pool cx)
              ep attrs w;
            Some (cx\<lparr>fsm := fs, rq_pool := p\<rparr>, r, w) } }"


subsection \<open>Classifying a statement\<close>

definition get_ast ::
    "('w, 'k, 'q, 'x, 'r, 'l, 's) env \<Rightarrow> ('q, 'x, 'r, 'l, 's) ReqContext \<Rightarrow> string \<Rightarrow>
     (('q, 'x, 'r, 'l, 's) ReqContext \<times> (ErrorKind + SqlStmt list)) option" where
  "get_ast E cx sql =
     (let (l, try_ast) = env_lru_get E (ast_cache cx) sql;
          cx = cx\<lparr>ast_cache := l\<rparr>
      in case try_ast of
           Some stmt \<Rightarrow> Some (cx, Inr stmt)
         | None \<Rightarrow>
             (case env_parse E sql of
                Inl err \<Rightarrow> (case err of [] \<Rightarrow> None | e # _ \<Rightarrow> Some (cx, Inl (ParserError e)))
              | Inr stmt \<Rightarrow> Some (cx\<lparr>ast_cache := env_lru_put E (ast_cache cx) sql stmt\<rparr>, Inr stmt)))"

text \<open>The value of \<open>SET AUTOCOMMIT\<close> when it is a number or a name.\<close>

definition literal_text :: "Expr \<Rightarrow> string option" where
  "literal_text e = (case e of
     LiteralExpr v \<Rightarrow> (case v of VNum _ x _ \<Rightarrow> Some x | _ \<Rightarrow> None)
   | SimpleIdentExpr v \<Rightarrow> (case v of VIdent _ x _ \<Rightarrow> Some x | _ \<Rightarrow> None)
   | _ \<Rightarrow> None)"

definition handle_set_autocommit ::
    "('q, 'x, 'r, 'l, 's) ReqContext \<Rightarrow> ExprOrDefault \<Rightarrow> (('q, 'x, 'r, 'l, 's) ReqContext \<times> bool \<times> RouteInputTyp) option" where
  "handle_set_autocommit cx val = (case val of
     SetExpr e \<Rightarrow> map_option (\<lambda>v.
       if v = ''0'' \<or> to_upper_ascii v = ''OFF'' then
         (let (cx, is_get_conn) = fsm_trigger_event cx SetSessionEvent in (cx, is_get_conn, TransactionTyp))
       else
         (let cx = (if v = ''1'' then cx\<lparr>fsm := reset_fsm_state (fsm cx)\<rparr> else cx);
              cx = session_mut (\<lambda>s. set_autocommit s v) cx;
              cx = cx\<lparr>fsm := fsm_set_autocommit (fsm cx) v\<rparr>
          in (cx, True, StatementTyp))) (literal_text e)
   | SetOn \<Rightarrow>
       (let cx = session_mut (\<lambda>s. set_autocommit s ''ON'') cx;
            cx = cx\<lparr>fsm := reset_fsm_state (fsm_set_autocommit (fsm cx) ''ON'')\<rparr>
        in Some (cx, True, StatementTyp))
   | _ \<Rightarrow> None)"

definition handle_set_names ::
    "('q, 'x, 'r, 'l, 's) ReqContext \<Rightarrow> SetNames \<Rightarrow> (('q, 'x, 'r, 'l, 's) ReqContext \<times> bool \<times> RouteInputTyp) option" where
  "handle_set_names cx nm = map_option (\<lambda>cs.
     (let cx = session_mut (\<lambda>s. set_charset s cs) cx;
          cx = cx\<lparr>fsm := reset_fsm_state (fsm_set_charset (fsm cx) cs)\<rparr>
      in (cx, True, StatementTyp))) (sn_charset_name nm)"

definition handle_set_stmt ::
    "('q, 'x, 'r, 'l, 's) ReqContext \<Rightarrow> SetOptValues \<Rightarrow> ('q, 'x, 'r, 'l, 's) ReqContext \<times> bool \<times> RouteInputTyp" where
  "handle_set_stmt cx stmt =
     (let handled = (case stmt of
            SetOptValuesValues vals \<Rightarrow>
              (case os_opt vals of
                 SetOptNames nm \<Rightarrow> handle_set_names cx nm
               | SetOptVariable val \<Rightarrow>
                   if to_upper_ascii (sv_var val) = ''AUTOCOMMIT'' then handle_set_autocommit cx (sv_value val) else None
               | _ \<Rightarrow> None)
          | _ \<Rightarrow> None)
      in case handled of
           Some r \<Rightarrow> r
         | None \<Rightarrow> (let (cx, is_get_conn) = fsm_trigger_event cx SetSessionEvent in (cx, is_get_conn, StatementTyp)))"

text \<open>\<open>transaction_fsm::query_rewrite\<close>: what is not rewritten goes to every endpoint.\<close>

definition fsm_query_rewrite ::
    "('w, 'k, 'q, 'x, 'r, 'l, 's) env \<Rightarrow> 's \<Rightarrow> string \<Rightarrow> SqlStmt \<Rightarrow> string option \<Rightarrow> bool \<Rightarrow>
     ('s \<times> (string + ShardingRewriteOutput)) option" where
  "fsm_query_rewrite E rw raw_sql ast default_db can_rewrite =
     (let everywhere = (\<lambda>rw. (rw, Inr
            \<lparr>results = map (\<lambda>ep. \<lparr>ds_idx = \<lparr>ds = DsEndpoint ep, ds_shard = \<lparr>si_table = None, si_database = None\<rparr>,
                                             ds_column = \<lparr>sh_database = None, sh_table = None\<rparr>\<rparr>,
                                 changes = [], target_sql = raw_sql\<rparr>) (env_endpoints E rw),
             agg_fields = []\<rparr>))
      in if can_rewrite then
           do { (rw, r) \<leftarrow> env_rewrite E rw raw_sql ast default_db;
                (case r of
                   Inl e \<Rightarrow> Some (rw, Inl e)
                 | Inr outputs \<Rightarrow> Some (if results outputs \<noteq> [] then (rw, Inr outputs) else everywhere rw)) }
         else Some (everywhere rw))"

definition query_rewrite ::
    "('w, 'k, 'q, 'x, 'r, 'l, 's) env \<Rightarrow> ('q, 'x, 'r, 'l, 's) ReqContext \<Rightarrow> string \<Rightarrow>
     (('q, 'x, 'r, 'l, 's) ReqContext \<times> (ErrorKind + bool \<times> RouteInputTyp \<times> ShardingRewriteOutput)) option" where
  "query_rewrite E cx sql =
     do { (cx, r) \<leftarrow> get_ast E cx sql;
          (case r of
             Inl err \<Rightarrow>
               if rewriter cx \<noteq> None then Some (cx, Inl err)
               else let (cx, is_get_conn) = fsm_trigger_event cx QueryEvent
                    in Some (cx, Inr (is_get_conn, StatementTyp, no_outputs))
           | Inr [] \<Rightarrow> None
           | Inr (ast # _) \<Rightarrow>
               do { let (cx, is_get_conn, input, can_rewrite) = (case ast of
                      Set stmt \<Rightarrow> (let (cx, b, i) = handle_set_stmt cx stmt in (cx, b, i, False))
                    | BeginStmt \<Rightarrow> (let (cx, b) = fsm_trigger_event cx StartEvent in (cx, b, TransactionTyp, False))
                    | Start \<Rightarrow> (let (cx, b) = fsm_trigger_event cx StartEvent in (cx, b, TransactionTyp, False))
                    | Commit \<Rightarrow> (let (cx, b) = fsm_trigger_event cx CommitRollBackEvent in (cx, b, TransactionTyp, False))
                    | Rollback \<Rightarrow> (let (cx, b) = fsm_trigger_event cx CommitRollBackEvent in (cx, b, TransactionTyp, False))
                    | _ \<Rightarrow> (let (cx, b) = fsm_trigger_event cx QueryEvent in (cx, b, StatementTyp, True)));
                    (case rewriter cx of
                       Some rw \<Rightarrow>
                         do { (rw, outputs) \<leftarrow> fsm_query_rewrite E rw sql ast (get_db (get_session cx)) can_rewrite;
                              let cx = cx\<lparr>rewriter := Some rw\<rparr>;
                              (case outputs of
                                 Inl e \<Rightarrow> Some (cx, Inl (Runtime e))
                               | Inr out \<Rightarrow> Some (cx, Inr (is_get_conn, input, out))) }
                     | None \<Rightarrow> Some (cx, Inr (is_get_conn, input, no_outputs))) }) }"

definition query_inner_get_conn ::
    "('w, 'k, 'q, 'x, 'r, 'l, 's) env \<Rightarrow> ('q, 'x, 'r, 'l, 's) ReqContext \<Rightarrow> bytes \<Rightarrow> 'w \<Rightarrow>
     ('q, 'x, 'r, 'l, 's, ClientConn, 'w) reply" where
  "query_inner_get_conn E cx payload w =
     do { attrs \<leftarrow> build_conn_attrs (get_session cx);
          sql \<leftarrow> payload_text payload;
          (cx, r) \<leftarrow> query_rewrite E cx sql;
          (case r of
             Inl err \<Rightarrow> Some (cx, Inl err, w)
           | Inr (is_get_conn, input_typ, _) \<Rightarrow>
               if is_get_conn then fsm_get_new_conn E cx sql input_typ attrs w
               else do {
                 (fs, conn) \<leftarrow> fsm_get_conn (fsm cx);
                 Some (cx\<lparr>fsm := fs\<rparr>, Inr conn, w) }) }"


subsection \<open>Relaying answers\<close>

text \<open>The column definitions of a result set: at most as many as announced, fewer when the
  stream ends.\<close>

fun relay_columns ::
    "nat \<Rightarrow> ('q, 'x, 'r, 'l, 's) ReqContext \<Rightarrow> ResultsetCodec Framed \<Rightarrow> bytes \<Rightarrow>
     (('q, 'x, 'r, 'l, 's) ReqContext \<times> ResultsetCodec Framed \<times> (ProtocolError + bytes)) option" where
  "relay_columns 0 cx f out = Some (cx, f, Inr out)"
| "relay_columns (Suc n) cx f out =
     do { (f, data) \<leftarrow> ResultsetStream_next f;
          (case data of
             Some (Inr data) \<Rightarrow>
               do { payload \<leftarrow> payload_of data;
                    (cx, out) \<leftarrow> codec_encode cx (EncodeOffset payload (length out)) out;
                    relay_columns n cx f out }
           | Some (Inl e) \<Rightarrow> Some (cx, f, Inl e)
           | None \<Rightarrow> Some (cx, f, Inr out)) }"

partial_function (option) relay_rows ::
    "('q, 'x, 'r, 'l, 's) ReqContext \<Rightarrow> ResultsetCodec Framed \<Rightarrow> bytes \<Rightarrow>
     (('q, 'x, 'r, 'l, 's) ReqContext \<times> ResultsetCodec Framed \<times> (ProtocolError + bytes)) option" where
  "relay_rows cx f out =
     do { (f, data) \<leftarrow> ResultsetStream_next f;
          (case data of
             Some (Inr row) \<Rightarrow>
               do { payload \<leftarrow> payload_of row;
                    (cx, out) \<leftarrow> codec_encode cx (EncodeOffset payload (length out)) out;
                    relay_rows cx f out }
           | Some (Inl e) \<Rightarrow> Some (cx, f, Inl e)
           | None \<Rightarrow> Some (cx, f, Inr out)) }"

definition relay_table ::
    "('w, 'k, 'q, 'x, 'r, 'l, 's) env \<Rightarrow> ('q, 'x, 'r, 'l, 's) ReqContext \<Rightarrow> ResultsetCodec Framed \<Rightarrow> bytes \<Rightarrow> 'w \<Rightarrow>
     (('q, 'x, 'r, 'l, 's) ReqContext \<times> ResultsetCodec Framed \<times> (ProtocolError + unit) \<times> 'w) option" where
  "relay_table E cx f header w =
     do { payload \<leftarrow> payload_of header;
          (cols, _) \<leftarrow> length_encode_int payload;
          (cx, out) \<leftarrow> codec_encode cx (EncodeOffset payload 0) [];
          (cx, f, r) \<leftarrow> relay_columns (unat cols) cx f out;
          (case r of
             Inl e \<Rightarrow> Some (cx, f, Inl e, w)
           | Inr out \<Rightarrow>
               do { (f, _) \<leftarrow> ResultsetStream_next f;
                    (cx, out) \<leftarrow> codec_encode cx (EncodeOffset (drop 4 make_eof_packet) (length out)) out;
                    (cx, f, r) \<leftarrow> relay_rows cx f out;
                    (case r of
                       Inl e \<Rightarrow> Some (cx, f, Inl e, w)
                     | Inr out \<Rightarrow>
                         do { (cx, out) \<leftarrow> codec_encode cx (EncodeOffset (drop 4 make_eof_packet) (length out)) out;
                              (cx, r, w) \<leftarrow> client_send E cx (Origin out) w;
                              Some (cx, f, r, w) }) }) }"

definition handle_query_resultset ::
    "('w, 'k, 'q, 'x, 'r, 'l, 's) env \<Rightarrow> ('q, 'x, 'r, 'l, 's) ReqContext \<Rightarrow> ResultsetCodec Framed \<Rightarrow> 'w \<Rightarrow>
     (('q, 'x, 'r, 'l, 's) ReqContext \<times> ResultsetCodec Framed \<times> (ProtocolError + unit) \<times> 'w) option" where
  "handle_query_resultset E cx f w =
     do { (f, data) \<leftarrow> ResultsetStream_next f;
          (case data of
             Some (Inl e) \<Rightarrow> Some (cx, f, Inl e, w)
           | None \<Rightarrow> Some (cx, f, Inr (), w)
           | Some (Inr header) \<Rightarrow>
               do { ok_or_err \<leftarrow> idx header 4;
                    if ok_or_err = OK_HEADER \<or> ok_or_err = ERR_HEADER then
                      do { (cx, r, w) \<leftarrow> client_send E cx (Encode (drop 4 header)) w; Some (cx, f, r, w) }
                    else relay_table E cx f header w }) }"

text \<open>Sending a command and relaying its result set, with the stream of the connection.\<close>

definition relay_resultset ::
    "('w, 'k, 'q, 'x, 'r, 'l, 's) env \<Rightarrow> ('q, 'x, 'r, 'l, 's) ReqContext \<Rightarrow> ClientConn \<Rightarrow> 'w \<Rightarrow>
     (('q, 'x, 'r, 'l, 's) ReqContext \<times> ClientConn \<times> (ErrorKind + unit) \<times> 'w) option" where
  "relay_resultset E cx conn w =
     do { f \<leftarrow> ResultsetStream_new conn;
          (cx, f, r, w) \<leftarrow> handle_query_resultset E cx f w;
          Some (cx, put_resultset conn f, map_sum Protocol id r, w) }"

definition query_inner ::
    "('w, 'k, 'q, 'x, 'r, 'l, 's) env \<Rightarrow> ('q, 'x, 'r, 'l, 's) ReqContext \<Rightarrow> ClientConn \<Rightarrow> bytes \<Rightarrow> 'w \<Rightarrow>
     (('q, 'x, 'r, 'l, 's) ReqContext \<times> ClientConn \<times> (ErrorKind + unit) \<times> 'w) option" where
  "query_inner E cx conn payload w =
     do { (r, conn, w) \<leftarrow> send_query (env_backend E) payload conn w;
          (case r of
             Inl err \<Rightarrow> Some (cx, conn, Inl (Protocol err), w)
           | Inr _ \<Rightarrow> relay_resultset E cx conn w) }"

definition execute_inner ::
    "('w, 'k, 'q, 'x, 'r, 'l, 's) env \<Rightarrow> ('q, 'x, 'r, 'l, 's) ReqContext \<Rightarrow> ClientConn \<Rightarrow> bytes \<Rightarrow> 'w \<Rightarrow>
     (('q, 'x, 'r, 'l, 's) ReqContext \<times> ClientConn \<times> (ErrorKind + unit) \<times> 'w) option" where
  "execute_inner E cx conn payload w =
     do { (r, conn, w) \<leftarrow> send_execute (env_backend E) payload conn w;
          (case r of
             Inl err \<Rightarrow> Some (cx, conn, Inl (Protocol err), w)
           | Inr _ \<Rightarrow> relay_resultset E cx conn w) }"

definition init_db_inner ::
    "('w, 'k, 'q, 'x, 'r, 'l, 's) env \<Rightarrow> ('q, 'x, 'r, 'l, 's) ReqContext \<Rightarrow> ClientConn \<Rightarrow> bytes \<Rightarrow> 'w \<Rightarrow>
     (('q, 'x, 'r, 'l, 's) ReqContext \<times> ClientConn \<times> (ErrorKind + unit) \<times> 'w) option" where
  "init_db_inner E cx conn payload w =
     do { d \<leftarrow> payload_text payload;
          let cx = cx\<lparr>fsm := fsm_set_db (fsm cx) (Some d)\<rparr>;
          (r, conn, w) \<leftarrow> send_use_db (env_backend E) d conn w;
          (case r of
             Inl err \<Rightarrow> Some (cx, conn, Inl (Protocol err), w)
           | Inr (data, True) \<Rightarrow>
               do { (cx, r, w) \<leftarrow> send_packet E cx ok_packet w; Some (cx, conn, r, w) }
           | Inr (data, False) \<Rightarrow>
               if length data < 13 then None
               else do {
                 (cx, r, w) \<leftarrow> send_packet E cx (make_err_packet
                   \<lparr>code = 1049, state = str_bytes ''42000'', msg = env_lossy E (drop 13 data)\<rparr>) w;
                 Some (cx, conn, r, w) }) }"

text \<open>The answer to \<open>COM_FIELD_LIST\<close>, up to and including its EOF packet.\<close>

partial_function (option) relay_fields ::
    "('q, 'x, 'r, 'l, 's) ReqContext \<Rightarrow> CommonCodec Framed \<Rightarrow> bytes \<Rightarrow>
     (('q, 'x, 'r, 'l, 's) ReqContext \<times> CommonCodec Framed \<times> (ProtocolError + bytes)) option" where
  "relay_fields cx f out =
     do { (f, data) \<leftarrow> CommonStream_next f;
          (case data of
             Some (Inr data) \<Rightarrow>
               do { payload \<leftarrow> payload_of data;
                    (cx, out) \<leftarrow> codec_encode cx (EncodeOffset payload (length out)) out;
                    eof \<leftarrow> is_eof data;
                    if eof then Some (cx, f, Inr out) else relay_fields cx f out }
           | Some (Inl e) \<Rightarrow> Some (cx, f, Inl e)
           | None \<Rightarrow> Some (cx, f, Inr out)) }"

definition field_list_inner ::
    "('w, 'k, 'q, 'x, 'r, 'l, 's) env \<Rightarrow> ('q, 'x, 'r, 'l, 's) ReqContext \<Rightarrow> ClientConn \<Rightarrow> bytes \<Rightarrow> 'w \<Rightarrow>
     (('q, 'x, 'r, 'l, 's) ReqContext \<times> ClientConn \<times> (ErrorKind + unit) \<times> 'w) option" where
  "field_list_inner E cx conn payload w =
     do { (r, conn, w) \<leftarrow> send_common_command (env_backend E) COM_FIELD_LIST payload conn w;
          (case (r, framed conn) of
             (Inl err, _) \<Rightarrow> Some (cx, conn, Inl (Protocol err), w)
           | (Inr _, Some (CommonC f)) \<Rightarrow>
               do { (cx, f, r) \<leftarrow> relay_fields cx f [];
                    let conn = conn\<lparr>framed := Some (CommonC f)\<rparr>;
                    (case r of
                       Inl e \<Rightarrow> Some (cx, conn, Inl (Protocol e), w)
                     | Inr out \<Rightarrow>
                         do { (cx, r, w) \<leftarrow> client_send E cx (Origin out) w;
                              Some (cx, conn, map_sum Protocol id r, w) }) }
           | (Inr _, _) \<Rightarrow> None) }"


subsection \<open>Answering a prepared statement\<close>

fun encode_all ::
    "('q, 'x, 'r, 'l, 's) ReqContext \<Rightarrow> bytes list \<Rightarrow> bytes \<Rightarrow> (('q, 'x, 'r, 'l, 's) ReqContext \<times> bytes) option" where
  "encode_all cx [] out = Some (cx, out)"
| "encode_all cx (data # datas) out =
     do { payload \<leftarrow> payload_of data;
          (cx, out) \<leftarrow> codec_encode cx (EncodeOffset payload (length out)) out;
          encode_all cx datas out }"

text \<open>The columns: the first one that belongs to a rewritten average becomes the average, the
  others are left out.\<close>

fun encode_stmt_columns ::
    "AvgChange option \<Rightarrow> bool \<Rightarrow> ('q, 'x, 'r, 'l, 's) ReqContext \<Rightarrow> bytes list \<Rightarrow> bytes \<Rightarrow>
     (('q, 'x, 'r, 'l, 's) ReqContext \<times> bytes) option" where
  "encode_stmt_columns avg_change added cx [] out = Some (cx, out)"
| "encode_stmt_columns avg_change added cx (data # datas) out =
     do { payload \<leftarrow> payload_of data;
          (column_info, _) \<leftarrow> decode_column payload;
          (case map_option (\<lambda>change. filter_avg_column change column_info added) avg_change of
             Some (avg_buf, Some _) \<Rightarrow>
               do { (cx, out) \<leftarrow> (if avg_buf \<noteq> [] then codec_encode cx (EncodeOffset avg_buf (length out)) out
                                 else Some (cx, out));
                    encode_stmt_columns avg_change True cx datas out }
           | _ \<Rightarrow>
               do { (cx, out) \<leftarrow> codec_encode cx (EncodeOffset payload (length out)) out;
                    encode_stmt_columns avg_change added cx datas out }) }"

definition encode_eof ::
    "('q, 'x, 'r, 'l, 's) ReqContext \<Rightarrow> bytes \<Rightarrow> (('q, 'x, 'r, 'l, 's) ReqContext \<times> bytes) option" where
  "encode_eof cx out = codec_encode cx (EncodeOffset (drop 4 make_eof_packet) (length out)) out"

definition prepare_stmt ::
    "('w, 'k, 'q, 'x, 'r, 'l, 's) env \<Rightarrow> ('q, 'x, 'r, 'l, 's) ReqContext \<Rightarrow> Stmt \<Rightarrow> 'w \<Rightarrow>
     ('q, 'x, 'r, 'l, 's, unit, 'w) reply" where
  "prepare_stmt E cx stmt w =
     (case results (rewrite_outputs cx) of
        [] \<Rightarrow> None
      | ro # _ \<Rightarrow>
          do { let avg_change = get_avg_change (map_of (changes ro));
               let cols = (if avg_change \<noteq> None then cols_count stmt - 1 else cols_count stmt);
               let data = [0] @ le_bytes 4 (unat (stmt_id stmt)) @ le_bytes 2 (unat cols)
                 @ le_bytes 2 (unat (params_count stmt)) @ [0, 0, 0];
               (cx, out) \<leftarrow> codec_encode cx (EncodeOffset data 0) [];
               (cx, out) \<leftarrow> (if params_data stmt \<noteq> [] then
                               do { (cx, out) \<leftarrow> encode_all cx (params_data stmt) out; encode_eof cx out }
                             else Some (cx, out));
               (cx, out) \<leftarrow> (if cols_data stmt \<noteq> [] then
                               do { (cx, out) \<leftarrow> encode_stmt_columns avg_change False cx (cols_data stmt) out;
                                    encode_eof cx out }
                             else Some (cx, out));
               (cx, r, w) \<leftarrow> client_send E cx (Origin out) w;
               Some (cx, map_sum Protocol id r, w) })"

definition prepare_normal_inner ::
    "('w, 'k, 'q, 'x, 'r, 'l, 's) env \<Rightarrow> ('q, 'x, 'r, 'l, 's) ReqContext \<Rightarrow> ClientConn \<Rightarrow> bytes \<Rightarrow> 'w \<Rightarrow>
     (('q, 'x, 'r, 'l, 's) ReqContext \<times> ClientConn \<times> (ErrorKind + unit) \<times> 'w) option" where
  "prepare_normal_inner E cx conn payload w =
     do { (r, conn, w) \<leftarrow> send_prepare (env_backend E) payload conn w;
          (case r of
             Inl err \<Rightarrow> Some (cx, conn, Inl (Protocol err), w)
           | Inr stmt \<Rightarrow> do { (cx, r, w) \<leftarrow> prepare_stmt E cx stmt w; Some (cx, conn, r, w) }) }"

end
