(* ===== verification/Executor.thy ===== *)
theory Executor
  imports Session Rows Merge
begin

section \<open>Executing a statement on several shards\<close>

text \<open>
  \<open>runtime/mysql/src/server/executor.rs\<close> and the functions of \<open>server.rs\<close> that use it: a
  statement rewritten for several shards is sent to each of them, the result sets are merged,
  aggregates are combined, and one result set is written to the client.

  The tasks that talk to the shards are run one after the other, in the order in which their
  results are awaited.  Floating point numbers and the unstable parallel sort are the
  parameters \<open>float_ops\<close> and \<open>usort\<close>.
\<close>

record 'f float_ops =
  fl_parse :: "bytes \<Rightarrow> 'f option"
  fl_zero :: 'f
  fl_sum :: "'f list \<Rightarrow> 'f"
  fl_div :: "'f \<Rightarrow> u64 \<Rightarrow> 'f"
  fl_write :: "'f \<Rightarrow> bytes"
  fl_show :: "'f \<Rightarrow> string"
  usort :: "(u64 \<Rightarrow> u64 \<Rightarrow> bool) \<Rightarrow> (u64 \<times> bytes) list \<Rightarrow> (u64 \<times> bytes) list"

type_synonym shard_item = "ProtocolError + bytes"

type_synonym shard_stream = "(ResultsetCodec Framed, shard_item) MergeStream"

abbreviation shards_next ::
    "shard_stream \<Rightarrow> (shard_stream \<times> shard_item option list option) option" where
  "shards_next \<equiv> merge_next ResultsetStream_next"


subsection \<open>Rows\<close>

text \<open>The part of a row packet is cut out and replaced.\<close>

definition row_data_cut_merge :: "bytes \<Rightarrow> RowPartData \<Rightarrow> bytes \<Rightarrow> bytes option" where
  "row_data_cut_merge ori_data part new =
     do { (header, data) \<leftarrow> split_to 4 ori_data;
          (data, data_remain) \<leftarrow> split_to (start_idx part) data;
          (_, data_remain) \<leftarrow> split_to (part_encode_length part + part_data_length part) data_remain;
          Some (header @ data @ new @ data_remain) }"

text \<open>\<open>row_data.with_buf(&x[4..])\<close> on a copy.\<close>

definition row_at :: "RowDataTyp \<Rightarrow> bytes \<Rightarrow> RowDataTyp option" where
  "row_at row_data x = do { p \<leftarrow> payload_of x; with_buf row_data p }"

definition unwrap2 :: "('e + 'a option) option \<Rightarrow> 'a option" where
  "unwrap2 r = (case r of Some (Inr (Some x)) \<Rightarrow> Some x | _ \<Rightarrow> None)"

definition row_key :: "RowDataTyp \<Rightarrow> bool \<Rightarrow> string \<Rightarrow> bytes \<Rightarrow> u64 option" where
  "row_key row_data bin nm x =
     do { r \<leftarrow> row_at row_data x; unwrap2 (decode_with_name r nm bin) }"

definition row_part :: "RowDataTyp \<Rightarrow> string \<Rightarrow> bytes \<Rightarrow> RowPartData option" where
  "row_part row_data nm x = do { r \<leftarrow> row_at row_data x; unwrap2 (get_row_data_with_name r nm) }"

fun keyed :: "(bytes \<Rightarrow> u64 option) \<Rightarrow> bytes list \<Rightarrow> (u64 \<times> bytes) list option" where
  "keyed key [] = Some []"
| "keyed key (x # xs) = do { k \<leftarrow> key x; ks \<leftarrow> keyed key xs; Some ((k, x) # ks) }"

text \<open>A sort compares nothing when there are fewer than two rows.\<close>

definition sort_rows ::
    "((u64 \<times> bytes) list \<Rightarrow> (u64 \<times> bytes) list) \<Rightarrow> (bytes \<Rightarrow> u64 option) \<Rightarrow> bytes list \<Rightarrow> bytes list option" where
  "sort_rows srt key chunk =
     (if length chunk < 2 then Some chunk else map_option (\<lambda>ks. map snd (srt ks)) (keyed key chunk))"

text \<open>Every row with the part named \<open>nm\<close> replaced.\<close>

fun replace_parts :: "RowDataTyp \<Rightarrow> string \<Rightarrow> bytes \<Rightarrow> bytes list \<Rightarrow> bytes list option" where
  "replace_parts row_data nm new [] = Some []"
| "replace_parts row_data nm new (x # xs) =
     do { p \<leftarrow> row_part row_data nm x;
          x \<leftarrow> row_data_cut_merge x p new;
          xs \<leftarrow> replace_parts row_data nm new xs;
          Some (x # xs) }"

fun sum_parts :: "'f float_ops \<Rightarrow> RowDataTyp \<Rightarrow> string \<Rightarrow> bytes list \<Rightarrow> (RowError + 'f list) option" where
  "sum_parts F row_data nm [] = Some (Inr [])"
| "sum_parts F row_data nm (x # xs) =
     do { r \<leftarrow> row_at row_data x;
          d \<leftarrow> get_row_data_with_name r nm;
          (case d of
             Inl e \<Rightarrow> Some (Inl e)
           | Inr p \<Rightarrow>
               (case (case p of Some p \<Rightarrow> fl_parse F (rp_data p) | None \<Rightarrow> Some (fl_zero F)) of
                  None \<Rightarrow> Some (Inl ParseFloatError)
                | Some v \<Rightarrow>
                    do { vs \<leftarrow> sum_parts F row_data nm xs;
                         Some (case vs of Inl e \<Rightarrow> Inl e | Inr vs \<Rightarrow> Inr (v # vs)) })) }"

definition agg_one ::
    "'f float_ops \<Rightarrow> RowDataTyp \<Rightarrow> bool \<Rightarrow> FieldMetaIdent \<Rightarrow> bytes list \<Rightarrow> (ErrorKind + bytes list) option" where
  "agg_one F row_data bin agg chunk =
     (let nm = fm_name agg;
          min_max = (\<lambda>le. do {
            chunk \<leftarrow> sort_rows (usort F le) (row_key row_data bin nm) chunk;
            first \<leftarrow> idx chunk 0;
            r \<leftarrow> row_at row_data first;
            d \<leftarrow> get_row_data_with_name r nm;
            (case d of
               Inl e \<Rightarrow> Some (Inl (Runtime ''row''))
             | Inr None \<Rightarrow> None
             | Inr (Some p) \<Rightarrow>
                 map_option Inr (replace_parts row_data nm
                   (if bin then rp_data p
                    else put_lenc_int [] (of_nat (part_data_length p)) False @ rp_data p) chunk)) })
      in case agg_func agg of
           AggMax \<Rightarrow> min_max (\<lambda>a b. b \<le> a)
         | AggMin \<Rightarrow> min_max (\<lambda>a b. a \<le> b)
         | AggCount \<Rightarrow>
             do { ks \<leftarrow> keyed (row_key row_data bin nm) chunk;
                  let total = sum_list (map fst ks);
                  map_option Inr (replace_parts row_data nm
                    (if bin then le_bytes 8 (unat total)
                     else let s = str_bytes (show_nat (unat total)) in put_lenc_int [] (of_nat (length s)) False @ s) chunk) }
         | AggSum \<Rightarrow>
             do { vs \<leftarrow> sum_parts F row_data nm chunk;
                  (case vs of
                     Inl e \<Rightarrow> None
                   | Inr vs \<Rightarrow>
                       let s = str_bytes (fl_show F (fl_sum F vs)) in
                       map_option Inr (replace_parts row_data nm
                         (put_lenc_int [] (of_nat (length s)) False @ s) chunk)) }
         | _ \<Rightarrow> Some (Inr chunk))"

fun agg_all ::
    "'f float_ops \<Rightarrow> RowDataTyp \<Rightarrow> bool \<Rightarrow> FieldMetaIdent list \<Rightarrow> bytes list \<Rightarrow> (ErrorKind + bytes list) option" where
  "agg_all F row_data bin [] chunk = Some (Inr chunk)"
| "agg_all F row_data bin (agg # aggs) chunk =
     do { r \<leftarrow> agg_one F row_data bin agg chunk;
          (case r of Inl e \<Rightarrow> Some (Inl e) | Inr chunk \<Rightarrow> agg_all F row_data bin aggs chunk) }"

definition handle_agg ::
    "'f float_ops \<Rightarrow> ShardingRewriteOutput \<Rightarrow> bytes list \<Rightarrow> RowDataTyp \<Rightarrow> bool \<Rightarrow> (ErrorKind + bytes list) option" where
  "handle_agg F ro chunk row_data bin =
     agg_all F row_data bin (case map_of (agg_fields ro) 1 of Some aggs \<Rightarrow> aggs | None \<Rightarrow> []) chunk"

fun avg_counts :: "RowDataTyp \<Rightarrow> bool \<Rightarrow> string \<Rightarrow> bytes list \<Rightarrow> (RowError + u64 list) option" where
  "avg_counts row_data bin nm [] = Some (Inr [])"
| "avg_counts row_data bin nm (x # xs) =
     do { r \<leftarrow> row_at row_data x;
          n \<leftarrow> decode_with_name r nm bin;
          (case n of
             Inl e \<Rightarrow> Some (Inl e)
           | Inr n \<Rightarrow>
               do { ns \<leftarrow> avg_counts row_data bin nm xs;
                    Some (case ns of Inl e \<Rightarrow> Inl e | Inr ns \<Rightarrow> Inr ((case n of Some n \<Rightarrow> n | None \<Rightarrow> 0) # ns)) }) }"

fun replace_averages :: "RowDataTyp \<Rightarrow> AvgChange \<Rightarrow> bytes \<Rightarrow> bytes list \<Rightarrow> bytes list option" where
  "replace_averages row_data avg new [] = Some []"
| "replace_averages row_data avg new (x # xs) =
     do { c \<leftarrow> row_part row_data (count_field avg) x;
          s \<leftarrow> row_part row_data (sum_field avg) x;
          x \<leftarrow> row_data_cut_merge x
            \<lparr>rp_data = [], start_idx = start_idx c, part_encode_length = part_encode_length c + part_encode_length s,
             part_data_length = part_data_length c + part_data_length s\<rparr> new;
          xs \<leftarrow> replace_averages row_data avg new xs;
          Some (x # xs) }"

definition handle_avg ::
    "'f float_ops \<Rightarrow> bytes list \<Rightarrow> RowDataTyp \<Rightarrow> AvgChange \<Rightarrow> bool \<Rightarrow> (ErrorKind + bytes list) option" where
  "handle_avg F chunk row_data avg bin =
     do { ns \<leftarrow> avg_counts row_data bin (count_field avg) chunk;
          vs \<leftarrow> sum_parts F row_data (sum_field avg) chunk;
          (case (ns, vs) of
             (Inr ns, Inr vs) \<Rightarrow>
               (let s = fl_write F (fl_div F (fl_sum F vs) (sum_list ns)) in
                map_option Inr (replace_averages row_data avg (put_lenc_int [] (of_nat (length s)) False @ s) chunk))
           | _ \<Rightarrow> Some (Inl (Runtime ''row''))) }"


subsection \<open>Result sets\<close>

record ColumnUpdate =
  ori_columns :: "ColumnInfo list"
  new_columns :: "ColumnInfo list"

fun first_some :: "nat \<Rightarrow> 'a option list \<Rightarrow> (nat \<times> 'a) option" where
  "first_some i [] = None"
| "first_some i (Some x # xs) = Some (i, x)"
| "first_some i (None # xs) = first_some (Suc i) xs"

definition get_shard_one_data :: "shard_item option list option \<Rightarrow> ErrorKind + (nat \<times> bytes) option" where
  "get_shard_one_data data =
     (case data of
        None \<Rightarrow> Inr None
      | Some data \<Rightarrow>
          (case first_some 0 data of
             None \<Rightarrow> Inr None
           | Some (i, Inl e) \<Rightarrow> Inl (Protocol e)
           | Some (i, Inr x) \<Rightarrow> Inr (Some (i, x))))"

text \<open>The first average among all changes of the first result.\<close>

definition any_avg_change :: "('q, 'x, 'r, 'l, 's) ReqContext \<Rightarrow> AvgChange option option" where
  "any_avg_change cx = map_option (\<lambda>ro. find_avg (concat (map snd (changes ro)))) (idx (results (rewrite_outputs cx)) 0)"

text \<open>One column of the shard the columns are taken from, which the first call determines.\<close>

definition shard_column :: "nat option \<Rightarrow> shard_item option list option \<Rightarrow> (ErrorKind + nat \<times> bytes) option" where
  "shard_column i data =
     (case i of
        Some i \<Rightarrow>
          do { data \<leftarrow> data;
               d \<leftarrow> idx data i;
               d \<leftarrow> d;
               Some (case d of Inl e \<Rightarrow> Inl (Protocol e) | Inr x \<Rightarrow> Inr (i, x)) }
      | None \<Rightarrow>
          (case get_shard_one_data data of
             Inl e \<Rightarrow> Some (Inl e)
           | Inr None \<Rightarrow> None
           | Inr (Some d) \<Rightarrow> Some (Inr d)))"

fun get_columns_loop ::
    "AvgChange option \<Rightarrow> nat \<Rightarrow> nat option \<Rightarrow> bool \<Rightarrow> ('q, 'x, 'r, 'l, 's) ReqContext \<Rightarrow> shard_stream \<Rightarrow> bytes \<Rightarrow>
     ColumnUpdate \<Rightarrow>
     (('q, 'x, 'r, 'l, 's) ReqContext \<times> shard_stream \<times> bytes \<times> (ErrorKind + ColumnUpdate)) option" where
  "get_columns_loop avg_change 0 i added cx m out cu = Some (cx, m, out, Inr cu)"
| "get_columns_loop avg_change (Suc n) i added cx m out cu =
     do { (m, data) \<leftarrow> shards_next m;
          d \<leftarrow> shard_column i data;
          (case d of
             Inl e \<Rightarrow> Some (cx, m, out, Inl e)
           | Inr (i, data) \<Rightarrow>
               do { payload \<leftarrow> payload_of data;
                    (column_info, _) \<leftarrow> decode_column payload;
                    let cu = cu\<lparr>ori_columns := ori_columns cu @ [column_info]\<rparr>;
                    (case map_option (\<lambda>change. filter_avg_column change column_info added) avg_change of
                       Some (avg_buf, Some avg_column) \<Rightarrow>
                         if avg_buf \<noteq> [] then
                           do { (cx, out) \<leftarrow> codec_encode cx (EncodeOffset avg_buf (length out)) out;
                                get_columns_loop avg_change n (Some i) True cx m out
                                  (cu\<lparr>new_columns := new_columns cu @ [avg_column]\<rparr>) }
                         else get_columns_loop avg_change n (Some i) True cx m out cu
                     | _ \<Rightarrow>
                         do { (cx, out) \<leftarrow> codec_encode cx (EncodeOffset payload (length out)) out;
                              get_columns_loop avg_change n (Some i) added cx m out
                                (cu\<lparr>new_columns := new_columns cu @ [column_info]\<rparr>) }) }) }"

definition get_columns ::
    "('q, 'x, 'r, 'l, 's) ReqContext \<Rightarrow> shard_stream \<Rightarrow> u64 \<Rightarrow> bytes \<Rightarrow>
     (('q, 'x, 'r, 'l, 's) ReqContext \<times> shard_stream \<times> bytes \<times> (ErrorKind + ColumnUpdate)) option" where
  "get_columns cx m column_length out =
     do { avg_change \<leftarrow> any_avg_change cx;
          get_columns_loop avg_change (unat column_length) None False cx m out \<lparr>ori_columns = [], new_columns = []\<rparr> }"

fun collect_rows :: "shard_item option list \<Rightarrow> (ProtocolError + bytes list) option" where
  "collect_rows [] = Some (Inr [])"
| "collect_rows (None # xs) = None"
| "collect_rows (Some (Inl e) # xs) = map_option (\<lambda>_. Inl e) (collect_rows xs)"
| "collect_rows (Some (Inr x) # xs) = map_option (map_sum id (\<lambda>ys. x # ys)) (collect_rows xs)"

definition encode_first ::
    "('q, 'x, 'r, 'l, 's) ReqContext \<Rightarrow> bytes list \<Rightarrow> bytes \<Rightarrow> (('q, 'x, 'r, 'l, 's) ReqContext \<times> bytes) option" where
  "encode_first cx rows out =
     do { row \<leftarrow> idx rows 0; payload \<leftarrow> payload_of row; codec_encode cx (EncodeOffset payload (length out)) out }"

text \<open>What is done with a batch of rows; \<open>None\<close> for the row decoder ends the loop.\<close>

definition get_rows_chunk ::
    "'f float_ops \<Rightarrow> ('q, 'x, 'r, 'l, 's) ReqContext \<Rightarrow> shard_item option list \<Rightarrow> bytes \<Rightarrow> RowDataTyp \<Rightarrow> ShardingColumn \<Rightarrow>
     ColumnUpdate \<Rightarrow> bool \<Rightarrow>
     (('q, 'x, 'r, 'l, 's) ReqContext \<times> bytes \<times> (ErrorKind + RowDataTyp option)) option" where
  "get_rows_chunk F cx chunk out row_data sharding_column cu bin =
     do { rows \<leftarrow> collect_rows chunk;
          (case rows of
             Inl e \<Rightarrow> Some (cx, out, Inl (Protocol e))
           | Inr rows \<Rightarrow>
               do { rows \<leftarrow> handle_agg F (rewrite_outputs cx) rows row_data bin;
                    (case rows of
                       Inl e \<Rightarrow> Some (cx, out, Inl e)
                     | Inr rows \<Rightarrow>
                         do { ro \<leftarrow> idx (results (rewrite_outputs cx)) 0;
                              let avg_change = get_avg_change (map_of (changes ro));
                              rows \<leftarrow> (case avg_change of
                                 Some avg \<Rightarrow> handle_avg F rows row_data avg bin
                               | None \<Rightarrow> Some (Inr rows));
                              (case rows of
                                 Inl e \<Rightarrow> Some (cx, out, Inl e)
                               | Inr rows \<Rightarrow>
                                   if avg_change \<noteq> None \<and> length (ori_columns cu) = 2 then
                                     do { (cx, out) \<leftarrow> encode_first cx rows out; Some (cx, out, Inr None) }
                                   else do {
                                     let row_data = (if avg_change \<noteq> None then update_columns row_data (new_columns cu) else row_data);
                                     let agg_len = (case map_of (agg_fields (rewrite_outputs cx)) 1 of Some aggs \<Rightarrow> length aggs | None \<Rightarrow> 0);
                                     if agg_len = length (new_columns cu) then
                                       do { (cx, out) \<leftarrow> encode_first cx rows out; Some (cx, out, Inr None) }
                                     else do {
                                       rows \<leftarrow> (case sh_table sharding_column of
                                          Some nm \<Rightarrow>
                                            if list_ex (\<lambda>c. col_column_name c = nm) (ori_columns cu)
                                            then sort_rows (sort_key fst) (row_key row_data bin nm) rows
                                            else Some rows
                                        | None \<Rightarrow> Some rows);
                                       (cx, out) \<leftarrow> encode_all cx rows out;
                                       Some (cx, out, Inr (Some row_data)) } }) }) }) }"

partial_function (option) get_rows_loop ::
    "'f float_ops \<Rightarrow> ('q, 'x, 'r, 'l, 's) ReqContext \<Rightarrow> shard_stream \<Rightarrow> bytes \<Rightarrow> RowDataTyp \<Rightarrow> ShardingColumn \<Rightarrow>
     ColumnUpdate \<Rightarrow> bool \<Rightarrow>
     (('q, 'x, 'r, 'l, 's) ReqContext \<times> shard_stream \<times> bytes \<times> (ErrorKind + unit)) option" where
  "get_rows_loop F cx m out row_data sharding_column cu bin =
     do { (m, chunk) \<leftarrow> shards_next m;
          (case chunk of
             None \<Rightarrow> Some (cx, m, out, Inr ())
           | Some chunk \<Rightarrow>
               do { (cx, out, r) \<leftarrow> get_rows_chunk F cx chunk out row_data sharding_column cu bin;
                    (case r of
                       Inl e \<Rightarrow> Some (cx, m, out, Inl e)
                     | Inr None \<Rightarrow> Some (cx, m, out, Inr ())
                     | Inr (Some row_data) \<Rightarrow> get_rows_loop F cx m out row_data sharding_column cu bin) }) }"

definition get_rows ::
    "'f float_ops \<Rightarrow> ('q, 'x, 'r, 'l, 's) ReqContext \<Rightarrow> shard_stream \<Rightarrow> bytes \<Rightarrow> ShardingColumn \<Rightarrow> ColumnUpdate \<Rightarrow> bool \<Rightarrow>
     (('q, 'x, 'r, 'l, 's) ReqContext \<times> shard_stream \<times> bytes \<times> (ErrorKind + unit)) option" where
  "get_rows F cx m out sharding_column cu bin =
     get_rows_loop F cx m out
       (if bin then BinaryRow (RowDataBinary_new (ori_columns cu) [])
        else TextRow \<lparr>rt_columns = ori_columns cu, rt_buf = []\<rparr>) sharding_column cu bin"

definition shard_table ::
    "('w, 'k, 'q, 'x, 'r, 'l, 's) env \<Rightarrow> 'f float_ops \<Rightarrow> ('q, 'x, 'r, 'l, 's) ReqContext \<Rightarrow> shard_stream \<Rightarrow> bytes \<Rightarrow>
     ShardingColumn \<Rightarrow> bool \<Rightarrow> 'w \<Rightarrow>
     (('q, 'x, 'r, 'l, 's) ReqContext \<times> shard_stream \<times> (ErrorKind + unit) \<times> 'w) option" where
  "shard_table E F cx m header sharding_column bin w =
     do { payload \<leftarrow> payload_of header;
          (cols, _) \<leftarrow> length_encode_int payload;
          avg_change \<leftarrow> any_avg_change cx;
          let payload = (if avg_change \<noteq> None then (hd payload - 1) # tl payload else payload);
          (cx, out) \<leftarrow> codec_encode cx (EncodeOffset payload 0) [];
          (cx, m, out, r) \<leftarrow> get_columns cx m cols out;
          (case r of
             Inl e \<Rightarrow> Some (cx, m, Inl e, w)
           | Inr cu \<Rightarrow>
               do { (m, _) \<leftarrow> shards_next m;
                    (cx, out) \<leftarrow> encode_eof cx out;
                    (cx, m, out, r) \<leftarrow> get_rows F cx (merge_set_state m MergeRow) out sharding_column cu bin;
                    (case r of
                       Inl e \<Rightarrow> Some (cx, m, Inl e, w)
                     | Inr _ \<Rightarrow>
                         do { (cx, out) \<leftarrow> encode_eof cx out;
                              (cx, r, w) \<leftarrow> client_send E cx (Origin out) w;
                              Some (cx, m, map_sum Protocol id r, w) }) }) }"

definition handle_shard_resultset ::
    "('w, 'k, 'q, 'x, 'r, 'l, 's) env \<Rightarrow> 'f float_ops \<Rightarrow> ('q, 'x, 'r, 'l, 's) ReqContext \<Rightarrow> shard_stream \<Rightarrow>
     ShardingColumn \<Rightarrow> bool \<Rightarrow> 'w \<Rightarrow>
     (('q, 'x, 'r, 'l, 's) ReqContext \<times> shard_stream \<times> (ErrorKind + unit) \<times> 'w) option" where
  "handle_shard_resultset E F cx m sharding_column bin w =
     do { (m, header) \<leftarrow> shards_next m;
          (case get_shard_one_data header of
             Inl e \<Rightarrow> Some (cx, m, Inl e, w)
           | Inr None \<Rightarrow> Some (cx, m, Inr (), w)
           | Inr (Some (_, header)) \<Rightarrow>
               do { ok_or_err \<leftarrow> idx header 4;
                    if ok_or_err = OK_HEADER \<or> ok_or_err = ERR_HEADER then
                      do { (cx, r, w) \<leftarrow> send_packet E cx header w; Some (cx, m, r, w) }
                    else shard_table E F cx m header sharding_column bin w }) }"


subsection \<open>Connections to the shards\<close>

definition drop_conns ::
    "('w, 'k, 'q, 'x, 'r, 'l, 's) env \<Rightarrow> ('q, 'x, 'r, 'l, 's) ReqContext \<Rightarrow> ClientConn list \<Rightarrow>
     ('q, 'x, 'r, 'l, 's) ReqContext option" where
  "drop_conns E cx conns =
     do { p \<leftarrow> drop_all (env_crypto E) (env_backend E) (env_queue E) (rq_pool cx) conns; Some (cx\<lparr>rq_pool := p\<rparr>) }"

fun result_endpoints :: "ShardingRewriteResult list \<Rightarrow> ErrorKind + Endpoint list" where
  "result_endpoints [] = Inr []"
| "result_endpoints (x # xs) =
     (case ds (ds_idx x) of
        DsEndpoint ep \<Rightarrow> map_sum id (\<lambda>eps. ep # eps) (result_endpoints xs)
      | _ \<Rightarrow> Inl (Runtime (''execute sql: '' @ target_sql x @ '' error'')))"

text \<open>One connection for each endpoint.  All are asked for; the first error is reported after
  the connections obtained were let go of.\<close>

fun connect_all ::
    "('w, 'k, 'q, 'x, 'r, 'l, 's) env \<Rightarrow> ('q, ClientConn) Pool \<Rightarrow> SessionAttr list \<Rightarrow> Endpoint list \<Rightarrow> 'w \<Rightarrow>
     (('q, ClientConn) Pool \<times> (ErrorKind + ClientConn) list \<times> 'w) option" where
  "connect_all E p attrs [] w = Some (p, [], w)"
| "connect_all E p attrs (ep # eps) w =
     do { let p = set_factory p (addr ep) (with_opts (user ep) (password ep) (addr ep));
          (p, r, w) \<leftarrow> check_get_conn (env_crypto E) (env_backend E) (env_queue E) p (addr ep) attrs w;
          (p, rs, w) \<leftarrow> connect_all E p attrs eps w;
          Some (p, r # rs, w) }"

fun all_ok :: "('e + 'a) list \<Rightarrow> 'e + 'a list" where
  "all_ok [] = Inr []"
| "all_ok (Inl e # rs) = Inl e"
| "all_ok (Inr x # rs) = map_sum id (\<lambda>xs. x # xs) (all_ok rs)"

fun oks :: "('e + 'a) list \<Rightarrow> 'a list" where
  "oks [] = []"
| "oks (Inl e # rs) = oks rs"
| "oks (Inr x # rs) = x # oks rs"

definition executor_get_shard_conns ::
    "('w, 'k, 'q, 'x, 'r, 'l, 's) env \<Rightarrow> ('q, 'x, 'r, 'l, 's) ReqContext \<Rightarrow> SessionAttr list \<Rightarrow> 'w \<Rightarrow>
     ('q, 'x, 'r, 'l, 's, ClientConn list, 'w) reply" where
  "executor_get_shard_conns E cx attrs w =
     (case result_endpoints (results (rewrite_outputs cx)) of
        Inl e \<Rightarrow> Some (cx, Inl e, w)
      | Inr eps \<Rightarrow>
          do { (p, rs, w) \<leftarrow> connect_all E (rq_pool cx) attrs eps w;
               let cx = cx\<lparr>rq_pool := p\<rparr>;
               (case all_ok rs of
                  Inl e \<Rightarrow> do { cx \<leftarrow> drop_conns E cx (oks rs); Some (cx, Inl e, w) }
                | Inr conns \<Rightarrow> Some (cx, Inr conns, w)) })"

text \<open>A command on each connection, one after the other.\<close>

fun send_all ::
    "(bytes \<Rightarrow> ClientConn \<Rightarrow> 'w \<Rightarrow> ((ProtocolError + 'a) \<times> ClientConn \<times> 'w) option) \<Rightarrow> (ClientConn \<times> bytes) list \<Rightarrow> 'w \<Rightarrow>
     ((ProtocolError + 'a) list \<times> ClientConn list \<times> 'w) option" where
  "send_all send [] w = Some ([], [], w)"
| "send_all send ((conn, val) # cs) w =
     do { (r, conn, w) \<leftarrow> send val conn w;
          (rs, conns, w) \<leftarrow> send_all send cs w;
          Some (r # rs, conn # conns, w) }"

text \<open>Connections without a result and results without a connection are left out; the former
  go back to the pool.\<close>

definition shard_send_query ::
    "('w, 'k, 'q, 'x, 'r, 'l, 's) env \<Rightarrow> ('q, 'x, 'r, 'l, 's) ReqContext \<Rightarrow> ClientConn list \<Rightarrow> 'w \<Rightarrow>
     ('q, 'x, 'r, 'l, 's, ClientConn list, 'w) reply" where
  "shard_send_query E cx conns w =
     do { let ros = results (rewrite_outputs cx);
          cx \<leftarrow> drop_conns E cx (drop (length ros) conns);
          (rs, conns, w) \<leftarrow> send_all (send_query_without_stream (env_backend E))
            (zip conns (map (\<lambda>ro. str_bytes (target_sql ro)) ros)) w;
          (case all_ok rs of
             Inl e \<Rightarrow> do { cx \<leftarrow> drop_conns E cx conns; Some (cx, Inl (Protocol e), w) }
           | Inr _ \<Rightarrow> Some (cx, Inr conns, w)) }"

fun open_streams :: "ClientConn list \<Rightarrow> ResultsetCodec Framed list option" where
  "open_streams [] = Some []"
| "open_streams (conn # conns) =
     do { f \<leftarrow> ResultsetStream_new conn; fs \<leftarrow> open_streams conns; Some (f # fs) }"

definition close_streams :: "ClientConn list \<Rightarrow> shard_stream \<Rightarrow> ClientConn list" where
  "close_streams conns m = map2 (\<lambda>conn s. put_resultset conn (fst s)) conns (ms_inner m)"

text \<open>The merged result set of the connections, which are let go of on an error.\<close>

definition relay_shards ::
    "('w, 'k, 'q, 'x, 'r, 'l, 's) env \<Rightarrow> 'f float_ops \<Rightarrow> ('q, 'x, 'r, 'l, 's) ReqContext \<Rightarrow> ClientConn list \<Rightarrow>
     ShardingColumn \<Rightarrow> bool \<Rightarrow> 'w \<Rightarrow> ('q, 'x, 'r, 'l, 's, ClientConn list, 'w) reply" where
  "relay_shards E F cx conns sharding_column bin w =
     do { fs \<leftarrow> open_streams conns;
          (cx, m, r, w) \<leftarrow> handle_shard_resultset E F cx (MergeStream_new fs (length conns)) sharding_column bin w;
          let conns = close_streams conns m;
          (case r of
             Inl e \<Rightarrow> do { cx \<leftarrow> drop_conns E cx conns; Some (cx, Inl e, w) }
           | Inr _ \<Rightarrow> Some (cx, Inr conns, w)) }"

definition shard_query_conns ::
    "('w, 'k, 'q, 'x, 'r, 'l, 's) env \<Rightarrow> ('q, 'x, 'r, 'l, 's) ReqContext \<Rightarrow> SessionAttr list \<Rightarrow> bool \<Rightarrow> 'w \<Rightarrow>
     ('q, 'x, 'r, 'l, 's, ClientConn list \<times> (u32 \<times> u32 list) option, 'w) reply" where
  "shard_query_conns E cx attrs is_get_conn w =
     (let (fs, conns) = get_shard_conns (fsm cx);
          cx = cx\<lparr>fsm := fs\<rparr>
      in if is_get_conn then
           if conns = [] \<or> length conns < length (results (rewrite_outputs cx)) then
             do { cx \<leftarrow> drop_conns E cx conns;
                  (cx, r, w) \<leftarrow> executor_get_shard_conns E cx attrs w;
                  Some (cx, map_sum id (\<lambda>cs. (cs, None)) r, w) }
           else Some (cx, Inr (conns, None), w)
         else if conns = [] then
           let (sc, cached) = StmtCache_get_all (stmt_cache cx) (rq_stmt_id cx)
           in Some (cx\<lparr>stmt_cache := sc\<rparr>, Inr (map snd cached, Some (rq_stmt_id cx, map fst cached)), w)
         else Some (cx, Inr (conns, None), w))"

definition shard_query_executor ::
    "('w, 'k, 'q, 'x, 'r, 'l, 's) env \<Rightarrow> 'f float_ops \<Rightarrow> ('q, 'x, 'r, 'l, 's) ReqContext \<Rightarrow> SessionAttr list \<Rightarrow> bool \<Rightarrow> 'w \<Rightarrow>
     ('q, 'x, 'r, 'l, 's, unit, 'w) reply" where
  "shard_query_executor E F cx attrs is_get_conn w =
     do { (cx, r, w) \<leftarrow> shard_query_conns E cx attrs is_get_conn w;
          (case r of
             Inl e \<Rightarrow> Some (cx, Inl e, w)
           | Inr (conns, cached) \<Rightarrow>
               do { (cx, r, w) \<leftarrow> shard_send_query E cx conns w;
                    (case r of
                       Inl e \<Rightarrow> Some (cx, Inl e, w)
                     | Inr conns \<Rightarrow>
                         do { ro \<leftarrow> idx (results (rewrite_outputs cx)) 0;
                              (cx, r, w) \<leftarrow> relay_shards E F cx conns (ds_column (ds_idx ro)) False w;
                              (case (r, cached) of
                                 (Inl e, _) \<Rightarrow> Some (cx, Inl e, w)
                               | (Inr conns, Some (sid, ids)) \<Rightarrow>
                                   do { cx \<leftarrow> drop_conns E cx (drop (length ids) conns);
                                        let (sc, dropped) = StmtCache_put_all (stmt_cache cx) sid (zip ids conns);
                                        cx \<leftarrow> drop_conns E (cx\<lparr>stmt_cache := sc\<rparr>) dropped;
                                        Some (cx, Inr (), w) }
                               | (Inr conns, None) \<Rightarrow>
                                   do { (fs, p) \<leftarrow> put_shard_conns (env_crypto E) (env_backend E) (env_queue E) (fsm cx)
                                          (rq_pool cx) conns;
                                        Some (cx\<lparr>fsm := fs, rq_pool := p\<rparr>, Inr (), w) }) }) }) }"

definition shard_prepare_executor ::
    "('w, 'k, 'q, 'x, 'r, 'l, 's) env \<Rightarrow> ('q, 'x, 'r, 'l, 's) ReqContext \<Rightarrow> SessionAttr list \<Rightarrow> 'w \<Rightarrow>
     ('q, 'x, 'r, 'l, 's, Stmt list \<times> ClientConn list, 'w) reply" where
  "shard_prepare_executor E cx attrs w =
     do { (cx, r, w) \<leftarrow> executor_get_shard_conns E cx attrs w;
          (case r of
             Inl e \<Rightarrow> Some (cx, Inl e, w)
           | Inr conns \<Rightarrow>
               do { (rs, conns, w) \<leftarrow> send_all (send_prepare (env_backend E))
                      (zip conns (map (\<lambda>ro. str_bytes (target_sql ro)) (results (rewrite_outputs cx)))) w;
                    (case all_ok rs of
                       Inl e \<Rightarrow> do { cx \<leftarrow> drop_conns E cx conns; Some (cx, Inl (Protocol e), w) }
                     | Inr stmts \<Rightarrow> Some (cx, Inr (stmts, conns), w)) }) }"

definition shard_send_execute ::
    "('w, 'k, 'q, 'x, 'r, 'l, 's) env \<Rightarrow> ('q, 'x, 'r, 'l, 's) ReqContext \<Rightarrow> u32 \<Rightarrow> bytes \<Rightarrow> 'w \<Rightarrow>
     ('q, 'x, 'r, 'l, 's, (u32 \<times> ClientConn) list, 'w) reply" where
  "shard_send_execute E cx sid payload w =
     do { let (sc, cached) = StmtCache_get_all (stmt_cache cx) sid;
          let cx = cx\<lparr>stmt_cache := sc\<rparr>;
          (rs, conns, w) \<leftarrow> send_all (send_execute_without_stream (env_backend E))
            (map (\<lambda>(i, conn). (conn, le_bytes 4 (unat i) @ drop 4 payload)) cached) w;
          (case all_ok rs of
             Inl e \<Rightarrow> do { cx \<leftarrow> drop_conns E cx conns; Some (cx, Inl (Protocol e), w) }
           | Inr _ \<Rightarrow> Some (cx, Inr (zip (map fst cached) conns), w)) }"

definition read_u32 :: "bytes \<Rightarrow> u32 option" where
  "read_u32 payload = map_option fst (get_u32_le payload)"

definition shard_execute_executor ::
    "('w, 'k, 'q, 'x, 'r, 'l, 's) env \<Rightarrow> 'f float_ops \<Rightarrow> ('q, 'x, 'r, 'l, 's) ReqContext \<Rightarrow> bytes \<Rightarrow> 'w \<Rightarrow>
     ('q, 'x, 'r, 'l, 's, unit, 'w) reply" where
  "shard_execute_executor E F cx payload w =
     do { sid \<leftarrow> read_u32 payload;
          (cx, r, w) \<leftarrow> shard_send_execute E cx sid payload w;
          (case r of
             Inl e \<Rightarrow> Some (cx, Inl e, w)
           | Inr conns \<Rightarrow>
               do { (cx, r, w) \<leftarrow> relay_shards E F cx (map snd conns) (get_sharding_column (stmt_cache cx) sid) True w;
                    (case r of
                       Inl e \<Rightarrow> Some (cx, Inl e, w)
                     | Inr cs \<Rightarrow>
                         do { let (sc, dropped) = StmtCache_put_all (stmt_cache cx) sid (zip (map fst conns) cs);
                              cx \<leftarrow> drop_conns E (cx\<lparr>stmt_cache := sc\<rparr>) dropped;
                              Some (cx, Inr (), w) }) }) }"


subsection \<open>Sharded commands of the service\<close>

text \<open>\<open>route_sharding\<close>: the node group of a result is replaced by one of its endpoints.\<close>

fun route_sharding ::
    "('w, 'k, 'q, 'x, 'r, 'l, 's) env \<Rightarrow> RouteInputTyp \<Rightarrow> string \<Rightarrow> ('r, 'x) RouteStrategy \<Rightarrow> ShardingRewriteResult list \<Rightarrow>
     (('r, 'x) RouteStrategy \<times> ShardingRewriteResult list) option" where
  "route_sharding E input_typ raw_sql st [] = Some (st, [])"
| "route_sharding E input_typ raw_sql st (o1 # os) =
     (case ds (ds_idx o1) of
        DsEndpoint ep \<Rightarrow> map_option (map_prod id (\<lambda>os. o1 # os)) (route_sharding E input_typ raw_sql st os)
      | DsNodeGroup g \<Rightarrow>
          do { let input = (case input_typ of
                   StatementTyp \<Rightarrow> ShardingStatement raw_sql g
                 | TransactionTyp \<Rightarrow> ShardingTransaction raw_sql g
                 | NoneTyp \<Rightarrow> NoInput);
               (st, ep, _) \<leftarrow> dispatch (env_regex E) (env_gen E) (env_seeds E) st input;
               ep \<leftarrow> ep;
               (st, os) \<leftarrow> route_sharding E input_typ raw_sql st os;
               Some (st, o1\<lparr>ds_idx := (ds_idx o1)\<lparr>ds := DsEndpoint ep\<rparr>\<rparr> # os) }
      | DsNone \<Rightarrow> None)"

definition route_outputs ::
    "('w, 'k, 'q, 'x, 'r, 'l, 's) env \<Rightarrow> ('q, 'x, 'r, 'l, 's) ReqContext \<Rightarrow> RouteInputTyp \<Rightarrow> string \<Rightarrow>
     ('q, 'x, 'r, 'l, 's) ReqContext option" where
  "route_outputs E cx input_typ raw_sql =
     do { (st, ros) \<leftarrow> route_sharding E input_typ raw_sql (route_strategy cx) (results (rewrite_outputs cx));
          Some (cx\<lparr>route_strategy := st, rewrite_outputs := (rewrite_outputs cx)\<lparr>results := ros\<rparr>\<rparr>) }"

definition shard_query_inner ::
    "('w, 'k, 'q, 'x, 'r, 'l, 's) env \<Rightarrow> 'f float_ops \<Rightarrow> ('q, 'x, 'r, 'l, 's) ReqContext \<Rightarrow> bytes \<Rightarrow> 'w \<Rightarrow>
     ('q, 'x, 'r, 'l, 's, unit, 'w) reply" where
  "shard_query_inner E F cx payload w =
     do { attrs \<leftarrow> build_conn_attrs (get_session cx);
          raw_sql \<leftarrow> payload_text payload;
          (cx, r) \<leftarrow> query_rewrite E cx raw_sql;
          (case r of
             Inl e \<Rightarrow> Some (cx, Inl e, w)
           | Inr (is_get_conn, input_typ, outputs) \<Rightarrow>
               do { let cx = cx\<lparr>rewrite_outputs := outputs\<rparr>;
                    if results outputs = [] then
                      do { (cx, r, w) \<leftarrow> query_inner_get_conn E cx payload w;
                           (case r of
                              Inl e \<Rightarrow> Some (cx, Inl e, w)
                            | Inr conn \<Rightarrow>
                                do { (cx, conn, r, w) \<leftarrow> query_inner E cx conn payload w;
                                     cx \<leftarrow> put_conn E cx conn;
                                     Some (cx, r, w) }) }
                    else do {
                      cx \<leftarrow> route_outputs E cx input_typ raw_sql;
                      shard_query_executor E F cx attrs is_get_conn w } }) }"

fun put_stmts :: "StmtCache \<Rightarrow> u32 \<Rightarrow> (Stmt \<times> ClientConn) list \<Rightarrow> StmtCache" where
  "put_stmts sc sid [] = sc"
| "put_stmts sc sid ((stmt, conn) # xs) = put_stmts (StmtCache_put sc sid (stmt_id stmt) conn) sid xs"

definition prepare_shard_inner ::
    "('w, 'k, 'q, 'x, 'r, 'l, 's) env \<Rightarrow> ('q, 'x, 'r, 'l, 's) ReqContext \<Rightarrow> bytes \<Rightarrow> 'w \<Rightarrow>
     ('q, 'x, 'r, 'l, 's, unit, 'w) reply" where
  "prepare_shard_inner E cx payload w =
     do { let sid = rq_stmt_id cx + 1;
          let cx = cx\<lparr>rq_stmt_id := sid\<rparr>;
          attrs \<leftarrow> build_conn_attrs (get_session cx);
          raw_sql \<leftarrow> payload_text payload;
          (cx, r) \<leftarrow> query_rewrite E cx raw_sql;
          (case r of
             Inl e \<Rightarrow> Some (cx, Inl e, w)
           | Inr (_, input_typ, outputs) \<Rightarrow>
               do { let cx = cx\<lparr>rewrite_outputs := outputs\<rparr>;
                    let (cx, _) = fsm_trigger_event cx PrepareEvent;
                    if results outputs = [] then
                      do { (cx, r, w) \<leftarrow> fsm_trigger E cx PrepareEvent StatementTyp raw_sql w;
                           (case r of
                              Inl e \<Rightarrow> Some (cx, Inl e, w)
                            | Inr conn \<Rightarrow>
                                do { (cx, conn, r, w) \<leftarrow> prepare_normal_inner E cx conn payload w;
                                     cx \<leftarrow> put_conn E cx conn;
                                     Some (cx, r, w) }) }
                    else do {
                      cx \<leftarrow> route_outputs E cx input_typ raw_sql;
                      ro \<leftarrow> idx (results (rewrite_outputs cx)) 0;
                      (cx, r, w) \<leftarrow> shard_prepare_executor E cx attrs w;
                      (case r of
                         Inl e \<Rightarrow> Some (cx, Inl e, w)
                       | Inr (stmts, conns) \<Rightarrow>
                           do { let cx = cx\<lparr>stmt_cache := put_stmts (stmt_cache cx) sid (zip stmts conns)\<rparr>;
                                stmt \<leftarrow> idx stmts 0;
                                let cx = cx\<lparr>stmt_cache := put_sharding_column (stmt_cache cx) sid (ds_column (ds_idx ro))\<rparr>;
                                prepare_stmt E cx (stmt\<lparr>stmt_id := sid\<rparr>) w }) } }) }"

definition execute_shard_inner ::
    "('w, 'k, 'q, 'x, 'r, 'l, 's) env \<Rightarrow> 'f float_ops \<Rightarrow> ('q, 'x, 'r, 'l, 's) ReqContext \<Rightarrow> bytes \<Rightarrow> 'w \<Rightarrow>
     ('q, 'x, 'r, 'l, 's, unit, 'w) reply" where
  "execute_shard_inner E F cx payload w = shard_execute_executor E F cx payload w"

end
