(* ===== verification/Service.thy ===== *)
theory Service
  imports Executor
begin

section \<open>The service: commands and the loop of a session\<close>

text \<open>
  The handlers of \<open>PisaMySQLService\<close> in \<open>runtime/mysql/src/server/server.rs\<close> and the loop that
  reads commands, \<open>MySQLInstance\<close> in \<open>runtime/mysql/src/mysql.rs\<close>.  Metrics, logging and
  durations are left out.  A handler answers with the endpoint it used.
\<close>

text \<open>The early return of \<open>?\<close>: an error after the connection was let go of.\<close>

definition fail_with ::
    "('w, 'k, 'q, 'x, 'r, 'l, 's) env \<Rightarrow> ('q, 'x, 'r, 'l, 's) ReqContext \<Rightarrow> ClientConn \<Rightarrow> ErrorKind \<Rightarrow> 'w \<Rightarrow>
     ('q, 'x, 'r, 'l, 's, string option, 'w) reply" where
  "fail_with E cx conn e w = do { cx \<leftarrow> drop_conn E cx (Some conn); Some (cx, Inl e, w) }"

definition answer_ok ::
    "('w, 'k, 'q, 'x, 'r, 'l, 's) env \<Rightarrow> ('q, 'x, 'r, 'l, 's) ReqContext \<Rightarrow> 'w \<Rightarrow> ('q, 'x, 'r, 'l, 's, string option, 'w) reply" where
  "answer_ok E cx w =
     do { (cx, r, w) \<leftarrow> send_packet E cx ok_packet w; Some (cx, map_sum id (\<lambda>_. None) r, w) }"

definition answer_err ::
    "('w, 'k, 'q, 'x, 'r, 'l, 's) env \<Rightarrow> ('q, 'x, 'r, 'l, 's) ReqContext \<Rightarrow> MySQLError \<Rightarrow> 'w \<Rightarrow>
     ('q, 'x, 'r, 'l, 's, string option, 'w) reply" where
  "answer_err E cx e w =
     do { (cx, r, w) \<leftarrow> send_packet E cx (make_err_packet e) w; Some (cx, map_sum id (\<lambda>_. None) r, w) }"


subsection \<open>Handlers\<close>

definition init_db ::
    "('w, 'k, 'q, 'x, 'r, 'l, 's) env \<Rightarrow> ('q, 'x, 'r, 'l, 's) ReqContext \<Rightarrow> bytes \<Rightarrow> 'w \<Rightarrow> ('q, 'x, 'r, 'l, 's, string option, 'w) reply" where
  "init_db E cx payload w =
     do { d \<leftarrow> payload_text payload;
          let cx = session_mut (\<lambda>s. set_db s d) cx;
          if rewriter cx \<noteq> None then answer_ok E cx w
          else do {
            (cx, r, w) \<leftarrow> fsm_trigger E cx UseEvent StatementTyp d w;
            (case r of
               Inl e \<Rightarrow> Some (cx, Inl e, w)
             | Inr conn \<Rightarrow>
                 do { let ep = endpoint conn;
                      (cx, conn, r, w) \<leftarrow> init_db_inner E cx conn payload w;
                      (case r of
                         Inl e \<Rightarrow> fail_with E cx conn e w
                       | Inr _ \<Rightarrow> do { cx \<leftarrow> put_conn E cx conn; Some (cx, Inr (Some ep), w) }) }) } }"

definition query ::
    "('w, 'k, 'q, 'x, 'r, 'l, 's) env \<Rightarrow> 'f float_ops \<Rightarrow> ('q, 'x, 'r, 'l, 's) ReqContext \<Rightarrow> bytes \<Rightarrow> 'w \<Rightarrow>
     ('q, 'x, 'r, 'l, 's, string option, 'w) reply" where
  "query E F cx payload w =
     (if rewriter cx \<noteq> None then
        do { (cx, r, w) \<leftarrow> shard_query_inner E F cx payload w; Some (cx, map_sum id (\<lambda>_. None) r, w) }
      else do {
        (cx, r, w) \<leftarrow> query_inner_get_conn E cx payload w;
        (case r of
           Inl e \<Rightarrow> Some (cx, Inl e, w)
         | Inr conn \<Rightarrow>
             do { let ep = endpoint conn;
                  (cx, conn, r, w) \<leftarrow> query_inner E cx conn payload w;
                  (case r of
                     Inl e \<Rightarrow> fail_with E cx conn e w
                   | Inr _ \<Rightarrow> do { cx \<leftarrow> put_conn E cx conn; Some (cx, Inr (Some ep), w) }) }) })"

text \<open>Only an error packet of the backend is passed on; every other error of a prepare is
  dropped and the client gets no answer.\<close>

definition answer_prepare ::
    "('w, 'k, 'q, 'x, 'r, 'l, 's) env \<Rightarrow> ('q, 'x, 'r, 'l, 's) ReqContext \<Rightarrow> ErrorKind + unit \<Rightarrow> string option \<Rightarrow> 'w \<Rightarrow>
     ('q, 'x, 'r, 'l, 's, string option, 'w) reply" where
  "answer_prepare E cx r ep w =
     (case r of
        Inl (Protocol (PrepareError data)) \<Rightarrow>
          do { payload \<leftarrow> payload_of data;
               (cx, r, w) \<leftarrow> client_send E cx (Encode payload) w;
               Some (cx, map_sum Protocol (\<lambda>_. ep) r, w) }
      | _ \<Rightarrow> Some (cx, Inr ep, w))"

definition prepare ::
    "('w, 'k, 'q, 'x, 'r, 'l, 's) env \<Rightarrow> ('q, 'x, 'r, 'l, 's) ReqContext \<Rightarrow> bytes \<Rightarrow> 'w \<Rightarrow>
     ('q, 'x, 'r, 'l, 's, string option, 'w) reply" where
  "prepare E cx payload w =
     (if rewriter cx \<noteq> None then
        do { let (cx, _) = fsm_trigger_event cx PrepareEvent;
             (cx, r, w) \<leftarrow> prepare_shard_inner E cx payload w;
             answer_prepare E cx r None w }
      else do {
        sql \<leftarrow> payload_text payload;
        (cx, r, w) \<leftarrow> fsm_trigger E cx PrepareEvent StatementTyp sql w;
        (case r of
           Inl e \<Rightarrow> Some (cx, Inl e, w)
         | Inr conn \<Rightarrow>
             do { let ep = endpoint conn;
                  (cx, conn, r, w) \<leftarrow> prepare_normal_inner E cx conn payload w;
                  cx \<leftarrow> put_conn E cx conn;
                  answer_prepare E cx r (Some ep) w }) })"

text \<open>The result of \<open>execute_inner\<close> is dropped.\<close>

definition execute ::
    "('w, 'k, 'q, 'x, 'r, 'l, 's) env \<Rightarrow> 'f float_ops \<Rightarrow> ('q, 'x, 'r, 'l, 's) ReqContext \<Rightarrow> bytes \<Rightarrow> 'w \<Rightarrow>
     ('q, 'x, 'r, 'l, 's, string option, 'w) reply" where
  "execute E F cx payload w =
     (if rewriter cx \<noteq> None then
        do { (cx, r, w) \<leftarrow> execute_shard_inner E F cx payload w; Some (cx, map_sum id (\<lambda>_. None) r, w) }
      else do {
        _ \<leftarrow> build_conn_attrs (get_session cx);
        (fs, conn) \<leftarrow> fsm_get_conn (fsm cx);
        let ep = endpoint conn;
        (cx, conn, _, w) \<leftarrow> execute_inner E (cx\<lparr>fsm := fs\<rparr>) conn payload w;
        cx \<leftarrow> put_conn E cx conn;
        Some (cx, Inr (Some ep), w) })"

definition stmt_close ::
    "('w, 'k, 'q, 'x, 'r, 'l, 's) env \<Rightarrow> ('q, 'x, 'r, 'l, 's) ReqContext \<Rightarrow> bytes \<Rightarrow> 'w \<Rightarrow>
     ('q, 'x, 'r, 'l, 's, string option, 'w) reply" where
  "stmt_close E cx payload w =
     do { sid \<leftarrow> read_u32 payload;
          let (sc, dropped) = StmtCache_remove (stmt_cache cx) sid;
          cx \<leftarrow> drop_conns E (cx\<lparr>stmt_cache := sc\<rparr>) dropped;
          Some (cx, Inr None, w) }"

definition quit :: "('q, 'x, 'r, 'l, 's) ReqContext \<Rightarrow> 'w \<Rightarrow> ('q, 'x, 'r, 'l, 's, string option, 'w) reply" where
  "quit cx w = Some (cx, Inr None, w)"

definition field_list ::
    "('w, 'k, 'q, 'x, 'r, 'l, 's) env \<Rightarrow> ('q, 'x, 'r, 'l, 's) ReqContext \<Rightarrow> bytes \<Rightarrow> 'w \<Rightarrow>
     ('q, 'x, 'r, 'l, 's, string option, 'w) reply" where
  "field_list E cx payload w =
     (if rewriter cx \<noteq> None then answer_ok E cx w
      else do {
        (cx, r, w) \<leftarrow> fsm_trigger E cx QueryEvent NoneTyp [] w;
        (case r of
           Inl e \<Rightarrow> Some (cx, Inl e, w)
         | Inr conn \<Rightarrow>
             do { let ep = endpoint conn;
                  (cx, conn, r, w) \<leftarrow> field_list_inner E cx conn payload w;
                  (case r of
                     Inl e \<Rightarrow> fail_with E cx conn e w
                   | Inr _ \<Rightarrow> do { cx \<leftarrow> put_conn E cx conn; Some (cx, Inr (Some ep), w) }) }) })"


subsection \<open>Commands\<close>

definition plugin_run ::
    "('w, 'k, 'q, 'x, 'r, 'l, 's) env \<Rightarrow> nat \<Rightarrow> ('q, 'x, 'r, 'l, 's) ReqContext \<Rightarrow> bytes \<Rightarrow>
     ('q, 'x, 'r, 'l, 's) ReqContext \<times> (PluginError + unit)" where
  "plugin_run E now cx payload =
     (case plugin cx of
        None \<Rightarrow> (cx, Inr ())
      | Some p \<Rightarrow>
          (let input = bytes_str payload in
           case circuit_handle (env_regex E) (circuit_break p) input of
             Inl e \<Rightarrow> (cx, Inl e)
           | Inr _ \<Rightarrow>
               (case concurrency_handle (env_regex E) now (concurrency_control p) input of
                  (cc, Inl e) \<Rightarrow> (cx\<lparr>plugin := Some (p\<lparr>concurrency_control := cc\<rparr>)\<rparr>, Inl e)
                | (cc, Inr (i, _)) \<Rightarrow>
                    (cx\<lparr>plugin := Some (p\<lparr>concurrency_control := cc\<rparr>), concurrency_control_rule_idx := i\<rparr>, Inr ()))))"

text \<open>The second component is \<open>is_quit\<close>.\<close>

definition handle_command ::
    "('w, 'k, 'q, 'x, 'r, 'l, 's) env \<Rightarrow> 'f float_ops \<Rightarrow> nat \<Rightarrow> ('q, 'x, 'r, 'l, 's) ReqContext \<Rightarrow> bytes \<Rightarrow> 'w \<Rightarrow>
     (('q, 'x, 'r, 'l, 's) ReqContext \<times> bool \<times> (ErrorKind + string option) \<times> 'w) option" where
  "handle_command E F now cx data w =
     do { (com, payload) \<leftarrow> get_u8 data;
          (case plugin_run E now cx payload of
             (cx, Inl err) \<Rightarrow>
               do { (cx, r, w) \<leftarrow> answer_err E cx
                      \<lparr>code = 1047, state = str_bytes ''08S01'', msg = str_bytes (PluginError_to_string err)\<rparr> w;
                    Some (cx, False, r, w) }
           | (cx, Inr _) \<Rightarrow>
               do { com \<leftarrow> ComType_from com;
                    (cx, r, w) \<leftarrow> (case com of
                         QUIT \<Rightarrow> quit cx w
                       | INIT_DB \<Rightarrow> init_db E cx payload w
                       | QUERY \<Rightarrow> query E F cx payload w
                       | FIELD_LIST \<Rightarrow> field_list E cx payload w
                       | PING \<Rightarrow> answer_ok E cx w
                       | STMT_PREPARE \<Rightarrow> prepare E cx payload w
                       | STMT_EXECUTE \<Rightarrow> execute E F cx payload w
                       | STMT_CLOSE \<Rightarrow> stmt_close E cx payload w
                       | STMT_RESET \<Rightarrow> answer_ok E cx w
                       | x \<Rightarrow> answer_err E cx
                           \<lparr>code = 1047, state = str_bytes ''08S01'',
                            msg = str_bytes (''command '' @ ComType_as_ref x @ '' not support'')\<rparr> w);
                    Some (cx, com = QUIT, r, w) }) }"

definition packet_dec :: "(ServerHandshakeCodec PacketCodec, bytes) decoder" where
  "packet_dec c src = (case PacketCodec_decode c src of (c, src, r) \<Rightarrow> Some (c, src, Inr r))"

text \<open>What follows a command: an error of the handler is answered, the sequence number is
  reset and a permit is given back.\<close>

definition after_command ::
    "('w, 'k, 'q, 'x, 'r, 'l, 's) env \<Rightarrow> ('q, 'x, 'r, 'l, 's) ReqContext \<Rightarrow> ErrorKind + string option \<Rightarrow> 'w \<Rightarrow>
     ('q, 'x, 'r, 'l, 's, unit, 'w) reply" where
  "after_command E cx r w =
     do { (cx, r, w) \<leftarrow> (case r of
             Inl err \<Rightarrow>
               send_packet E cx (make_err_packet \<lparr>code = 2002, state = str_bytes ''HY000'',
                 msg = str_bytes ''There is no healthy backend to connect.''\<rparr>) w
           | Inr _ \<Rightarrow> Some (cx, Inr (), w));
          (case r of
             Inl e \<Rightarrow> Some (cx, Inl e, w)
           | Inr _ \<Rightarrow>
               do { let cx = cx\<lparr>rq_framed := (rq_framed cx)\<lparr>codec := reset_seq (codec (rq_framed cx))\<rparr>\<rparr>;
                    cx \<leftarrow> (case concurrency_control_rule_idx cx of
                       None \<Rightarrow> Some cx
                     | Some i \<Rightarrow>
                         do { p \<leftarrow> plugin cx;
                              cc \<leftarrow> add_permits (concurrency_control p) i;
                              Some (cx\<lparr>plugin := Some (p\<lparr>concurrency_control := cc\<rparr>),
                                       concurrency_control_rule_idx := None\<rparr>) });
                    Some (cx, Inr (), w) }) }"

text \<open>One turn of the loop of \<open>run\<close>: \<open>Inl\<close> leaves it with a result.  The clock gives the time
  of each turn.\<close>

definition run_turn ::
    "('w, 'k, 'q, 'x, 'r, 'l, 's) env \<Rightarrow> 'f float_ops \<Rightarrow> ('w \<Rightarrow> nat) \<Rightarrow> ('q, 'x, 'r, 'l, 's) ReqContext \<Rightarrow> 'w \<Rightarrow>
     (('q, 'x, 'r, 'l, 's) ReqContext \<times> ((ErrorKind + unit) option) \<times> 'w) option" where
  "run_turn E F clock cx w =
     do { (f, data) \<leftarrow> framed_next packet_dec (rq_framed cx);
          let cx = cx\<lparr>rq_framed := f\<rparr>;
          (case data of
             None \<Rightarrow> Some (cx, Some (Inr ()), w)
           | Some (Inl e) \<Rightarrow> Some (cx, Some (Inl (Protocol e)), w)
           | Some (Inr data) \<Rightarrow>
               do { (cx, is_quit, r, w) \<leftarrow> handle_command E F (clock w) cx data w;
                    (cx, r, w) \<leftarrow> after_command E cx r w;
                    (case r of
                       Inl e \<Rightarrow> Some (cx, Some (Inl e), w)
                     | Inr _ \<Rightarrow> Some (cx, if is_quit then Some (Inr ()) else None, w)) }) }"

partial_function (option) run_loop ::
    "('w, 'k, 'q, 'x, 'r, 'l, 's) env \<Rightarrow> 'f float_ops \<Rightarrow> ('w \<Rightarrow> nat) \<Rightarrow> ('q, 'x, 'r, 'l, 's) ReqContext \<Rightarrow> 'w \<Rightarrow>
     (('q, 'x, 'r, 'l, 's) ReqContext \<times> (ErrorKind + unit) \<times> 'w) option" where
  "run_loop E F clock cx w =
     do { (cx, r, w) \<leftarrow> run_turn E F clock cx w;
          (case r of Some r \<Rightarrow> Some (cx, r, w) | None \<Rightarrow> run_loop E F clock cx w) }"

definition run ::
    "('w, 'k, 'q, 'x, 'r, 'l, 's) env \<Rightarrow> 'f float_ops \<Rightarrow> ('w \<Rightarrow> nat) \<Rightarrow> ('q, 'x, 'r, 'l, 's) ReqContext \<Rightarrow> 'w \<Rightarrow>
     (('q, 'x, 'r, 'l, 's) ReqContext \<times> (ErrorKind + unit) \<times> 'w) option" where
  "run E F clock cx w =
     run_loop E F clock (cx\<lparr>fsm := fsm_set_db (fsm cx) (get_db (get_session cx))\<rparr>) w"

text \<open>The end of the session, when the context is dropped: the connections it holds go back to the
  pool, also those of the prepared statements, whose ids are given in the order of the hash map.\<close>

definition session_end ::
    "('w, 'k, 'q, 'x, 'r, 'l, 's) env \<Rightarrow> u32 list \<Rightarrow> ('q, 'x, 'r, 'l, 's) ReqContext \<Rightarrow> ('q, 'x, 'r, 'l, 's) ReqContext option" where
  "session_end E ids cx =
     do { cx \<leftarrow> drop_conn E cx (client_conn (fsm cx));
          cx \<leftarrow> drop_conns E cx (shard_cache_conn (fsm cx));
          drop_conns E cx (concat (map (\<lambda>i. map en_conn (entries (stmt_cache cx) i)) ids)) }"

text \<open>The context a session starts with, after the handshake gave \<open>codec\<close>.\<close>

definition ReqContext_new ::
    "('r, 'x) RouteStrategy \<Rightarrow> ('q, ClientConn) Pool \<Rightarrow> 'l \<Rightarrow> 'x PluginPhase option \<Rightarrow> 's option \<Rightarrow> ServerHandshakeCodec \<Rightarrow>
     nat \<Rightarrow> bytes list \<Rightarrow> bool \<Rightarrow> ('q, 'x, 'r, 'l, 's) ReqContext" where
  "ReqContext_new strategy p l pl rw c sk chunks eof =
     \<lparr>fsm = TransFsm_new, route_strategy = strategy, rq_pool = p, ast_cache = l, plugin = pl,
      concurrency_control_rule_idx = None,
      rq_framed = \<lparr>codec = PacketCodec_new c 8196, rbuf = [], sock = sk, inbox = chunks, closed = eof\<rparr>,
      rq_wbuf = [], rewriter = rw, rewrite_outputs = no_outputs, stmt_cache = StmtCache_new, rq_stmt_id = 0\<rparr>"

end
