(* ===== verification/Relay.thy ===== *)
theory Relay
  imports Service
begin

section \<open>Relaying result sets\<close>

text \<open>
  What a client gets to see of the answer of a backend: lemmas on the relaying functions of
  \<open>server.rs\<close>, which compose the stream of a result set (theory of the backend codecs) with
  the packet encoder of the client side (theory of packets).
\<close>


subsection \<open>Packets written one after the other\<close>

fun packet_stream :: "u8 \<Rightarrow> bytes list \<Rightarrow> bytes" where
  "packet_stream s [] = []"
| "packet_stream s (p # ps) = frames s p @ packet_stream (s + of_nat (length p div MAX_PAYLOAD_LEN) + 1) ps"

fun seq_after :: "u8 \<Rightarrow> bytes list \<Rightarrow> u8" where
  "seq_after s [] = s"
| "seq_after s (p # ps) = seq_after (s + of_nat (length p div MAX_PAYLOAD_LEN) + 1) ps"

lemma packet_stream_append: "packet_stream s (ps @ qs) = packet_stream s ps @ packet_stream (seq_after s ps) qs"
  by (induction ps arbitrary: s) simp_all

lemma seq_after_append: "seq_after s (ps @ qs) = seq_after (seq_after s ps) qs"
  by (induction ps arbitrary: s) simp_all

abbreviation cx_seq :: "('q, 'x, 'r, 'l, 's) ReqContext \<Rightarrow> u8" where
  "cx_seq cx \<equiv> seq (codec (rq_framed cx))"

definition with_seq :: "u8 \<Rightarrow> ('q, 'x, 'r, 'l, 's) ReqContext \<Rightarrow> ('q, 'x, 'r, 'l, 's) ReqContext" where
  "with_seq s cx = cx\<lparr>rq_framed := (rq_framed cx)\<lparr>codec := (codec (rq_framed cx))\<lparr>seq := s\<rparr>\<rparr>\<rparr>"

lemma with_seq_simps [simp]:
  "cx_seq (with_seq s cx) = s" "with_seq s (with_seq t cx) = with_seq s cx" "with_seq (cx_seq cx) cx = cx"
  "fsm (with_seq s cx) = fsm cx" "rq_pool (with_seq s cx) = rq_pool cx" "rewriter (with_seq s cx) = rewriter cx"
  "ast_cache (with_seq s cx) = ast_cache cx"
  by (simp_all add: with_seq_def)

lemma codec_encode_end:
  "codec_encode cx (EncodeOffset p (length out)) out =
     Some (with_seq (seq_after (cx_seq cx) [p]) cx, out @ packet_stream (cx_seq cx) [p])"
  by (simp add: codec_encode_def PacketCodec_encode_def encode_packet_offset_end with_seq_def)

lemma codec_encode_first:
  "codec_encode cx (EncodeOffset p 0) [] = Some (with_seq (seq_after (cx_seq cx) [p]) cx, packet_stream (cx_seq cx) [p])"
  using codec_encode_end [of cx p "[]"] by simp

lemma encode_all_end:
  "\<forall>d \<in> set ps. 4 \<le> length d \<Longrightarrow> encode_all cx ps out =
     Some (with_seq (seq_after (cx_seq cx) (map (drop 4) ps)) cx, out @ packet_stream (cx_seq cx) (map (drop 4) ps))"
proof (induction ps arbitrary: cx out)
  case (Cons d ps)
  then show ?case
    using Cons.IH [of "with_seq (cx_seq cx + of_nat ((length d - 4) div MAX_PAYLOAD_LEN) + 1) cx"]
    by (simp add: payload_of_def codec_encode_end)
qed simp


subsection \<open>Taking a stream apart\<close>

lemma items_Cons:
  assumes "ResultsetStream_items f = Some (x # xs, g)"
  obtains f1 where "ResultsetStream_next f = Some (f1, Some x)" "ResultsetStream_items f1 = Some (xs, g)"
  using assms by (subst (asm) ResultsetStream_items.simps) (auto simp: bind_eq_Some_conv split: option.splits)

lemma items_Nil:
  assumes "ResultsetStream_items f = Some ([], g)"
  shows "ResultsetStream_next f = Some (g, None)"
  using assms by (subst (asm) ResultsetStream_items.simps) (auto simp: bind_eq_Some_conv split: option.splits)

lemma relay_rows_items:
  "ResultsetStream_items f = Some (map Inr rows, g) \<Longrightarrow> \<forall>d \<in> set rows. 4 \<le> length d \<Longrightarrow>
   relay_rows cx f out = do { (cx, out) \<leftarrow> encode_all cx rows out; Some (cx, g, Inr out) }"
proof (induction rows arbitrary: cx f out)
  case Nil
  then show ?case
    by (subst relay_rows.simps) (simp add: items_Nil)
next
  case (Cons d rows)
  from Cons.prems(1) obtain f1 where f1: "ResultsetStream_next f = Some (f1, Some (Inr d))"
      "ResultsetStream_items f1 = Some (map Inr rows, g)"
    by (auto elim: items_Cons)
  then show ?case
    using Cons by (subst relay_rows.simps) (simp add: payload_of_def codec_encode_end)
qed

lemma relay_columns_items:
  "ResultsetStream_items f = Some (map Inr cols @ rest, g) \<Longrightarrow> \<forall>d \<in> set cols. 4 \<le> length d \<Longrightarrow>
   \<exists>f1. ResultsetStream_items f1 = Some (rest, g) \<and>
     relay_columns (length cols) cx f out = do { (cx, out) \<leftarrow> encode_all cx cols out; Some (cx, f1, Inr out) }"
proof (induction cols arbitrary: cx f out)
  case (Cons d cols)
  from Cons.prems(1) obtain f1 where f1: "ResultsetStream_next f = Some (f1, Some (Inr d))"
      "ResultsetStream_items f1 = Some (map Inr cols @ rest, g)"
    by (auto elim: items_Cons)
  then show ?case
    using Cons.IH [OF f1(2)] Cons.prems(2) by (simp add: payload_of_def codec_encode_end)
qed auto

definition eof_reply :: bytes where
  "eof_reply = drop 4 make_eof_packet"

text \<open>A whole result set becomes one write of renumbered packets.\<close>

lemma handle_query_resultset_table:
  assumes "ResultsetStream_items f = Some (map Inr (header # cols @ e # rows), g)"
    "\<forall>d \<in> set (header # cols @ rows). 4 \<le> length d" "drop 4 header = cnt" "cnt \<noteq> []" "hd cnt \<noteq> OK_HEADER" "hd cnt \<noteq> ERR_HEADER"
    "length_encode_int cnt = Some (n, x)" "unat n = length cols"
  defines "payloads \<equiv> [cnt] @ map (drop 4) cols @ [eof_reply] @ map (drop 4) rows @ [eof_reply]"
  shows "handle_query_resultset E cx f w =
    do { (cx, r, w) \<leftarrow> client_send E (with_seq (seq_after (cx_seq cx) payloads) cx)
           (Origin (packet_stream (cx_seq cx) payloads)) w;
         Some (cx, g, r, w) }"
proof -
  obtain f1 where f1: "ResultsetStream_next f = Some (f1, Some (Inr header))"
      "ResultsetStream_items f1 = Some (map Inr cols @ map Inr (e # rows), g)"
    using assms(1) by (auto elim: items_Cons)
  have h4: "idx header 4 = Some (hd cnt)"
    using assms(3,4) by (auto simp: idx_def hd_drop_conv_nth)
  have pay: "payload_of header = Some cnt"
    using assms(2,3) by (simp add: payload_of_def)
  let ?cx1 = "with_seq (seq_after (cx_seq cx) [cnt]) cx"
  obtain f2 where f2: "ResultsetStream_items f2 = Some (map Inr (e # rows), g)"
      "relay_columns (length cols) ?cx1 f1 (packet_stream (cx_seq cx) [cnt]) =
        do { (cx, out) \<leftarrow> encode_all ?cx1 cols (packet_stream (cx_seq cx) [cnt]); Some (cx, f2, Inr out) }"
    using relay_columns_items [OF f1(2)] assms(2) by force
  obtain f3 where f3: "ResultsetStream_next f2 = Some (f3, Some (Inr e))" "ResultsetStream_items f3 = Some (map Inr rows, g)"
    using f2(1) by (auto elim: items_Cons)
  have rows: "relay_rows cx' f3 out = do { (cx, out) \<leftarrow> encode_all cx' rows out; Some (cx, g, Inr out) }" for cx' out
    using relay_rows_items [OF f3(2)] assms(2) by auto
  show ?thesis
    using f1(1) h4 pay assms(2,5-8) f2(2) f3(1)
    by (simp add: handle_query_resultset_def relay_table_def codec_encode_first codec_encode_end encode_all_end rows
        payloads_def packet_stream_append seq_after_append flip: eof_reply_def)
qed


subsection \<open>Streams and sockets\<close>

lemma framed_poll_sock: "framed_poll dec f = Some (f', r) \<Longrightarrow> sock f' = sock f"
  by (auto simp: framed_poll_def bind_eq_Some_conv)

lemma ResultsetStream_next_sock:
  assumes "ResultsetStream_next f = Some (f', r)"
  shows "sock f' = sock f"
proof -
  obtain g q where p: "framed_poll ResultsetCodec_decode f = Some (g, q)"
    using assms by (auto simp: ResultsetStream_next_def Let_def bind_eq_Some_conv)
  have "g = f'"
  proof (cases q)
    case (Ready x)
    then show ?thesis
      using assms p by (cases x; cases "the x")
        (auto simp: ResultsetStream_next_def Let_def bind_eq_Some_conv split: if_splits)
  qed (use assms p in \<open>auto simp: ResultsetStream_next_def Let_def split: if_splits\<close>)
  then show ?thesis
    using framed_poll_sock [OF p] by simp
qed

lemma into_resultset_sock: "sock (into_resultset cc) = codec_sock cc"
  by (rule into_keeps_auth(4))

definition conn_sock :: "ClientConn \<Rightarrow> nat option" where
  "conn_sock conn = map_option codec_sock (framed conn)"

text \<open>A connection on which nothing is waiting to be read.\<close>

definition idle_on :: "ClientConn \<Rightarrow> ClientCodec \<Rightarrow> bool" where
  "idle_on conn cc \<longleftrightarrow> framed conn = Some cc \<and> pending_bytes (into_resultset cc) = []"


text \<open>An OK packet of the backend is passed on.\<close>

lemma query_answered:
  assumes "idle_on conn cc" "ok_payload p" "length p < 2 ^ 24" "concat chunks = frame s p"
    and "exch (env_backend E) (codec_sock cc) (write_command_binary (COM_QUERY, payload)) w = (Inr (chunks, eof), w1)"
  shows "\<exists>g. pending_bytes g = [] \<and> sock g = codec_sock cc \<and> query_inner E cx conn payload w =
    do { (cx, r, w) \<leftarrow> client_send E cx (Encode p) w1;
         Some (cx, conn\<lparr>framed := Some (ResultsetC g)\<rparr>, map_sum Protocol id r, w) }"
proof -
  let ?f0 = "into_resultset cc"
  obtain c out where enc: "ResultsetCodec_encode (codec ?f0) (Binary (COM_QUERY, payload)) = (c, out)"
      "rs_next_state c = ColumnCount" "out = write_command_binary (COM_QUERY, payload)"
    by (simp add: ResultsetCodec_encode_def)
  let ?f = "?f0\<lparr>codec := c, inbox := inbox ?f0 @ chunks, closed := closed ?f0 \<or> eof\<rparr>"
  have q: "send_query (env_backend E) payload conn w = Some (Inr (), conn\<lparr>framed := Some (ResultsetC ?f)\<rparr>, w1)"
    using assms(1,5) enc
    by (simp add: send_query_def send_rs_def take_framed_def idle_on_def framed_send_def into_resultset_sock Let_def)
  have p: "p \<noteq> []"
    using assms(2) by (auto simp: ok_payload_def)
  obtain g where g: "ResultsetStream_next ?f = Some (g, Some (Inr (frame s p)))" "pending_bytes g = []" "sock g = codec_sock cc"
    using stream_step [of ?f p s "[]"] assms(1-4) enc(2) p
    by (auto simp: rs_ok_def row_state_def idle_on_def pending_bytes_def into_resultset_sock)
  have "idx (frame s p) 4 = Some (hd p)" "drop 4 (frame s p) = p"
    using p by (simp_all add: frame_def idx_def hd_conv_nth nth_append)
  then have "handle_query_resultset E cx ?f w1 =
    do { (cx, r, w) \<leftarrow> client_send E cx (Encode p) w1; Some (cx, g, r, w) }"
    using g(1) assms(2) by (simp add: handle_query_resultset_def ok_payload_def)
  then show ?thesis
    using q g(2,3) by (intro exI [of _ g])
      (simp add: query_inner_def relay_resultset_def ResultsetStream_new_def put_resultset_def Option.bind_assoc
        case_prod_unfold)
qed


subsection \<open>Properties\<close>

text \<open>C7.  A query is relayed faithfully: when the backend answers with a result set, cut into chunks
  in any way, the client is sent, in a single write, the column count, every column definition,
  an EOF packet, every row and an EOF packet, in this order, each with its payload unchanged (the
  EOF packets are the proxy's own) and numbered consecutively from the sequence number of the
  session.
\<close>

theorem query_relayed:
  assumes "idle_on conn cc"
    and "exch (env_backend E) (codec_sock cc) (write_command_binary (COM_QUERY, payload)) w = (Inr (chunks, eof), w1)"
    and "concat chunks = wire ((t0, cnt) # cols @ (t1, e1) # rows @ [(t2, e2)])"
    and "count_packet cnt" "\<forall>(s, p) \<in> set cols. column_packet p" "eof_packet e1" "\<forall>(s, p) \<in> set rows. plain_packet p" "eof_packet e2"
    and "length_encode_int cnt = Some (n, x)" "unat n = length cols"
    and "payloads = [cnt] @ map snd cols @ [eof_reply] @ map snd rows @ [eof_reply]"
  shows "\<exists>g. query_inner E cx conn payload w =
    do { (cx, r, w) \<leftarrow> client_send E (with_seq (seq_after (cx_seq cx) payloads) cx)
           (Origin (packet_stream (cx_seq cx) payloads)) w1;
         Some (cx, conn\<lparr>framed := Some (ResultsetC g)\<rparr>, map_sum Protocol id r, w) }"
proof -
  let ?f0 = "into_resultset cc"
  obtain c out where enc: "ResultsetCodec_encode (codec ?f0) (Binary (COM_QUERY, payload)) = (c, out)"
      "rs_next_state c = ColumnCount" "out = write_command_binary (COM_QUERY, payload)"
    by (simp add: ResultsetCodec_encode_def)
  let ?f = "?f0\<lparr>codec := c, inbox := inbox ?f0 @ chunks, closed := closed ?f0 \<or> eof\<rparr>"
  have q: "send_query (env_backend E) payload conn w = Some (Inr (), conn\<lparr>framed := Some (ResultsetC ?f)\<rparr>, w1)"
    using assms(1,2) enc
    by (simp add: send_query_def send_rs_def take_framed_def idle_on_def framed_send_def into_resultset_sock Let_def)
  have "pending_bytes ?f = wire ((t0, cnt) # cols @ (t1, e1) # rows @ [(t2, e2)])"
    using assms(1,3) by (simp add: pending_bytes_def idle_on_def)
  then obtain f1 where f1: "ResultsetStream_next ?f = Some (f1, Some (Inr (frame t0 cnt)))"
      "rs_next_state (codec f1) = ColumnInfoState" "pending_bytes f1 = wire cols @ frame t1 e1 @ wire rows @ frame t2 e2 @ []"
    using count_step [of ?f cnt t0 "wire cols @ frame t1 e1 @ wire rows @ frame t2 e2"] enc(2) assms(4) by auto
  obtain g where "ResultsetStream_items f1 = Some (map (\<lambda>(s, p). Inr (frame s p)) (cols @ (t1, e1) # rows), g)"
    using columns_items [OF f1(2) assms(5-8) f1(3)] by blast
  then have items: "ResultsetStream_items ?f = Some (map Inr (frame t0 cnt # map (\<lambda>(s, p). frame s p) cols @
      frame t1 e1 # map (\<lambda>(s, p). frame s p) rows), g)"
    using items_step [OF f1(1)] by (simp add: comp_def case_prod_unfold)
  have drops: "map (drop 4) (map (\<lambda>(s, p). frame s p) ps) = map snd ps" for ps
    by (simp add: comp_def case_prod_unfold frame_def)
  have lens: "\<forall>d \<in> set (frame t0 cnt # map (\<lambda>(s, p). frame s p) cols @ map (\<lambda>(s, p). frame s p) rows). 4 \<le> length d"
    by (auto simp: frame_def)
  have "handle_query_resultset E cx ?f w1 =
    do { (cx, r, w) \<leftarrow> client_send E (with_seq (seq_after (cx_seq cx) payloads) cx)
           (Origin (packet_stream (cx_seq cx) payloads)) w1;
         Some (cx, g, r, w) }"
    using handle_query_resultset_table [OF items lens _ _ _ _ assms(9), of E cx w1] assms(4,10)
    unfolding drops assms(11) by (simp add: count_packet_def plain_packet_def frame_def)
  then show ?thesis
    using q by (intro exI [of _ g])
      (simp add: query_inner_def relay_resultset_def ResultsetStream_new_def put_resultset_def Option.bind_assoc
        case_prod_unfold)
qed

text \<open>An example: backends that answer what \<open>answer\<close> says, a client whose socket takes everything
  (the bytes are logged), no plugins, no sharding and an empty cache.\<close>

definition example_env ::
    "(nat \<Rightarrow> bytes \<Rightarrow> bytes list) \<Rightarrow> (string \<Rightarrow> string list + SqlStmt list) \<Rightarrow>
     (bytes list, unit, ClientConn list \<times> nat, string, unit, unit, unit) env" where
  "example_env answer parse =
     \<lparr>env_crypto = plain_crypto,
      env_backend = \<lparr>dial = (\<lambda>_ w. (Inl ''refused'', w)), exch = (\<lambda>sk out w. (Inr (answer sk out, False), w)),
                     ready = (\<lambda>_ _. True)\<rparr>,
      env_client = (\<lambda>_ out w. (Inr ([], False), w @ [out])), env_queue = list_queue,
      env_regex = prefix_regex,
      env_gen = (\<lambda>_ _. (0, ())), env_seeds = (\<lambda>_ _. ()), env_parse = parse,
      env_lru_get = (\<lambda>l _. (l, None)), env_lru_put = (\<lambda>l _ _. l),
      env_rewrite = (\<lambda>s _ _ _. Some (s, Inr no_outputs)), env_endpoints = (\<lambda>_. []), env_lossy = id\<rparr>"

definition example_cx :: "TransState \<Rightarrow> ClientConn option \<Rightarrow> (ClientConn list \<times> nat, string, unit, unit, unit) ReqContext" where
  "example_cx st conn =
     (ReqContext_new NoStrategy idle_pool () None None
       (fst (ServerHandshakeCodec_new 0 (replicate 20 0) ''u'' ''p'' [] ''5.7.37'')) 9 [] False)
     \<lparr>fsm := TransFsm_new\<lparr>current_state := st, client_conn := conn\<rparr>\<rparr>"

lemma example_client_send:
  "rq_wbuf cx = [] \<Longrightarrow> \<exists>cx'. client_send (example_env answer parse) cx (Origin out) w = Some (cx', Inr (), w @ [out])"
  by (simp add: client_send_def PacketCodec_encode_def framed_send_def example_env_def)

text \<open>One column, one row, in three chunks.\<close>

definition example_answer :: "nat \<Rightarrow> bytes \<Rightarrow> bytes list" where
  "example_answer sk out =
     [[1, 0, 0, 1, 1, 2], [0, 0, 2, 3, 9, 1, 0, 0, 3, 254], [2, 0, 0, 4, 1, 55, 1, 0, 0, 5, 254]]"

theorem query_relayed_witness:
  "\<exists>cx conn. query_inner (example_env example_answer (\<lambda>_. Inl [])) (example_cx TransDummyState None) idle_conn
      (str_bytes ''SELECT 7'') [] =
    Some (cx, conn, Inr (),
      [[1, 0, 0, 0, 1, 2, 0, 0, 1, 3, 9, 5, 0, 0, 2, 254, 0, 0, 2, 0, 2, 0, 0, 3, 1, 55, 5, 0, 0, 4, 254, 0, 0, 2, 0]])"
proof -
  have frames: "frames s p = le_bytes 3 (length p) @ s # p" if "length p < 6" for s p
    using that by (intro frames_last) (simp add: MAX_PAYLOAD_LEN_def)
  let ?E = "example_env example_answer (\<lambda>_. Inl [])" and ?cx = "example_cx TransDummyState None"
  let ?ps = "[[1], [3, 9], eof_reply, [1, 55], eof_reply]"
  have idle: "idle_on idle_conn idle_codec" "codec_sock idle_codec = 1"
    by (simp_all add: idle_on_def idle_conn_def idle_codec_def into_resultset_def codec_sock_def pending_bytes_def)
  have packets: "count_packet [1]" "\<forall>(s, p) \<in> set [(2 :: u8, [3, 9])]. column_packet p"
    "eof_packet [254]" "\<forall>(s, p) \<in> set [(4 :: u8, [1, 55])]. plain_packet p"
    by (simp_all add: count_packet_def plain_packet_def column_packet_def eof_packet_def eof_payload_def ok_payload_def
        OK_HEADER_def ERR_HEADER_def EOF_HEADER_def get_lenc_int_def)
  have wire: "concat (example_answer 1 []) = wire ((1, [1]) # [(2, [3, 9])] @ (3, [254]) # [(4, [1, 55])] @ [(5, [254])])"
    by (simp add: example_answer_def frame_def numeral_3_eq_3)
  have exch: "exch (env_backend ?E) (codec_sock idle_codec) (write_command_binary (COM_QUERY, str_bytes ''SELECT 7'')) [] =
      (Inr (example_answer 1 [], False), [])"
    by (simp add: example_env_def example_answer_def)
  have n: "length_encode_int [1] = Some (1, False, 1)" "unat (1 :: u64) = length [(2 :: u8, [3 :: u8, 9])]"
    by (simp_all add: length_encode_int_def)
  have ps: "?ps = [[1]] @ map snd [(2 :: u8, [3, 9])] @ [eof_reply] @ map snd [(4 :: u8, [1, 55])] @ [eof_reply]"
    by simp
  obtain g where g: "query_inner ?E ?cx idle_conn (str_bytes ''SELECT 7'') [] =
    do { (cx, r, w) \<leftarrow> client_send ?E (with_seq (seq_after (cx_seq ?cx) ?ps) ?cx) (Origin (packet_stream (cx_seq ?cx) ?ps)) [];
         Some (cx, idle_conn\<lparr>framed := Some (ResultsetC g)\<rparr>, map_sum Protocol id r, w) }"
    using query_relayed [OF idle(1) exch wire packets packets(3) n ps, of ?cx] by blast
  have seq: "cx_seq ?cx = 0"
    by (simp add: example_cx_def ReqContext_new_def PacketCodec_new_def)
  have eof: "eof_reply = [254, 0, 0, 2, 0]"
    by (simp add: eof_reply_def make_eof_packet_def le_bytes_numeral)
  have out: "packet_stream 0 ?ps =
      [1, 0, 0, 0, 1, 2, 0, 0, 1, 3, 9, 5, 0, 0, 2, 254, 0, 0, 2, 0, 2, 0, 0, 3, 1, 55, 5, 0, 0, 4, 254, 0, 0, 2, 0]"
    unfolding eof by (simp add: frames MAX_PAYLOAD_LEN_def le_bytes_numeral)
  have "rq_wbuf (with_seq (seq_after 0 ?ps) ?cx) = []"
    by (simp add: example_cx_def ReqContext_new_def with_seq_def)
  from example_client_send [OF this] obtain cx' where
    "client_send ?E (with_seq (seq_after 0 ?ps) ?cx) (Origin (packet_stream 0 ?ps)) [] = Some (cx', Inr (), [] @ [packet_stream 0 ?ps])"
    by blast
  then show ?thesis
    unfolding g seq by (simp only: out bind.simps prod.case map_sum.simps append.simps id_apply) blast
qed

end
