(* ===== verification/Affinity.thy ===== *)
theory Affinity
  imports Relay
begin

section \<open>Which connection the commands of a session use\<close>

text \<open>
  What the functions of the theories on sessions and the service keep: relaying an answer changes
  nothing of the context but the stream to the client, and the connection stays on its
  socket.  From this follow the invariant of the state machine and of the connection it holds,
  and that a transaction runs on one connection.
\<close>


subsection \<open>Answering changes only the stream to the client\<close>

definition client_only :: "('q, 'x, 'r, 'l, 's) ReqContext \<Rightarrow> ('q, 'x, 'r, 'l, 's) ReqContext \<Rightarrow> bool" where
  "client_only cx cx' \<longleftrightarrow> cx' = cx\<lparr>rq_framed := rq_framed cx', rq_wbuf := rq_wbuf cx'\<rparr>"

lemma client_only_refl [simp]: "client_only cx cx"
  by (simp add: client_only_def)

lemma client_only_trans [trans]: "client_only a b \<Longrightarrow> client_only b c \<Longrightarrow> client_only a c"
  unfolding client_only_def by (cases a; cases b; cases c) simp

lemma client_only_keeps:
  assumes "client_only cx cx'"
  shows "fsm cx' = fsm cx" "rq_pool cx' = rq_pool cx" "rewriter cx' = rewriter cx" "route_strategy cx' = route_strategy cx"
    "ast_cache cx' = ast_cache cx" "plugin cx' = plugin cx" "stmt_cache cx' = stmt_cache cx" "rewrite_outputs cx' = rewrite_outputs cx"
  using assms unfolding client_only_def by (cases cx; cases cx'; simp)+

lemma client_only_upd [simp]: "client_only cx (cx\<lparr>rq_framed := f\<rparr>)" "client_only cx (cx\<lparr>rq_framed := f, rq_wbuf := b\<rparr>)"
  by (simp_all add: client_only_def)

lemma client_only_encode: "codec_encode cx item d = Some (cx', d') \<Longrightarrow> client_only cx cx'"
  by (auto simp: codec_encode_def bind_eq_Some_conv)

lemma client_only_send:
  assumes "client_send E cx item w = Some (cx', r, w')"
  shows "client_only cx cx'"
proof -
  obtain c out where c: "PacketCodec_encode (codec (rq_framed cx)) item (rq_wbuf cx) = Some (c, out)"
    using assms by (auto simp: client_send_def bind_eq_Some_conv)
  obtain x v where x: "framed_send (env_client E) (rq_framed cx) c out w = (x, v)"
    by fastforce
  show ?thesis
    using assms c x by (cases x) (auto simp: client_send_def)
qed

lemma client_only_packet: "send_packet E cx p w = Some (cx', r, w') \<Longrightarrow> client_only cx cx'"
  by (auto simp: send_packet_def bind_eq_Some_conv dest: client_only_send)

lemma client_only_columns:
  "relay_columns n cx f out = Some (cx', f', r) \<Longrightarrow> client_only cx cx' \<and> sock f' = sock f"
proof (induction n arbitrary: cx f out)
  case (Suc n)
  obtain g d where g: "ResultsetStream_next f = Some (g, d)"
    using Suc.prems by (auto simp: bind_eq_Some_conv)
  note s = ResultsetStream_next_sock [OF g]
  show ?case
  proof (cases "\<exists>x. d = Some (Inr x)")
    case True
    then obtain p cx1 out1 where "codec_encode cx p out = Some (cx1, out1)" "relay_columns n cx1 g out1 = Some (cx', f', r)"
      using Suc.prems g by (auto simp: bind_eq_Some_conv)
    then show ?thesis
      using Suc.IH s by (metis client_only_encode client_only_trans)
  qed (use Suc.prems g s in \<open>auto split: option.splits sum.splits\<close>)
qed simp

lemma client_only_rows:
  assumes "relay_rows cx f out = Some (cx', f', r)"
  shows "client_only cx cx' \<and> sock f' = sock f"
proof (rule relay_rows.raw_induct [where P = "\<lambda>cx f out (cx', f', r). client_only cx cx' \<and> sock f' = sock f", OF _ assms, simplified],
    goal_cases)
  case (1 rec cx f out y)
  obtain g d where g: "ResultsetStream_next f = Some (g, d)"
    using 1(2) by (auto simp: bind_eq_Some_conv)
  note s = ResultsetStream_next_sock [OF g]
  show ?case
  proof (cases "\<exists>x. d = Some (Inr x)")
    case True
    then obtain p cx1 out1 where "codec_encode cx p out = Some (cx1, out1)" "rec cx1 g out1 = Some y"
      using 1(2) g by (auto simp: bind_eq_Some_conv)
    then show ?thesis
      using 1(1) s by (cases y) (metis (mono_tags, lifting) client_only_encode client_only_trans case_prodD case_prodI)
  qed (use 1(2) g s in \<open>auto split: option.splits sum.splits\<close>)
qed

lemma client_only_table:
  assumes "relay_table E cx f header w = Some (cx', f', r, w')"
  shows "client_only cx cx' \<and> sock f' = sock f"
proof -
  obtain p n x cx1 out1 cx2 f2 r2 where 1: "codec_encode cx (EncodeOffset p 0) [] = Some (cx1, out1)"
      "relay_columns (unat n) cx1 f out1 = Some (cx2, f2, r2)" "payload_of header = Some p" "length_encode_int p = Some (n, x)"
    using assms by (auto simp: relay_table_def bind_eq_Some_conv)
  have 2: "client_only cx cx2" "sock f2 = sock f"
    using client_only_encode [OF 1(1)] client_only_columns [OF 1(2)] client_only_trans by auto
  show ?thesis
  proof (cases r2)
    case (Inl e)
    then show ?thesis
      using assms 1 2 by (auto simp: relay_table_def bind_eq_Some_conv)
  next
    case (Inr out2)
    obtain f3 d cx3 out3 cx4 f4 r4 where 3: "ResultsetStream_next f2 = Some (f3, d)"
        "codec_encode cx2 (EncodeOffset (drop 4 make_eof_packet) (length out2)) out2 = Some (cx3, out3)"
        "relay_rows cx3 f3 out3 = Some (cx4, f4, r4)"
      using assms 1 Inr by (auto simp: relay_table_def bind_eq_Some_conv)
    have 4: "client_only cx cx4" "sock f4 = sock f"
      using 2 client_only_encode [OF 3(2)] client_only_rows [OF 3(3)] ResultsetStream_next_sock [OF 3(1)]
      by (auto intro: client_only_trans)
    show ?thesis
      using assms 1 3 4 Inr
      by (cases r4) (auto simp: relay_table_def bind_eq_Some_conv dest!: client_only_encode client_only_send
          intro: client_only_trans)
  qed
qed

lemma client_only_answer:
  assumes "handle_query_resultset E cx f w = Some (cx', f', r, w')"
  shows "client_only cx cx' \<and> sock f' = sock f"
proof -
  obtain g d where g: "ResultsetStream_next f = Some (g, d)"
    using assms by (auto simp: handle_query_resultset_def bind_eq_Some_conv)
  note s = ResultsetStream_next_sock [OF g]
  show ?thesis
  proof (cases "\<exists>x. d = Some (Inr x)")
    case True
    then show ?thesis
      using assms g s by (auto simp: handle_query_resultset_def bind_eq_Some_conv split: if_splits
          dest!: client_only_send client_only_table)
  qed (use assms g s in \<open>auto simp: handle_query_resultset_def split: option.splits sum.splits\<close>)
qed

lemma client_only_relay:
  assumes "relay_resultset E cx conn w = Some (cx', conn', r, w')"
  shows "client_only cx cx' \<and> endpoint conn' = endpoint conn \<and> conn_sock conn' = conn_sock conn"
  using assms by (auto simp: relay_resultset_def bind_eq_Some_conv ResultsetStream_new_def put_resultset_def conn_sock_def
      codec_sock_def dest!: client_only_answer split: option.splits ClientCodec.splits)

lemma send_rs_keeps:
  assumes "send_rs B bin com val conn w = Some (r, conn', w')"
  shows "endpoint conn' = endpoint conn \<and> (r = Inr () \<longrightarrow> conn_sock conn' = conn_sock conn)"
proof -
  obtain cc where cc: "framed conn = Some cc"
    using assms by (auto simp: send_rs_def take_framed_def bind_eq_Some_conv)
  show ?thesis
    using assms cc into_resultset_sock [of cc]
    by (auto simp: send_rs_def take_framed_def framed_send_def Let_def conn_sock_def codec_sock_def
        split: prod.splits sum.splits)
qed

lemma client_only_query:
  assumes "query_inner E cx conn payload w = Some (cx', conn', r, w')"
  shows "client_only cx cx' \<and> endpoint conn' = endpoint conn \<and> (r = Inr () \<longrightarrow> conn_sock conn' = conn_sock conn)"
proof -
  obtain q conn1 w1 where q: "send_query (env_backend E) payload conn w = Some (q, conn1, w1)"
    using assms by (auto simp: query_inner_def bind_eq_Some_conv)
  show ?thesis
    using assms q send_rs_keeps [OF q [unfolded send_query_def]]
    by (cases q) (auto simp: query_inner_def dest: client_only_relay)
qed

lemma client_only_execute:
  assumes "execute_inner E cx conn payload w = Some (cx', conn', r, w')"
  shows "client_only cx cx'"
proof -
  obtain q conn1 w1 where q: "send_execute (env_backend E) payload conn w = Some (q, conn1, w1)"
    using assms by (auto simp: execute_inner_def bind_eq_Some_conv)
  show ?thesis
    using assms q by (cases q) (auto simp: execute_inner_def dest: client_only_relay)
qed

lemma client_only_encode_all: "encode_all cx dats out = Some (cx', out') \<Longrightarrow> client_only cx cx'"
  by (induction dats arbitrary: cx out)
    (auto simp: bind_eq_Some_conv intro: client_only_trans client_only_encode)

lemma client_only_stmt_columns: "encode_stmt_columns a b cx dats out = Some (cx', out') \<Longrightarrow> client_only cx cx'"
proof (induction dats arbitrary: a b cx out)
  case (Cons d dats)
  obtain p c x where p: "payload_of d = Some p" "decode_column p = Some (c, x)"
    using Cons.prems by (auto simp: bind_eq_Some_conv)
  show ?case
  proof (cases "\<exists>ab y. map_option (\<lambda>change. filter_avg_column change c b) a = Some (ab, Some y)")
    case True
    then obtain ab y where "map_option (\<lambda>change. filter_avg_column change c b) a = Some (ab, Some y)"
      by blast
    then show ?thesis
      using Cons.prems p
      by (auto simp: bind_eq_Some_conv split: if_splits dest!: Cons.IH client_only_encode elim: client_only_trans)
  next
    case False
    then obtain cx1 out1 where "codec_encode cx (EncodeOffset p (length out)) out = Some (cx1, out1)"
        "encode_stmt_columns a b cx1 dats out1 = Some (cx', out')"
      using Cons.prems p by (auto simp: bind_eq_Some_conv split: option.splits prod.splits)
    then show ?thesis
      using Cons.IH by (meson client_only_trans client_only_encode)
  qed
qed simp

lemma client_only_prepare_stmt:
  assumes "prepare_stmt E cx stmt w = Some (cx', r, w')"
  shows "client_only cx cx'"
proof -
  obtain ro ros where ro: "results (rewrite_outputs cx) = ro # ros"
    using assms by (auto simp: prepare_stmt_def split: list.splits)
  show ?thesis
    using assms unfolding prepare_stmt_def ro
    by (auto simp: bind_eq_Some_conv encode_eof_def Let_def split: if_splits
        dest!: client_only_encode client_only_encode_all client_only_stmt_columns client_only_send)
      (meson client_only_trans)+
qed

lemma client_only_prepare:
  assumes "prepare_normal_inner E cx conn payload w = Some (cx', conn', r, w')"
  shows "client_only cx cx'"
proof -
  obtain q conn1 w1 where q: "send_prepare (env_backend E) payload conn w = Some (q, conn1, w1)"
    using assms by (auto simp: prepare_normal_inner_def bind_eq_Some_conv)
  show ?thesis
    using assms q by (cases q) (auto simp: prepare_normal_inner_def bind_eq_Some_conv dest: client_only_prepare_stmt)
qed

lemma client_only_fields:
  assumes "relay_fields cx f out = Some (cx', f', r)"
  shows "client_only cx cx'"
proof (rule relay_fields.raw_induct [where P = "\<lambda>cx f out (cx', f', r). client_only cx cx'", OF _ assms, simplified],
    goal_cases)
  case (1 rec cx f out y)
  obtain g d where g: "CommonStream_next f = Some (g, d)"
    using 1(2) by (auto simp: bind_eq_Some_conv)
  show ?case
  proof (cases "\<exists>x. d = Some (Inr x)")
    case True
    then obtain p cx1 out1 where c: "codec_encode cx p out = Some (cx1, out1)"
        "y = (cx1, g, Inr out1) \<or> rec cx1 g out1 = Some y"
      using 1(2) g by (auto simp: bind_eq_Some_conv split: if_splits)
    then show ?thesis
      using 1(1) [of cx1 g out1] client_only_encode [OF c(1)] by (cases y) (auto intro: client_only_trans)
  qed (use 1(2) g in \<open>auto split: option.splits sum.splits\<close>)
qed

lemma client_only_field_list:
  assumes "field_list_inner E cx conn payload w = Some (cx', conn', r, w')"
  shows "client_only cx cx'"
proof -
  obtain q conn1 w1 where q: "send_common_command (env_backend E) COM_FIELD_LIST payload conn w = Some (q, conn1, w1)"
    using assms by (auto simp: field_list_inner_def bind_eq_Some_conv)
  show ?thesis
  proof (cases q)
    case (Inr u)
    obtain f where f: "framed conn1 = Some (CommonC f)"
      using assms q Inr by (auto simp: field_list_inner_def split: option.splits ClientCodec.splits)
    obtain cx1 g x where g: "relay_fields cx f [] = Some (cx1, g, x)"
      using assms q Inr f by (auto simp: field_list_inner_def bind_eq_Some_conv)
    show ?thesis
      using assms q Inr f g client_only_fields [OF g]
      by (cases x) (auto simp: field_list_inner_def bind_eq_Some_conv dest!: client_only_send intro: client_only_trans)
  qed (use assms q in \<open>auto simp: field_list_inner_def\<close>)
qed

lemma client_only_init_db:
  assumes "init_db_inner E cx conn payload w = Some (cx', conn', r, w')"
  shows "client_only (cx\<lparr>fsm := fsm_set_db (fsm cx) (payload_text payload)\<rparr>) cx'"
proof -
  obtain d q conn1 w1 where q: "payload_text payload = Some d" "send_use_db (env_backend E) d conn w = Some (q, conn1, w1)"
    using assms by (auto simp: init_db_inner_def bind_eq_Some_conv Let_def)
  show ?thesis
  proof (cases q)
    case (Inl e)
    then show ?thesis
      using assms q by (auto simp: init_db_inner_def)
  next
    case (Inr x)
    then show ?thesis
      using assms q by (cases x; cases "snd x")
        (auto simp: init_db_inner_def bind_eq_Some_conv split: if_splits dest!: client_only_packet)
  qed
qed



subsection \<open>The state machine of a session\<close>

definition keeps_machine :: "('q, 'x, 'r, 'l, 's) ReqContext \<Rightarrow> ('q, 'x, 'r, 'l, 's) ReqContext \<Rightarrow> bool" where
  "keeps_machine cx cx' \<longleftrightarrow> events (fsm cx') = events (fsm cx) \<and> rewriter cx' = rewriter cx \<and>
     rewrite_outputs cx' = rewrite_outputs cx"

lemma keeps_machine_refl [simp]: "keeps_machine cx cx"
  by (simp add: keeps_machine_def)

lemma keeps_machine_trans [trans]: "keeps_machine a b \<Longrightarrow> keeps_machine b c \<Longrightarrow> keeps_machine a c"
  by (simp add: keeps_machine_def)

lemma client_only_machine: "client_only cx cx' \<Longrightarrow> keeps_machine cx cx'"
  by (simp add: keeps_machine_def client_only_keeps)

lemma trigger_events [simp]: "events (fst (trigger fs e)) = events fs"
  using trigger_keeps [of fs e] by (cases "trigger fs e") simp

lemma reset_events [simp]: "events (reset_fsm_state fs) = events fs"
  by (simp add: reset_fsm_state_def)

lemma trigger_event_machine: "keeps_machine cx (fst (fsm_trigger_event cx e))"
  by (simp add: keeps_machine_def fsm_trigger_event_def case_prod_unfold Let_def)

lemma session_mut_simps [simp]:
  "fsm (session_mut g cx) = fsm cx" "rewriter (session_mut g cx) = rewriter cx"
  "rewrite_outputs (session_mut g cx) = rewrite_outputs cx"
  by (simp_all add: session_mut_def)

lemma set_stmt_machine: "keeps_machine cx (fst (handle_set_stmt cx stmt))"
  using trigger_event_machine [of cx SetSessionEvent]
  by (auto simp: handle_set_stmt_def handle_set_names_def handle_set_autocommit_def keeps_machine_def
      fsm_set_charset_def fsm_set_autocommit_def Let_def case_prod_unfold
      split: SetOptValues.split SetOpts.split option.split ExprOrDefault.split if_splits)

lemma get_ast_only:
  assumes "get_ast E cx sql = Some (cx', r)"
  shows "cx' = cx\<lparr>ast_cache := ast_cache cx'\<rparr>"
  using assms by (auto simp: get_ast_def Let_def case_prod_unfold split: option.splits sum.splits list.splits)

lemma query_rewrite_machine:
  assumes "query_rewrite E cx sql = Some (cx', r)" "rewriter cx = None"
  shows "keeps_machine cx cx'"
proof -
  obtain cx1 a where a: "get_ast E cx sql = Some (cx1, a)"
    using assms by (auto simp: query_rewrite_def bind_eq_Some_conv)
  have 1: "keeps_machine cx cx1"
    by (subst get_ast_only [OF a]) (simp add: keeps_machine_def)
  then have rw: "rewriter cx1 = None"
    using assms(2) by (simp add: keeps_machine_def)
  have t: "keeps_machine cx1 (fst (fsm_trigger_event cx1 e))" "rewriter (fst (fsm_trigger_event cx1 e)) = None"
    "keeps_machine cx1 (fst (handle_set_stmt cx1 st))" "rewriter (fst (handle_set_stmt cx1 st)) = None" for e st
    using trigger_event_machine [of cx1 e] set_stmt_machine [of cx1 st] rw by (simp_all add: keeps_machine_def)
  have "keeps_machine cx1 cx'"
  proof (cases a)
    case (Inl e)
    then show ?thesis
      using assms(1) a rw t by (auto simp: query_rewrite_def Let_def case_prod_unfold)
  next
    case (Inr l)
    then show ?thesis
      using assms(1) a t by (cases l; cases "hd l")
        (auto simp: query_rewrite_def Let_def case_prod_unfold)
  qed
  with 1 show ?thesis
    by (rule keeps_machine_trans)
qed

lemma route_endpoint_machine: "route_endpoint E cx i sql = Some (cx', ep) \<Longrightarrow> fsm cx' = fsm cx \<and> keeps_machine cx cx'"
  by (auto simp: route_endpoint_def bind_eq_Some_conv keeps_machine_def)

lemma new_conn_machine: "fsm_get_new_conn E cx sql i attrs w = Some (cx', r, w') \<Longrightarrow> keeps_machine cx cx'"
  by (auto simp: fsm_get_new_conn_def bind_eq_Some_conv Let_def keeps_machine_def dest!: route_endpoint_machine)

lemma fsm_trigger_machine:
  assumes "fsm_trigger E cx e i sql w = Some (cx', r, w')"
  shows "keeps_machine cx cx'"
proof -
  obtain attrs where attrs: "build_conn_attrs (get_session cx) = Some attrs"
    using assms by (auto simp: fsm_trigger_def bind_eq_Some_conv)
  obtain cx1 b where t: "fsm_trigger_event cx e = (cx1, b)"
    by fastforce
  have 1: "keeps_machine cx cx1"
    using trigger_event_machine [of cx e] by (simp add: t)
  have "keeps_machine cx1 cx'"
    using assms attrs t
    by (cases b) (auto simp: fsm_trigger_def bind_eq_Some_conv fsm_get_conn_with_endpoint_def Let_def keeps_machine_def
        dest!: new_conn_machine route_endpoint_machine split: option.splits)
  with 1 show ?thesis
    by (rule keeps_machine_trans)
qed

lemma query_conn_machine:
  assumes "query_inner_get_conn E cx payload w = Some (cx', r, w')" "rewriter cx = None"
  shows "keeps_machine cx cx'"
proof -
  obtain sql cx1 q where q: "query_rewrite E cx sql = Some (cx1, q)" "payload_text payload = Some sql"
    using assms by (auto simp: query_inner_get_conn_def bind_eq_Some_conv)
  have "keeps_machine cx1 cx'"
  proof (cases q)
    case (Inr x)
    then show ?thesis
      using assms(1) q by (cases x) (auto simp: query_inner_get_conn_def bind_eq_Some_conv fsm_get_conn_def keeps_machine_def
          split: if_splits dest!: new_conn_machine)
  qed (use assms(1) q in \<open>auto simp: query_inner_get_conn_def bind_eq_Some_conv\<close>)
  then show ?thesis
    using query_rewrite_machine [OF q(1) assms(2)] keeps_machine_trans by blast
qed

lemma put_conn_holds:
  assumes "put_conn E cx conn = Some cx'"
  shows "fsm cx' = (fsm cx)\<lparr>client_conn := Some conn\<rparr>" "rewriter cx' = rewriter cx" "rewrite_outputs cx' = rewrite_outputs cx"
  using assms by (auto simp: put_conn_def fsm_put_conn_def bind_eq_Some_conv)

text \<open>What a handler that used a connection and succeeded leaves behind.\<close>

definition served :: "('q, 'x, 'r, 'l, 's) ReqContext \<Rightarrow> ('q, 'x, 'r, 'l, 's) ReqContext \<Rightarrow> bool" where
  "served cx cx' \<longleftrightarrow> keeps_machine cx cx' \<and> client_conn (fsm cx') \<noteq> None"

lemma served_put:
  assumes "keeps_machine cx cx1" "put_conn E cx1 conn = Some cx'"
  shows "served cx cx'"
  using assms(1) put_conn_holds [OF assms(2)] by (simp add: served_def keeps_machine_def)

lemma fail_with_fails: "fail_with E cx conn e w \<noteq> Some (cx', Inr ep, w')"
  by (auto simp: fail_with_def bind_eq_Some_conv)

lemma query_served:
  assumes "query E F cx payload w = Some (cx', Inr ep, w')" "rewriter cx = None"
  shows "served cx cx'"
proof -
  obtain cx1 q w1 where q: "query_inner_get_conn E cx payload w = Some (cx1, q, w1)"
    using assms by (auto simp: query_def bind_eq_Some_conv)
  obtain conn where conn: "q = Inr conn"
    using assms q by (cases q) (auto simp: query_def)
  obtain cx2 conn2 r w2 where r: "query_inner E cx1 conn payload w1 = Some (cx2, conn2, r, w2)"
    using assms q conn by (auto simp: query_def bind_eq_Some_conv)
  have "keeps_machine cx cx2"
    using query_conn_machine [OF q assms(2)] client_only_query [OF r] client_only_machine keeps_machine_trans by blast
  then show ?thesis
    using assms q conn r by (cases r) (auto simp: query_def bind_eq_Some_conv fail_with_fails intro: served_put)
qed

lemma init_db_served:
  assumes "init_db E cx payload w = Some (cx', Inr ep, w')" "rewriter cx = None"
  shows "served cx cx'"
proof -
  obtain d where d: "payload_text payload = Some d"
    using assms by (auto simp: init_db_def bind_eq_Some_conv)
  let ?cx = "session_mut (\<lambda>s. set_db s d) cx"
  obtain cx1 q w1 where q: "fsm_trigger E ?cx UseEvent StatementTyp d w = Some (cx1, q, w1)"
    using assms d by (auto simp: init_db_def bind_eq_Some_conv)
  obtain conn where conn: "q = Inr conn"
    using assms d q by (cases q) (auto simp: init_db_def)
  obtain cx2 conn2 r w2 where r: "init_db_inner E cx1 conn payload w1 = Some (cx2, conn2, r, w2)"
    using assms d q conn by (auto simp: init_db_def bind_eq_Some_conv)
  have "keeps_machine cx1 cx2"
    using client_only_machine [OF client_only_init_db [OF r]] by (simp add: keeps_machine_def fsm_set_db_def)
  then have "keeps_machine cx cx2"
    using fsm_trigger_machine [OF q] by (simp add: keeps_machine_def)
  then show ?thesis
    using assms d q conn r by (cases r) (auto simp: init_db_def bind_eq_Some_conv fail_with_fails intro: served_put)
qed

lemma field_list_served:
  assumes "field_list E cx payload w = Some (cx', Inr ep, w')" "rewriter cx = None"
  shows "served cx cx'"
proof -
  obtain cx1 q w1 where q: "fsm_trigger E cx QueryEvent NoneTyp [] w = Some (cx1, q, w1)"
    using assms by (auto simp: field_list_def bind_eq_Some_conv)
  obtain conn where conn: "q = Inr conn"
    using assms q by (cases q) (auto simp: field_list_def)
  obtain cx2 conn2 r w2 where r: "field_list_inner E cx1 conn payload w1 = Some (cx2, conn2, r, w2)"
    using assms q conn by (auto simp: field_list_def bind_eq_Some_conv)
  have "keeps_machine cx cx2"
    using fsm_trigger_machine [OF q] client_only_field_list [OF r] client_only_machine keeps_machine_trans by blast
  then show ?thesis
    using assms q conn r by (cases r) (auto simp: field_list_def bind_eq_Some_conv fail_with_fails intro: served_put)
qed

lemma answer_prepare_only:
  assumes "answer_prepare E cx r ep w = Some (cx', r', w')"
  shows "client_only cx cx'"
  using assms by (auto simp: answer_prepare_def bind_eq_Some_conv dest!: client_only_send
      split: sum.splits ErrorKind.splits ProtocolError.splits)

lemma served_answer: "served cx cx1 \<Longrightarrow> client_only cx1 cx' \<Longrightarrow> served cx cx'"
  by (simp add: served_def keeps_machine_def client_only_keeps)

lemma prepare_served:
  assumes "prepare E cx payload w = Some (cx', Inr ep, w')" "rewriter cx = None"
  shows "served cx cx'"
proof -
  obtain sql cx1 q w1 where q: "payload_text payload = Some sql" "fsm_trigger E cx PrepareEvent StatementTyp sql w = Some (cx1, q, w1)"
    using assms by (auto simp: prepare_def bind_eq_Some_conv)
  obtain conn where conn: "q = Inr conn"
    using assms q by (cases q) (auto simp: prepare_def)
  obtain cx2 conn2 r w2 cx3 where r: "prepare_normal_inner E cx1 conn payload w1 = Some (cx2, conn2, r, w2)"
      "put_conn E cx2 conn2 = Some cx3" "answer_prepare E cx3 r (Some (endpoint conn)) w2 = Some (cx', Inr ep, w')"
    using assms q conn by (auto simp: prepare_def bind_eq_Some_conv)
  have "keeps_machine cx cx2"
    using fsm_trigger_machine [OF q(2)] client_only_prepare [OF r(1)] client_only_machine keeps_machine_trans by blast
  then show ?thesis
    using served_put [OF _ r(2)] answer_prepare_only [OF r(3)] served_answer by blast
qed

lemma execute_served:
  assumes "execute E F cx payload w = Some (cx', Inr ep, w')" "rewriter cx = None"
  shows "served cx cx'"
proof -
  obtain fs conn where c: "fsm_get_conn (fsm cx) = Some (fs, conn)"
    using assms by (auto simp: execute_def bind_eq_Some_conv)
  obtain cx2 conn2 r w2 where r: "execute_inner E (cx\<lparr>fsm := fs\<rparr>) conn payload w = Some (cx2, conn2, r, w2)"
      "put_conn E cx2 conn2 = Some cx'"
    using assms c by (auto simp: execute_def bind_eq_Some_conv)
  have "keeps_machine (cx\<lparr>fsm := fs\<rparr>) cx2"
    using client_only_execute [OF r(1)] client_only_machine by blast
  then have "keeps_machine cx cx2"
    using c by (auto simp: keeps_machine_def fsm_get_conn_def)
  then show ?thesis
    using r(2) by (rule served_put)
qed

definition quiet :: "('q, 'x, 'r, 'l, 's) ReqContext \<Rightarrow> ('q, 'x, 'r, 'l, 's) ReqContext \<Rightarrow> bool" where
  "quiet cx cx' \<longleftrightarrow> fsm cx' = fsm cx \<and> rewriter cx' = rewriter cx \<and> rewrite_outputs cx' = rewrite_outputs cx"

lemma client_only_quiet: "client_only cx cx' \<Longrightarrow> quiet cx cx'"
  by (simp add: quiet_def client_only_keeps)

lemma answer_quiet:
  "answer_ok E cx w = Some (cx', r, w') \<Longrightarrow> quiet cx cx'"
  "answer_err E cx e w = Some (cx', r, w') \<Longrightarrow> quiet cx cx'"
  by (auto simp: answer_ok_def answer_err_def bind_eq_Some_conv intro: client_only_quiet client_only_packet)

lemma plugin_run_quiet: "plugin_run E now cx payload = (cx', r) \<Longrightarrow> quiet cx cx'"
  by (auto simp: plugin_run_def quiet_def Let_def split: option.splits sum.splits prod.splits)

lemma stmt_close_quiet: "stmt_close E cx payload w = Some (cx', r, w') \<Longrightarrow> quiet cx cx'"
  by (auto simp: stmt_close_def drop_conns_def StmtCache_remove_def quiet_def bind_eq_Some_conv)

lemma quiet_trans: "quiet a b \<Longrightarrow> quiet b c \<Longrightarrow> quiet a c"
  by (simp add: quiet_def)

lemma served_quiet: "quiet a b \<Longrightarrow> served b c \<Longrightarrow> served a c"
  by (simp add: quiet_def served_def keeps_machine_def)

lemma command_effect:
  assumes "handle_command E F now cx data w = Some (cx', q, Inr ep, w')" "rewriter cx = None"
  shows "quiet cx cx' \<or> served cx cx'"
proof -
  obtain com payload where d: "get_u8 data = Some (com, payload)"
    using assms by (auto simp: handle_command_def bind_eq_Some_conv)
  obtain cx1 r where p: "plugin_run E now cx payload = (cx1, r)"
    by fastforce
  have 1: "quiet cx cx1" "rewriter cx1 = None"
    using plugin_run_quiet [OF p] assms(2) by (simp_all add: quiet_def)
  show ?thesis
  proof (cases r)
    case (Inl e)
    then show ?thesis
      using assms(1) d p 1 by (auto simp: handle_command_def bind_eq_Some_conv dest!: answer_quiet intro: quiet_trans)
  next
    case (Inr u)
    then obtain c where c: "ComType_from com = Some c"
      using assms(1) d p by (auto simp: handle_command_def bind_eq_Some_conv)
    have "quiet cx1 cx' \<or> served cx1 cx'"
      using assms(1) d p Inr c 1(2)
      by (cases c) (auto simp: handle_command_def bind_eq_Some_conv quit_def quiet_def [of cx' cx']
          dest!: answer_quiet stmt_close_quiet query_served init_db_served field_list_served prepare_served execute_served)
    then show ?thesis
      using 1(1) quiet_trans served_quiet by blast
  qed
qed

definition session_ok :: "('q, 'x, 'r, 'l, 's) ReqContext \<Rightarrow> bool" where
  "session_ok cx \<longleftrightarrow> events (fsm cx) = init_trans_events \<and>
     (current_state (fsm cx) \<noteq> TransDummyState \<longrightarrow> client_conn (fsm cx) \<noteq> None)"

lemma command_session_ok:
  assumes "handle_command E F now cx data w = Some (cx', q, Inr ep, w')" "session_ok cx" "rewriter cx = None"
  shows "session_ok cx' \<and> rewriter cx' = None \<and> rewrite_outputs cx' = rewrite_outputs cx"
  using command_effect [OF assms(1,3)] assms(2,3)
  by (auto simp: session_ok_def quiet_def served_def keeps_machine_def)

text \<open>The contexts of a session without sharding whose commands succeeded.  Between two commands the
  loop resets the stream to the client and gives permits back, and other sessions change what is
  shared: the pool, the routing strategy and the cache.\<close>

inductive session_reach ::
    "('w, 'k, 'q, 'x, 'r, 'l, 's) env \<Rightarrow> 'f float_ops \<Rightarrow> ('q, 'x, 'r, 'l, 's) ReqContext \<Rightarrow> bool" for E F where
  reach_start: "session_reach E F
     ((ReqContext_new strategy p l pl None c sk chunks eof)\<lparr>fsm := fsm_set_db TransFsm_new d\<rparr>)"
| reach_command: "session_reach E F cx \<Longrightarrow> handle_command E F now cx data w = Some (cx', q, Inr ep, w') \<Longrightarrow>
     session_reach E F cx'"
| reach_others: "session_reach E F cx \<Longrightarrow>
     session_reach E F (cx\<lparr>rq_pool := p, route_strategy := strategy, ast_cache := l, plugin := pl,
       concurrency_control_rule_idx := i, rq_framed := f\<rparr>)"

lemma reach_session_ok: "session_reach E F cx \<Longrightarrow> session_ok cx \<and> rewriter cx = None \<and> rewrite_outputs cx = no_outputs"
proof (induction rule: session_reach.induct)
  case (reach_command cx now data w cx' q ep w')
  then show ?case
    using command_session_ok [OF reach_command(2)] by simp
qed (simp_all add: session_ok_def ReqContext_new_def TransFsm_new_def fsm_set_db_def)



subsection \<open>Statements and the connection they run on\<close>

text \<open>The event a statement triggers, for everything but \<open>SET\<close>; text that does not parse counts as a
  query.\<close>

fun stmt_event :: "SqlStmt \<Rightarrow> TransEventName option" where
  "stmt_event (Set _) = None"
| "stmt_event BeginStmt = Some StartEvent"
| "stmt_event Start = Some StartEvent"
| "stmt_event Commit = Some CommitRollBackEvent"
| "stmt_event Rollback = Some CommitRollBackEvent"
| "stmt_event _ = Some QueryEvent"

definition sql_event :: "('w, 'k, 'q, 'x, 'r, 'l, 's) env \<Rightarrow> 'l \<Rightarrow> string \<Rightarrow> TransEventName option" where
  "sql_event E l sql =
     (case (snd (env_lru_get E l sql), env_parse E sql) of
        (Some (stmt # _), _) \<Rightarrow> stmt_event stmt
      | (None, Inr (stmt # _)) \<Rightarrow> stmt_event stmt
      | (None, Inl (_ # _)) \<Rightarrow> Some QueryEvent
      | _ \<Rightarrow> None)"

lemma query_rewrite_stmt:
  assumes "get_ast E cx sql = Some (cx\<lparr>ast_cache := l\<rparr>, Inr (stmt # stmts))" "rewriter cx = None" "stmt_event stmt = Some e"
    "trigger (fsm cx) e = (fs, b)"
  shows "\<exists>i. query_rewrite E cx sql = Some (cx\<lparr>ast_cache := l, fsm := fs\<rparr>, Inr (b, i, no_outputs))"
  using assms by (cases stmt) (auto simp: query_rewrite_def fsm_trigger_event_def Let_def)

lemma query_rewrite_event:
  assumes "sql_event E (ast_cache cx) sql = Some e" "rewriter cx = None" "trigger (fsm cx) e = (fs, b)"
  shows "\<exists>l i. query_rewrite E cx sql = Some (cx\<lparr>ast_cache := l, fsm := fs\<rparr>, Inr (b, i, no_outputs))"
proof -
  obtain l a where g: "env_lru_get E (ast_cache cx) sql = (l, a)"
    by fastforce
  show ?thesis
  proof (cases a)
    case (Some st)
    then obtain stmt stmts where st: "st = stmt # stmts" "stmt_event stmt = Some e"
      using assms(1) g by (cases st) (auto simp: sql_event_def)
    then have "get_ast E cx sql = Some (cx\<lparr>ast_cache := l\<rparr>, Inr (stmt # stmts))"
      using g Some by (simp add: get_ast_def)
    from query_rewrite_stmt [OF this assms(2) st(2) assms(3)] show ?thesis
      by blast
  next
    case None
    show ?thesis
    proof (cases "env_parse E sql")
      case (Inl err)
      then show ?thesis
        using assms g None by (cases err)
          (auto simp: sql_event_def get_ast_def query_rewrite_def fsm_trigger_event_def Let_def intro!: exI [of _ l])
    next
      case (Inr st)
      then obtain stmt stmts where st: "st = stmt # stmts" "stmt_event stmt = Some e"
        using assms(1) g None by (cases st) (auto simp: sql_event_def)
      then have "get_ast E cx sql = Some (cx\<lparr>ast_cache := env_lru_put E l sql st\<rparr>, Inr (stmt # stmts))"
        using g None Inr by (simp add: get_ast_def)
      from query_rewrite_stmt [OF this assms(2) st(2) assms(3)] show ?thesis
        by blast
    qed
  qed
qed

text \<open>The context a query works on when it does not ask for a new connection.\<close>

lemma query_conn_held:
  assumes "payload_text payload = Some sql" "sql_event E (ast_cache cx) sql = Some e" "rewriter cx = None"
    "trigger (fsm cx) e = (fs, False)" "client_conn (fsm cx) = Some conn"
    "query_inner_get_conn E cx payload w = Some (cx1, q, w1)"
  shows "\<exists>l. cx1 = cx\<lparr>ast_cache := l, fsm := fs\<lparr>client_conn := None\<rparr>\<rparr> \<and> q = Inr conn \<and> w1 = w"
proof -
  obtain l i where r: "query_rewrite E cx sql = Some (cx\<lparr>ast_cache := l, fsm := fs\<rparr>, Inr (False, i, no_outputs))"
    using query_rewrite_event [OF assms(2-4)] by blast
  have "client_conn fs = Some conn"
    using trigger_keeps [OF assms(4)] assms(5) by simp
  then show ?thesis
    using assms(1,6) r by (auto simp: query_inner_get_conn_def bind_eq_Some_conv fsm_get_conn_def)
qed

lemma put_conn_fresh:
  assumes "put_conn E cx conn = Some cx'" "client_conn (fsm cx) = None"
  shows "rq_pool cx' = rq_pool cx" "route_strategy cx' = route_strategy cx"
  using assms by (auto simp: put_conn_def fsm_put_conn_def bind_eq_Some_conv PoolConn_drop_def)

lemma query_held:
  assumes "payload_text payload = Some sql" "sql_event E (ast_cache cx) sql = Some e" "rewriter cx = None"
    "trigger (fsm cx) e = (fs, False)" "client_conn (fsm cx) = Some conn" "query E F cx payload w = Some (cx', Inr ep, w')"
  shows "\<exists>conn'. fsm cx' = fs\<lparr>client_conn := Some conn'\<rparr> \<and> ep = Some (endpoint conn) \<and> endpoint conn' = endpoint conn \<and>
    conn_sock conn' = conn_sock conn \<and> rq_pool cx' = rq_pool cx \<and> route_strategy cx' = route_strategy cx \<and> rewriter cx' = None"
proof -
  obtain cx1 q w1 where q: "query_inner_get_conn E cx payload w = Some (cx1, q, w1)"
    using assms(3,6) by (auto simp: query_def bind_eq_Some_conv)
  then obtain l where l: "cx1 = cx\<lparr>ast_cache := l, fsm := fs\<lparr>client_conn := None\<rparr>\<rparr>" "q = Inr conn" "w1 = w"
    using query_conn_held [OF assms(1-5)] by blast
  obtain cx2 conn2 r w2 where r: "query_inner E cx1 conn payload w = Some (cx2, conn2, r, w2)"
    using assms(3,6) q l by (auto simp: query_def bind_eq_Some_conv)
  have r0: "r = Inr ()" "put_conn E cx2 conn2 = Some cx'" "ep = Some (endpoint conn)"
    using assms(3,6) q l r by (cases r; auto simp: query_def bind_eq_Some_conv fail_with_fails)+
  note k = client_only_query [OF r]
  have "fsm cx2 = fs\<lparr>client_conn := None\<rparr>" "rq_pool cx2 = rq_pool cx" "route_strategy cx2 = route_strategy cx" "rewriter cx2 = None"
    using client_only_keeps [of cx1 cx2] k l assms(3) by simp_all
  then show ?thesis
    using put_conn_holds [OF r0(2)] put_conn_fresh [OF r0(2)] r0(1,3) k by (intro exI [of _ conn2]) simp
qed

lemma query_lost:
  assumes "payload_text payload = Some sql" "sql_event E (ast_cache cx) sql = Some e" "rewriter cx = None"
    "trigger (fsm cx) e = (fs, False)" "client_conn (fsm cx) = Some conn" "query E F cx payload w = Some (cx', Inl err, w')"
  shows "fsm cx' = fs\<lparr>client_conn := None\<rparr> \<and> rewriter cx' = None"
proof -
  obtain cx1 q w1 where q: "query_inner_get_conn E cx payload w = Some (cx1, q, w1)"
    using assms(3,6) by (auto simp: query_def bind_eq_Some_conv)
  then obtain l where l: "cx1 = cx\<lparr>ast_cache := l, fsm := fs\<lparr>client_conn := None\<rparr>\<rparr>" "q = Inr conn" "w1 = w"
    using query_conn_held [OF assms(1-5)] by blast
  obtain cx2 conn2 r w2 where r: "query_inner E cx1 conn payload w = Some (cx2, conn2, r, w2)"
    using assms(3,6) q l by (auto simp: query_def bind_eq_Some_conv)
  have "fsm cx2 = fs\<lparr>client_conn := None\<rparr>" "rewriter cx2 = None"
    using client_only_keeps [of cx1 cx2] client_only_query [OF r] l assms(3) by simp_all
  then show ?thesis
    using assms(3,6) q l r
    by (cases r) (auto simp: query_def fail_with_def drop_conn_def bind_eq_Some_conv)
qed

text \<open>Queries of one session in a row: whatever their text is, none of them begins, ends or leaves a
  transaction.  Between them other sessions may change what is shared.\<close>

inductive plain_queries ::
    "('w, 'k, 'q, 'x, 'r, 'l, 's) env \<Rightarrow> 'f float_ops \<Rightarrow> ('q, 'x, 'r, 'l, 's) ReqContext \<Rightarrow> ('q, 'x, 'r, 'l, 's) ReqContext \<Rightarrow> bool"
  for E F cx where
  plain_none: "plain_queries E F cx cx"
| plain_query: "plain_queries E F cx cx1 \<Longrightarrow> payload_text payload = Some sql \<Longrightarrow>
     sql_event E (ast_cache cx1) sql = Some QueryEvent \<Longrightarrow> query E F cx1 payload w = Some (cx2, Inr ep, w') \<Longrightarrow>
     plain_queries E F cx cx2"
| plain_others: "plain_queries E F cx cx1 \<Longrightarrow>
     plain_queries E F cx (cx1\<lparr>rq_pool := p, route_strategy := strategy, ast_cache := l, plugin := pl,
       concurrency_control_rule_idx := i, rq_framed := f\<rparr>)"

text \<open>A session that is in a transaction and holds the given connection.\<close>

definition in_trans :: "ClientConn \<Rightarrow> ('q, 'x, 'r, 'l, 's) ReqContext \<Rightarrow> bool" where
  "in_trans conn cx \<longleftrightarrow> events (fsm cx) = init_trans_events \<and> rewriter cx = None \<and> current_state (fsm cx) = TransStartState \<and>
     (\<exists>conn'. client_conn (fsm cx) = Some conn' \<and> endpoint conn' = endpoint conn \<and> conn_sock conn' = conn_sock conn)"

lemma trans_query_stays: "events fs = init_trans_events \<Longrightarrow> current_state fs = TransStartState \<Longrightarrow> trigger fs QueryEvent = (fs, False)"
  by (simp add: trigger_eval)

lemma trans_commit_stays:
  "events fs = init_trans_events \<Longrightarrow> current_state fs = TransStartState \<Longrightarrow>
   trigger fs CommitRollBackEvent = (fs\<lparr>current_state := TransDummyState, current_event := CommitRollBackEvent\<rparr>, False)"
  by (simp add: trigger_eval)

lemma plain_queries_stay: "plain_queries E F cx cx' \<Longrightarrow> in_trans conn cx \<Longrightarrow> in_trans conn cx'"
proof (induction rule: plain_queries.induct)
  case (plain_query cx1 payload sql w cx2 ep w')
  then have t: "in_trans conn cx1"
    by simp
  then obtain c where c: "client_conn (fsm cx1) = Some c" "endpoint c = endpoint conn" "conn_sock c = conn_sock conn"
    by (auto simp: in_trans_def)
  have "trigger (fsm cx1) QueryEvent = (fsm cx1, False)"
    using t by (intro trans_query_stays) (simp_all add: in_trans_def)
  with query_held [OF plain_query(2,3) _ _ c(1) plain_query(4)] show ?case
    using t c by (auto simp: in_trans_def)
qed (auto simp: in_trans_def)

lemma trans_start:
  "events fs = init_trans_events \<Longrightarrow> current_state fs \<in> {TransDummyState, TransUseState, TransSetSessionState} \<Longrightarrow>
   trigger fs StartEvent = (fs\<lparr>current_state := TransStartState, current_event := StartEvent\<rparr>, current_state fs = TransDummyState)"
  by (auto simp: trigger_eval)

lemma query_begins:
  assumes "payload_text payload = Some sql" "sql_event E (ast_cache cx) sql = Some StartEvent" "rewriter cx = None"
    "events (fsm cx) = init_trans_events" "current_state (fsm cx) \<in> {TransDummyState, TransUseState, TransSetSessionState}"
    "query E F cx payload w = Some (cx', Inr ep, w')"
  shows "\<exists>conn. client_conn (fsm cx') = Some conn \<and> ep = Some (endpoint conn) \<and> in_trans conn cx'"
proof -
  obtain fs b where t: "trigger (fsm cx) StartEvent = (fs, b)" "current_state fs = TransStartState" "events fs = init_trans_events"
    using trans_start [OF assms(4,5)] assms(4) by auto
  obtain l i where rw: "query_rewrite E cx sql = Some (cx\<lparr>ast_cache := l, fsm := fs\<rparr>, Inr (b, i, no_outputs))"
    using query_rewrite_event [OF assms(2,3) t(1)] by blast
  obtain cx1 q w1 where q: "query_inner_get_conn E cx payload w = Some (cx1, q, w1)"
    using assms(3,6) by (auto simp: query_def bind_eq_Some_conv)
  obtain conn where conn: "q = Inr conn"
    using assms(3,6) q by (cases q) (auto simp: query_def)
  have 1: "current_state (fsm cx1) = TransStartState" "events (fsm cx1) = init_trans_events" "rewriter cx1 = None"
    using q assms(1,3) rw t(2,3) by (cases b; auto simp: query_inner_get_conn_def bind_eq_Some_conv fsm_get_conn_def
        fsm_get_new_conn_def route_endpoint_def Let_def)+
  obtain cx2 conn2 r w2 where r: "query_inner E cx1 conn payload w1 = Some (cx2, conn2, r, w2)"
    using assms(3,6) q conn by (auto simp: query_def bind_eq_Some_conv)
  have r0: "put_conn E cx2 conn2 = Some cx'" "ep = Some (endpoint conn)"
    using assms(3,6) q conn r by (cases r; auto simp: query_def bind_eq_Some_conv fail_with_fails)+
  have "fsm cx2 = fsm cx1" "rewriter cx2 = None" "endpoint conn2 = endpoint conn"
    using client_only_query [OF r] client_only_keeps [of cx1 cx2] 1 by auto
  then show ?thesis
    using put_conn_holds [OF r0(1)] r0(2) 1 by (simp add: in_trans_def)
qed


subsection \<open>An example\<close>

text \<open>A backend that answers every command with an OK packet.\<close>

definition ok_answers :: "nat \<Rightarrow> bytes \<Rightarrow> bytes list" where
  "ok_answers sk out = [frame 1 (drop 4 ok_packet)]"

definition example_parse :: "string \<Rightarrow> string list + SqlStmt list" where
  "example_parse sql =
     (if sql = ''BEGIN'' then Inr [BeginStmt] else if sql = ''COMMIT'' then Inr [Commit] else Inr [OtherStmt 0])"

text \<open>Numbers with no fraction.\<close>

definition example_floats :: "nat float_ops" where
  "example_floats =
     \<lparr>fl_parse = (\<lambda>bs. parse_digits 0 (bytes_str bs)), fl_zero = 0, fl_sum = sum_list, fl_div = (\<lambda>x n. x div unat n),
      fl_write = (\<lambda>x. str_bytes (show_nat x)), fl_show = show_nat,
      usort = (\<lambda>le xs. foldr (\<lambda>x ys. takeWhile (\<lambda>y. \<not> le (fst x) (fst y)) ys @ x # dropWhile (\<lambda>y. \<not> le (fst x) (fst y)) ys) xs [])\<rparr>"

abbreviation ok_env :: "(bytes list, unit, ClientConn list \<times> nat, string, unit, unit, unit) env" where
  "ok_env \<equiv> example_env ok_answers example_parse"

lemma payload_text_str: "utf8_ok (str_bytes s) \<Longrightarrow> payload_text (str_bytes s) = Some (trim_nul s)"
  by (simp add: payload_text_def from_utf8_def)

lemma example_client_encode:
  "rq_wbuf cx = [] \<Longrightarrow> \<exists>cx' out. client_send (example_env answer parse) cx (Encode p) w = Some (cx', Inr (), w @ [out]) \<and> rq_wbuf cx' = []"
  using encode_packet_offset_end [of "codec (rq_framed cx)" p "[]"]
  by (simp add: client_send_def PacketCodec_encode_def encode_packet_def framed_send_def example_env_def)

lemma idle_again: "pending_bytes g = [] \<Longrightarrow> idle_on (conn\<lparr>framed := Some (ResultsetC g)\<rparr>) (ResultsetC g)"
  by (simp add: idle_on_def into_resultset_def pending_bytes_def)

lemma example_query:
  assumes "payload_text payload = Some sql" "sql_event ok_env () sql = Some e" "rewriter cx = None" "rq_wbuf cx = []"
    "trigger (fsm cx) e = (fs, False)" "client_conn (fsm cx) = Some conn" "idle_on conn cc"
  shows "\<exists>cx' g out. query ok_env F cx payload w = Some (cx', Inr (Some (endpoint conn)), w @ [out]) \<and> rq_wbuf cx' = [] \<and>
    rewriter cx' = None \<and> fsm cx' = fs\<lparr>client_conn := Some (conn\<lparr>framed := Some (ResultsetC g)\<rparr>)\<rparr> \<and>
    idle_on (conn\<lparr>framed := Some (ResultsetC g)\<rparr>) (ResultsetC g)"
proof -
  obtain l i where rw: "query_rewrite ok_env cx sql = Some (cx\<lparr>ast_cache := l, fsm := fs\<rparr>, Inr (False, i, no_outputs))"
    using query_rewrite_event [of ok_env cx sql e fs False] assms(2,3,5) by auto
  let ?cx1 = "cx\<lparr>ast_cache := l, fsm := fs\<lparr>client_conn := None\<rparr>\<rparr>"
  have "client_conn fs = Some conn"
    using trigger_keeps [OF assms(5)] assms(6) by simp
  then have q: "query_inner_get_conn ok_env cx payload w = Some (?cx1, Inr conn, w)"
    using assms(1) rw by (simp add: query_inner_get_conn_def fsm_get_conn_def build_conn_attrs_def get_charset_def)
  have ok: "ok_payload (drop 4 ok_packet)" "length (drop 4 ok_packet) < 2 ^ 24"
    by (simp_all add: ok_payload_def ok_packet_def OK_HEADER_def)
  have ans: "exch (env_backend ok_env) sk out w = (Inr (ok_answers sk out, False), w)" for sk out
    by (simp add: example_env_def)
  have one: "concat (ok_answers sk out) = frame 1 (drop 4 ok_packet)" for sk out
    by (simp add: ok_answers_def)
  obtain g where g: "pending_bytes g = []" "query_inner ok_env ?cx1 conn payload w =
      do { (cx, r, w) \<leftarrow> client_send ok_env ?cx1 (Encode (drop 4 ok_packet)) w;
           Some (cx, conn\<lparr>framed := Some (ResultsetC g)\<rparr>, map_sum Protocol id r, w) }"
    using query_answered [OF assms(7) ok one ans, of ?cx1] by blast
  obtain cx2 out where s: "client_send ok_env ?cx1 (Encode (drop 4 ok_packet)) w = Some (cx2, Inr (), w @ [out])" "rq_wbuf cx2 = []"
    using example_client_encode [of ?cx1 ok_answers example_parse "drop 4 ok_packet" w] assms(4) by auto
  have k: "fsm cx2 = fs\<lparr>client_conn := None\<rparr>" "rewriter cx2 = None"
    using client_only_keeps [OF client_only_send [OF s(1)]] assms(3) by simp_all
  show ?thesis
    using q g s k assms(3) idle_again [OF g(1), of conn]
    by (simp add: query_def put_conn_def fsm_put_conn_def PoolConn_drop_def) blast
qed



subsection \<open>Properties\<close>

text \<open>C4.  A transaction runs on one connection.  A session without sharding sends a statement that begins a
  transaction, then any number of other statements, then \<open>COMMIT\<close> or \<open>ROLLBACK\<close>, and all succeed;
  other sessions may use the pool, the routing strategy and the cache in between.  Then all of them
  were run on the connection, the endpoint and the socket, the first one was run on.
\<close>

theorem transaction_affinity:
  assumes "rewriter cx = None" "events (fsm cx) = init_trans_events"
    and "current_state (fsm cx) \<in> {TransDummyState, TransUseState, TransSetSessionState}"
    and "payload_text b = Some bsql" "sql_event E (ast_cache cx) bsql = Some StartEvent" "query E F cx b w = Some (cx1, Inr ep, w1)"
    and "plain_queries E F cx1 cx2"
    and "payload_text c = Some csql" "sql_event E (ast_cache cx2) csql = Some CommitRollBackEvent"
      "query E F cx2 c w2 = Some (cx3, Inr ep', w3)"
  shows "\<exists>conn conn'. client_conn (fsm cx1) = Some conn \<and> in_trans conn cx2 \<and> client_conn (fsm cx3) = Some conn' \<and>
    ep = Some (endpoint conn) \<and> ep' = ep \<and> conn_sock conn' = conn_sock conn \<and> current_state (fsm cx3) = TransDummyState"
proof -
  obtain conn where conn: "client_conn (fsm cx1) = Some conn" "ep = Some (endpoint conn)" "in_trans conn cx1"
    using query_begins [OF assms(4,5,1,2,3,6)] by blast
  have t: "in_trans conn cx2"
    using plain_queries_stay [OF assms(7) conn(3)] .
  then obtain c2 where c2: "client_conn (fsm cx2) = Some c2" "endpoint c2 = endpoint conn" "conn_sock c2 = conn_sock conn"
    by (auto simp: in_trans_def)
  have "trigger (fsm cx2) CommitRollBackEvent =
      ((fsm cx2)\<lparr>current_state := TransDummyState, current_event := CommitRollBackEvent\<rparr>, False)"
    using t by (intro trans_commit_stays) (simp_all add: in_trans_def)
  with query_held [OF assms(8,9) _ _ c2(1) assms(10)] show ?thesis
    using t c2 conn by (auto simp: in_trans_def)
qed

theorem transaction_affinity_witness:
  "\<exists>cx1 cx2 cx3 conn conn' w1 w2 w3. query ok_env example_floats (example_cx TransUseState (Some idle_conn)) (str_bytes ''BEGIN'') [] = Some (cx1, Inr (Some ''db''), w1) \<and>
     query ok_env example_floats cx1 (str_bytes ''SELECT 1'') w1 = Some (cx2, Inr (Some ''db''), w2) \<and>
     query ok_env example_floats cx2 (str_bytes ''COMMIT'') w2 = Some (cx3, Inr (Some ''db''), w3) \<and>
     client_conn (fsm cx1) = Some conn \<and> client_conn (fsm cx3) = Some conn' \<and> conn_sock conn' = conn_sock conn"
proof -
  let ?cx = "example_cx TransUseState (Some idle_conn)"
  have texts: "payload_text (str_bytes ''BEGIN'') = Some ''BEGIN''" "payload_text (str_bytes ''SELECT 1'') = Some ''SELECT 1''"
    "payload_text (str_bytes ''COMMIT'') = Some ''COMMIT''"
    using payload_text_str [of "''BEGIN''"] payload_text_str [of "''SELECT 1''"] payload_text_str [of "''COMMIT''"]
    by (simp_all add: trim_nul_def) (simp_all add: str_bytes_def)
  have ev: "sql_event ok_env l ''BEGIN'' = Some StartEvent" "sql_event ok_env l ''SELECT 1'' = Some QueryEvent"
    "sql_event ok_env l ''COMMIT'' = Some CommitRollBackEvent" for l
    by (simp_all add: sql_event_def example_env_def example_parse_def)
  have cx: "rewriter ?cx = None" "rq_wbuf ?cx = []" "events (fsm ?cx) = init_trans_events" "current_state (fsm ?cx) = TransUseState"
    "client_conn (fsm ?cx) = Some idle_conn"
    by (simp_all add: example_cx_def ReqContext_new_def TransFsm_new_def)
  have idle: "idle_on idle_conn idle_codec"
    by (simp add: idle_on_def idle_conn_def idle_codec_def into_resultset_def pending_bytes_def)
  have db: "endpoint idle_conn = ''db''"
    by (simp add: idle_conn_def)
  have t0: "trigger (fsm ?cx) StartEvent = ((fsm ?cx)\<lparr>current_state := TransStartState, current_event := StartEvent\<rparr>, False)"
    using trans_start [OF cx(3)] cx(4) by simp
  obtain cx1 g1 o1 where 1: "query ok_env example_floats ?cx (str_bytes ''BEGIN'') [] = Some (cx1, Inr (Some ''db''), [] @ [o1])"
      "rq_wbuf cx1 = []" "rewriter cx1 = None"
      "fsm cx1 = (fsm ?cx)\<lparr>current_state := TransStartState, current_event := StartEvent, client_conn := Some (idle_conn\<lparr>framed := Some (ResultsetC g1)\<rparr>)\<rparr>"
      "idle_on (idle_conn\<lparr>framed := Some (ResultsetC g1)\<rparr>) (ResultsetC g1)"
    using example_query [OF texts(1) ev(1) cx(1,2) t0 cx(5) idle, of example_floats "[]"] db by auto
  have t1: "trigger (fsm cx1) QueryEvent = (fsm cx1, False)"
    by (rule trans_query_stays) (simp_all add: 1(4) cx(3))
  obtain cx2 g2 o2 where 2: "query ok_env example_floats cx1 (str_bytes ''SELECT 1'') ([] @ [o1]) = Some (cx2, Inr (Some ''db''), ([] @ [o1]) @ [o2])"
      "rq_wbuf cx2 = []" "rewriter cx2 = None"
      "fsm cx2 = (fsm cx1)\<lparr>client_conn := Some (idle_conn\<lparr>framed := Some (ResultsetC g2)\<rparr>)\<rparr>"
      "idle_on (idle_conn\<lparr>framed := Some (ResultsetC g2)\<rparr>) (ResultsetC g2)"
    using example_query [OF texts(2) ev(2) 1(3,2) t1 _ 1(5), of example_floats "[] @ [o1]"] db 1(4) by auto
  have t2: "trigger (fsm cx2) CommitRollBackEvent =
      ((fsm cx2)\<lparr>current_state := TransDummyState, current_event := CommitRollBackEvent\<rparr>, False)"
    by (rule trans_commit_stays) (simp_all add: 2(4) 1(4) cx(3))
  obtain cx3 o3 where 3: "query ok_env example_floats cx2 (str_bytes ''COMMIT'') (([] @ [o1]) @ [o2]) =
      Some (cx3, Inr (Some ''db''), (([] @ [o1]) @ [o2]) @ [o3])"
    using example_query [OF texts(3) ev(3) 2(3,2) t2 _ 2(5), of example_floats "([] @ [o1]) @ [o2]"] db 2(4) by auto
  have p: "plain_queries ok_env example_floats cx1 cx2"
    by (rule plain_query [OF plain_none texts(2) ev(2) 2(1)])
  show ?thesis
    using transaction_affinity [OF cx(1,3) _ texts(1) ev(1) 1(1) p texts(3) ev(3) 3] cx(4) 1(1) 2(1) 3 by blast
qed


text \<open>C8.  Between two commands of a session without sharding whose commands all succeeded, the table of
  events is the initial one, no statement was rewritten, and a connection is held in every state but
  the initial one.  Hence an event of a handler that does not ask for a new connection finds one.
\<close>

theorem session_keeps_conn:
  assumes "session_reach E F cx"
    and "e \<in> {UseEvent, SetSessionEvent, QueryEvent, StartEvent, PrepareEvent, CommitRollBackEvent}"
    and "trigger (fsm cx) e = (fs, asked)"
  shows "events (fsm cx) = init_trans_events \<and> rewrite_outputs cx = no_outputs \<and>
    (current_state (fsm cx) \<noteq> TransDummyState \<longrightarrow> client_conn (fsm cx) \<noteq> None) \<and> (asked \<or> fsm_get_conn fs \<noteq> None)"
proof -
  have ok: "session_ok cx" "rewrite_outputs cx = no_outputs"
    using reach_session_ok [OF assms(1)] by simp_all
  have "current_state (fsm cx) \<noteq> TransDummyState" if "\<not> asked"
    using ok(1) assms(2,3) that by (auto simp: session_ok_def trigger_eval)
  then show ?thesis
    using ok trigger_keeps [OF assms(3)] by (auto simp: session_ok_def fsm_get_conn_def)
qed

text \<open>After a \<open>COM_PING\<close>.\<close>

theorem session_keeps_conn_witness:
  "\<exists>cx w. handle_command ok_env example_floats 0 (example_cx TransDummyState None) [0x0e] [] = Some (cx, False, Inr None, w) \<and>
     events (fsm cx) = init_trans_events \<and> rewrite_outputs cx = no_outputs \<and>
     (let (fs, asked) = trigger (fsm cx) QueryEvent in asked \<or> fsm_get_conn fs \<noteq> None)"
proof -
  let ?cx = "example_cx TransDummyState None :: (ClientConn list \<times> nat, string, unit, unit, unit) ReqContext"
  have start: "session_reach ok_env example_floats ?cx"
    using reach_start [where d = None] by (simp add: example_cx_def fsm_set_db_def TransFsm_new_def)
  have "rq_wbuf ?cx = []"
    by (simp add: example_cx_def ReqContext_new_def)
  then obtain cx out where s: "client_send ok_env ?cx (Encode (drop 4 ok_packet)) [] = Some (cx, Inr (), [] @ [out])"
    using example_client_encode [of ?cx ok_answers example_parse] by blast
  have ping: "ComType_from 0x0e = Some PING"
    by code_simp
  have "plugin ?cx = None"
    by (simp add: example_cx_def ReqContext_new_def)
  then have c: "handle_command ok_env example_floats 0 ?cx [0x0e] [] = Some (cx, False, Inr None, [] @ [out])"
    using s ping by (simp add: handle_command_def plugin_run_def answer_ok_def send_packet_def)
  obtain fs asked where t: "trigger (fsm cx) QueryEvent = (fs, asked)"
    by fastforce
  show ?thesis
    using session_keeps_conn [OF reach_command [OF start c] _ t] c t by auto
qed

text \<open>C33.  When a query in a transaction fails, the connection of the transaction is let go of while the
  session stays in the transaction: the next statement, a \<open>COMMIT\<close> or \<open>ROLLBACK\<close> included, panics, even
  when other sessions change what is shared in between.
\<close>

theorem failed_query_ends_session:
  assumes "in_trans conn cx" "payload_text payload = Some sql" "sql_event E (ast_cache cx) sql = Some QueryEvent"
    and "query E F cx payload w = Some (cx1, Inl err, w1)"
    and "fsm cx2 = fsm cx1" "rewriter cx2 = rewriter cx1"
    and "payload_text payload2 = Some sql2" "sql_event E (ast_cache cx2) sql2 = Some e" "e \<in> {QueryEvent, CommitRollBackEvent}"
  shows "current_state (fsm cx1) = TransStartState \<and> query E F cx2 payload2 w2 = None"
proof -
  obtain c where c: "client_conn (fsm cx) = Some c"
    using assms(1) by (auto simp: in_trans_def)
  have t: "trigger (fsm cx) QueryEvent = (fsm cx, False)"
    using assms(1) by (intro trans_query_stays) (simp_all add: in_trans_def)
  have "rewriter cx = None"
    using assms(1) by (simp add: in_trans_def)
  from query_lost [OF assms(2,3) this t c assms(4)]
  have l: "fsm cx1 = (fsm cx)\<lparr>client_conn := None\<rparr>" "rewriter cx1 = None"
    by simp_all
  have f: "events (fsm cx2) = init_trans_events" "current_state (fsm cx2) = TransStartState" "client_conn (fsm cx2) = None"
    using assms(1,5) l by (simp_all add: in_trans_def)
  obtain fs where fs: "trigger (fsm cx2) e = (fs, False)" "client_conn fs = None"
    using trans_query_stays [OF f(1,2)] trans_commit_stays [OF f(1,2)] assms(9) f(3) by auto
  obtain l i where "query_rewrite E cx2 sql2 = Some (cx2\<lparr>ast_cache := l, fsm := fs\<rparr>, Inr (False, i, no_outputs))"
    using query_rewrite_event [OF assms(8) _ fs(1)] assms(6) l(2) by auto
  then have "query_inner_get_conn E cx2 payload2 w2 = None"
    using assms(7) fs(2) by (simp add: query_inner_get_conn_def fsm_get_conn_def build_conn_attrs_def get_charset_def)
  then show ?thesis
    using assms(5,6) l f(2) by (simp add: query_def)
qed

text \<open>The backend has gone.\<close>

definition broken_env :: "(bytes list, unit, ClientConn list \<times> nat, string, unit, unit, unit) env" where
  "broken_env = ok_env\<lparr>env_backend := (env_backend ok_env)\<lparr>exch := (\<lambda>_ _ w. (Inl ''broken pipe'', w))\<rparr>\<rparr>"

theorem failed_query_ends_session_witness:
  "\<exists>cx1 w1. query broken_env example_floats (example_cx TransStartState (Some idle_conn)) (str_bytes ''SELECT 1'') [] =
       Some (cx1, Inl (Protocol (Io ''broken pipe'')), w1) \<and>
     query broken_env example_floats cx1 (str_bytes ''COMMIT'') w1 = None"
proof -
  let ?cx = "example_cx TransStartState (Some idle_conn)"
  have texts: "payload_text (str_bytes ''SELECT 1'') = Some ''SELECT 1''" "payload_text (str_bytes ''COMMIT'') = Some ''COMMIT''"
    using payload_text_str [of "''SELECT 1''"] payload_text_str [of "''COMMIT''"]
    by (simp_all add: trim_nul_def) (simp_all add: str_bytes_def)
  have ev: "sql_event broken_env l ''SELECT 1'' = Some QueryEvent" "sql_event broken_env l ''COMMIT'' = Some CommitRollBackEvent" for l
    by (simp_all add: sql_event_def broken_env_def example_env_def example_parse_def)
  have t: "in_trans idle_conn ?cx"
    by (simp add: in_trans_def example_cx_def ReqContext_new_def TransFsm_new_def)
  have tr: "trigger (fsm ?cx) QueryEvent = (fsm ?cx, False)" "rewriter ?cx = None" "client_conn (fsm ?cx) = Some idle_conn"
    using t by (auto intro!: trans_query_stays simp: in_trans_def) (simp add: example_cx_def ReqContext_new_def)
  obtain l i where rw: "query_rewrite broken_env ?cx ''SELECT 1'' = Some (?cx\<lparr>ast_cache := l, fsm := fsm ?cx\<rparr>, Inr (False, i, no_outputs))"
    using query_rewrite_event [OF ev(1) tr(2,1)] by blast
  let ?cx1 = "?cx\<lparr>ast_cache := l, fsm := (fsm ?cx)\<lparr>client_conn := None\<rparr>\<rparr>"
  have g: "query_inner_get_conn broken_env ?cx (str_bytes ''SELECT 1'') [] = Some (?cx1, Inr idle_conn, [])"
    using texts(1) rw tr(3) by (simp add: query_inner_get_conn_def fsm_get_conn_def build_conn_attrs_def get_charset_def)
  have q: "query_inner broken_env ?cx1 idle_conn (str_bytes ''SELECT 1'') [] =
      Some (?cx1, idle_conn\<lparr>framed := None\<rparr>, Inl (Protocol (Io ''broken pipe'')), [])"
    by (simp add: query_inner_def send_query_def send_rs_def take_framed_def idle_conn_def framed_send_def broken_env_def Let_def
        case_prod_unfold)
  have "\<exists>p. drop_conn broken_env ?cx1 (Some (idle_conn\<lparr>framed := None\<rparr>)) = Some (?cx1\<lparr>rq_pool := p\<rparr>)"
    by (simp add: drop_conn_def PoolConn_drop_def broken_env_def example_env_def mysql_conn_def example_cx_def ReqContext_new_def
        idle_pool_def queue_pool_def list_queue_def idle_conn_def)
  then obtain p where "query broken_env example_floats ?cx (str_bytes ''SELECT 1'') [] =
      Some (?cx1\<lparr>rq_pool := p\<rparr>, Inl (Protocol (Io ''broken pipe'')), [])"
    using g q tr(2) by (auto simp: query_def fail_with_def)
  then show ?thesis
    using failed_query_ends_session [OF t texts(1) ev(1) _ refl refl texts(2) ev(2)] by blast
qed

text \<open>C34.  Without sharding, preparing a statement panics: when the backend has prepared the statement, the
  answer for the client looks at the first rewritten statement, and there is none.
\<close>

theorem prepare_panics:
  assumes "rewriter cx = None" "rewrite_outputs cx = no_outputs" "payload_text payload = Some sql"
    and "fsm_trigger E cx PrepareEvent StatementTyp sql w = Some (cx1, Inr conn, w1)"
    and "send_prepare (env_backend E) payload conn w1 = Some (Inr stmt, conn', w2)"
  shows "prepare E cx payload w = None"
proof -
  have "rewrite_outputs cx1 = no_outputs"
    using fsm_trigger_machine [OF assms(4)] assms(2) by (simp add: keeps_machine_def)
  then have "prepare_stmt E cx1 stmt w2 = None"
    by (simp add: prepare_stmt_def no_outputs_def)
  then show ?thesis
    using assms by (simp add: prepare_def prepare_normal_inner_def)
qed

lemma fsm_trigger_held:
  assumes "trigger (fsm cx) e = (fs, False)" "client_conn (fsm cx) = Some conn" "route_endpoint E (cx\<lparr>fsm := fs\<rparr>) i sql = Some (cx1, ep)"
  shows "fsm_trigger E cx e i sql w = Some (cx1\<lparr>fsm := fs\<lparr>client_conn := None\<rparr>\<rparr>, Inr conn, w)"
proof -
  have "fsm cx1 = fs" "client_conn fs = Some conn"
    using route_endpoint_machine [OF assms(3)] trigger_keeps [OF assms(1)] assms(2) by simp_all
  then show ?thesis
    using assms by (simp add: fsm_trigger_def fsm_trigger_event_def fsm_get_conn_with_endpoint_def build_conn_attrs_def get_charset_def)
qed

text \<open>A strategy with one endpoint and a backend that prepares every statement.\<close>

definition example_strategy :: "(unit, string) RouteStrategy" where
  "example_strategy = Simple (BRandom (RandomWeighted_add (RandomWeighted_default ())
     \<lparr>weight = 1, name = ''a'', db = ''d'', user = ''u'', password = ''p'', addr = ''db''\<rparr>))"

definition prepare_answers :: "nat \<Rightarrow> bytes \<Rightarrow> bytes list" where
  "prepare_answers sk out = [frame 1 (prepare_ok 7 0 0 [0, 0])]"

theorem prepare_panics_witness:
  "prepare (example_env prepare_answers example_parse) ((example_cx TransUseState (Some idle_conn))\<lparr>route_strategy := example_strategy\<rparr>)
     (str_bytes ''SELECT 1'') [] = None"
proof -
  let ?E = "example_env prepare_answers example_parse"
  let ?cx = "(example_cx TransUseState (Some idle_conn))\<lparr>route_strategy := example_strategy\<rparr>"
  have text1: "payload_text (str_bytes ''SELECT 1'') = Some ''SELECT 1''"
    using payload_text_str [of "''SELECT 1''"] by (simp_all add: trim_nul_def) (simp add: str_bytes_def)
  have cx: "rewriter ?cx = None" "rewrite_outputs ?cx = no_outputs"
    by (simp_all add: example_cx_def ReqContext_new_def)
  let ?fs = "(fsm ?cx)\<lparr>current_state := TransPrepareState, current_event := PrepareEvent\<rparr>"
  have tr: "trigger (fsm ?cx) PrepareEvent = (?fs, False)" "client_conn (fsm ?cx) = Some idle_conn"
    by (simp_all add: example_cx_def ReqContext_new_def TransFsm_new_def trigger_eval)
  have "\<exists>ep. route_endpoint ?E (?cx\<lparr>fsm := ?fs\<rparr>) StatementTyp ''SELECT 1'' = Some (?cx\<lparr>fsm := ?fs\<rparr>, ep)"
    by (simp add: route_endpoint_def route_def dispatch_def example_env_def example_strategy_def balance_next_def
        BalanceType_next_def RandomWeighted_next_def RandomWeighted_add_def RandomWeighted_default_def
        RandomWeighted_item_exists_def name_exists_def wrap64_def)
  then obtain ep where "route_endpoint ?E (?cx\<lparr>fsm := ?fs\<rparr>) StatementTyp ''SELECT 1'' = Some (?cx\<lparr>fsm := ?fs\<rparr>, ep)" ..
  note t = fsm_trigger_held [OF tr this, of "[]"]
  let ?f = "(into_stmt idle_codec)\<lparr>inbox := inbox (into_stmt idle_codec) @ prepare_answers 0 []\<rparr>"
  have f: "st_next_state (codec ?f) = PrepareFirst" "pending_bytes ?f = frame 1 (prepare_ok 7 0 0 [0, 0]) @ []"
    by (simp_all add: into_stmt_def idle_codec_def pending_bytes_def prepare_answers_def Stmt_with_auth_info_def Stmt_new_def)
  obtain f' where "prepare_loop ?f = prepare_loop f'"
      "codec f' = prepare_header ((codec ?f)\<lparr>st_seq := 1\<rparr>) (prepare_ok 7 0 0 [0, 0])"
    using prepare_first_step [OF f(1) _ _ _ _ f(2)] by auto
  then have "prepare_loop ?f = Some (f', Inr ())"
    using prepare_done [of f'] by (simp add: prepare_ok_header)
  then have "\<exists>stmt conn. send_prepare (env_backend ?E) (str_bytes ''SELECT 1'') idle_conn [] = Some (Inr stmt, conn, [])"
    by (simp add: send_prepare_def take_framed_def idle_conn_def framed_send_def example_env_def prepare_answers_def)
  then show ?thesis
    using prepare_panics [OF cx text1 t] by blast
qed

end
