(* ===== verification/Shards.thy ===== *)
theory Shards
  imports Affinity
begin

section \<open>What a client sees of several shards\<close>

text \<open>
  Properties of the executor of sharded statements: counts of the shards are added up, and which
  shard's answer is passed on.
\<close>


subsection \<open>One packet of every shard\<close>

text \<open>Before the rows, one call of the merged stream takes one packet from each stream.\<close>

lemma merge_head_loop:
  assumes "ms_state m \<noteq> MergeRow" "base_length m = length (ms_inner m)" "ms_idx m = length (ms_inner m) - Suc n" "n < length (ms_inner m)"
    and "\<forall>i < length (ms_inner m). ms_idx m \<le> i \<longrightarrow> (\<exists>s'. fuse_next nxt (ms_inner m ! i) = Some (s', ys ! i))"
    and "length ys = length (ms_inner m)"
  shows "\<exists>m'. merge_loop nxt m = Some m' \<and> ms_buf m' = ms_buf m @ drop (ms_idx m) ys"
  using assms
proof (induction n arbitrary: m)
  case 0
  let ?i = "ms_idx m"
  have i: "?i < length (ms_inner m)" "Suc ?i = base_length m"
    using 0 by auto
  then obtain s' where s': "fuse_next nxt (ms_inner m ! ?i) = Some (s', ys ! ?i)"
    using 0(5) by auto
  have "drop ?i ys = [ys ! ?i]"
    using i 0(2,6) by (metis Cons_nth_drop_Suc drop_all order_refl)
  then show ?case
    using i s' 0(1) by (subst merge_loop.simps) (simp add: merge_turn_def idx_def Let_def)
next
  case (Suc n)
  let ?i = "ms_idx m"
  have i: "?i < length (ms_inner m)" "Suc ?i \<noteq> base_length m"
    using Suc.prems by auto
  then obtain s' where s': "fuse_next nxt (ms_inner m ! ?i) = Some (s', ys ! ?i)"
    using Suc.prems(5) by auto
  let ?m = "m\<lparr>ms_inner := (ms_inner m)[?i := s'], ms_idx := Suc ?i, ms_buf := ms_buf m @ [ys ! ?i]\<rparr>"
  have loop: "merge_loop nxt m = merge_loop nxt ?m"
    using i s' Suc.prems(1) by (subst merge_loop.simps) (simp add: merge_turn_def idx_def Let_def)
  have "\<exists>m'. merge_loop nxt ?m = Some m' \<and> ms_buf m' = ms_buf ?m @ drop (ms_idx ?m) ys"
    by (rule Suc.IH) (use Suc.prems i in auto)
  moreover have "drop ?i ys = ys ! ?i # drop (Suc ?i) ys"
    using i(1) Suc.prems(6) by (simp add: Cons_nth_drop_Suc)
  ultimately show ?case
    using loop by simp
qed

lemma merge_head:
  assumes "fs \<noteq> []" "length ys = length fs" "\<forall>i < length fs. \<exists>f'. nxt (fs ! i) = Some (f', ys ! i)"
  shows "\<exists>m. merge_next nxt (MergeStream_new fs (length fs)) = Some (m, Some ys)"
proof -
  let ?m = "MergeStream_new fs (length fs) :: ('a, 'b) MergeStream"
  have inner: "ms_inner ?m ! i = (fs ! i, False)" if "i < length fs" for i
    using that by (simp add: MergeStream_new_def)
  have "\<exists>s'. fuse_next nxt (ms_inner ?m ! i) = Some (s', ys ! i)" if i: "i < length fs" for i
  proof -
    obtain f' where "nxt (fs ! i) = Some (f', ys ! i)"
      using assms(3) i by blast
    then show ?thesis
      by (simp add: inner [OF i] fuse_next_def)
  qed
  then have "\<exists>m'. merge_loop nxt ?m = Some m' \<and> ms_buf m' = ms_buf ?m @ drop (ms_idx ?m) ys"
    using assms(1,2) by (intro merge_head_loop [where n = "length fs - 1"]) (simp_all add: MergeStream_new_def)
  then obtain m' where "merge_loop nxt ?m = Some m'" "ms_buf m' = ys"
    by (auto simp: MergeStream_new_def)
  moreover have "ys \<noteq> []"
    using assms(1,2) by auto
  ultimately show ?thesis
    by (simp add: merge_next_def)
qed


subsection \<open>Counts\<close>

lemma text_cell_number:
  "s \<noteq> [] \<Longrightarrow> length s < 2 ^ 64 \<Longrightarrow> put_lenc_int [] (of_nat (length s)) False @ s = text_cell (Some s)"
  by (simp add: text_cell_def put_lenc_int_def word_unat_eq_iff unat_of_nat take_bit_nat_eq_self_iff)

text \<open>A packet with a text row, and its cell replaced.\<close>

definition row_packet :: "bytes \<times> bytes option list \<Rightarrow> bytes" where
  "row_packet r = fst r @ text_row (snd r)"

definition count_row :: "nat \<Rightarrow> u64 \<times> bytes \<times> bytes option list \<Rightarrow> bool" where
  "count_row i r \<longleftrightarrow> length (fst (snd r)) = 4 \<and> i < length (snd (snd r)) \<and> length (text_row (snd (snd r))) < 2 ^ 63 \<and>
     snd (snd r) ! i = Some (str_bytes (show_nat (unat (fst r))))"

lemma decimal_text [simp]:
  "str_bytes (show_nat n) \<noteq> []" "from_utf8 (str_bytes (show_nat n)) = Some (show_nat n)"
  using show_nat_nonempty [of n] utf8_ok_show [of n] by (simp_all add: from_utf8_def) (simp add: str_bytes_def)

lemma show_nat_length: "length (show_nat n) \<le> max 1 n"
proof (induction n rule: show_nat.induct)
  case (1 n)
  then show ?case
    by (subst show_nat.simps) auto
qed

lemma row_part_text:
  assumes "count_row i (v, h, cells)" "position (\<lambda>x. col_column_name x = nm) columns = Some i"
  shows "row_part (TextRow \<lparr>rt_columns = columns, rt_buf = b\<rparr>) nm (row_packet (h, cells)) =
    Some \<lparr>rp_data = str_bytes (show_nat (unat v)), start_idx = length (text_row (take i cells)),
      part_encode_length = length (text_cell (cells ! i)) - length (str_bytes (show_nat (unat v))),
      part_data_length = length (str_bytes (show_nat (unat v)))\<rparr>"
  using assms text_row_get [OF assms(2), of cells]
  by (simp add: row_part_def row_at_def payload_of_def row_packet_def count_row_def with_buf_def get_row_data_with_name_def
      cell_data_def unwrap2_def)

lemma row_key_text:
  assumes "count_row i (v, h, cells)" "position (\<lambda>x. col_column_name x = nm) columns = Some i"
  shows "row_key (TextRow \<lparr>rt_columns = columns, rt_buf = b\<rparr>) False nm (row_packet (h, cells)) = Some v"
  using assms text_row_get [OF assms(2), of cells] parse_show_u64 [of v]
  by (simp add: row_key_def row_at_def payload_of_def row_packet_def count_row_def with_buf_def get_row_data_with_name_def
      cell_data_def unwrap2_def decode_with_name_def row_decode_def String_new_def)

lemma replace_text:
  assumes "count_row i (v, h, cells)" "position (\<lambda>x. col_column_name x = nm) columns = Some i" "s \<noteq> []" "length s < 2 ^ 64"
    "row_part (TextRow \<lparr>rt_columns = columns, rt_buf = b\<rparr>) nm (row_packet (h, cells)) = Some p"
  shows "row_data_cut_merge (row_packet (h, cells)) p (put_lenc_int [] (of_nat (length s)) False @ s) =
    Some (row_packet (h, cells[i := Some s]))"
proof -
  have i: "length h = 4" "i < length cells" "cells ! i = Some (str_bytes (show_nat (unat v)))"
    using assms(1) by (simp_all add: count_row_def)
  let ?pre = "text_row (take i cells)" and ?post = "text_row (drop (Suc i) cells)"
  have row: "text_row cells = ?pre @ text_cell (cells ! i) @ ?post"
    by (rule text_cell_split [OF i(2)])
  have new: "text_row (cells[i := Some s]) = ?pre @ text_cell (Some s) @ ?post"
    using text_cell_split [of i "cells[i := Some s]"] i(2) by simp
  have "length (text_cell (cells ! i)) \<ge> length (str_bytes (show_nat (unat v)))"
    by (simp add: i(3) text_cell_def)
  then have p: "start_idx p = length ?pre" "part_encode_length p + part_data_length p = length (text_cell (cells ! i))"
    using assms(5) row_part_text [OF assms(1,2), of b] by auto
  show ?thesis
    unfolding text_cell_number [OF assms(3,4)]
    by (simp add: row_data_cut_merge_def row_packet_def split_to_def i(1) row new p)
qed

lemma keyed_counts:
  assumes "\<forall>r \<in> set rows. count_row i r" "position (\<lambda>x. col_column_name x = nm) columns = Some i"
  shows "\<exists>ks. keyed (row_key (TextRow \<lparr>rt_columns = columns, rt_buf = b\<rparr>) False nm) (map (\<lambda>r. row_packet (snd r)) rows) = Some ks \<and>
    map fst ks = map fst rows"
  using assms(1) by (induction rows) (auto simp: row_key_text [OF _ assms(2)])

lemma replace_counts:
  assumes "\<forall>r \<in> set rows. count_row i r" "position (\<lambda>x. col_column_name x = nm) columns = Some i" "s \<noteq> []" "length s < 2 ^ 64"
  shows "replace_parts (TextRow \<lparr>rt_columns = columns, rt_buf = b\<rparr>) nm (put_lenc_int [] (of_nat (length s)) False @ s)
      (map (\<lambda>r. row_packet (snd r)) rows) =
    Some (map (\<lambda>(_, h, cells). row_packet (h, cells[i := Some s])) rows)"
  using assms(1)
proof (induction rows)
  case (Cons r rows)
  obtain v h cells where r: "r = (v, h, cells)"
    by (cases r)
  have "count_row i (v, h, cells)"
    using Cons.prems r by simp
  note p = row_part_text [OF this assms(2), of b] and c = replace_text [OF this assms(2-4) row_part_text [OF this assms(2)]]
  show ?case
    using Cons p c by (simp add: r)
qed simp


subsection \<open>Properties\<close>

text \<open>C19.  The shards' counts are added up: in a batch of text rows whose column named by \<open>COUNT\<close> holds a decimal
  number, every row gets the sum of the numbers, modulo 2 to the 64, in that column, and nothing else of
  it changes.
\<close>

theorem count_merged:
  assumes "\<forall>r \<in> set rows. count_row i r" "position (\<lambda>x. col_column_name x = fm_name agg) columns = Some i" "agg_func agg = AggCount"
  shows "agg_one F (TextRow \<lparr>rt_columns = columns, rt_buf = b\<rparr>) False agg (map (\<lambda>r. row_packet (snd r)) rows) =
    Some (Inr (map (\<lambda>(_, h, cells). row_packet (h, cells[i := Some (str_bytes (show_nat (unat (sum_list (map fst rows)))))])) rows))"
proof -
  obtain ks where ks: "keyed (row_key (TextRow \<lparr>rt_columns = columns, rt_buf = b\<rparr>) False (fm_name agg)) (map (\<lambda>r. row_packet (snd r)) rows) = Some ks"
      "map fst ks = map fst rows"
    using keyed_counts [OF assms(1,2)] by blast
  let ?s = "str_bytes (show_nat (unat (sum_list (map fst rows))))"
  have "length ?s < 2 ^ 64"
    using show_nat_length [of "unat (sum_list (map fst rows))"] unsigned_less [where ?'a = nat, of "sum_list (map fst rows)"]
    by (simp add: str_bytes_def)
  from replace_counts [OF assms(1,2) _ this] show ?thesis
    using ks assms(3) by (simp add: agg_one_def Let_def)
qed


theorem count_merged_witness:
  "agg_one example_floats (TextRow \<lparr>rt_columns = [long_column ''c''], rt_buf = []\<rparr>) False
     \<lparr>fm_span = \<lparr>span_start = 0, span_end = 1\<rparr>, fm_name = ''c'', agg_func = AggCount\<rparr> [[2, 0, 0, 5, 1, 57], [2, 0, 0, 6, 1, 51]] =
   Some (Inr [[2, 0, 0, 5, 2, 49, 50], [2, 0, 0, 6, 2, 49, 50]])"
proof -
  have digits: "str_bytes (show_nat 9) = [57]" "str_bytes (show_nat 3) = [51]" "str_bytes (show_nat 12) = [49, 50]"
    by (simp_all add: show_nat.simps str_bytes_def)
  have cell: "text_cell (Some [57]) = [1, 57]" "text_cell (Some [51]) = [1, 51]" "text_cell (Some [49, 50]) = [2, 49, 50]"
    by (simp_all add: text_cell_def put_lenc_int_def)
  have rows: "\<forall>r \<in> set [(9, [2, 0, 0, 5], [Some [57]]), (3, [2, 0, 0, 6], [Some [51]])]. count_row 0 r"
    by (simp add: count_row_def digits cell)
  have "position (\<lambda>x. col_column_name x = fm_name \<lparr>fm_span = \<lparr>span_start = 0, span_end = 1\<rparr>, fm_name = ''c'', agg_func = AggCount\<rparr>) [long_column ''c''] = Some 0"
    by (simp add: long_column_def)
  from count_merged [OF rows this, of example_floats "[]"] show ?thesis
    by (simp add: row_packet_def digits cell)
qed

text \<open>The client of a sharded statement is answered with the OK or error packet of the first shard.  Whatever
  the others answered, an error included, is dropped, and the executor reports success.
\<close>

lemma first_shard_answers:
  assumes "\<forall>i < length fs. \<exists>f'. ResultsetStream_next (fs ! i) = Some (f', ys ! i)" "length ys = length fs"
    and "ys = Some (Inr header) # rest" "idx header 4 = Some h" "h = OK_HEADER \<or> h = ERR_HEADER"
  shows "\<exists>m. handle_shard_resultset E F cx (MergeStream_new fs (length fs)) col bin w =
    do { (cx, r, w) \<leftarrow> send_packet E cx header w; Some (cx, m, r, w) }"
proof -
  have "fs \<noteq> []"
    using assms(2,3) by auto
  then obtain m where "shards_next (MergeStream_new fs (length fs)) = Some (m, Some ys)"
    using merge_head [OF _ assms(2,1)] by blast
  then show ?thesis
    using assms(3-5) by (intro exI [of _ m]) (auto simp: handle_shard_resultset_def get_shard_one_data_def)
qed

text \<open>A connection on which an answer has arrived.\<close>

definition answered_with :: "bytes \<Rightarrow> ResultsetCodec Framed" where
  "answered_with bs = \<lparr>codec = ResultsetCodec_new\<lparr>rs_next_state := ColumnCount\<rparr>, rbuf = bs, sock = 1, inbox = [], closed = False\<rparr>"

lemma answered_next:
  "\<exists>f'. ResultsetStream_next (answered_with [7, 0, 0, 1, 0, 0, 0, 2, 0, 0, 0]) = Some (f', Some (Inr [7, 0, 0, 1, 0, 0, 0, 2, 0, 0, 0]))"
  "\<exists>f'. ResultsetStream_next (answered_with [3, 0, 0, 1, 0xff, 0x48, 0x04]) = Some (f', Some (Inr [3, 0, 0, 1, 0xff, 0x48, 0x04]))"
  by (simp_all add: ResultsetStream_next_def answered_with_def framed_poll_def ResultsetCodec_decode_def idx_def
      decode_column_count_def decode_try_ok_def is_ok_def some_item_def split_to_def OK_HEADER_def ERR_HEADER_def
      ResultsetCodec_new_def)

text \<open>The second shard answered with an error.\<close>

lemma first_shard_answers_witness:
  "\<exists>cx m. handle_shard_resultset ok_env example_floats (example_cx TransDummyState None)
       (MergeStream_new [answered_with [7, 0, 0, 1, 0, 0, 0, 2, 0, 0, 0], answered_with [3, 0, 0, 1, 0xff, 0x48, 0x04]] 2)
       \<lparr>sh_database = None, sh_table = None\<rparr> False [] =
     Some (cx, m, Inr (), [[7, 0, 0, 0, 0, 0, 0, 2, 0, 0, 0]])"
proof -
  let ?fs = "[answered_with [7, 0, 0, 1, 0, 0, 0, 2, 0, 0, 0], answered_with [3, 0, 0, 1, 0xff, 0x48, 0x04]]"
  let ?ys = "[Some (Inr [7, 0, 0, 1, 0, 0, 0, 2, 0, 0, 0]), Some (Inr [3, 0, 0, 1, 0xff, 0x48, 0x04])]"
  have all: "\<forall>i < length ?fs. \<exists>f'. ResultsetStream_next (?fs ! i) = Some (f', ?ys ! i)"
    using answered_next by (simp add: less_Suc_eq All_less_Suc)
  have frames: "frames 0 [0, 0, 0, 2, 0, 0, 0] = [7, 0, 0, 0, 0, 0, 0, 2, 0, 0, 0]"
    using frames_last [of "[0, 0, 0, 2, 0, 0, 0]" 0] by (simp add: MAX_PAYLOAD_LEN_def le_bytes_numeral)
  let ?cx = "example_cx TransDummyState None :: (ClientConn list \<times> nat, string, unit, unit, unit) ReqContext"
  have "\<exists>cx. send_packet ok_env ?cx [7, 0, 0, 1, 0, 0, 0, 2, 0, 0, 0] [] = Some (cx, Inr (), [[7, 0, 0, 0, 0, 0, 0, 2, 0, 0, 0]])"
    by (simp add: send_packet_def client_send_def PacketCodec_encode_def encode_packet_def encode_packet_offset_end [of _ _ "[]", simplified]
        framed_send_def example_env_def example_cx_def ReqContext_new_def PacketCodec_new_def frames)
  then obtain cx where "send_packet ok_env ?cx [7, 0, 0, 1, 0, 0, 0, 2, 0, 0, 0] [] = Some (cx, Inr (), [[7, 0, 0, 0, 0, 0, 0, 2, 0, 0, 0]])" ..
  moreover obtain m where "handle_shard_resultset ok_env example_floats ?cx (MergeStream_new ?fs (length ?fs))
      \<lparr>sh_database = None, sh_table = None\<rparr> False [] =
    do { (cx, r, w) \<leftarrow> send_packet ok_env ?cx [7, 0, 0, 1, 0, 0, 0, 2, 0, 0, 0] []; Some (cx, m, r, w) }"
    using first_shard_answers [OF all, where h = OK_HEADER] by (fastforce simp: idx_def OK_HEADER_def)
  ultimately show ?thesis
    by (simp add: numeral_2_eq_2)
qed

end
