(* ===== verification/Visitor.thy ===== *)
theory Visitor
  imports Ast
begin

section \<open>Visiting a statement\<close>

text \<open>
  The implementations of \<open>Visitor\<close> in \<open>parser/mysql/src/ast\<close>.  A transformer has a state
  \<open>'t\<close>; \<open>trans\<close> returns it with the flag that tells some nodes to skip what is below them,
  and \<open>complete\<close> runs when a node has been visited.  Either may panic.  \<open>trans\<close> of a
  subquery may itself visit the node, so it is given that visit as an argument.

  The visitor of a clause is defined on the clause with each expression and query in it paired
  with its own visit; \<open>visit_select\<close> and \<open>visit_expr\<close> tie the knot by primitive recursion, so
  every visit ends.
\<close>

record 't transformer =
  tr_trans :: "Node \<Rightarrow> ('t \<Rightarrow> 't option) \<Rightarrow> 't \<Rightarrow> ('t \<times> bool) option"
  tr_complete :: "Node \<Rightarrow> 't \<Rightarrow> 't option"

type_synonym 't act = "'t \<Rightarrow> 't option"
type_synonym 't vexpr = "Expr \<times> 't act"
type_synonym 't vselect = "Expr SelectStmt \<times> 't act"

fun acts :: "'t act list \<Rightarrow> 't act" where
  "acts [] t = Some t"
| "acts (a # as) t = do { t \<leftarrow> a t; acts as t }"

definition opt_act :: "('a \<Rightarrow> 't act) \<Rightarrow> 'a option \<Rightarrow> 't act" where
  "opt_act f x = (case x of None \<Rightarrow> Some | Some y \<Rightarrow> f y)"

text \<open>\<open>tf.trans(&mut node)\<close> where the flag is ignored.\<close>

definition enter :: "'t transformer \<Rightarrow> Node \<Rightarrow> 't act" where
  "enter T n t = map_option fst (tr_trans T n Some t)"

text \<open>A node whose flag is heeded: skipped nodes are completed at once.\<close>

definition enter_or_skip :: "'t transformer \<Rightarrow> Node \<Rightarrow> 't act \<Rightarrow> 't act" where
  "enter_or_skip T n visit t =
     do { (t, is_skip) \<leftarrow> tr_trans T n visit t;
          if is_skip then tr_complete T n t else visit t }"

text \<open>The same for a query, which is also completed after its visit.\<close>

definition enter_complete :: "'t transformer \<Rightarrow> Node \<Rightarrow> 't act \<Rightarrow> 't act" where
  "enter_complete T n visit t =
     do { (t, is_skip) \<leftarrow> tr_trans T n visit t;
          t \<leftarrow> (if is_skip then Some t else visit t);
          tr_complete T n t }"

definition visit_expr_node :: "'t transformer \<Rightarrow> 't vexpr \<Rightarrow> 't act" where
  "visit_expr_node T e = acts [enter T (NodeExpr (fst e)), snd e]"

definition visit_select_node :: "'t transformer \<Rightarrow> 't vselect \<Rightarrow> 't act" where
  "visit_select_node T s = acts [enter T (NodeSelectStmt (fst s)), snd s]"


subsection \<open>Values and clauses\<close>

fun visit_value :: "'t transformer \<Rightarrow> SqlValue \<Rightarrow> 't act" where
  "visit_value T (VDefault _ v) = acts [enter T (NodeValue v), visit_value T v]"
| "visit_value T v = enter T (NodeValue v)"

definition visit_value_node :: "'t transformer \<Rightarrow> SqlValue \<Rightarrow> 't act" where
  "visit_value_node T v = acts [enter T (NodeValue v), visit_value T v]"

definition visit_order_expr :: "'t transformer \<Rightarrow> 't vexpr OrderExpr \<Rightarrow> 't act" where
  "visit_order_expr T o' = visit_expr_node T (oe_expr o')"

definition visit_order_clause :: "'t transformer \<Rightarrow> 't vexpr OrderClause \<Rightarrow> 't act" where
  "visit_order_clause T c =
     acts (map (\<lambda>o'. acts [enter T (NodeOrderExpr (map_OrderExpr fst o')), visit_order_expr T o']) (oc_orders c))"

definition visit_where_clause :: "'t transformer \<Rightarrow> 't vexpr WhereClause \<Rightarrow> 't act" where
  "visit_where_clause T c = visit_expr_node T (wc_expr c)"

definition visit_group_clause :: "'t transformer \<Rightarrow> 't vexpr GroupClause \<Rightarrow> 't act" where
  "visit_group_clause T c = acts (map (visit_expr_node T) (gc_exprs c))"

definition visit_having_clause :: "'t transformer \<Rightarrow> 't vexpr HavingClause \<Rightarrow> 't act" where
  "visit_having_clause T c = visit_expr_node T (hc_expr c)"

definition visit_window_clause :: "'t transformer \<Rightarrow> WindowClause \<Rightarrow> 't act" where
  "visit_window_clause T c = acts (map (\<lambda>d. enter T (NodeWindowDef d)) (wn_defs c))"

fun visit_into_clause :: "'t transformer \<Rightarrow> IntoClause \<Rightarrow> 't act" where
  "visit_into_clause T (IntoOutFile f) = enter T (NodeOutFile f)"
| "visit_into_clause T (IntoDumpFile f) = enter T (NodeDumpFile f)"
| "visit_into_clause T (IntoVars vs) = acts (map (visit_value_node T) vs)"

definition visit_item_expr :: "'t transformer \<Rightarrow> 't vexpr ItemExpr \<Rightarrow> 't act" where
  "visit_item_expr T i = visit_expr_node T (ie_expr i)"

fun visit_item :: "'t transformer \<Rightarrow> 't vexpr Item \<Rightarrow> 't act" where
  "visit_item T (ItemWild _) = Some"
| "visit_item T (ItemTableWild w) = enter T (NodeTableWild w)"
| "visit_item T (ItemExprItem i) = enter_or_skip T (NodeItemExpr (map_ItemExpr fst i)) (visit_item_expr T i)"

definition visit_items :: "'t transformer \<Rightarrow> 't vexpr Items \<Rightarrow> 't act" where
  "visit_items T is = acts (map (\<lambda>i. enter_or_skip T (NodeItem (map_Item fst i)) (visit_item T i)) (it_items is))"

definition visit_table_func :: "'t transformer \<Rightarrow> 't vexpr TableFunc \<Rightarrow> 't act" where
  "visit_table_func T f = acts [visit_expr_node T (tf_expr f), visit_value_node T (tf_text f)]"

text \<open>The subquery of a derived table is visited without being announced.\<close>

definition visit_derived_table :: "'t transformer \<Rightarrow> 't vselect DerivedTable \<Rightarrow> 't act" where
  "visit_derived_table T d = snd (dt_subquery d)"

primrec visit_table_ref :: "'t transformer \<Rightarrow> ('t vexpr, 't vselect) TableRef \<Rightarrow> 't act"
  and visit_table_factor :: "'t transformer \<Rightarrow> ('t vexpr, 't vselect) TableFactor \<Rightarrow> 't act"
  and visit_joined_table :: "'t transformer \<Rightarrow> ('t vexpr, 't vselect) JoinedTable \<Rightarrow> 't act" where
  "visit_table_ref T (TableFactorRef f) =
     acts [enter T (NodeTableFactor (map_TableFactor fst fst f)), visit_table_factor T f]"
| "visit_table_ref T (JoinedTableRef j) =
     acts [enter T (NodeJoinedTable (map_JoinedTable fst fst j)), visit_joined_table T j]"
| "visit_table_ref T (OjTableFactor f) =
     acts [enter T (NodeTableFactor (map_TableFactor fst fst f)), visit_table_factor T f]"
| "visit_table_ref T (OjJoinedTable j) =
     acts [enter T (NodeJoinedTable (map_JoinedTable fst fst j)), visit_joined_table T j]"
| "visit_table_factor T (SingleTableFactor s) = enter T (NodeSingleTable s)"
| "visit_table_factor T (SingleTableParens s) = enter T (NodeSingleTable s)"
| "visit_table_factor T (DerivedTableFactor d) =
     acts [enter T (NodeDerivedTable (map_DerivedTable fst d)), visit_derived_table T d]"
| "visit_table_factor T (JoinedTableParens j) =
     acts [enter T (NodeJoinedTable (map_JoinedTable fst fst j)), visit_joined_table T j]"
| "visit_table_factor T (TableRefsParens rs) =
     acts (map (\<lambda>r. acts [enter T (NodeTableRef (map_TableRef fst fst r)), visit_table_ref T r]) rs)"
| "visit_table_factor T (TableFuncFactor f) =
     acts [enter T (NodeTableFunc (map_TableFunc fst f)), visit_table_func T f]"
| "visit_joined_table T (JoinedTable _ l _ r cond _) =
     acts [enter T (NodeTableRef (map_TableRef fst fst l)), visit_table_ref T l,
           enter T (NodeTableRef (map_TableRef fst fst r)), visit_table_ref T r,
           opt_act (visit_expr_node T) cond]"

definition visit_table_refs :: "'t transformer \<Rightarrow> ('t vexpr, 't vselect) TableRef list \<Rightarrow> 't act" where
  "visit_table_refs T rs = acts (map (\<lambda>r. acts [enter T (NodeTableRef (map_TableRef fst fst r)), visit_table_ref T r]) rs)"

fun visit_from_clause :: "'t transformer \<Rightarrow> ('t vexpr, 't vselect) FromClause \<Rightarrow> 't act" where
  "visit_from_clause T Dual = Some"
| "visit_from_clause T (TableRefs rs) = visit_table_refs T rs"

definition visit_common_table_expr :: "'t transformer \<Rightarrow> 't vselect CommonTableExpr \<Rightarrow> 't act" where
  "visit_common_table_expr T c =
     acts (map (visit_value_node T) (ct_columns c) @ [visit_select_node T (ct_subquery c)])"

definition visit_with_clause :: "'t transformer \<Rightarrow> 't vselect WithClause \<Rightarrow> 't act" where
  "visit_with_clause T w =
     acts (map (\<lambda>c. acts [enter T (NodeCommonTableExpr (map_CommonTableExpr fst c)), visit_common_table_expr T c])
       (wt_with_exprs w))"

definition visit_with_query :: "'t transformer \<Rightarrow> 't vselect WithQuery \<Rightarrow> 't act" where
  "visit_with_query T w =
     acts [enter T (NodeWithClause (map_WithClause fst (wq_with_clause w))), visit_with_clause T (wq_with_clause w),
           visit_select_node T (wq_expr_body w)]"


subsection \<open>Queries\<close>

definition visit_query :: "'t transformer \<Rightarrow> ('t vexpr, 't vselect) Query \<Rightarrow> 't act" where
  "visit_query T q = acts (
     [enter_or_skip T (NodeItems (map_Items fst (q_items q))) (visit_items T (q_items q)),
      opt_act (\<lambda>c. acts [enter T (NodeIntoClause c), visit_into_clause T c]) (q_into q),
      opt_act (\<lambda>c. acts [enter T (NodeFromClause (map_FromClause fst fst c)), visit_from_clause T c]) (q_from q),
      opt_act (\<lambda>c. acts [enter T (NodeWhereClause (map_WhereClause fst c)), visit_where_clause T c]) (q_where q),
      opt_act (\<lambda>c. acts [enter T (NodeGroupClause (map_GroupClause fst c)), visit_group_clause T c]) (q_group q),
      opt_act (\<lambda>c. acts [enter T (NodeHavingClause (map_HavingClause fst c)), visit_having_clause T c]) (q_having q),
      opt_act (\<lambda>c. acts [enter T (NodeWindowClause c), visit_window_clause T c]) (q_window q),
      opt_act (\<lambda>c. acts [enter T (NodeOrderClause (map_OrderClause fst c)), visit_order_clause T c]) (q_order q),
      opt_act (\<lambda>c. enter T (NodeLimitClause c)) (q_limit q)] @
     map (\<lambda>c. enter T (NodeLockClause c)) (q_locks q) @
     [opt_act (visit_select_node T) (q_union_query q)])"

definition visit_subquery :: "'t transformer \<Rightarrow> ('t vexpr, 't vselect) SubQuery \<Rightarrow> 't act" where
  "visit_subquery T q = acts
     [visit_select_node T (sq_query q),
      opt_act (visit_select_node T) (sq_union_query q),
      opt_act (\<lambda>c. acts [enter T (NodeIntoClause c), visit_into_clause T c]) (sq_into q),
      opt_act (\<lambda>c. acts [enter T (NodeOrderClause (map_OrderClause fst c)), visit_order_clause T c]) (sq_order q),
      opt_act (\<lambda>c. enter T (NodeLimitClause c)) (sq_limit q)]"

primrec visit_select :: "'t transformer \<Rightarrow> 't vexpr SelectStmt \<Rightarrow> 't act" where
  "visit_select T (SelectQuery q) =
     (let q = map_Query id (\<lambda>s. (map_SelectStmt fst s, visit_select T s)) q;
          n = NodeQuery (map_Query fst fst q)
      in enter_complete T n (visit_query T q))"
| "visit_select T (SelectSubQuery q) =
     (let q = map_SubQuery id (\<lambda>s. (map_SelectStmt fst s, visit_select T s)) q;
          n = NodeSubQuery (map_SubQuery fst fst q)
      in enter_complete T n (visit_subquery T q))"
| "visit_select T (SelectWith w) =
     (let w = map_WithQuery (\<lambda>s. (map_SelectStmt fst s, visit_select T s)) w
      in acts [enter T (NodeWithQuery (map_WithQuery fst w)), visit_with_query T w])"
| "visit_select T (ValueConstructor es) = acts (map (\<lambda>row. acts (map (visit_expr_node T) row)) es)"
| "visit_select T (ExplicitTable _) = Some"
| "visit_select T SelectNone = Some"


subsection \<open>Expressions\<close>

definition visit_when_expr :: "'t transformer \<Rightarrow> 't vexpr WhenExpr \<Rightarrow> 't act" where
  "visit_when_expr T w = (case w of WhenExpr _ c e \<Rightarrow> acts [visit_expr_node T c, visit_expr_node T e])"

definition visit_agg_expr :: "'t transformer \<Rightarrow> 't vexpr AggExpr \<Rightarrow> 't act" where
  "visit_agg_expr T a = acts (map (visit_expr_node T) (ag_exprs a))"

text \<open>The operands of a binary expression are announced before the first is visited.  The
  operand of \<open>IN\<close> and the pattern of \<open>LIKE\<close> are announced and not visited.\<close>

primrec visit_expr :: "'t transformer \<Rightarrow> Expr \<Rightarrow> 't act" where
  "visit_expr T (BinaryOperationExpr _ _ l r) =
     acts [enter T (NodeExpr l), enter T (NodeExpr r), visit_expr T l, visit_expr T r]"
| "visit_expr T (UnaryOperationExpr _ e _) = acts [enter T (NodeExpr e), visit_expr T e]"
| "visit_expr T (IsTruthExpr _ e _ _) = acts [enter T (NodeExpr e), visit_expr T e]"
| "visit_expr T (IsUnknownExpr _ e _) = acts [enter T (NodeExpr e), visit_expr T e]"
| "visit_expr T (IsNullExpr _ e _) = acts [enter T (NodeExpr e), visit_expr T e]"
| "visit_expr T (InExpr _ e _ es) =
     acts (enter T (NodeExpr e) # map (\<lambda>e. acts [enter T (NodeExpr e), visit_expr T e]) es)"
| "visit_expr T (MemberOfExpr _ e f) =
     acts [enter T (NodeExpr e), enter T (NodeExpr f), visit_expr T e, visit_expr T f]"
| "visit_expr T (BetweenExpr _ _ e l r) =
     acts [enter T (NodeExpr e), enter T (NodeExpr l), enter T (NodeExpr r), visit_expr T e, visit_expr T l, visit_expr T r]"
| "visit_expr T (SoundsExpr _ l r) =
     acts [enter T (NodeExpr l), enter T (NodeExpr r), visit_expr T l, visit_expr T r]"
| "visit_expr T (LikeExpr _ e _ p esc) =
     acts [enter T (NodeExpr e), enter T (NodeExpr p),
           opt_act id (map_option (\<lambda>x. acts [enter T (NodeExpr x), visit_expr T x]) esc), visit_expr T e]"
| "visit_expr T (RegexpExpr _ l r _) =
     acts [enter T (NodeExpr l), enter T (NodeExpr r), visit_expr T l, visit_expr T r]"
| "visit_expr T (FuncCallExpr _ _ es) = acts (map (\<lambda>e. acts [enter T (NodeExpr e), visit_expr T e]) es)"
| "visit_expr T (VarExpr _) = Some"
| "visit_expr T (ValuesExpr v) = visit_value_node T v"
| "visit_expr T (SimpleIdentExpr v) = visit_value_node T v"
| "visit_expr T (LiteralExpr v) = visit_value_node T v"
| "visit_expr T (RowExpr es) = acts (map (\<lambda>e. acts [enter T (NodeExpr e), visit_expr T e]) es)"
| "visit_expr T (MatchAgainstExpr _ _ e _) = acts [enter T (NodeExpr e), visit_expr T e]"
| "visit_expr T (BinaryExpr e) = acts [enter T (NodeExpr e), visit_expr T e]"
| "visit_expr T (CastExpr _ e _) = acts [enter T (NodeExpr e), visit_expr T e]"
| "visit_expr T (CaseExpr _ e ws els) =
     acts ([opt_act id (map_option (\<lambda>x. acts [enter T (NodeExpr x), visit_expr T x]) e)] @
       map (\<lambda>w. acts [enter T (NodeWhenExpr (map_WhenExpr fst w)), visit_when_expr T w])
         (map (map_WhenExpr (\<lambda>e. (e, visit_expr T e))) ws) @
       [opt_act id (map_option (\<lambda>x. acts [enter T (NodeExpr x), visit_expr T x]) els)])"
| "visit_expr T (SubQueryExpr s) =
     visit_select_node T (s, visit_select T (map_SelectStmt (\<lambda>e. (e, visit_expr T e)) s))"
| "visit_expr T (CompSubQueryExpr sp e s op opt) =
     acts [enter T (NodeCompSubQueryExpr (CompSubQueryExpr sp e s op opt)),
           enter T (NodeExpr e), visit_expr T e,
           visit_select_node T (s, visit_select T (map_SelectStmt (\<lambda>e. (e, visit_expr T e)) s))]"
| "visit_expr T (ExistsSubQuery s) =
     visit_select_node T (s, visit_select T (map_SelectStmt (\<lambda>e. (e, visit_expr T e)) s))"
| "visit_expr T DefaultExpr = Some"
| "visit_expr T (TimeIntervalUnit _) = Some"
| "visit_expr T (CollateExpr _ _ e) = acts [enter T (NodeExpr e), visit_expr T e]"
| "visit_expr T ParamMarkerExpr = Some"
| "visit_expr T (InSumExpr _ e _) = acts [enter T (NodeExpr e), visit_expr T e]"
| "visit_expr T (SetFuncSpecExpr e) = acts [enter T (NodeExpr e), visit_expr T e]"
| "visit_expr T ExprNone = Some"
| "visit_expr T (ExprOri _) = Some"
| "visit_expr T (ExprAggExpr a) =
     acts [enter T (NodeAggExpr a), visit_agg_expr T (map_AggExpr (\<lambda>e. (e, visit_expr T e)) a)]"

text \<open>An expression, or a query, with its own visit.\<close>

definition with_visit :: "'t transformer \<Rightarrow> Expr \<Rightarrow> 't vexpr" where
  "with_visit T e = (e, visit_expr T e)"

definition select_with_visit :: "'t transformer \<Rightarrow> Expr SelectStmt \<Rightarrow> 't vselect" where
  "select_with_visit T s = (s, visit_select T (map_SelectStmt (with_visit T) s))"


subsection \<open>Statements\<close>

definition visit_update_elem :: "'t transformer \<Rightarrow> UpdateElem \<Rightarrow> 't act" where
  "visit_update_elem T u =
     acts [visit_value_node T (ue_var_name u), visit_expr_node T (with_visit T (ue_expr u))]"

definition visit_update_elems :: "'t transformer \<Rightarrow> UpdateElem list \<Rightarrow> 't act" where
  "visit_update_elems T us = acts (map (\<lambda>u. acts [enter T (NodeUpdateElem u), visit_update_elem T u]) us)"

definition visit_values_ref :: "'t transformer \<Rightarrow> ValuesRef \<Rightarrow> 't act" where
  "visit_values_ref T v = acts (map (visit_value_node T) (vr_derived_columns v))"

definition visit_row_value :: "'t transformer \<Rightarrow> RowValue \<Rightarrow> 't act" where
  "visit_row_value T r =
     acts (map (\<lambda>e. visit_expr_node T (with_visit T e)) (rv_values r) @ [tr_complete T (NodeRowValue r)])"

definition visit_insert_vals :: "'t transformer \<Rightarrow> InsertVals \<Rightarrow> 't act" where
  "visit_insert_vals T v = acts (map (\<lambda>r. acts [enter T (NodeRowValue r), visit_row_value T r]) (iv_values v))"

fun visit_insert_ident :: "'t transformer \<Rightarrow> InsertIdent \<Rightarrow> 't act" where
  "visit_insert_ident T (InsertIdentValue v) = visit_value_node T v"
| "visit_insert_ident T (InsertTableWild w) = enter T (NodeTableWild w)"

definition visit_insert_idents :: "'t transformer \<Rightarrow> InsertIdent list \<Rightarrow> 't act" where
  "visit_insert_idents T is = acts (map (\<lambda>i. acts [enter T (NodeInsertIdent i), visit_insert_ident T i]) is)"

text \<open>The rows are visited before the column names.\<close>

definition visit_insert_from_construct :: "'t transformer \<Rightarrow> InsertFromConstruct \<Rightarrow> 't act" where
  "visit_insert_from_construct T f =
     acts [enter T (NodeInsertVals (if_values f)), visit_insert_vals T (if_values f), visit_insert_idents T (if_fields f)]"

definition visit_insert_query_expr :: "'t transformer \<Rightarrow> InsertQueryExpr \<Rightarrow> 't act" where
  "visit_insert_query_expr T q =
     acts [visit_select_node T (select_with_visit T (iq_query q)), visit_insert_idents T (iq_fields q)]"

definition visit_insert_stmt :: "'t transformer \<Rightarrow> InsertStmt \<Rightarrow> 't act" where
  "visit_insert_stmt T i = acts
     [opt_act (\<lambda>f. acts [enter T (NodeInsertFromConstruct f), visit_insert_from_construct T f]) (in_from_construct i),
      opt_act (\<lambda>v. acts [enter T (NodeValuesRef v), visit_values_ref T v]) (in_values_ref i),
      opt_act (\<lambda>u. acts [enter T (NodeInsUpdates u), visit_update_elems T (iu_updates u)]) (in_ins_updates i),
      visit_update_elems T (in_updates i),
      opt_act (\<lambda>q. acts [enter T (NodeInsertQueryExpr q), visit_insert_query_expr T q]) (in_query_expr i)]"

definition visit_with :: "'t transformer \<Rightarrow> Expr SelectStmt WithClause \<Rightarrow> 't act" where
  "visit_with T w = acts [enter T (NodeWithClause w), visit_with_clause T (map_WithClause (select_with_visit T) w)]"

definition visit_where :: "'t transformer \<Rightarrow> Expr WhereClause \<Rightarrow> 't act" where
  "visit_where T c = acts [enter T (NodeWhereClause c), visit_where_clause T (map_WhereClause (with_visit T) c)]"

definition visit_order :: "'t transformer \<Rightarrow> Expr OrderClause \<Rightarrow> 't act" where
  "visit_order T c = acts [enter T (NodeOrderClause c), visit_order_clause T (map_OrderClause (with_visit T) c)]"

definition visit_refs :: "'t transformer \<Rightarrow> (Expr, Expr SelectStmt) TableRef list \<Rightarrow> 't act" where
  "visit_refs T rs = visit_table_refs T (map (map_TableRef (with_visit T) (select_with_visit T)) rs)"

definition visit_update_stmt :: "'t transformer \<Rightarrow> UpdateStmt \<Rightarrow> 't act" where
  "visit_update_stmt T u = acts
     [opt_act (visit_with T) (up_with u), visit_refs T (up_table_refs u), visit_update_elems T (up_updates u),
      opt_act (visit_where T) (up_where u), opt_act (visit_order T) (up_order u)]"

definition visit_delete_stmt :: "'t transformer \<Rightarrow> DeleteStmt \<Rightarrow> 't act" where
  "visit_delete_stmt T d = acts
     [opt_act (visit_with T) (de_with d), opt_act (visit_where T) (de_where d), opt_act (visit_order T) (de_order d),
      visit_refs T (de_table_refs d)]"

subsubsection \<open>SET statements\<close>

definition enter_set :: "'t transformer \<Rightarrow> SetNode \<Rightarrow> 't act" where
  "enter_set T n = enter T (NodeSet n)"

definition visit_expr_or_default :: "'t transformer \<Rightarrow> ExprOrDefault \<Rightarrow> 't act" where
  "visit_expr_or_default T v = (case v of SetExpr e \<Rightarrow> visit_expr_node T (with_visit T e) | _ \<Rightarrow> Some)"

definition visit_set_variable :: "'t transformer \<Rightarrow> SetVariable \<Rightarrow> 't act" where
  "visit_set_variable T v = acts [enter_set T (NodeExprOrDefault (sv_value v)), visit_expr_or_default T (sv_value v)]"

definition visit_set_system_var :: "'t transformer \<Rightarrow> SetSystemVar \<Rightarrow> 't act" where
  "visit_set_system_var T v =
     acts [enter_set T (NodeSetVarIdentType (ss_opt_var v)), enter_set T (NodeExprOrDefault (ss_value v)),
           visit_expr_or_default T (ss_value v)]"

fun visit_set_opts :: "'t transformer \<Rightarrow> SetOpts \<Rightarrow> 't act" where
  "visit_set_opts T (SetOptVariable v) = acts [enter_set T (NodeSetVariable v), visit_set_variable T v]"
| "visit_set_opts T (SetOptUserVar v) = acts [enter_set T (NodeSetUserVar v), visit_expr_node T (with_visit T (su_expr v))]"
| "visit_set_opts T (SetOptSystemVar v) = acts [enter_set T (NodeSetSystemVar v), visit_set_system_var T v]"
| "visit_set_opts T (SetOptCharset v) = acts [enter_set T (NodeSetCharset v), enter_set T (NodeNewCharset (sc_new_value v))]"
| "visit_set_opts T (SetOptNames v) = enter_set T (NodeSetNames v)"

definition visit_opt_value_type :: "'t transformer \<Rightarrow> OptValueType \<Rightarrow> 't act" where
  "visit_opt_value_type T v =
     acts [enter_set T (NodeOptType (ov_opt_type v)), enter_set T (NodeSetVariable (ov_set_var v)), visit_set_variable T (ov_set_var v)]"

fun visit_opt_value :: "'t transformer \<Rightarrow> OptValue \<Rightarrow> 't act" where
  "visit_opt_value T (OptValueTyped v) = acts [enter_set T (NodeOptValueType v), visit_opt_value_type T v]"
| "visit_opt_value T (OptValueSetOpts v) = acts [enter_set T (NodeSetOpts v), visit_set_opts T v]"

definition visit_opt_value_list :: "'t transformer \<Rightarrow> OptValue list \<Rightarrow> 't act" where
  "visit_opt_value_list T vs = acts (map (\<lambda>v. acts [enter_set T (NodeOptValue v), visit_opt_value T v]) vs)"

definition visit_opt_values :: "'t transformer \<Rightarrow> OptValues \<Rightarrow> 't act" where
  "visit_opt_values T v =
     acts [enter_set T (NodeSetOpts (os_opt v)), visit_set_opts T (os_opt v), visit_opt_value_list T (os_values v)]"

definition visit_transaction :: "'t transformer \<Rightarrow> Transaction \<Rightarrow> 't act" where
  "visit_transaction T x =
     acts [opt_act (\<lambda>m. enter_set T (NodeTransactionType m)) (tx_mode x),
           opt_act (\<lambda>l. enter_set T (NodeIsolationType l)) (tx_isolation_level x)]"

definition visit_following_opt_type_eq :: "'t transformer \<Rightarrow> FollowingOptTypeEq \<Rightarrow> 't act" where
  "visit_following_opt_type_eq T e =
     acts [enter_set T (NodeSetVariable (fe_opt_type e)), visit_set_variable T (fe_opt_type e), visit_opt_value_list T (fe_values e)]"

fun visit_following_opt_type :: "'t transformer \<Rightarrow> FollowingOptType \<Rightarrow> 't act" where
  "visit_following_opt_type T (FollowingTypeEq e) =
     acts [enter_set T (NodeFollowingOptTypeEq e), visit_following_opt_type_eq T e]"
| "visit_following_opt_type T (FollowingTransaction x) = acts [enter_set T (NodeTransaction x), visit_transaction T x]"

definition visit_opt_type_following :: "'t transformer \<Rightarrow> OptTypeFollowing \<Rightarrow> 't act" where
  "visit_opt_type_following T f =
     acts [enter_set T (NodeOptType (fo_opt_type f)), enter_set T (NodeFollowingOptType (fo_following f)),
           visit_following_opt_type T (fo_following f)]"

fun visit_set :: "'t transformer \<Rightarrow> SetOptValues \<Rightarrow> 't act" where
  "visit_set T (SetOptValuesValues v) = acts [enter_set T (NodeOptValues v), visit_opt_values T v]"
| "visit_set T (SetTransaction x) = acts [enter_set T (NodeTransaction x), visit_transaction T x]"
| "visit_set T (SetOptTypeFollowing f) = acts [enter_set T (NodeOptTypeFollowing f), visit_opt_type_following T f]"


subsubsection \<open>All statements\<close>

fun visit_stmt :: "'t transformer \<Rightarrow> SqlStmt \<Rightarrow> 't act" where
  "visit_stmt T (SelectStmt s) = visit_select_node T (select_with_visit T s)"
| "visit_stmt T (InsertStmt i) = acts [enter T (NodeInsertStmt i), visit_insert_stmt T i]"
| "visit_stmt T (UpdateStmt u) = acts [enter T (NodeUpdateStmt u), visit_update_stmt T u]"
| "visit_stmt T (DeleteStmt d) = acts [enter T (NodeDeleteStmt d), visit_delete_stmt T d]"
| "visit_stmt T (Set s) = acts [enter_set T (NodeSetOptValues s), visit_set T s]"
| "visit_stmt T _ = Some"


subsection \<open>Lemmas\<close>

lemma acts_append: "acts (xs @ ys) t = do { t \<leftarrow> acts xs t; acts ys t }"
proof (induction xs arbitrary: t)
  case (Cons a xs)
  then show ?case
    by (cases "a t") simp_all
qed simp

lemma with_visit_fst [simp]: "fst (with_visit T e) = e" "snd (with_visit T e) = visit_expr T e"
  by (simp_all add: with_visit_def)

lemma select_with_visit_fst [simp]: "fst (select_with_visit T s) = s"
  by (simp add: select_with_visit_def)

lemma map_with_visit [simp]:
  "map_Items fst (map_Items (with_visit T) x1) = x1"
  "map_Item fst (map_Item (with_visit T) x2) = x2"
  "map_ItemExpr fst (map_ItemExpr (with_visit T) x3) = x3"
  "map_WhereClause fst (map_WhereClause (with_visit T) x4) = x4"
  "map_GroupClause fst (map_GroupClause (with_visit T) x5) = x5"
  "map_HavingClause fst (map_HavingClause (with_visit T) x6) = x6"
  "map_OrderClause fst (map_OrderClause (with_visit T) x7) = x7"
  "map_OrderExpr fst (map_OrderExpr (with_visit T) x8) = x8"
  "map_SelectStmt fst (map_SelectStmt (with_visit T) x9) = x9"
  by (simp_all add: Items.map_comp Item.map_comp ItemExpr.map_comp WhereClause.map_comp GroupClause.map_comp
      HavingClause.map_comp OrderClause.map_comp OrderExpr.map_comp SelectStmt.map_comp comp_def
      Items.map_ident Item.map_ident ItemExpr.map_ident WhereClause.map_ident GroupClause.map_ident
      HavingClause.map_ident OrderClause.map_ident OrderExpr.map_ident SelectStmt.map_ident)

text \<open>The visit of a query in terms of the query itself.\<close>

lemma visit_select_query:
  "visit_select T (map_SelectStmt (with_visit T) (SelectQuery q)) =
   enter_complete T (NodeQuery q) (visit_query T (map_Query (with_visit T) (select_with_visit T) q))"
  by (simp add: Query.map_comp comp_def select_with_visit_def [abs_def] Query.map_ident)

end
