(* ===== verification/RewriteMeta.thy ===== *)
theory RewriteMeta
  imports Session Visitor
begin

section \<open>What the rewriter collects from a statement\<close>

text \<open>
  The transformer of the sharding rewriter,
  \<open>proxy/strategy/src/sharding_rewrite/meta.rs\<close>: one visit of a statement collects the
  tables, columns, conditions, orders, groups and inserted rows of each of its queries, by the
  number of the query.  An \<open>IndexMap\<close> of the library keeps its entries in the order of
  insertion; here it is an association list.  Positions in the text are those of its bytes,
  and a slice that does not start and end between characters is a panic.
\<close>


subsection \<open>Quoted names, and ordered maps\<close>

text \<open>Removing the back quotes.\<close>

definition unquote :: "string \<Rightarrow> string" where
  "unquote s = filter (\<lambda>c. c \<noteq> CHR ''`'') s"

text \<open>\<open>insert\<close>, and \<open>entry(k).or_insert(vec![]).push(v)\<close>.\<close>

fun im_insert :: "'k \<Rightarrow> 'v \<Rightarrow> ('k \<times> 'v) list \<Rightarrow> ('k \<times> 'v) list" where
  "im_insert k v [] = [(k, v)]"
| "im_insert k v ((k', v') # m) = (if k' = k then (k, v) # m else (k', v') # im_insert k v m)"

fun im_push :: "'k \<Rightarrow> 'v \<Rightarrow> ('k \<times> 'v list) list \<Rightarrow> ('k \<times> 'v list) list" where
  "im_push k v [] = [(k, [v])]"
| "im_push k v ((k', vs) # m) = (if k' = k then (k', vs @ [v]) # m else (k', vs) # im_push k v m)"


subsection \<open>Metadata\<close>

datatype OrderDirection = OrderAsc | OrderDesc

record OrderMeta =
  om_span :: Span
  om_name :: string
  om_direction :: OrderDirection

record GroupMeta =
  gm_span :: Span
  gm_name :: string

record LimitMeta =
  lm_span :: Span
  lm_name :: string

datatype WhereMetaRightDataType =
    RightString string | RightNum string | RightSignedNum string | RightFloatNum string

datatype WhereMeta = WhereBinaryExpr string WhereMetaRightDataType

record OnCond =
  on_span :: Span
  on_name :: string

record JoinOnCond =
  jc_left :: OnCond
  jc_right :: OnCond

record InsertValue =
  va_span :: Span
  va_value :: string

record InsertValsMeta =
  vm_values :: "InsertValue list"
  vm_span :: Span

record QueryRequire =
  qr_query_id :: u8
  qr_expr_token :: "string option"
  qr_require_query_id :: u8

record QueryMeta =
  qm_query_id :: u8
  qm_span :: Span

record FieldBlockMeta =
  fb_query_id :: u8
  fb_span :: Span

datatype FieldMeta = FieldIdent FieldMetaIdent | FieldTableWild TableWild

datatype ScanState =
    ScanEmpty
  | ScanTableName
  | ScanField "string option"
  | ScanOrder OrderDirection
  | ScanGroup
  | ScanOnCond "OnCond list"
  | ScanInsertRowValue "InsertValue list"

type_synonym 'v by_query = "(u8 \<times> 'v) list"

record RewriteMetaData =
  rm_tables :: "TableIdent list by_query"
  rm_fields :: "FieldMeta list by_query"
  rm_orders :: "OrderMeta list by_query"
  rm_groups :: "GroupMeta list by_query"
  rm_limits :: "LimitMeta list by_query"
  rm_wheres :: "WhereMeta list by_query"
  rm_on_conds :: "JoinOnCond list by_query"
  rm_inserts :: "InsertValsMeta list by_query"
  rm_queries :: "QueryMeta by_query"
  rm_field_blocks :: "FieldBlockMeta by_query"
  rm_query_id :: u8
  rm_state :: ScanState
  rm_requires :: "QueryRequire list"
  rm_prev_expr_type :: "string option"
  rm_input :: string

definition RewriteMetaData_new :: "string \<Rightarrow> RewriteMetaData" where
  "RewriteMetaData_new input =
     \<lparr>rm_tables = [], rm_fields = [], rm_orders = [], rm_groups = [], rm_limits = [], rm_wheres = [], rm_on_conds = [],
      rm_inserts = [], rm_queries = [], rm_field_blocks = [], rm_query_id = 0, rm_state = ScanEmpty, rm_requires = [],
      rm_prev_expr_type = None, rm_input = input\<rparr>"

definition get_field_name :: "string \<Rightarrow> Span \<Rightarrow> string option \<Rightarrow> string option" where
  "get_field_name input span alias_name =
     (case alias_name of Some nm \<Rightarrow> Some nm | None \<Rightarrow> str_slice input (span_start span) (span_end span))"

definition push_query :: "Span \<Rightarrow> RewriteMetaData \<Rightarrow> RewriteMetaData" where
  "push_query sp m =
     m\<lparr>rm_queries := im_insert (rm_query_id m) \<lparr>qm_query_id = rm_query_id m, qm_span = sp\<rparr> (rm_queries m)\<rparr>"

definition push_field_block :: "Span \<Rightarrow> RewriteMetaData \<Rightarrow> RewriteMetaData" where
  "push_field_block sp m =
     m\<lparr>rm_field_blocks := im_insert (rm_query_id m) \<lparr>fb_query_id = rm_query_id m, fb_span = sp\<rparr> (rm_field_blocks m)\<rparr>"

definition push_table :: "TableIdent \<Rightarrow> RewriteMetaData \<Rightarrow> RewriteMetaData" where
  "push_table x m = m\<lparr>rm_tables := im_push (rm_query_id m) x (rm_tables m)\<rparr>"

definition push_where :: "WhereMeta \<Rightarrow> RewriteMetaData \<Rightarrow> RewriteMetaData" where
  "push_where x m = m\<lparr>rm_wheres := im_push (rm_query_id m) x (rm_wheres m)\<rparr>"

definition push_field :: "FieldMeta \<Rightarrow> RewriteMetaData \<Rightarrow> RewriteMetaData" where
  "push_field x m = m\<lparr>rm_fields := im_push (rm_query_id m) x (rm_fields m)\<rparr>"

definition push_limit :: "LimitMeta \<Rightarrow> RewriteMetaData \<Rightarrow> RewriteMetaData" where
  "push_limit x m = m\<lparr>rm_limits := im_push (rm_query_id m) x (rm_limits m)\<rparr>"

definition push_group :: "GroupMeta \<Rightarrow> RewriteMetaData \<Rightarrow> RewriteMetaData" where
  "push_group x m = m\<lparr>rm_groups := im_push (rm_query_id m) x (rm_groups m)\<rparr>"

definition push_order :: "OrderMeta \<Rightarrow> RewriteMetaData \<Rightarrow> RewriteMetaData" where
  "push_order x m = m\<lparr>rm_orders := im_push (rm_query_id m) x (rm_orders m)\<rparr>"

definition push_on_cond :: "JoinOnCond \<Rightarrow> RewriteMetaData \<Rightarrow> RewriteMetaData" where
  "push_on_cond x m = m\<lparr>rm_on_conds := im_push (rm_query_id m) x (rm_on_conds m)\<rparr>"

definition push_insert_value :: "InsertValsMeta \<Rightarrow> RewriteMetaData \<Rightarrow> RewriteMetaData" where
  "push_insert_value x m = m\<lparr>rm_inserts := im_push (rm_query_id m) x (rm_inserts m)\<rparr>"


subsection \<open>The transformer\<close>

text \<open>The values of an identifier expression, of an identifier value, and of the argument of an
  aggregate.\<close>

definition ident_of :: "Expr \<Rightarrow> string option" where
  "ident_of e = (case e of SimpleIdentExpr v \<Rightarrow> (case v of VIdent _ x _ \<Rightarrow> Some x | _ \<Rightarrow> None) | _ \<Rightarrow> None)"

definition trans_agg_func :: "string \<Rightarrow> Span \<Rightarrow> Expr AggExpr \<Rightarrow> FieldAggFunc option" where
  "trans_agg_func nm sp a = (case ag_name a of
     AggFnAvg \<Rightarrow>
       do { e \<leftarrow> idx (ag_exprs a) 0;
            (case e of
               InSumExpr _ x _ \<Rightarrow> Some (case ident_of x of Some v \<Rightarrow> AggAvg nm v sp | None \<Rightarrow> AggNone)
             | _ \<Rightarrow> None) }
   | AggFnMax \<Rightarrow> Some AggMax
   | AggFnMin \<Rightarrow> Some AggMin
   | AggFnCount \<Rightarrow> Some AggCount
   | AggFnSum \<Rightarrow> Some AggSum
   | _ \<Rightarrow> Some AggNone)"

definition trans_item_expr :: "Expr ItemExpr \<Rightarrow> RewriteMetaData \<Rightarrow> (RewriteMetaData \<times> bool) option" where
  "trans_item_expr item m =
     do { nm \<leftarrow> get_field_name (rm_input m) (ie_span item) (ie_alias_name item);
          (case ie_expr item of
             SimpleIdentExpr v \<Rightarrow>
               Some ((case v of
                 VIdent _ _ _ \<Rightarrow> push_field (FieldIdent \<lparr>fm_span = ie_span item, fm_name = nm, agg_func = AggNone\<rparr>) m
               | _ \<Rightarrow> m), True)
           | SetFuncSpecExpr e \<Rightarrow>
               (case e of
                  ExprAggExpr a \<Rightarrow>
                    do { f \<leftarrow> trans_agg_func nm (ie_span item) a;
                         Some (push_field (FieldIdent \<lparr>fm_span = ie_span item, fm_name = nm, agg_func = f\<rparr>) m, False) }
                | _ \<Rightarrow> Some (m, True))
           | _ \<Rightarrow> Some (m, True)) }"

definition trans_binary :: "Op \<Rightarrow> Expr \<Rightarrow> Expr \<Rightarrow> RewriteMetaData \<Rightarrow> RewriteMetaData" where
  "trans_binary op left right m =
     (if Op_format op \<noteq> ''='' then m
      else
        let where_left = ident_of left;
            where_right = (case right of
              LiteralExpr v \<Rightarrow> (case v of
                VNum _ x sg \<Rightarrow> Some (if sg then RightSignedNum x else RightNum x) | _ \<Rightarrow> None)
            | _ \<Rightarrow> None)
        in case (where_left, where_right) of
             (Some l, Some r) \<Rightarrow> push_where (WhereBinaryExpr l r) m
           | _ \<Rightarrow> m)"

definition trans_ident :: "SqlValue \<Rightarrow> RewriteMetaData \<Rightarrow> RewriteMetaData" where
  "trans_ident v m = (case v of
     VIdent sp x _ \<Rightarrow>
       (case rm_state m of
          ScanOrder d \<Rightarrow> push_order \<lparr>om_span = sp, om_name = x, om_direction = d\<rparr> m
        | ScanGroup \<Rightarrow> push_group \<lparr>gm_span = sp, gm_name = x\<rparr> m
        | _ \<Rightarrow> m)
   | VTableIdent sp _ _ _ \<Rightarrow>
       (case rm_state m of
          ScanOnCond args \<Rightarrow>
            (case args of
               [] \<Rightarrow> m\<lparr>rm_state := ScanOnCond [\<lparr>on_span = sp, on_name = Value_format v\<rparr>]\<rparr>
             | a # _ \<Rightarrow> (push_on_cond \<lparr>jc_left = a, jc_right = \<lparr>on_span = sp, on_name = Value_format v\<rparr>\<rparr> m)\<lparr>rm_state := ScanEmpty\<rparr>)
        | _ \<Rightarrow> m)
   | _ \<Rightarrow> m)"

definition trans_literal :: "SqlValue \<Rightarrow> RewriteMetaData \<Rightarrow> RewriteMetaData" where
  "trans_literal v m = (case rm_state m of
     ScanInsertRowValue args \<Rightarrow>
       (case v of
          VNum sp x _ \<Rightarrow> m\<lparr>rm_state := ScanInsertRowValue (args @ [\<lparr>va_span = sp, va_value = x\<rparr>])\<rparr>
        | VText sp x \<Rightarrow> m\<lparr>rm_state := ScanInsertRowValue (args @ [\<lparr>va_span = sp, va_value = x\<rparr>])\<rparr>
        | _ \<Rightarrow> m)
   | _ \<Rightarrow> m)"

text \<open>No branch for an expression skips what is below it in a way its visitor heeds.\<close>

definition trans_expr :: "Expr \<Rightarrow> RewriteMetaData \<Rightarrow> RewriteMetaData" where
  "trans_expr e m = (case e of
     SimpleIdentExpr v \<Rightarrow> trans_ident v m
   | BinaryOperationExpr _ op left right \<Rightarrow> trans_binary op left right m
   | InExpr _ _ _ _ \<Rightarrow> m\<lparr>rm_prev_expr_type := Some ''In''\<rparr>
   | SubQueryExpr _ \<Rightarrow>
       m\<lparr>rm_requires := rm_requires m @ [\<lparr>qr_query_id = rm_query_id m, qr_expr_token = rm_prev_expr_type m,
                                            qr_require_query_id = rm_query_id m + 1\<rparr>],
         rm_prev_expr_type := None\<rparr>
   | LiteralExpr v \<Rightarrow> trans_literal v m
   | _ \<Rightarrow> m)"

definition trans_items :: "Expr Items \<Rightarrow> RewriteMetaData \<Rightarrow> RewriteMetaData" where
  "trans_items t m =
     fold (\<lambda>i m. case i of ItemTableWild w \<Rightarrow> push_field (FieldTableWild w) m | _ \<Rightarrow> m) (it_items t)
       ((push_field_block (it_span t) m)\<lparr>rm_state := ScanField None\<rparr>)"

definition trans_insert_ident :: "InsertIdent \<Rightarrow> RewriteMetaData \<Rightarrow> RewriteMetaData" where
  "trans_insert_ident i m = (case i of
     InsertIdentValue v \<Rightarrow>
       (case v of
          VIdent sp x quoted \<Rightarrow>
            push_field (FieldIdent \<lparr>fm_span = sp, fm_name = (if quoted then unquote x else x), agg_func = AggNone\<rparr>) m
        | _ \<Rightarrow> m)
   | InsertTableWild w \<Rightarrow> push_field (FieldTableWild w) m)"

definition next_query :: "Span \<Rightarrow> RewriteMetaData \<Rightarrow> RewriteMetaData" where
  "next_query sp m = push_query sp (m\<lparr>rm_query_id := rm_query_id m + 1\<rparr>)"

definition trans ::
    "Node \<Rightarrow> (RewriteMetaData \<Rightarrow> RewriteMetaData option) \<Rightarrow> RewriteMetaData \<Rightarrow> (RewriteMetaData \<times> bool) option" where
  "trans node visit m = (case node of
     NodeQuery q \<Rightarrow> Some (next_query (q_span q) m, False)
   | NodeSubQuery _ \<Rightarrow> do { m \<leftarrow> visit m; Some (m\<lparr>rm_query_id := rm_query_id m - 1\<rparr>, True) }
   | NodeUpdateStmt u \<Rightarrow> Some (next_query (up_span u) m, False)
   | NodeDeleteStmt d \<Rightarrow>
       Some ((case de_table_name d of Some t \<Rightarrow> push_table t (next_query (de_span d) m) | None \<Rightarrow> next_query (de_span d) m), False)
   | NodeSingleTable t \<Rightarrow> Some (push_table (st_table_name t) m, False)
   | NodeFromClause _ \<Rightarrow> Some (m\<lparr>rm_state := ScanTableName\<rparr>, False)
   | NodeTableRef _ \<Rightarrow> Some (m\<lparr>rm_state := ScanOnCond []\<rparr>, False)
   | NodeItems t \<Rightarrow> Some (trans_items t m, False)
   | NodeItemExpr item \<Rightarrow> trans_item_expr item m
   | NodeOrderExpr o' \<Rightarrow>
       if oe_direction o' = Some ''DESC'' then Some (m\<lparr>rm_state := ScanOrder OrderDesc\<rparr>, True)
       else Some (m\<lparr>rm_state := ScanOrder OrderAsc\<rparr>, False)
   | NodeGroupClause _ \<Rightarrow> Some (m\<lparr>rm_state := ScanGroup\<rparr>, False)
   | NodeLimitClause c \<Rightarrow>
       Some (fold (\<lambda>i m. push_limit \<lparr>lm_span = lo_span i, lm_name = lo_opt i\<rparr> m) (lc_opts c) m, False)
   | NodeInsertStmt i \<Rightarrow> Some (push_table (in_table_name i) m, False)
   | NodeRowValue _ \<Rightarrow>
       Some ((case rm_state m of ScanInsertRowValue _ \<Rightarrow> m | _ \<Rightarrow> m\<lparr>rm_state := ScanInsertRowValue []\<rparr>), False)
   | NodeInsertIdent i \<Rightarrow> Some (trans_insert_ident i m, False)
   | NodeExpr e \<Rightarrow> Some (trans_expr e m, False)
   | _ \<Rightarrow> Some (m, False))"

definition complete :: "Node \<Rightarrow> RewriteMetaData \<Rightarrow> RewriteMetaData option" where
  "complete node m = Some (case rm_state m of
     ScanInsertRowValue args \<Rightarrow>
       (let m = m\<lparr>rm_state := ScanInsertRowValue []\<rparr>
        in case node of
             NodeRowValue r \<Rightarrow> push_insert_value \<lparr>vm_values = args, vm_span = rv_span r\<rparr> m
           | _ \<Rightarrow> m)
   | _ \<Rightarrow> m)"

definition meta_transformer :: "RewriteMetaData transformer" where
  "meta_transformer = \<lparr>tr_trans = trans, tr_complete = complete\<rparr>"

text \<open>\<open>ShardingRewrite::get_meta\<close>.\<close>

definition get_meta :: "string \<Rightarrow> SqlStmt \<Rightarrow> RewriteMetaData option" where
  "get_meta raw_sql ast = visit_stmt meta_transformer ast (RewriteMetaData_new raw_sql)"

end
