(* ===== verification/Rewrite.thy ===== *)
theory Rewrite
  imports RewriteMeta
begin

section \<open>The sharding rewriter\<close>

text \<open>
  Rewriting a statement on a sharded table into one statement for each shard it concerns,
  \<open>proxy/strategy/src/sharding_rewrite/mod.rs\<close> and \<open>generic_meta.rs\<close>, with the rules of
  \<open>proxy/strategy/src/config.rs\<close>.

  The checksum of the library, and what the code does with floating point numbers, are the
  parameter \<open>hash_ops\<close>.  Numbers have the width of the code and wrap around; lengths and
  indices into the configuration are natural numbers.  A panic is \<open>None\<close>, an error of the
  rewriter \<open>Inl\<close>.
\<close>


subsection \<open>Rules\<close>

datatype ShardingAlgorithmName = Mod | CRC32Mod

record DatabaseStrategyConfig =
  dsc_algorithm :: ShardingAlgorithmName
  dsc_column :: string

record TableStrategyConfig =
  tsc_algorithm :: ShardingAlgorithmName
  tsc_column :: string
  tsc_sharding_count :: u32

record DatabaseTableStrategyConfig =
  dtc_database_algorithm :: ShardingAlgorithmName
  dtc_database_column :: string
  dtc_table_algorithm :: ShardingAlgorithmName
  dtc_table_column :: string
  dtc_sharding_count :: u32

record StrategyInline =
  si_algorithm_expression :: string
  si_allow_range_query :: bool

datatype StrategyType =
    DatabaseTableStrategy DatabaseTableStrategyConfig
  | DatabaseStrategy DatabaseStrategyConfig
  | TableStrategy TableStrategyConfig
  | DatabaseStrategyInline StrategyInline
  | TableStrategyInline StrategyInline

record Sharding =
  sh_table_name :: string
  actual_datanodes :: "string list"
  binding_tables :: "string list option"
  broadcast_tables :: "string list option"
  database_strategy :: "StrategyType option"
  table_strategy :: "StrategyType option"
  database_table_strategy :: "StrategyType option"

text \<open>The kinds of strategy, and the part of the shards a statement concerns.\<close>

datatype StrategyTyp = StrategyDatabaseTable | StrategyDatabase | StrategyTable

datatype DatabaseTableStrategyPart = PartDatabase nat | PartTable u64 | PartDatabaseTable nat u64 | PartAll

type_synonym 'a two = "'a option \<times> 'a option"

fun strategy_sharding_column :: "StrategyType \<Rightarrow> string two" where
  "strategy_sharding_column (DatabaseStrategy c) = (Some (dsc_column c), None)"
| "strategy_sharding_column (DatabaseTableStrategy c) = (Some (dtc_database_column c), Some (dtc_table_column c))"
| "strategy_sharding_column (TableStrategy c) = (None, Some (tsc_column c))"
| "strategy_sharding_column _ = (None, None)"

fun strategy_algo :: "StrategyType \<Rightarrow> ShardingAlgorithmName two" where
  "strategy_algo (DatabaseStrategy c) = (Some (dsc_algorithm c), None)"
| "strategy_algo (DatabaseTableStrategy c) = (Some (dtc_database_algorithm c), Some (dtc_table_algorithm c))"
| "strategy_algo (TableStrategy c) = (None, Some (tsc_algorithm c))"
| "strategy_algo _ = (None, None)"

text \<open>For a database strategy this is \<open>unimplemented!()\<close>.\<close>

fun strategy_sharding_count :: "StrategyType \<Rightarrow> u32 two option" where
  "strategy_sharding_count (DatabaseStrategy c) = None"
| "strategy_sharding_count (DatabaseTableStrategy c) = Some (None, Some (dtc_sharding_count c))"
| "strategy_sharding_count (TableStrategy c) = Some (None, Some (tsc_sharding_count c))"
| "strategy_sharding_count _ = Some (None, None)"

definition sharding_column :: "Sharding \<Rightarrow> string two" where
  "sharding_column r = (case database_strategy r of Some s \<Rightarrow> strategy_sharding_column s | None \<Rightarrow>
     (case table_strategy r of Some s \<Rightarrow> strategy_sharding_column s | None \<Rightarrow>
     (case database_table_strategy r of Some s \<Rightarrow> strategy_sharding_column s | None \<Rightarrow> (None, None))))"

definition sharding_algo :: "Sharding \<Rightarrow> ShardingAlgorithmName two" where
  "sharding_algo r = (case database_strategy r of Some s \<Rightarrow> strategy_algo s | None \<Rightarrow>
     (case table_strategy r of Some s \<Rightarrow> strategy_algo s | None \<Rightarrow>
     (case database_table_strategy r of Some s \<Rightarrow> strategy_algo s | None \<Rightarrow> (None, None))))"

definition sharding_count :: "Sharding \<Rightarrow> u32 two option" where
  "sharding_count r = (case database_strategy r of Some s \<Rightarrow> Some (Some (of_nat (length (actual_datanodes r))), None) | None \<Rightarrow>
     (case table_strategy r of Some s \<Rightarrow> map_option (\<lambda>c. (None, snd c)) (strategy_sharding_count s) | None \<Rightarrow>
     (case database_table_strategy r of
        Some s \<Rightarrow> map_option (\<lambda>c. (Some (of_nat (length (actual_datanodes r))), snd c)) (strategy_sharding_count s)
      | None \<Rightarrow> Some (None, None))))"

text \<open>\<open>endpoints.iter().find(|ep| ep.name == self.actual_datanodes[i])\<close>: the index is only
  evaluated when there is an endpoint to compare with.\<close>

definition find_node :: "Sharding \<Rightarrow> Endpoint list \<Rightarrow> nat \<Rightarrow> Endpoint option option" where
  "find_node r endpoints i =
     (if endpoints = [] then Some None
      else do { node \<leftarrow> idx (actual_datanodes r) i; Some (find (\<lambda>ep. name ep = node) endpoints) })"

definition get_actual_schema :: "Sharding \<Rightarrow> Endpoint list \<Rightarrow> nat \<Rightarrow> string option option" where
  "get_actual_schema r endpoints i =
     (if database_strategy r \<noteq> None \<or> database_table_strategy r \<noteq> None
      then do { ep \<leftarrow> find_node r endpoints i; Some (map_option db ep) }
      else Some None)"

definition get_endpoint :: "Sharding \<Rightarrow> Endpoint list \<Rightarrow> nat \<Rightarrow> Endpoint option option" where
  "get_endpoint r endpoints i = find_node r endpoints (if table_strategy r \<noteq> None then 0 else i)"

definition get_strategy_typ :: "Sharding \<Rightarrow> StrategyTyp" where
  "get_strategy_typ r =
     (if database_strategy r \<noteq> None then StrategyDatabase
      else if table_strategy r \<noteq> None then StrategyTable else StrategyDatabaseTable)"


subsection \<open>The index of a shard\<close>

text \<open>The checksum, and what is done with \<open>f64\<close>: parsing, the rounded remainder by a count, and
  its bytes.\<close>

record 'f hash_ops =
  ho_crc32 :: "bytes \<Rightarrow> u32"
  ho_parse_f64 :: "string \<Rightarrow> 'f option"
  ho_f64_rem_round :: "'f \<Rightarrow> u32 \<Rightarrow> u64"
  ho_f64_be_bytes :: "'f \<Rightarrow> bytes"

definition to_be_bytes :: "u64 \<Rightarrow> bytes" where
  "to_be_bytes x = rev (le_bytes 8 (unat x))"

text \<open>\<open>wrapping_rem\<close> panics on zero, and only then.\<close>

definition wrapping_rem_u64 :: "u64 \<Rightarrow> u64 \<Rightarrow> u64 option" where
  "wrapping_rem_u64 a b = (if b = 0 then None else Some (a mod b))"

definition wrapping_rem_i64 :: "int \<Rightarrow> int \<Rightarrow> int option" where
  "wrapping_rem_i64 a b = (if b = 0 then None else Some (trunc_rem a b))"

text \<open>The implementations of \<open>CalcShardingIdx\<close>; the option they return is always \<open>Some\<close>.\<close>

fun calc_u64 :: "'f hash_ops \<Rightarrow> u64 \<Rightarrow> ShardingAlgorithmName \<Rightarrow> u64 \<Rightarrow> u64 option option" where
  "calc_u64 H self Mod cnt = map_option Some (wrapping_rem_u64 self cnt)"
| "calc_u64 H self CRC32Mod cnt =
     map_option Some (wrapping_rem_u64 (ucast (ho_crc32 H (to_be_bytes self))) cnt)"

fun calc_i64 :: "'f hash_ops \<Rightarrow> int \<Rightarrow> ShardingAlgorithmName \<Rightarrow> int \<Rightarrow> u64 option option" where
  "calc_i64 H self Mod cnt = map_option (\<lambda>r. Some (of_int r)) (wrapping_rem_i64 self cnt)"
| "calc_i64 H self CRC32Mod cnt =
     map_option (\<lambda>r. Some (of_int r)) (wrapping_rem_i64 (int (unat (ho_crc32 H (to_be_bytes (of_int self))))) cnt)"

fun calc_f64 :: "'f hash_ops \<Rightarrow> 'f \<Rightarrow> ShardingAlgorithmName \<Rightarrow> u32 \<Rightarrow> u64 option option" where
  "calc_f64 H self Mod cnt = Some (Some (ho_f64_rem_round H self cnt))"
| "calc_f64 H self CRC32Mod cnt =
     map_option Some (wrapping_rem_u64 (ucast (ho_crc32 H (ho_f64_be_bytes H self))) (ucast cnt))"

text \<open>\<open>parse::<i64>()\<close>.\<close>

definition parse_i64 :: "string \<Rightarrow> int option" where
  "parse_i64 s =
     (let (neg, digits) = (case s of
            [] \<Rightarrow> (False, [])
          | c # cs \<Rightarrow> if c = CHR ''-'' then (True, cs) else if c = CHR ''+'' then (False, cs) else (False, s))
      in if digits = [] then None
         else do { n \<leftarrow> parse_digits 0 digits;
                   let v = (if neg then - int n else int n);
                   if - (2 ^ 63) \<le> v \<and> v < 2 ^ 63 then Some v else None })"

datatype ShardingRewriteError =
    ShardingColumnNotFound | ParseIntError | ParseFloatError | CalcShardingIdxError | RewriteEndpointNotFound
  | FieldsIsEmpty | DatabaseNotFound

type_synonym 'a rw_result = "(ShardingRewriteError + 'a) option"

definition parse_where ::
    "'f hash_ops \<Rightarrow> WhereMetaRightDataType \<Rightarrow> u32 \<Rightarrow> ShardingAlgorithmName \<Rightarrow> u64 option rw_result" where
  "parse_where H right cnt algo = (case right of
     RightNum v \<Rightarrow>
       (case parse_u64 v of None \<Rightarrow> Some (Inl ParseIntError) | Some x \<Rightarrow> map_option Inr (calc_u64 H x algo (ucast cnt)))
   | RightSignedNum v \<Rightarrow>
       (case parse_i64 v of None \<Rightarrow> Some (Inl ParseIntError) | Some x \<Rightarrow> map_option Inr (calc_i64 H x algo (int (unat cnt))))
   | RightFloatNum v \<Rightarrow>
       (case ho_parse_f64 H v of None \<Rightarrow> Some (Inl ParseFloatError) | Some x \<Rightarrow> map_option Inr (calc_f64 H x algo cnt))
   | RightString _ \<Rightarrow> Some (Inr None))"

fun get_where_match_right :: "WhereMeta list \<Rightarrow> string \<Rightarrow> WhereMetaRightDataType option" where
  "get_where_match_right [] column = None"
| "get_where_match_right (WhereBinaryExpr l r # ms) column =
     (if unquote l = column then Some r else get_where_match_right ms column)"

type_synonym try_table = "u8 \<times> Sharding \<times> TableIdent"

text \<open>What a condition says of one sharding column, when it says anything.\<close>

definition where_shard ::
    "'f hash_ops \<Rightarrow> WhereMeta list \<Rightarrow> string \<Rightarrow> u32 option \<Rightarrow> ShardingAlgorithmName option \<Rightarrow> u64 option option rw_result" where
  "where_shard H metas column cnt algo =
     (case get_where_match_right metas column of
        None \<Rightarrow> Some (Inr None)
      | Some right \<Rightarrow> do { c \<leftarrow> cnt; a \<leftarrow> algo; r \<leftarrow> parse_where H right c a; Some (map_sum id Some r) })"

text \<open>The shards the conditions of one query name; \<open>None\<close> inside when there is nothing to add.\<close>

definition query_where ::
    "'f hash_ops \<Rightarrow> StrategyTyp \<Rightarrow> try_table list \<Rightarrow> u8 \<Rightarrow> WhereMeta list \<Rightarrow> (u8 \<times> u64 option list) option rw_result" where
  "query_where H typ try_tables query_id metas =
     do { (_, rule, _) \<leftarrow> find (\<lambda>x. fst x = query_id) try_tables;
          cnt \<leftarrow> sharding_count rule;
          (case typ of
             StrategyDatabase \<Rightarrow>
               do { column \<leftarrow> fst (sharding_column rule);
                    r \<leftarrow> where_shard H metas column (fst cnt) (fst (sharding_algo rule));
                    Some (map_sum id (map_option (\<lambda>i. (query_id, [i]))) r) }
           | StrategyTable \<Rightarrow>
               do { column \<leftarrow> snd (sharding_column rule);
                    r \<leftarrow> where_shard H metas column (snd cnt) (snd (sharding_algo rule));
                    Some (map_sum id (map_option (\<lambda>i. (query_id, [i]))) r) }
           | StrategyDatabaseTable \<Rightarrow>
               do { dcolumn \<leftarrow> fst (sharding_column rule);
                    tcolumn \<leftarrow> snd (sharding_column rule);
                    d \<leftarrow> where_shard H metas dcolumn (fst cnt) (fst (sharding_algo rule));
                    (case d of
                       Inl e \<Rightarrow> Some (Inl e)
                     | Inr d \<Rightarrow>
                         do { t \<leftarrow> where_shard H metas tcolumn (snd cnt) (snd (sharding_algo rule));
                              (case t of
                                 Inl e \<Rightarrow> Some (Inl e)
                               | Inr t \<Rightarrow> Some (Inr (Some (query_id, [Option.bind d id, Option.bind t id])))) }) }) }"

fun find_try_where ::
    "'f hash_ops \<Rightarrow> StrategyTyp \<Rightarrow> try_table list \<Rightarrow> WhereMeta list by_query \<Rightarrow> (u8 \<times> u64 option list) list rw_result" where
  "find_try_where H typ try_tables [] = Some (Inr [])"
| "find_try_where H typ try_tables ((query_id, metas) # ws) =
     do { r \<leftarrow> query_where H typ try_tables query_id metas;
          (case r of
             Inl e \<Rightarrow> Some (Inl e)
           | Inr shard \<Rightarrow>
               do { rest \<leftarrow> find_try_where H typ try_tables ws;
                    Some (map_sum id (\<lambda>res. (case shard of Some x \<Rightarrow> x # res | None \<Rightarrow> res)) rest) }) }"


subsection \<open>State, and the tables that are sharded\<close>

datatype ChangePlanAction = PlanAdd | PlanReplace

datatype ChangePlanTyp = PlanField | PlanTable

record ChangePlan =
  cp_query_id :: u8
  cp_target :: string
  cp_span :: Span
  cp_action :: ChangePlanAction
  cp_typ :: ChangePlanTyp
  cp_target_meta :: ChangeTargetMeta

record ShardingRewrite =
  sr_rules :: "Sharding list"
  sr_raw_sql :: string
  sr_endpoints :: "Endpoint list"
  sr_has_rw :: bool
  sr_node_group_config :: "NodeGroup option"
  sr_default_db :: "string option"
  sr_query_metas :: "QueryMeta by_query"
  sr_field_block_metas :: "FieldBlockMeta by_query"
  sr_change_plans :: "(DataSourceShardingIdx \<times> ChangePlan list) list"

definition ShardingRewrite_new ::
    "Sharding list \<Rightarrow> Endpoint list \<Rightarrow> NodeGroup option \<Rightarrow> bool \<Rightarrow> ShardingRewrite" where
  "ShardingRewrite_new rules endpoints node_group has_rw =
     \<lparr>sr_rules = rules, sr_raw_sql = [], sr_endpoints = endpoints, sr_has_rw = has_rw,
      sr_node_group_config = node_group, sr_default_db = None, sr_query_metas = [], sr_field_block_metas = [],
      sr_change_plans = []\<rparr>"

text \<open>\<open>Iterator::find\<close>: the iterator keeps what comes after the match.\<close>

fun iter_find :: "('a \<Rightarrow> bool) \<Rightarrow> 'a list \<Rightarrow> 'a list \<times> bool" where
  "iter_find P [] = ([], False)"
| "iter_find P (x # xs) = (if P x then (xs, True) else iter_find P xs)"

fun find_default_node :: "string \<Rightarrow> string list \<Rightarrow> Endpoint list \<Rightarrow> Endpoint list \<times> bool" where
  "find_default_node d [] eps = (eps, False)"
| "find_default_node d (n # ns) eps =
     (let (eps, found) = iter_find (\<lambda>ep. name ep = n \<and> d = db ep) eps
      in if found then (eps, True) else find_default_node d ns eps)"

text \<open>The closure of \<open>find_table_rule\<close>; the iterator over the endpoints is created outside it, so
  it is part of the state the closure passes on.\<close>

definition table_rule ::
    "ShardingRewrite \<Rightarrow> Endpoint list \<Rightarrow> u8 \<Rightarrow> TableIdent \<Rightarrow> (Endpoint list \<times> u8 \<times> Sharding option \<times> bool) option" where
  "table_rule self eps k meta =
     (let nm = (if CHR ''`'' \<in> set (ti_name meta) then unquote (ti_name meta) else ti_name meta)
      in case find (\<lambda>x. sh_table_name x = nm) (sr_rules self) of
           None \<Rightarrow> Some (eps, k, None, False)
         | Some rule \<Rightarrow>
             do { (eps, has_default_db) \<leftarrow>
                    (case sr_default_db self of
                       None \<Rightarrow> Some (eps, False)
                     | Some d \<Rightarrow>
                         if sr_has_rw self then
                           do { g \<leftarrow> sr_node_group_config self;
                                Some (eps, list_ex (\<lambda>x. list_ex (\<lambda>m. mb_name m = x) (members g)) (actual_datanodes rule)) }
                         else Some (find_default_node d (actual_datanodes rule) eps));
                  Some (if ti_schema meta \<noteq> None \<or> has_default_db then (eps, k, Some rule, True) else (eps, k, None, False)) })"

fun find_in_query ::
    "('st \<Rightarrow> u8 \<Rightarrow> TableIdent \<Rightarrow> ('st \<times> u8 \<times> Sharding option \<times> bool) option) \<Rightarrow> 'st \<Rightarrow> u8 \<Rightarrow> TableIdent list \<Rightarrow>
     ('st \<times> try_table list) option" where
  "find_in_query f st k [] = Some (st, [])"
| "find_in_query f st k (t # ts) =
     do { (st, k', rule, hit) \<leftarrow> f st k t;
          (st, res) \<leftarrow> find_in_query f st k ts;
          if hit then do { r \<leftarrow> rule; Some (st, (k', r, t) # res) } else Some (st, res) }"

fun find_table ::
    "('st \<Rightarrow> u8 \<Rightarrow> TableIdent \<Rightarrow> ('st \<times> u8 \<times> Sharding option \<times> bool) option) \<Rightarrow> 'st \<Rightarrow> TableIdent list by_query \<Rightarrow>
     try_table list option" where
  "find_table f st [] = Some []"
| "find_table f st ((k, ts) # tables) =
     do { (st, res) \<leftarrow> find_in_query f st k ts;
          rest \<leftarrow> find_table f st tables;
          Some (res @ rest) }"

definition find_table_rule :: "ShardingRewrite \<Rightarrow> TableIdent list by_query \<Rightarrow> try_table list option" where
  "find_table_rule self tables = find_table (table_rule self) (sr_endpoints self) tables"


subsection \<open>Texts that are put into a statement\<close>

text \<open>\<open>{:05}\<close>, and joining.\<close>

definition pad5 :: "u64 \<Rightarrow> string" where
  "pad5 n = (let s = show_nat (unat n) in replicate (5 - length s) (CHR ''0'') @ s)"

fun join :: "string \<Rightarrow> string list \<Rightarrow> string" where
  "join sep [] = []"
| "join sep [x] = x"
| "join sep (x # xs) = x @ sep @ join sep xs"

definition change_table :: "ShardingRewrite \<Rightarrow> TableIdent \<Rightarrow> string \<Rightarrow> u64 \<Rightarrow> string option" where
  "change_table self tbl actual_db table_idx =
     do { d \<leftarrow> (case ti_schema tbl of Some s \<Rightarrow> Some s | None \<Rightarrow> sr_default_db self);
          Some (if actual_db = [] then
                  ''`'' @ d @ ''`.'' @
                  (if CHR ''`'' \<in> set (ti_name tbl)
                   then ''`'' @ unquote (ti_name tbl) @ ''_'' @ pad5 table_idx @ ''`''
                   else ti_name tbl @ ''_'' @ pad5 table_idx)
                else (if CHR ''`'' \<in> set d then ''`'' @ actual_db @ ''`'' else actual_db) @ ''.'' @ ti_name tbl) }"

text \<open>The alias of a derived column.\<close>

definition derived_name :: "string \<Rightarrow> string \<Rightarrow> u64 \<Rightarrow> string" where
  "derived_name column kind table_idx = to_upper_ascii column @ ''_'' @ kind @ ''_'' @ pad5 table_idx"

definition in_fields :: "FieldMeta list \<Rightarrow> string \<Rightarrow> bool" where
  "in_fields flds nm =
     list_ex (\<lambda>f. case f of FieldIdent i \<Rightarrow> unquote (fm_name i) = unquote nm | FieldTableWild _ \<Rightarrow> False) flds"

definition push_plan :: "DataSourceShardingIdx \<Rightarrow> ChangePlan \<Rightarrow> ShardingRewrite \<Rightarrow> ShardingRewrite" where
  "push_plan k p self = self\<lparr>sr_change_plans := im_push k p (sr_change_plans self)\<rparr>"

text \<open>Columns only \<open>ORDER BY\<close> or \<open>GROUP BY\<close> mention are added to the selected ones.  The length
  the function returns is not used.\<close>

definition change_order_group ::
    "ShardingRewrite \<Rightarrow> u8 \<Rightarrow> OrderMeta list option \<Rightarrow> GroupMeta list option \<Rightarrow> FieldMeta list option \<Rightarrow>
     DataSourceShardingIdx \<Rightarrow> ShardingRewrite option" where
  "change_order_group self query_id orders groups flds k =
     (if orders = None \<and> groups = None then Some self
      else do {
        let flds = (case flds of Some fs \<Rightarrow> fs | None \<Rightarrow> []);
        block \<leftarrow> map_of (sr_field_block_metas self) query_id;
        let order_names = filter (\<lambda>n. \<not> in_fields flds n) (map om_name (case orders of Some os \<Rightarrow> os | None \<Rightarrow> []));
        let group_names = filter (\<lambda>n. \<not> in_fields flds n) (map gm_name (case groups of Some gs \<Rightarrow> gs | None \<Rightarrow> []));
        if order_names = [] \<and> group_names = [] then Some self
        else do {
          i \<leftarrow> si_table (ds_shard k);
          let order_as = map (\<lambda>n. derived_name (unquote n) ''ORDER_BY_DERIVED'' i) order_names;
          let group_as = map (\<lambda>n. derived_name (unquote n) ''GROUP_BY_DERIVED'' i) group_names;
          let targets = map2 (\<lambda>n a. n @ '' AS '' @ a) (order_names @ group_names) (order_as @ group_as);
          Some (push_plan k \<lparr>cp_query_id = query_id, cp_target = '', '' @ join '', '' targets, cp_span = fb_span block,
                              cp_action = PlanAdd, cp_typ = PlanField, cp_target_meta = OrderGroup order_as group_as\<rparr> self) } })"

fun change_avg_fields :: "ShardingRewrite \<Rightarrow> u8 \<Rightarrow> FieldMeta list \<Rightarrow> DataSourceShardingIdx \<Rightarrow> ShardingRewrite option" where
  "change_avg_fields self query_id [] k = Some self"
| "change_avg_fields self query_id (FieldIdent meta # fs) k =
     (case agg_func meta of
        AggAvg avg_field_name field_name span \<Rightarrow>
          do { i \<leftarrow> si_table (ds_shard k);
               let count_as = derived_name field_name ''AVG_DERIVED_COUNT'' i;
               let sum_as = derived_name field_name ''AVG_DERIVED_SUM'' i;
               let target = ''COUNT('' @ field_name @ '') AS '' @ count_as @ '', SUM('' @ field_name @ '') AS '' @ sum_as;
               change_avg_fields
                 (push_plan k \<lparr>cp_query_id = query_id, cp_target = target, cp_span = span, cp_action = PlanReplace, cp_typ = PlanField,
                     cp_target_meta = AvgMeta \<lparr>count_field = count_as, sum_field = sum_as, ori_field = avg_field_name\<rparr>\<rparr> self)
                 query_id fs k }
      | _ \<Rightarrow> change_avg_fields self query_id fs k)"
| "change_avg_fields self query_id (FieldTableWild w # fs) k = change_avg_fields self query_id fs k"

definition change_avg ::
    "ShardingRewrite \<Rightarrow> u8 \<Rightarrow> FieldMeta list option \<Rightarrow> DataSourceShardingIdx \<Rightarrow> ShardingRewrite option" where
  "change_avg self query_id avgs k = (case avgs of None \<Rightarrow> Some self | Some fs \<Rightarrow> change_avg_fields self query_id fs k)"

definition gen_data_source :: "ShardingRewrite \<Rightarrow> Sharding \<Rightarrow> nat \<Rightarrow> DataSource rw_result" where
  "gen_data_source self rule shard_idx =
     (if sr_has_rw self then do { n \<leftarrow> idx (actual_datanodes rule) 0; Some (Inr (DsNodeGroup n)) }
      else do { ep \<leftarrow> get_endpoint rule (sr_endpoints self) shard_idx;
                Some (case ep of Some ep \<Rightarrow> Inr (DsEndpoint ep) | None \<Rightarrow> Inl RewriteEndpointNotFound) })"


subsection \<open>Editing the text of a statement\<close>

text \<open>\<open>String::remove\<close> takes out one character, \<open>String::insert_str\<close> puts a text between two.\<close>

definition char_len :: "char \<Rightarrow> nat" where
  "char_len c = (let n = of_char c :: nat in if n < 128 then 1 else if n < 224 then 2 else if n < 240 then 3 else 4)"

definition str_remove :: "string \<Rightarrow> nat \<Rightarrow> string option" where
  "str_remove s i =
     (if i < length s \<and> char_boundary s i then Some (take i s @ drop (i + char_len (s ! i)) s) else None)"

definition insert_str :: "string \<Rightarrow> nat \<Rightarrow> string \<Rightarrow> string option" where
  "insert_str s i t = (if i \<le> length s \<and> char_boundary s i then Some (take i s @ t @ drop i s) else None)"

fun remove_times :: "nat \<Rightarrow> string \<Rightarrow> nat \<Rightarrow> string option" where
  "remove_times 0 s i = Some s"
| "remove_times (Suc n) s i = do { s \<leftarrow> str_remove s i; remove_times n s i }"

definition change_sql :: "string \<Rightarrow> Span \<Rightarrow> string \<Rightarrow> u64 \<Rightarrow> string option" where
  "change_sql sql span target offset =
     (let i = unat (of_nat (span_start span) + offset)
      in do { s \<leftarrow> remove_times (span_len span) sql i; insert_str s i target })"

type_synonym edit_state = "string \<times> u64 \<times> ChangeTargetMeta list by_query"

fun apply_replaces :: "ChangePlan list \<Rightarrow> edit_state \<Rightarrow> edit_state option" where
  "apply_replaces [] st = Some st"
| "apply_replaces (p # ps) (sql, offset, ch) =
     do { sql \<leftarrow> change_sql sql (cp_span p) (cp_target p) offset;
          apply_replaces ps
            (sql, offset + (of_nat (length (cp_target p)) - of_nat (span_len (cp_span p))),
             im_push (cp_query_id p) (cp_target_meta p) ch) }"

fun apply_adds :: "ChangePlan list \<Rightarrow> edit_state \<Rightarrow> edit_state option" where
  "apply_adds [] st = Some st"
| "apply_adds (p # ps) (sql, offset, ch) =
     do { sql \<leftarrow> insert_str sql (unat (of_nat (span_end (cp_span p)) + offset)) (cp_target p);
          apply_adds ps
            (sql, offset + of_nat (length (cp_target p)), im_push (cp_query_id p) (cp_target_meta p) ch) }"

definition plans_of :: "ChangePlan list \<Rightarrow> u8 \<Rightarrow> ChangePlanAction \<Rightarrow> ChangePlanTyp \<Rightarrow> ChangePlan list" where
  "plans_of plans query_id action typ =
     sort_key (\<lambda>p. span_start (cp_span p))
       (filter (\<lambda>p. cp_query_id p = query_id \<and> cp_action p = action \<and> cp_typ p = typ) plans)"

fun apply_queries :: "ChangePlan list \<Rightarrow> u8 list \<Rightarrow> string \<times> ChangeTargetMeta list by_query \<Rightarrow>
    (string \<times> ChangeTargetMeta list by_query) option" where
  "apply_queries plans [] st = Some st"
| "apply_queries plans (query_id # ids) (sql, ch) =
     do { st \<leftarrow> apply_replaces (plans_of plans query_id PlanReplace PlanField) (sql, 0, ch);
          st \<leftarrow> apply_adds (plans_of plans query_id PlanAdd PlanField) st;
          (sql, _, ch) \<leftarrow> apply_replaces (plans_of plans query_id PlanReplace PlanTable) st;
          apply_queries plans ids (sql, ch) }"

text \<open>The queries of a statement from the last to the first, \<open>(1..query_length + 1).rev()\<close> on bytes.\<close>

definition query_ids :: "nat \<Rightarrow> u8 list" where
  "query_ids n = map of_nat (rev [1..<unat (of_nat n + 1 :: u8)])"

definition get_agg_field1 :: "FieldMeta list by_query \<Rightarrow> FieldMetaIdent list by_query" where
  "get_agg_field1 flds =
     filter (\<lambda>(_, ms). ms \<noteq> [])
       (map (\<lambda>(k, fs). (k, [m. FieldIdent m \<leftarrow> fs, agg_func m \<noteq> AggNone])) flds)"

definition change_plan_apply :: "ShardingRewrite \<Rightarrow> FieldMeta list by_query \<Rightarrow> ShardingRewriteOutput option" where
  "change_plan_apply self flds =
     do { rs \<leftarrow> those (map (\<lambda>(k, plans).
            do { (sql, ch) \<leftarrow> apply_queries plans (query_ids (length (sr_query_metas self))) (sr_raw_sql self, []);
                 Some \<lparr>ds_idx = k, changes = ch, target_sql = sql\<rparr> }) (sr_change_plans self));
          Some \<lparr>results = rs, agg_fields = get_agg_field1 flds\<rparr> }"


subsection \<open>One statement for every shard\<close>

fun fold_opt :: "('a \<Rightarrow> 's \<Rightarrow> 's option) \<Rightarrow> 'a list \<Rightarrow> 's \<Rightarrow> 's option" where
  "fold_opt f [] s = Some s"
| "fold_opt f (x # xs) s = do { s \<leftarrow> f x s; fold_opt f xs s }"

definition unwrap :: "'a rw_result \<Rightarrow> 'a option" where
  "unwrap r = (case r of Some (Inr x) \<Rightarrow> Some x | _ \<Rightarrow> None)"

text \<open>The columns, orders and groups of a statement, as the three functions below take them.\<close>

record clauses =
  cl_fields :: "FieldMeta list by_query"
  cl_orders :: "OrderMeta list by_query"
  cl_groups :: "GroupMeta list by_query"

text \<open>The body of their innermost loops.\<close>

definition plan_shard ::
    "clauses \<Rightarrow> u8 \<Rightarrow> Span \<Rightarrow> string \<Rightarrow> DataSourceShardingIdx \<Rightarrow> ShardingRewrite \<Rightarrow> ShardingRewrite option" where
  "plan_shard cl query_id span target k self =
     (let self = push_plan k \<lparr>cp_query_id = query_id, cp_target = target, cp_span = span, cp_action = PlanReplace,
                   cp_typ = PlanTable, cp_target_meta = TableMeta target\<rparr> self
      in do { self \<leftarrow> change_order_group self query_id (map_of (cl_orders cl) query_id) (map_of (cl_groups cl) query_id)
                        (map_of (cl_fields cl) query_id) k;
              change_avg self query_id (map_of (cl_fields cl) query_id) k })"

definition u64_range :: "u64 \<Rightarrow> u64 \<Rightarrow> u64 list" where
  "u64_range a b = map of_nat [unat a..<unat b]"

definition nodes_of_part :: "DatabaseTableStrategyPart \<Rightarrow> Sharding \<Rightarrow> (string list \<times> nat option) option" where
  "nodes_of_part part rule = (case part of
     PartDatabase i \<Rightarrow> do { n \<leftarrow> idx (actual_datanodes rule) i; Some ([n], Some i) }
   | PartDatabaseTable i _ \<Rightarrow> do { n \<leftarrow> idx (actual_datanodes rule) i; Some ([n], Some i) }
   | _ \<Rightarrow> Some (actual_datanodes rule, None))"

definition tables_of_part :: "DatabaseTableStrategyPart \<Rightarrow> u32 \<Rightarrow> u64 list" where
  "tables_of_part part cnt = (case part of
     PartTable i \<Rightarrow> u64_range i (i + 1)
   | PartDatabaseTable _ i \<Rightarrow> u64_range i (i + 1)
   | _ \<Rightarrow> u64_range 0 (ucast cnt))"

definition database_table_strategy_iproduct ::
    "ShardingRewrite \<Rightarrow> DatabaseTableStrategyPart \<Rightarrow> try_table list \<Rightarrow> clauses \<Rightarrow> (ShardingRewrite \<times> ShardingRewriteOutput) option" where
  "database_table_strategy_iproduct self part tables cl =
     do { self \<leftarrow> fold_opt (\<lambda>(query_id, rule, tbl) self.
            do { cnt \<leftarrow> sharding_count rule;
                 cnt \<leftarrow> snd cnt;
                 (nodes, db_idx) \<leftarrow> nodes_of_part part rule;
                 fold_opt (\<lambda>(node_idx, node) self.
                   do { ep \<leftarrow> find (\<lambda>e. name e = node) (sr_endpoints self);
                        _ \<leftarrow> change_table self tbl (db ep) 0;
                        let db_idx = (case db_idx of Some i \<Rightarrow> i | None \<Rightarrow> node_idx);
                        data_source \<leftarrow> unwrap (gen_data_source self rule db_idx);
                        fold_opt (\<lambda>table_idx self.
                          do { target \<leftarrow> change_table self (tbl\<lparr>ti_schema := Some (db ep)\<rparr>) [] table_idx;
                               plan_shard cl query_id (ti_span tbl) target
                                 \<lparr>ds = data_source, ds_shard = \<lparr>si_table = Some table_idx, si_database = Some (of_nat db_idx)\<rparr>,
                                  ds_column = \<lparr>sh_database = fst (sharding_column rule), sh_table = snd (sharding_column rule)\<rparr>\<rparr> self })
                          (tables_of_part part cnt) self })
                   (enumerate 0 nodes) self }) tables self;
          out \<leftarrow> change_plan_apply self (cl_fields cl);
          Some (self, out) }"

definition database_strategy_iproduct ::
    "ShardingRewrite \<Rightarrow> DatabaseTableStrategyPart \<Rightarrow> try_table list \<Rightarrow> clauses \<Rightarrow> (ShardingRewrite \<times> ShardingRewriteOutput) option" where
  "database_strategy_iproduct self part tables cl =
     do { self \<leftarrow> fold_opt (\<lambda>(query_id, rule, tbl) self.
            do { column \<leftarrow> fst (sharding_column rule);
                 (nodes, db_idx) \<leftarrow> (case part of
                    PartDatabase i \<Rightarrow> do { n \<leftarrow> idx (actual_datanodes rule) i; Some ([n], Some i) }
                  | _ \<Rightarrow> Some (actual_datanodes rule, None));
                 fold_opt (\<lambda>(node_idx, node) self.
                   do { ep \<leftarrow> find (\<lambda>e. name e = node) (sr_endpoints self);
                        target \<leftarrow> change_table self tbl (db ep) 0;
                        data_source \<leftarrow> unwrap (gen_data_source self rule (case db_idx of Some i \<Rightarrow> i | None \<Rightarrow> node_idx));
                        plan_shard cl query_id (ti_span tbl) target
                          \<lparr>ds = data_source, ds_shard = \<lparr>si_table = None, si_database = Some (of_nat node_idx)\<rparr>,
                           ds_column = \<lparr>sh_database = Some column, sh_table = None\<rparr>\<rparr> self })
                   (enumerate 0 nodes) self }) tables self;
          out \<leftarrow> change_plan_apply self (cl_fields cl);
          Some (self, out) }"

definition table_strategy_iproduct ::
    "ShardingRewrite \<Rightarrow> DatabaseTableStrategyPart \<Rightarrow> try_table list \<Rightarrow> clauses \<Rightarrow> (ShardingRewrite \<times> ShardingRewriteOutput) option" where
  "table_strategy_iproduct self part tables cl =
     do { self \<leftarrow> fold_opt (\<lambda>(query_id, rule, tbl) self.
            do { data_source \<leftarrow> unwrap (gen_data_source self rule 0);
                 column \<leftarrow> snd (sharding_column rule);
                 cnt \<leftarrow> sharding_count rule;
                 cnt \<leftarrow> snd cnt;
                 fold_opt (\<lambda>i self.
                   do { target \<leftarrow> change_table self tbl [] i;
                        plan_shard cl query_id (ti_span tbl) target
                          \<lparr>ds = data_source, ds_shard = \<lparr>si_table = Some i, si_database = None\<rparr>,
                           ds_column = \<lparr>sh_database = None, sh_table = Some column\<rparr>\<rparr> self })
                   (case part of PartTable i \<Rightarrow> u64_range i (i + 1) | _ \<Rightarrow> u64_range 0 (ucast cnt)) self }) tables self;
          out \<leftarrow> change_plan_apply self (cl_fields cl);
          Some (self, out) }"


subsection \<open>Inserted rows\<close>

record ShardingMetaBaseInfo =
  mi_column :: "string two"
  mi_count :: "u32 two"
  mi_algo :: "ShardingAlgorithmName two"

record InsertShardingValue =
  isv_database :: "string option"
  isv_table :: "string option"

record ChangeInsertMeta =
  ci_sharding_value :: InsertShardingValue
  ci_value_span :: Span

record InsertRowValueIdx =
  ri_sharding_idx :: ShardingIdx
  ri_span :: Span

fun find_insert_field_idx :: "FieldMeta list \<Rightarrow> string option \<Rightarrow> nat \<Rightarrow> nat rw_result" where
  "find_insert_field_idx [] column i = Some (Inl ShardingColumnNotFound)"
| "find_insert_field_idx (FieldIdent f # fs) column i =
     do { c \<leftarrow> column; if fm_name f = c then Some (Inr i) else find_insert_field_idx fs column (Suc i) }"
| "find_insert_field_idx (FieldTableWild w # fs) column i = find_insert_field_idx fs column (Suc i)"

text \<open>The value of a row at an index.\<close>

definition row_value :: "InsertValsMeta \<Rightarrow> nat \<Rightarrow> string option" where
  "row_value x i = map_option va_value (idx (vm_values x) i)"

definition find_inserts ::
    "StrategyTyp \<Rightarrow> InsertValsMeta list \<Rightarrow> FieldMeta list \<Rightarrow> ShardingMetaBaseInfo \<Rightarrow> ChangeInsertMeta list rw_result" where
  "find_inserts typ inserts flds info = (case typ of
     StrategyDatabase \<Rightarrow>
       do { i \<leftarrow> find_insert_field_idx flds (fst (mi_column info)) 0;
            (case i of
               Inl e \<Rightarrow> Some (Inl e)
             | Inr i \<Rightarrow> map_option Inr (those (map (\<lambda>x.
                 do { v \<leftarrow> row_value x i;
                      Some \<lparr>ci_sharding_value = \<lparr>isv_database = Some v, isv_table = None\<rparr>, ci_value_span = vm_span x\<rparr> }) inserts))) }
   | StrategyTable \<Rightarrow>
       do { i \<leftarrow> find_insert_field_idx flds (fst (mi_column info)) 0;
            (case i of
               Inl e \<Rightarrow> Some (Inl e)
             | Inr i \<Rightarrow> map_option Inr (those (map (\<lambda>x.
                 do { v \<leftarrow> row_value x i;
                      Some \<lparr>ci_sharding_value = \<lparr>isv_database = None, isv_table = Some v\<rparr>, ci_value_span = vm_span x\<rparr> }) inserts))) }
   | StrategyDatabaseTable \<Rightarrow>
       do { i \<leftarrow> find_insert_field_idx flds (fst (mi_column info)) 0;
            (case i of
               Inl e \<Rightarrow> Some (Inl e)
             | Inr i \<Rightarrow>
                 do { j \<leftarrow> find_insert_field_idx flds (snd (mi_column info)) 0;
                      (case j of
                         Inl e \<Rightarrow> Some (Inl e)
                       | Inr j \<Rightarrow> map_option Inr (those (map (\<lambda>x.
                           do { v \<leftarrow> row_value x i; w \<leftarrow> row_value x j;
                                Some \<lparr>ci_sharding_value = \<lparr>isv_database = Some v, isv_table = Some w\<rparr>, ci_value_span = vm_span x\<rparr> })
                           inserts))) }) })"

text \<open>The index of a value that is to be inserted.\<close>

definition insert_value_idx :: "'f hash_ops \<Rightarrow> string option \<Rightarrow> ShardingAlgorithmName \<Rightarrow> u32 \<Rightarrow> u64 rw_result" where
  "insert_value_idx H val algo cnt = (case val of
     None \<Rightarrow> Some (Inl CalcShardingIdxError)
   | Some v \<Rightarrow>
       (case parse_u64 v of
          None \<Rightarrow> Some (Inl ParseIntError)
        | Some x \<Rightarrow>
            do { r \<leftarrow> calc_u64 H x algo (ucast cnt);
                 Some (case r of Some i \<Rightarrow> Inr i | None \<Rightarrow> Inl CalcShardingIdxError) }))"

definition calc_database_or_table_sharding_idx ::
    "'f hash_ops \<Rightarrow> string option \<Rightarrow> ShardingMetaBaseInfo \<Rightarrow> u64 rw_result" where
  "calc_database_or_table_sharding_idx H val info =
     do { algo \<leftarrow> fst (mi_algo info); cnt \<leftarrow> fst (mi_count info); insert_value_idx H val algo cnt }"

definition calc_database_and_table_sharding_idx ::
    "'f hash_ops \<Rightarrow> string option \<Rightarrow> string option \<Rightarrow> ShardingMetaBaseInfo \<Rightarrow> (u64 \<times> u64) rw_result" where
  "calc_database_and_table_sharding_idx H db_value table_value info =
     do { database_algo \<leftarrow> fst (mi_algo info); table_algo \<leftarrow> snd (mi_algo info);
          database_count \<leftarrow> fst (mi_count info); table_count \<leftarrow> snd (mi_count info);
          d \<leftarrow> insert_value_idx H db_value database_algo database_count;
          (case d of
             Inl e \<Rightarrow> Some (Inl e)
           | Inr d \<Rightarrow> do { t \<leftarrow> insert_value_idx H table_value table_algo table_count; Some (map_sum id (Pair d) t) }) }"

definition row_idx :: "'f hash_ops \<Rightarrow> StrategyTyp \<Rightarrow> ShardingMetaBaseInfo \<Rightarrow> ChangeInsertMeta \<Rightarrow> InsertRowValueIdx rw_result" where
  "row_idx H typ info v =
     do { i \<leftarrow> (case typ of
            StrategyDatabase \<Rightarrow>
              map_option (map_sum id (\<lambda>i. \<lparr>si_table = None, si_database = Some i\<rparr>))
                (calc_database_or_table_sharding_idx H (isv_database (ci_sharding_value v)) info)
          | StrategyTable \<Rightarrow>
              map_option (map_sum id (\<lambda>i. \<lparr>si_table = Some i, si_database = None\<rparr>))
                (calc_database_or_table_sharding_idx H (isv_table (ci_sharding_value v)) info)
          | StrategyDatabaseTable \<Rightarrow>
              map_option (map_sum id (\<lambda>(d, t). \<lparr>si_table = Some t, si_database = Some d\<rparr>))
                (calc_database_and_table_sharding_idx H (isv_database (ci_sharding_value v)) (isv_table (ci_sharding_value v)) info));
          Some (map_sum id (\<lambda>i. \<lparr>ri_sharding_idx = i, ri_span = ci_value_span v\<rparr>) i) }"

fun change_insert_rows ::
    "'f hash_ops \<Rightarrow> StrategyTyp \<Rightarrow> ShardingMetaBaseInfo \<Rightarrow> ChangeInsertMeta list \<Rightarrow> InsertRowValueIdx list rw_result" where
  "change_insert_rows H typ info [] = Some (Inr [])"
| "change_insert_rows H typ info (v # vs) =
     do { r \<leftarrow> row_idx H typ info v;
          (case r of
             Inl e \<Rightarrow> Some (Inl e)
           | Inr x \<Rightarrow> map_option (map_sum id (\<lambda>xs. x # xs)) (change_insert_rows H typ info vs)) }"

definition change_insert ::
    "'f hash_ops \<Rightarrow> StrategyTyp \<Rightarrow> InsertValsMeta list \<Rightarrow> FieldMeta list \<Rightarrow> ShardingMetaBaseInfo \<Rightarrow> InsertRowValueIdx list rw_result" where
  "change_insert H typ inserts flds info =
     do { r \<leftarrow> find_inserts typ inserts flds info;
          (case r of Inl e \<Rightarrow> Some (Inl e) | Inr vs \<Rightarrow> change_insert_rows H typ info vs) }"

definition get_change_insert_row ::
    "ShardingRewrite \<Rightarrow> string \<Rightarrow> string \<Rightarrow> Span \<Rightarrow> InsertRowValueIdx \<Rightarrow> (string \<times> string) option" where
  "get_change_insert_row self prefix_text target span row =
     do { prefix_text \<leftarrow> change_sql prefix_text span target 0;
          row_text \<leftarrow> str_slice (sr_raw_sql self) (span_start (ri_span row)) (span_end (ri_span row));
          Some (prefix_text, row_text @ '', '') }"

text \<open>The table name a row goes to.\<close>

definition insert_target :: "ShardingRewrite \<Rightarrow> Sharding \<Rightarrow> TableIdent \<Rightarrow> StrategyTyp \<Rightarrow> InsertRowValueIdx \<Rightarrow> string option" where
  "insert_target self rule tbl typ row = (case typ of
     StrategyDatabase \<Rightarrow>
       do { i \<leftarrow> si_database (ri_sharding_idx row);
            actual_db \<leftarrow> get_actual_schema rule (sr_endpoints self) (unat i);
            change_table self tbl (case actual_db of Some d \<Rightarrow> d | None \<Rightarrow> []) i }
   | StrategyTable \<Rightarrow>
       do { i \<leftarrow> si_table (ri_sharding_idx row); change_table self tbl [] i }
   | StrategyDatabaseTable \<Rightarrow>
       do { i \<leftarrow> si_database (ri_sharding_idx row);
            actual_db \<leftarrow> get_actual_schema rule (sr_endpoints self) (unat i);
            let actual_db = (case actual_db of Some d \<Rightarrow> d | None \<Rightarrow> []);
            _ \<leftarrow> change_table self tbl actual_db i;
            j \<leftarrow> si_table (ri_sharding_idx row);
            change_table self (tbl\<lparr>ti_schema := Some actual_db\<rparr>) [] j })"

text \<open>\<open>entry(k).or_insert(prefix).push_str(text)\<close>.\<close>

fun im_append :: "'k \<Rightarrow> string \<Rightarrow> string \<Rightarrow> ('k \<times> string) list \<Rightarrow> ('k \<times> string) list" where
  "im_append k p t [] = [(k, p @ t)]"
| "im_append k p t ((k', s) # m) = (if k' = k then (k', s @ t) # m else (k', s) # im_append k p t m)"

definition insert_rows ::
    "ShardingRewrite \<Rightarrow> Sharding \<Rightarrow> TableIdent \<Rightarrow> StrategyTyp \<Rightarrow> string \<Rightarrow> InsertRowValueIdx list \<Rightarrow> (ShardingIdx \<times> string) list option" where
  "insert_rows self rule tbl typ prefix_text rows =
     fold_opt (\<lambda>row sqls.
       do { target \<leftarrow> insert_target self rule tbl typ row;
            (p, t) \<leftarrow> get_change_insert_row self prefix_text target (ti_span tbl) row;
            Some (im_append (ri_sharding_idx row) p t sqls) }) rows []"

text \<open>\<open>trim_end_matches(", ")\<close>.\<close>

fun strip_sep :: "string \<Rightarrow> string" where
  "strip_sep (a # b # s) = (if a = CHR '' '' \<and> b = CHR '','' then strip_sep s else a # b # s)"
| "strip_sep s = s"

definition trim_sep :: "string \<Rightarrow> string" where
  "trim_sep s = rev (strip_sep (rev s))"

fun insert_results ::
    "ShardingRewrite \<Rightarrow> Sharding \<Rightarrow> ShardingMetaBaseInfo \<Rightarrow> (ShardingIdx \<times> string) list \<Rightarrow> ShardingRewriteResult list rw_result" where
  "insert_results self rule info [] = Some (Inr [])"
| "insert_results self rule info ((i, v) # sqls) =
     do { r \<leftarrow> gen_data_source self rule (case si_database i of Some d \<Rightarrow> unat d | None \<Rightarrow> 0);
          (case r of
             Inl e \<Rightarrow> Some (Inl e)
           | Inr data_source \<Rightarrow>
               map_option (map_sum id (\<lambda>rs.
                 \<lparr>ds_idx = \<lparr>ds = data_source, ds_shard = i,
                             ds_column = \<lparr>sh_database = fst (mi_column info), sh_table = snd (mi_column info)\<rparr>\<rparr>,
                  changes = [], target_sql = trim_sep v\<rparr> # rs)) (insert_results self rule info sqls)) }"

definition change_insert_sql_inner ::
    "'f hash_ops \<Rightarrow> ShardingRewrite \<Rightarrow> Sharding \<Rightarrow> TableIdent \<Rightarrow> InsertValsMeta list \<Rightarrow> FieldMeta list \<Rightarrow> ShardingMetaBaseInfo \<Rightarrow>
     ShardingRewriteResult list rw_result" where
  "change_insert_sql_inner H self rule tbl inserts flds info =
     (let typ = get_strategy_typ rule
      in do { r \<leftarrow> change_insert H typ inserts flds info;
              (case r of
                 Inl e \<Rightarrow> Some (Inl e)
               | Inr rows \<Rightarrow>
                   do { row \<leftarrow> idx rows 0;
                        prefix_text \<leftarrow> str_slice (sr_raw_sql self) 0 (span_start (ri_span row));
                        sqls \<leftarrow> insert_rows self rule tbl typ prefix_text rows;
                        insert_results self rule info sqls }) })"

definition insert_base_info :: "Sharding \<Rightarrow> ShardingMetaBaseInfo option" where
  "insert_base_info rule =
     do { cnt \<leftarrow> sharding_count rule;
          Some (if table_strategy rule \<noteq> None then
                  \<lparr>mi_column = (snd (sharding_column rule), None), mi_count = (snd cnt, None), mi_algo = (snd (sharding_algo rule), None)\<rparr>
                else if database_strategy rule \<noteq> None then
                  \<lparr>mi_column = (fst (sharding_column rule), None), mi_count = (fst cnt, None), mi_algo = (fst (sharding_algo rule), None)\<rparr>
                else \<lparr>mi_column = sharding_column rule, mi_count = cnt, mi_algo = sharding_algo rule\<rparr>) }"

fun change_insert_tables ::
    "'f hash_ops \<Rightarrow> ShardingRewrite \<Rightarrow> try_table list \<Rightarrow> FieldMeta list by_query \<Rightarrow> InsertValsMeta list by_query \<Rightarrow>
     ShardingRewriteResult list rw_result" where
  "change_insert_tables H self [] flds inserts = Some (Inr [])"
| "change_insert_tables H self ((query_id, rule, tbl) # ts) flds inserts =
     do { info \<leftarrow> insert_base_info rule;
          ins \<leftarrow> map_of inserts query_id;
          fs \<leftarrow> map_of flds query_id;
          r \<leftarrow> change_insert_sql_inner H self rule tbl ins fs info;
          (case r of
             Inl e \<Rightarrow> Some (Inl e)
           | Inr rs \<Rightarrow> map_option (map_sum id (append rs)) (change_insert_tables H self ts flds inserts)) }"

definition change_insert_sql ::
    "'f hash_ops \<Rightarrow> ShardingRewrite \<Rightarrow> try_table list \<Rightarrow> FieldMeta list by_query \<Rightarrow> InsertValsMeta list by_query \<Rightarrow>
     ShardingRewriteOutput rw_result" where
  "change_insert_sql H self try_tables flds inserts =
     map_option (map_sum id (\<lambda>rs. \<lparr>results = rs, agg_fields = []\<rparr>)) (change_insert_tables H self try_tables flds inserts)"


subsection \<open>Strategies\<close>

definition clauses_of :: "RewriteMetaData \<Rightarrow> clauses" where
  "clauses_of meta = \<lparr>cl_fields = rm_fields meta, cl_orders = rm_orders meta, cl_groups = rm_groups meta\<rparr>"

type_synonym rw_answer = "(ShardingRewrite \<times> (ShardingRewriteError + ShardingRewriteOutput)) option"

definition answer :: "(ShardingRewrite \<times> ShardingRewriteOutput) option \<Rightarrow> rw_answer" where
  "answer r = map_option (map_prod id Inr) r"

text \<open>Whether the conditions of all queries name the same shard: the code compares the sum of
  the indices with a multiple of the first.\<close>

definition first_shard :: "(u8 \<times> u64 option list) list \<Rightarrow> (bool \<times> u64) option" where
  "first_shard wheres =
     do { ws \<leftarrow> those (map (\<lambda>x. do { i \<leftarrow> idx (snd x) 0; i }) wheres);
          w \<leftarrow> idx ws 0;
          Some (w * of_nat (length ws) = sum_list ws, w) }"

definition on_insert ::
    "'f hash_ops \<Rightarrow> ShardingRewrite \<Rightarrow> RewriteMetaData \<Rightarrow> try_table list \<Rightarrow> rw_answer" where
  "on_insert H self meta try_tables =
     (if rm_fields meta = [] then Some (self, Inl FieldsIsEmpty)
      else map_option (Pair self) (change_insert_sql H self try_tables (rm_fields meta) (rm_inserts meta)))"

definition database_strategy_rewrite ::
    "'f hash_ops \<Rightarrow> ShardingRewrite \<Rightarrow> RewriteMetaData \<Rightarrow> try_table list \<Rightarrow> rw_answer" where
  "database_strategy_rewrite H self meta try_tables =
     (let go = (\<lambda>part. answer (database_strategy_iproduct self part try_tables (clauses_of meta))) in
      if rm_inserts meta \<noteq> [] then on_insert H self meta try_tables
      else if rm_wheres meta = [] then go PartAll
      else do {
        r \<leftarrow> find_try_where H StrategyDatabase try_tables (rm_wheres meta);
        (case r of
           Inl e \<Rightarrow> Some (self, Inl e)
         | Inr wheres \<Rightarrow>
             if wheres = [] then go PartAll
             else do { (same, w) \<leftarrow> first_shard wheres; if same then go (PartDatabase (unat w)) else go PartAll }) })"

definition table_strategy_rewrite ::
    "'f hash_ops \<Rightarrow> ShardingRewrite \<Rightarrow> RewriteMetaData \<Rightarrow> try_table list \<Rightarrow> rw_answer" where
  "table_strategy_rewrite H self meta try_tables =
     (let go = (\<lambda>part. answer (table_strategy_iproduct self part try_tables (clauses_of meta))) in
      if rm_inserts meta \<noteq> [] then on_insert H self meta try_tables
      else if rm_wheres meta = [] then go PartAll
      else do {
        r \<leftarrow> find_try_where H StrategyTable try_tables (rm_wheres meta);
        (case r of
           Inl e \<Rightarrow> Some (self, Inl e)
         | Inr wheres \<Rightarrow>
             if wheres = [] then go PartAll
             else do { (same, w) \<leftarrow> first_shard wheres; if same then go (PartTable w) else go PartAll }) })"

definition database_table_strategy_rewrite ::
    "'f hash_ops \<Rightarrow> ShardingRewrite \<Rightarrow> RewriteMetaData \<Rightarrow> try_table list \<Rightarrow> rw_answer" where
  "database_table_strategy_rewrite H self meta try_tables =
     (let go = (\<lambda>part. answer (database_table_strategy_iproduct self part try_tables (clauses_of meta))) in
      if rm_inserts meta \<noteq> [] then on_insert H self meta try_tables
      else if rm_wheres meta = [] then go PartAll
      else do {
        r \<leftarrow> find_try_where H StrategyDatabaseTable try_tables (rm_wheres meta);
        (case r of
           Inl e \<Rightarrow> Some (self, Inl e)
         | Inr wheres \<Rightarrow>
             (case filter (\<lambda>x. snd x \<noteq> []) wheres of
                [] \<Rightarrow> go PartAll
              | (_, shards) # _ \<Rightarrow>
                  do { d \<leftarrow> idx shards 0;
                       (case d of
                          None \<Rightarrow> do { t \<leftarrow> idx shards 1; t \<leftarrow> t; go (PartTable t) }
                        | Some d \<Rightarrow>
                            do { t \<leftarrow> idx shards 1;
                                 (case t of
                                    None \<Rightarrow> go (PartDatabase (unat d))
                                  | Some t \<Rightarrow> go (PartDatabaseTable (unat d) t)) }) })) })"

definition rewrite ::
    "'f hash_ops \<Rightarrow> ShardingRewrite \<Rightarrow> string \<Rightarrow> SqlStmt \<Rightarrow> string option \<Rightarrow> rw_answer" where
  "rewrite H self raw_sql ast default_db =
     do { let self = self\<lparr>sr_raw_sql := raw_sql, sr_default_db := default_db\<rparr>;
          meta \<leftarrow> get_meta raw_sql ast;
          let self = self\<lparr>sr_query_metas := rm_queries meta, sr_field_block_metas := rm_field_blocks meta\<rparr>;
          try_tables \<leftarrow> find_table_rule self (rm_tables meta);
          (case try_tables of
             [] \<Rightarrow> Some (self, Inr no_outputs)
           | (_, rule, _) # _ \<Rightarrow>
               let self = self\<lparr>sr_change_plans := []\<rparr>
               in if database_strategy rule \<noteq> None then database_strategy_rewrite H self meta try_tables
                  else if table_strategy rule \<noteq> None then table_strategy_rewrite H self meta try_tables
                  else if database_table_strategy rule \<noteq> None then database_table_strategy_rewrite H self meta try_tables
                  else Some (self, Inr no_outputs)) }"

end
