(* ===== verification/Sharding.thy ===== *)
theory Sharding
  imports Rewrite
begin

section \<open>Correctness of the sharding rewriter\<close>

text \<open>
  What the rewriter does to the text of a statement and to the rows of an \<open>INSERT\<close>, and which
  shards it sends a statement to.  The running offset of the edits is compared with a
  reference that replaces all spans of the text at once; the shard of an inserted row is
  compared with the shard a condition on the same value selects.
\<close>


subsection \<open>Edits of ASCII text\<close>

definition ascii :: "string \<Rightarrow> bool" where
  "ascii s \<longleftrightarrow> list_all (\<lambda>c. of_char c < (128 :: nat)) s"

lemma ascii_simps [simp]:
  "ascii []" "ascii (c # s) \<longleftrightarrow> of_char c < (128 :: nat) \<and> ascii s" "ascii (s @ t) \<longleftrightarrow> ascii s \<and> ascii t"
  by (simp_all add: ascii_def)

lemma ascii_take_drop [simp]: "ascii s \<Longrightarrow> ascii (take n s)" "ascii s \<Longrightarrow> ascii (drop n s)"
  by (auto simp: ascii_def list_all_iff dest: in_set_takeD in_set_dropD)

lemma ascii_boundary: "ascii (drop i s) \<Longrightarrow> i \<le> length s \<Longrightarrow> char_boundary s i"
  by (auto simp: char_boundary_def cont_char_def ascii_def list_all_iff Cons_nth_drop_Suc [symmetric] le_less)

lemma str_remove_ascii: "of_char c < (128 :: nat) \<Longrightarrow> str_remove (p @ c # s) (length p) = Some (p @ s)"
  by (simp add: str_remove_def char_boundary_def cont_char_def char_len_def nth_append)

lemma remove_times_ascii: "ascii m \<Longrightarrow> remove_times (length m) (p @ m @ s) (length p) = Some (p @ s)"
  by (induction m) (simp_all add: str_remove_ascii)

lemma insert_str_ascii: "ascii s \<Longrightarrow> insert_str (p @ s) (length p) t = Some (p @ t @ s)"
  by (simp add: insert_str_def ascii_boundary)

lemma change_sql_ascii:
  assumes "ascii m" "ascii s" "unat (of_nat (span_start sp) + off) = length p" "span_len sp = length m"
  shows "change_sql (p @ m @ s) sp t off = Some (p @ t @ s)"
  using assms by (simp add: change_sql_def remove_times_ascii insert_str_ascii)


subsection \<open>Replacing all spans at once\<close>

text \<open>The edits of a text, each a span and what replaces it; \<open>s\<close> is the text from position
  \<open>pos\<close> on.\<close>

fun substitute :: "nat \<Rightarrow> (Span \<times> string) list \<Rightarrow> string \<Rightarrow> string" where
  "substitute pos [] s = s"
| "substitute pos ((sp, t) # es) s =
     take (span_start sp - pos) s @ t @ substitute (span_end sp) es (drop (span_end sp - pos) s)"

text \<open>The spans are in order, do not overlap and lie between \<open>pos\<close> and \<open>n\<close>.\<close>

fun spans_ok :: "nat \<Rightarrow> Span list \<Rightarrow> nat \<Rightarrow> bool" where
  "spans_ok pos [] n \<longleftrightarrow> pos \<le> n"
| "spans_ok pos (sp # sps) n \<longleftrightarrow> pos \<le> span_start sp \<and> span_start sp \<le> span_end sp \<and> spans_ok (span_end sp) sps n"

lemma spans_ok_le: "spans_ok pos sps n \<Longrightarrow> pos \<le> n"
  by (induction sps arbitrary: pos) fastforce+

lemma spans_ok_mono: "spans_ok pos sps m \<Longrightarrow> m \<le> n \<Longrightarrow> spans_ok pos sps n"
  by (induction sps arbitrary: pos) auto

definition edit_of :: "ChangePlan \<Rightarrow> Span \<times> string" where
  "edit_of p = (cp_span p, cp_target p)"

definition add_of :: "ChangePlan \<Rightarrow> Span \<times> string" where
  "add_of p = (\<lparr>span_start = span_end (cp_span p), span_end = span_end (cp_span p)\<rparr>, cp_target p)"

lemma edit_of_simps [simp]: "fst (edit_of p) = cp_span p" "snd (edit_of p) = cp_target p"
  by (simp_all add: edit_of_def)

lemma add_of_simps [simp]: "span_start (fst (add_of p)) = span_end (cp_span p)"
  "span_end (fst (add_of p)) = span_end (cp_span p)" "snd (add_of p) = cp_target p"
  by (simp_all add: add_of_def)

definition new_length :: "(Span \<times> string) list \<Rightarrow> nat" where
  "new_length es = sum_list (map (\<lambda>e. length (snd e)) es)"

text \<open>In the middle of the edits: what is before \<open>pos\<close> has become \<open>done\<close>, and the offset is the
  difference of their lengths.\<close>

definition edit_point :: "string \<Rightarrow> nat \<Rightarrow> string \<Rightarrow> u64 \<Rightarrow> string \<Rightarrow> bool" where
  "edit_point raw pos out off sql \<longleftrightarrow>
     pos \<le> length raw \<and> sql = out @ drop pos raw \<and> of_nat pos + off = of_nat (length out)"

lemma position:
  assumes "of_nat pos + off = (of_nat l :: u64)" "pos \<le> i" "l + (i - pos) < 2 ^ 64"
  shows "unat (of_nat i + off) = l + (i - pos)"
proof -
  have "(of_nat i :: u64) = of_nat (i - pos) + of_nat pos"
    using assms(2) by (simp flip: of_nat_add)
  then have "of_nat i + off = (of_nat (l + (i - pos)) :: u64)"
    using assms(1) by (simp add: ac_simps)
  moreover have "unat (of_nat (l + (i - pos)) :: u64) = l + (i - pos)"
    using assms(3) by (simp only: unat_of_nat) (simp add: take_bit_nat_eq_self)
  ultimately show ?thesis
    by simp
qed

lemma replace_step:
  assumes "edit_point raw pos out off sql" "ascii raw" "pos \<le> span_start sp" "span_start sp \<le> span_end sp"
    "span_end sp \<le> length raw" "length out + (length raw - pos) < 2 ^ 64"
  shows "change_sql sql sp t off = Some (out @ take (span_start sp - pos) (drop pos raw) @ t @ drop (span_end sp) raw)"
    and "edit_point raw (span_end sp) (out @ take (span_start sp - pos) (drop pos raw) @ t)
      (off + (of_nat (length t) - of_nat (span_len sp)))
      (out @ take (span_start sp - pos) (drop pos raw) @ t @ drop (span_end sp) raw)"
proof -
  let ?a = "take (span_start sp - pos) (drop pos raw)" and ?m = "take (span_end sp - span_start sp) (drop (span_start sp) raw)"
  have la: "length ?a = span_start sp - pos" "length ?m = span_end sp - span_start sp"
    using assms by auto
  have raw: "drop pos raw = ?a @ ?m @ drop (span_end sp) raw"
    using assms(3-5) by (metis append_take_drop_id drop_drop le_add_diff_inverse2)
  have sql: "sql = (out @ ?a) @ ?m @ drop (span_end sp) raw"
    using assms(1) raw by (simp add: edit_point_def)
  have "unat (of_nat (span_start sp) + off) = length (out @ ?a)"
    using position [of pos off "length out" "span_start sp"] assms la by (simp add: edit_point_def)
  from change_sql_ascii [OF _ _ this, of ?m "drop (span_end sp) raw" t]
  show "change_sql sql sp t off = Some (out @ ?a @ t @ drop (span_end sp) raw)"
    using assms(2) la by (simp add: sql span_len_def)
  have e: "of_nat pos + off = (of_nat (length out) :: u64)"
    using assms(1) by (simp add: edit_point_def)
  have "(of_nat (span_end sp) :: u64) + (off + (of_nat (length t) - of_nat (span_len sp))) =
      (of_nat pos + off) + of_nat (span_start sp - pos) + of_nat (length t)"
    using assms(3,4) by (simp add: span_len_def of_nat_diff)
  also have "\<dots> = of_nat (length (out @ ?a @ t))"
    unfolding e using la by simp
  finally show "edit_point raw (span_end sp) (out @ ?a @ t) (off + (of_nat (length t) - of_nat (span_len sp)))
      (out @ ?a @ t @ drop (span_end sp) raw)"
    using assms(5) by (simp add: edit_point_def)
qed

lemma add_step:
  assumes "edit_point raw pos out off sql" "ascii raw" "pos \<le> i" "i \<le> length raw" "length out + (length raw - pos) < 2 ^ 64"
  shows "insert_str sql (unat (of_nat i + off)) t = Some (out @ take (i - pos) (drop pos raw) @ t @ drop i raw)"
    and "edit_point raw i (out @ take (i - pos) (drop pos raw) @ t) (off + of_nat (length t))
      (out @ take (i - pos) (drop pos raw) @ t @ drop i raw)"
proof -
  let ?a = "take (i - pos) (drop pos raw)"
  have la: "length ?a = i - pos"
    using assms by auto
  have e: "of_nat pos + off = (of_nat (length out) :: u64)"
    using assms(1) by (simp add: edit_point_def)
  have raw: "drop pos raw = ?a @ drop i raw"
    using assms(3) by (metis append_take_drop_id drop_drop le_add_diff_inverse2)
  have sql: "sql = (out @ ?a) @ drop i raw"
    using assms(1) raw by (simp add: edit_point_def)
  have "unat (of_nat i + off) = length (out @ ?a)"
    using position [OF e assms(3)] assms(3-5) la by simp
  then show "insert_str sql (unat (of_nat i + off)) t = Some (out @ ?a @ t @ drop i raw)"
    using insert_str_ascii [of "drop i raw" "out @ ?a" t] assms(2) by (simp add: sql)
  have "of_nat i + (off + of_nat (length t)) = (of_nat pos + off) + of_nat (i - pos) + of_nat (length t)"
    using assms(3) by (simp add: of_nat_diff)
  also have "\<dots> = of_nat (length (out @ ?a @ t))"
    unfolding e using la by simp
  finally show "edit_point raw i (out @ ?a @ t) (off + of_nat (length t)) (out @ ?a @ t @ drop i raw)"
    using assms(4) by (simp add: edit_point_def)
qed

text \<open>A list of plans: the text ends up where the edits still to come continue.\<close>

lemma new_length_simps [simp]: "new_length [] = 0" "new_length (e # es) = length (snd e) + new_length es"
  "new_length (es @ fs) = new_length es + new_length fs"
  by (simp_all add: new_length_def)

lemma replaces_substitute:
  assumes "edit_point raw pos out off sql" "ascii raw" "spans_ok pos (map cp_span ps @ sps) (length raw)"
    "length out + (length raw - pos) + new_length (map edit_of ps) < 2 ^ 64"
  shows "\<exists>pos' out' off' sql' ch'. apply_replaces ps (sql, off, ch) = Some (sql', off', ch') \<and>
      edit_point raw pos' out' off' sql' \<and> spans_ok pos' sps (length raw) \<and>
      length out' + (length raw - pos') \<le> length out + (length raw - pos) + new_length (map edit_of ps) \<and>
      (\<forall>es. out @ substitute pos (map edit_of ps @ es) (drop pos raw) = out' @ substitute pos' es (drop pos' raw))"
  using assms
proof (induction ps arbitrary: pos out off sql ch)
  case Nil
  then show ?case
    by auto
next
  case (Cons p ps)
  let ?sp = "cp_span p" and ?a = "take (span_start (cp_span p) - pos) (drop pos raw)"
  have ok: "pos \<le> span_start ?sp" "span_start ?sp \<le> span_end ?sp" "spans_ok (span_end ?sp) (map cp_span ps @ sps) (length raw)"
    "span_end ?sp \<le> length raw"
    using Cons.prems(3) by (auto dest: spans_ok_le)
  have len: "length out + (length raw - pos) < 2 ^ 64"
    using Cons.prems(4) by simp
  note step = replace_step [OF Cons.prems(1,2) ok(1,2,4) len, of "cp_target p"]
  have l: "length (out @ ?a @ cp_target p) + (length raw - span_end ?sp) \<le> length out + (length raw - pos) + length (cp_target p)"
    using ok by simp
  then have "length (out @ ?a @ cp_target p) + (length raw - span_end ?sp) + new_length (map edit_of ps) < 2 ^ 64"
    using Cons.prems(4) by simp
  from Cons.IH [OF step(2) Cons.prems(2) ok(3) this, of "im_push (cp_query_id p) (cp_target_meta p) ch"]
  obtain pos' out' off' sql' ch' where r: "apply_replaces (p # ps) (sql, off, ch) = Some (sql', off', ch')"
    "edit_point raw pos' out' off' sql'" "spans_ok pos' sps (length raw)"
    "length out' + (length raw - pos') \<le> length (out @ ?a @ cp_target p) + (length raw - span_end ?sp) + new_length (map edit_of ps)"
    "\<forall>es. (out @ ?a @ cp_target p) @ substitute (span_end ?sp) (map edit_of ps @ es) (drop (span_end ?sp) raw) =
       out' @ substitute pos' es (drop pos' raw)"
    using step(1) by auto
  moreover have "substitute pos (map edit_of (p # ps) @ es) (drop pos raw) =
      ?a @ cp_target p @ substitute (span_end ?sp) (map edit_of ps @ es) (drop (span_end ?sp) raw)" for es
    using ok(1,2) by (simp add: edit_of_def)
  moreover have "length out' + (length raw - pos') \<le> length out + (length raw - pos) + new_length (map edit_of (p # ps))"
    using r(4) l by simp
  ultimately show ?case
    by (intro exI [of _ pos'] exI [of _ out'] exI [of _ off'] exI [of _ sql'] exI [of _ ch']) simp
qed

lemma adds_substitute:
  assumes "edit_point raw pos out off sql" "ascii raw" "spans_ok pos (map (\<lambda>p. fst (add_of p)) ps @ sps) (length raw)"
    "length out + (length raw - pos) + new_length (map add_of ps) < 2 ^ 64"
  shows "\<exists>pos' out' off' sql' ch'. apply_adds ps (sql, off, ch) = Some (sql', off', ch') \<and>
      edit_point raw pos' out' off' sql' \<and> spans_ok pos' sps (length raw) \<and>
      length out' + (length raw - pos') \<le> length out + (length raw - pos) + new_length (map add_of ps) \<and>
      (\<forall>es. out @ substitute pos (map add_of ps @ es) (drop pos raw) = out' @ substitute pos' es (drop pos' raw))"
  using assms
proof (induction ps arbitrary: pos out off sql ch)
  case Nil
  then show ?case
    by auto
next
  case (Cons p ps)
  let ?i = "span_end (cp_span p)" and ?a = "take (span_end (cp_span p) - pos) (drop pos raw)"
  have ok: "pos \<le> ?i" "spans_ok ?i (map (\<lambda>p. fst (add_of p)) ps @ sps) (length raw)" "?i \<le> length raw"
    using Cons.prems(3) by (auto dest: spans_ok_le)
  have len: "length out + (length raw - pos) < 2 ^ 64"
    using Cons.prems(4) by simp
  note step = add_step [OF Cons.prems(1,2) ok(1,3) len, of "cp_target p"]
  have l: "length (out @ ?a @ cp_target p) + (length raw - ?i) \<le> length out + (length raw - pos) + length (cp_target p)"
    using ok by simp
  then have "length (out @ ?a @ cp_target p) + (length raw - ?i) + new_length (map add_of ps) < 2 ^ 64"
    using Cons.prems(4) by simp
  from Cons.IH [OF step(2) Cons.prems(2) ok(2) this, of "im_push (cp_query_id p) (cp_target_meta p) ch"]
  obtain pos' out' off' sql' ch' where r: "apply_adds (p # ps) (sql, off, ch) = Some (sql', off', ch')"
    "edit_point raw pos' out' off' sql'" "spans_ok pos' sps (length raw)"
    "length out' + (length raw - pos') \<le> length (out @ ?a @ cp_target p) + (length raw - ?i) + new_length (map add_of ps)"
    "\<forall>es. (out @ ?a @ cp_target p) @ substitute ?i (map add_of ps @ es) (drop ?i raw) = out' @ substitute pos' es (drop pos' raw)"
    using step(1) by auto
  moreover have "substitute pos (map add_of (p # ps) @ es) (drop pos raw) =
      ?a @ cp_target p @ substitute ?i (map add_of ps @ es) (drop ?i raw)" for es
    using ok(1) by (simp add: add_of_def)
  moreover have "length out' + (length raw - pos') \<le> length out + (length raw - pos) + new_length (map add_of (p # ps))"
    using r(4) l by simp
  ultimately show ?case
    by (intro exI [of _ pos'] exI [of _ out'] exI [of _ off'] exI [of _ sql'] exI [of _ ch']) simp
qed


subsection \<open>The rewritten text\<close>

lemma substitute_shift:
  assumes "spans_ok c (map fst es) n" "pos \<le> c"
  shows "substitute pos es s = take (c - pos) s @ substitute c es (drop (c - pos) s)"
proof (cases es)
  case (Cons e es')
  obtain sp t where e: "e = (sp, t)"
    by fastforce
  have le: "c \<le> span_start sp" "span_start sp \<le> span_end sp"
    using assms(1) Cons e by auto
  have "take (span_start sp - pos) s = take (c - pos) s @ take (span_start sp - c) (drop (c - pos) s)"
    using le(1) assms(2) by (metis Nat.add_diff_assoc2 add.commute le_add_diff_inverse take_add)
  moreover have "drop (span_end sp - pos) s = drop (span_end sp - c) (drop (c - pos) s)"
    using le assms(2) by simp
  ultimately show ?thesis
    using Cons e by simp
qed simp

lemma spans_ok_weaken: "spans_ok c sps n \<Longrightarrow> pos \<le> c \<Longrightarrow> spans_ok pos sps n"
  by (cases sps) auto

lemma spans_ok_append:
  assumes "spans_ok pos (xs @ ys) n"
  obtains b where "spans_ok pos xs b" "spans_ok b ys n"
  using assms
proof (induction xs arbitrary: pos thesis)
  case (Cons x xs)
  from Cons.prems(2) have "spans_ok (span_end x) (xs @ ys) n"
    by simp
  from Cons.IH [OF _ this] obtain b where "spans_ok (span_end x) xs b" "spans_ok b ys n"
    by blast
  then show ?case
    using Cons.prems by auto
qed auto

lemma substitute_append:
  assumes "spans_ok pos (map fst es1) b" "spans_ok b (map fst es2) n" "pos + length s = n"
  shows "substitute pos (es1 @ es2) s = substitute pos es1 (substitute pos es2 s)"
  using assms(1,3)
proof (induction es1 arbitrary: pos s)
  case (Cons e es1)
  obtain sp t where e: "e = (sp, t)"
    by fastforce
  have le: "pos \<le> span_start sp" "span_start sp \<le> span_end sp" "spans_ok (span_end sp) (map fst es1) b" "span_end sp \<le> b"
    using Cons.prems(1) e by (auto dest: spans_ok_le)
  have ok: "spans_ok (span_start sp) (map fst es2) n" "spans_ok (span_end sp) (map fst es2) n"
    using spans_ok_weaken [OF assms(2)] le by simp_all
  let ?r = "substitute pos es2 s"
  have r: "?r = take (span_start sp - pos) s @ substitute (span_start sp) es2 (drop (span_start sp - pos) s)"
    "?r = take (span_end sp - pos) s @ substitute (span_end sp) es2 (drop (span_end sp - pos) s)"
    using substitute_shift [OF ok(1) le(1)] substitute_shift [OF ok(2), of pos] le by simp_all
  have l: "span_end sp - pos \<le> length s" "span_start sp - pos \<le> length s" "span_end sp + length (drop (span_end sp - pos) s) = n"
    using le spans_ok_le [OF assms(2)] Cons.prems(2) by simp_all
  have "take (span_start sp - pos) ?r = take (span_start sp - pos) s"
    by (subst r(1)) (use l in simp)
  moreover have "drop (span_end sp - pos) ?r = substitute (span_end sp) es2 (drop (span_end sp - pos) s)"
    by (subst r(2)) (use l in simp)
  ultimately show ?case
    using Cons.IH [OF le(3) l(3)] e by simp
qed simp

lemma substitute_prefix:
  assumes "spans_ok b (map fst es) (length s)"
  shows "take b (substitute 0 es s) = take b s" "b \<le> length (substitute 0 es s)"
proof -
  have "substitute 0 es s = take b s @ substitute b es (drop b s)" "b \<le> length s"
    using substitute_shift [OF assms, of 0] spans_ok_le [OF assms] by simp_all
  then show "take b (substitute 0 es s) = take b s" "b \<le> length (substitute 0 es s)"
    by simp_all
qed

lemma ascii_substitute: "ascii s \<Longrightarrow> list_all (\<lambda>e. ascii (snd e)) es \<Longrightarrow> ascii (substitute pos es s)"
  by (induction pos es s rule: substitute.induct) auto

lemma length_substitute: "spans_ok pos (map fst es) n \<Longrightarrow> length (substitute pos es s) \<le> length s + new_length es"
proof (induction pos es s rule: substitute.induct)
  case (2 pos sp t es s)
  then have "length (substitute (span_end sp) es (drop (span_end sp - pos) s)) \<le> length s - (span_end sp - pos) + new_length es"
    by simp
  then show ?case
    using 2(2) by (simp add: min_def) linarith
qed simp

definition query_edits :: "ChangePlan list \<Rightarrow> u8 \<Rightarrow> (Span \<times> string) list" where
  "query_edits plans q =
     map edit_of (plans_of plans q PlanReplace PlanField) @ map add_of (plans_of plans q PlanAdd PlanField) @
     map edit_of (plans_of plans q PlanReplace PlanTable)"

lemma apply_query:
  assumes "ascii raw" "spans_ok 0 (map fst (query_edits plans q)) (length raw)"
    "length raw + new_length (query_edits plans q) < 2 ^ 64"
  shows "\<exists>ch'. apply_queries plans (q # ids) (raw, ch) = apply_queries plans ids (substitute 0 (query_edits plans q) raw, ch')"
proof -
  define f a t where "f = plans_of plans q PlanReplace PlanField" and "a = plans_of plans q PlanAdd PlanField"
    and "t = plans_of plans q PlanReplace PlanTable"
  have fst_map: "map fst (map edit_of ps) = map cp_span ps" "map fst (map add_of ps) = map (\<lambda>p. fst (add_of p)) ps" for ps
    by simp_all
  have qe: "query_edits plans q = map edit_of f @ map add_of a @ map edit_of t"
    by (simp add: query_edits_def f_def a_def t_def)
  have start: "edit_point raw 0 [] 0 raw"
    by (simp add: edit_point_def)
  have ok: "spans_ok 0 (map cp_span f @ map (\<lambda>p. fst (add_of p)) a @ map cp_span t) (length raw)"
    using assms(2) by (simp add: qe comp_def)
  have len: "length ([] :: string) + (length raw - 0) + new_length (map edit_of f) < 2 ^ 64"
    using assms(3) by (simp add: qe)
  from replaces_substitute [OF start assms(1) ok len, of ch]
  obtain p1 o1 w1 s1 c1 where 1: "apply_replaces f (raw, 0, ch) = Some (s1, w1, c1)" "edit_point raw p1 o1 w1 s1"
    "spans_ok p1 (map (\<lambda>p. fst (add_of p)) a @ map cp_span t) (length raw)"
    "length o1 + (length raw - p1) \<le> length raw + new_length (map edit_of f)"
    "\<And>es. substitute 0 (map edit_of f @ es) raw = o1 @ substitute p1 es (drop p1 raw)"
    by auto
  have len: "length o1 + (length raw - p1) + new_length (map add_of a) < 2 ^ 64"
    using assms(3) 1(4) by (simp add: qe)
  from adds_substitute [OF 1(2) assms(1) 1(3) len, of c1]
  obtain p2 o2 w2 s2 c2 where 2: "apply_adds a (s1, w1, c1) = Some (s2, w2, c2)" "edit_point raw p2 o2 w2 s2"
    "spans_ok p2 (map cp_span t @ []) (length raw)"
    "length o2 + (length raw - p2) \<le> length o1 + (length raw - p1) + new_length (map add_of a)"
    "\<And>es. o1 @ substitute p1 (map add_of a @ es) (drop p1 raw) = o2 @ substitute p2 es (drop p2 raw)"
    by auto
  have len: "length o2 + (length raw - p2) + new_length (map edit_of t) < 2 ^ 64"
    using assms(3) 1(4) 2(4) by (simp add: qe)
  from replaces_substitute [OF 2(2) assms(1) 2(3) len, of c2]
  obtain p3 o3 w3 s3 c3 where 3: "apply_replaces t (s2, w2, c2) = Some (s3, w3, c3)" "edit_point raw p3 o3 w3 s3"
    "\<And>es. o2 @ substitute p2 (map edit_of t @ es) (drop p2 raw) = o3 @ substitute p3 es (drop p3 raw)"
    by auto
  have "s3 = substitute 0 (query_edits plans q) raw"
    using 3(2) 1(5) [of "map add_of a @ map edit_of t"] 2(5) [of "map edit_of t"] 3(3) [of "[]"]
    by (simp add: qe edit_point_def)
  then show ?thesis
    using 1(1) 2(1) 3(1) by (auto simp: f_def a_def t_def)
qed

lemma apply_queries_substitute:
  assumes "ascii raw" "list_all (\<lambda>e. ascii (snd e)) (concat (map (query_edits plans) (rev ids)))"
    "spans_ok 0 (map fst (concat (map (query_edits plans) (rev ids)))) (length raw)"
    "length raw + new_length (concat (map (query_edits plans) (rev ids))) < 2 ^ 64"
  shows "\<exists>ch'. apply_queries plans ids (raw, ch) = Some (substitute 0 (concat (map (query_edits plans) (rev ids))) raw, ch')"
  using assms
proof (induction ids arbitrary: raw ch)
  case (Cons q ids)
  let ?es = "concat (map (query_edits plans) (rev ids))" and ?q = "query_edits plans q"
  obtain b where b: "spans_ok 0 (map fst ?es) b" "spans_ok b (map fst ?q) (length raw)"
    using Cons.prems(3) spans_ok_append [of 0 "map fst ?es" "map fst ?q" "length raw"] by auto
  have q: "spans_ok 0 (map fst ?q) (length raw)"
    using spans_ok_weaken [OF b(2)] by simp
  from apply_query [OF Cons.prems(1) q] Cons.prems(4)
  obtain ch' where r: "apply_queries plans (q # ids) (raw, ch) = apply_queries plans ids (substitute 0 ?q raw, ch')"
    by auto
  have "ascii (substitute 0 ?q raw)"
    using ascii_substitute Cons.prems(1,2) by simp
  moreover have "spans_ok 0 (map fst ?es) (length (substitute 0 ?q raw))"
    using spans_ok_mono [OF b(1)] substitute_prefix(2) [OF b(2)] by simp
  moreover have "length (substitute 0 ?q raw) + new_length ?es < 2 ^ 64"
    using length_substitute [OF q, of raw] Cons.prems(4) by simp
  ultimately show ?case
    using Cons.IH [of "substitute 0 ?q raw" ch'] Cons.prems(2) r substitute_append [OF b] by auto
qed simp

end
