(* ===== verification/ShardPlans.thy ===== *)
theory ShardPlans
  imports Sharding
begin

section \<open>The statements of the shards\<close>

text \<open>
  Which statements the rewriter makes of one statement, and their texts: the composition of
  collecting the plans, of applying them to the text and of choosing the shards by the
  condition on the sharding column.
\<close>


subsection \<open>Texts of all shards\<close>

text \<open>The edits of a whole statement with \<open>n\<close> queries, in the order of the queries.\<close>

definition statement_edits :: "nat \<Rightarrow> ChangePlan list \<Rightarrow> (Span \<times> string) list" where
  "statement_edits n plans = concat (map (\<lambda>q. query_edits plans (of_nat q)) [1..<Suc n])"

definition edits_ok :: "string \<Rightarrow> (Span \<times> string) list \<Rightarrow> bool" where
  "edits_ok raw es \<longleftrightarrow>
     list_all (\<lambda>e. ascii (snd e)) es \<and> spans_ok 0 (map fst es) (length raw) \<and> length raw + new_length es < 2 ^ 64"

lemma query_ids_rev: "n < 255 \<Longrightarrow> rev (query_ids n) = map of_nat [1..<Suc n]"
proof -
  assume "n < 255"
  then have "unat (of_nat n + 1 :: u8) = Suc n"
    by (simp only: of_nat_Suc [symmetric] add.commute [of _ 1] unat_of_nat) (simp add: take_bit_nat_eq_self)
  then show ?thesis
    by (simp add: query_ids_def rev_map del: upt_Suc)
qed

lemma apply_statement:
  assumes "ascii raw" "n < 255" "edits_ok raw (statement_edits n plans)"
  shows "\<exists>ch. apply_queries plans (query_ids n) (raw, []) = Some (substitute 0 (statement_edits n plans) raw, ch)"
proof -
  have "concat (map (query_edits plans) (rev (query_ids n))) = statement_edits n plans"
    using query_ids_rev [OF assms(2)] by (simp add: statement_edits_def comp_def del: upt_Suc)
  then show ?thesis
    using apply_queries_substitute [OF assms(1), of plans "query_ids n" "[]"] assms(3) by (simp add: edits_ok_def)
qed

definition result_text :: "ShardingRewriteResult \<Rightarrow> DataSourceShardingIdx \<times> string" where
  "result_text r = (ds_idx r, target_sql r)"

lemma plans_applied:
  assumes "ascii (sr_raw_sql self)" "length (sr_query_metas self) < 255"
    "list_all (\<lambda>(k, plans). edits_ok (sr_raw_sql self) (statement_edits (length (sr_query_metas self)) plans)) (sr_change_plans self)"
  shows "\<exists>rs. change_plan_apply self flds = Some \<lparr>results = rs, agg_fields = get_agg_field1 flds\<rparr> \<and>
    map result_text rs =
      map (\<lambda>(k, plans). (k, substitute 0 (statement_edits (length (sr_query_metas self)) plans) (sr_raw_sql self)))
        (sr_change_plans self)"
proof -
  let ?n = "length (sr_query_metas self)" and ?raw = "sr_raw_sql self"
  let ?f = "\<lambda>(k, plans). do { (sql, ch) \<leftarrow> apply_queries plans (query_ids ?n) (?raw, []);
              Some \<lparr>ds_idx = k, changes = ch, target_sql = sql\<rparr> }"
  have "\<exists>rs. those (map ?f cps) = Some rs \<and>
      map result_text rs = map (\<lambda>(k, plans). (k, substitute 0 (statement_edits ?n plans) ?raw)) cps"
    if "set cps \<subseteq> set (sr_change_plans self)" for cps
    using that
  proof (induction cps)
    case (Cons cp cps)
    obtain k plans where cp: "cp = (k, plans)"
      by fastforce
    obtain ch where "apply_queries plans (query_ids ?n) (?raw, []) = Some (substitute 0 (statement_edits ?n plans) ?raw, ch)"
      using apply_statement [OF assms(1,2)] assms(3) Cons.prems cp by (fastforce simp: list_all_iff)
    then show ?case
      using Cons cp by (auto simp: result_text_def)
  qed simp
  from this [OF order_refl] show ?thesis
    by (auto simp: change_plan_apply_def)
qed


subsection \<open>Collecting the plans\<close>

lemma im_push_skip: "k \<notin> fst ` set xs \<Longrightarrow> im_push k v (xs @ ys) = xs @ im_push k v ys"
  by (induction xs) auto

lemma push_all_new:
  assumes "distinct (map k is)" "set (map k is) \<inter> fst ` set m = {}"
  shows "fold (\<lambda>i. im_push (k i) (p i)) is m = m @ map (\<lambda>i. (k i, [p i])) is"
  using assms
proof (induction "is" arbitrary: m)
  case (Cons i "is")
  have "im_push (k i) (p i) m = m @ [(k i, [p i])]"
    using Cons.prems im_push_skip [of "k i" m "p i" "[]"] by simp
  then show ?case
    using Cons by auto
qed simp

lemma push_all_more:
  assumes "distinct (map k is)" "set (map k is) \<inter> fst ` set m = {}"
  shows "fold (\<lambda>i. im_push (k i) (p i)) is (m @ map (\<lambda>i. (k i, f i)) is) = m @ map (\<lambda>i. (k i, f i @ [p i])) is"
  using assms
proof (induction "is" arbitrary: m)
  case (Cons i "is")
  have "im_push (k i) (p i) (m @ map (\<lambda>i. (k i, f i)) (i # is)) = (m @ [(k i, f i @ [p i])]) @ map (\<lambda>i. (k i, f i)) is"
    using Cons.prems by (simp add: im_push_skip)
  then show ?case
    using Cons.IH [of "m @ [(k i, f i @ [p i])]"] Cons.prems by auto
qed simp

text \<open>A query without \<open>ORDER BY\<close>, \<open>GROUP BY\<close> and \<open>AVG\<close>: only its tables are renamed.\<close>

fun not_avg :: "FieldMeta \<Rightarrow> bool" where
  "not_avg (FieldIdent m) = (case agg_func m of AggAvg _ _ _ \<Rightarrow> False | _ \<Rightarrow> True)"
| "not_avg (FieldTableWild w) = True"

definition plain :: "clauses \<Rightarrow> u8 \<Rightarrow> bool" where
  "plain cl q \<longleftrightarrow> map_of (cl_orders cl) q = None \<and> map_of (cl_groups cl) q = None \<and>
     (case map_of (cl_fields cl) q of None \<Rightarrow> True | Some fs \<Rightarrow> list_all not_avg fs)"

lemma change_avg_plain: "list_all not_avg fs \<Longrightarrow> change_avg_fields self q fs k = Some self"
  by (induction self q fs k rule: change_avg_fields.induct) (auto split: FieldAggFunc.splits)

definition table_plan :: "u8 \<Rightarrow> Span \<Rightarrow> string \<Rightarrow> ChangePlan" where
  "table_plan q sp target = \<lparr>cp_query_id = q, cp_target = target, cp_span = sp, cp_action = PlanReplace, cp_typ = PlanTable,
     cp_target_meta = TableMeta target\<rparr>"

lemma plan_shard_plain: "plain cl q \<Longrightarrow> plan_shard cl q sp target k self = Some (push_plan k (table_plan q sp target) self)"
  by (auto simp: plan_shard_def plain_def change_order_group_def change_avg_def change_avg_plain table_plan_def
      split: option.splits)

abbreviation with_plans :: "ShardingRewrite \<Rightarrow> (DataSourceShardingIdx \<times> ChangePlan list) list \<Rightarrow> ShardingRewrite" where
  "with_plans self m \<equiv> self\<lparr>sr_change_plans := m\<rparr>"

lemma fold_opt_push:
  assumes "\<And>i m. i \<in> set is \<Longrightarrow> f i (with_plans self m) = Some (push_plan (k i) (p i) (with_plans self m))"
  shows "fold_opt f is (with_plans self m) = Some (with_plans self (fold (\<lambda>i. im_push (k i) (p i)) is m))"
  using assms by (induction "is" arbitrary: m) (simp_all add: push_plan_def)



subsection \<open>Sharding by table\<close>

text \<open>The database a table belongs to, and the name of its shard \<open>i\<close>.\<close>

definition table_db :: "ShardingRewrite \<Rightarrow> TableIdent \<Rightarrow> string option" where
  "table_db self tbl = (case ti_schema tbl of Some s \<Rightarrow> Some s | None \<Rightarrow> sr_default_db self)"

definition shard_name :: "ShardingRewrite \<Rightarrow> TableIdent \<Rightarrow> u64 \<Rightarrow> string" where
  "shard_name self tbl i =
     ''`'' @ the (table_db self tbl) @ ''`.'' @
     (if CHR ''`'' \<in> set (ti_name tbl) then ''`'' @ unquote (ti_name tbl) @ ''_'' @ pad5 i @ ''`'' else ti_name tbl @ ''_'' @ pad5 i)"

lemma change_table_shard: "table_db self tbl \<noteq> None \<Longrightarrow> change_table self tbl [] i = Some (shard_name self tbl i)"
  by (auto simp: change_table_def table_db_def shard_name_def)

lemma change_table_plans [simp]: "change_table (with_plans self m) = change_table self"
  by (intro ext) (auto simp: change_table_def split: option.split)

definition table_key :: "DataSource \<Rightarrow> string \<Rightarrow> u64 \<Rightarrow> DataSourceShardingIdx" where
  "table_key src column i =
     \<lparr>ds = src, ds_shard = \<lparr>si_table = Some i, si_database = None\<rparr>, ds_column = \<lparr>sh_database = None, sh_table = Some column\<rparr>\<rparr>"

text \<open>A rule that shards by table, and the shards of a part of it.\<close>

definition table_sharded :: "Sharding \<Rightarrow> TableStrategyConfig \<Rightarrow> bool" where
  "table_sharded rule c \<longleftrightarrow> database_strategy rule = None \<and> table_strategy rule = Some (TableStrategy c)"

lemma table_sharded_simps:
  assumes "table_sharded rule c"
  shows "sharding_column rule = (None, Some (tsc_column c))" "sharding_algo rule = (None, Some (tsc_algorithm c))"
    "sharding_count rule = Some (None, Some (tsc_sharding_count c))" "get_strategy_typ rule = StrategyTable"
  using assms by (simp_all add: table_sharded_def sharding_column_def sharding_algo_def sharding_count_def get_strategy_typ_def)

definition table_shards :: "DatabaseTableStrategyPart \<Rightarrow> u32 \<Rightarrow> u64 list" where
  "table_shards part cnt = (case part of PartTable i \<Rightarrow> u64_range i (i + 1) | _ \<Rightarrow> u64_range 0 (ucast cnt))"

definition shard_plans :: "ShardingRewrite \<Rightarrow> try_table list \<Rightarrow> u64 \<Rightarrow> ChangePlan list" where
  "shard_plans self tables i = map (\<lambda>(q, _, tbl). table_plan q (ti_span tbl) (shard_name self tbl i)) tables"

lemma u64_range_distinct: "distinct (u64_range a b)"
proof -
  have "unat (of_nat i :: u64) = i" if "i < unat b" for i
    using that unsigned_less [where ?'a = nat, of b] by (simp add: unat_of_nat take_bit_nat_eq_self)
  then have "inj_on (of_nat :: nat \<Rightarrow> u64) {unat a..<unat b}"
    by (intro inj_onI) (metis atLeastLessThan_iff)
  then show ?thesis
    by (simp add: u64_range_def distinct_map)
qed

lemma gen_data_source_plans [simp]: "gen_data_source (with_plans self m) = gen_data_source self"
  by (simp add: gen_data_source_def fun_eq_iff)

text \<open>The body of the outer loop.\<close>

definition table_round :: "DatabaseTableStrategyPart \<Rightarrow> clauses \<Rightarrow> try_table \<Rightarrow> ShardingRewrite \<Rightarrow> ShardingRewrite option" where
  "table_round part cl = (\<lambda>(query_id, rule, tbl) self.
            do { data_source \<leftarrow> unwrap (gen_data_source self rule 0);
                 column \<leftarrow> snd (sharding_column rule);
                 cnt \<leftarrow> sharding_count rule;
                 cnt \<leftarrow> snd cnt;
                 fold_opt (\<lambda>i self.
                   do { target \<leftarrow> change_table self tbl [] i;
                        plan_shard cl query_id (ti_span tbl) target
                          \<lparr>ds = data_source, ds_shard = \<lparr>si_table = Some i, si_database = None\<rparr>,
                           ds_column = \<lparr>sh_database = None, sh_table = Some column\<rparr>\<rparr> self })
                   (case part of PartTable i \<Rightarrow> u64_range i (i + 1) | _ \<Rightarrow> u64_range 0 (ucast cnt)) self })"

lemma table_round_plain:
  assumes "table_sharded rule c" "gen_data_source self rule 0 = Some (Inr src)" "plain cl q" "table_db self tbl \<noteq> None"
  shows "table_round part cl (q, rule, tbl) (with_plans self m) =
    Some (with_plans self (fold (\<lambda>i. im_push (table_key src (tsc_column c) i) (table_plan q (ti_span tbl) (shard_name self tbl i)))
      (table_shards part (tsc_sharding_count c)) m))"
proof -
  have "fold_opt (\<lambda>i self.
      do { target \<leftarrow> change_table self tbl [] i;
           plan_shard cl q (ti_span tbl) target (table_key src (tsc_column c) i) self })
      (table_shards part (tsc_sharding_count c)) (with_plans self m) =
    Some (with_plans self (fold (\<lambda>i. im_push (table_key src (tsc_column c) i) (table_plan q (ti_span tbl) (shard_name self tbl i)))
      (table_shards part (tsc_sharding_count c)) m))"
    using assms by (intro fold_opt_push) (simp add: change_table_shard plan_shard_plain)
  then show ?thesis
    using assms by (simp add: table_round_def table_sharded_simps unwrap_def table_key_def table_shards_def)
qed

lemma table_rounds:
  assumes "table_sharded rule c" "gen_data_source self rule 0 = Some (Inr src)"
    "list_all (\<lambda>(q, r, tbl). r = rule \<and> plain cl q \<and> table_db self tbl \<noteq> None) tables" "tables \<noteq> []"
  shows "fold_opt (table_round part cl) tables (with_plans self []) =
    Some (with_plans self (map (\<lambda>i. (table_key src (tsc_column c) i, shard_plans self tables i)) (table_shards part (tsc_sharding_count c))))"
proof -
  let ?k = "table_key src (tsc_column c)" and ?is = "table_shards part (tsc_sharding_count c)"
  have distinct: "distinct (map ?k ?is)"
    using u64_range_distinct by (auto simp: table_shards_def distinct_map table_key_def inj_on_def split: DatabaseTableStrategyPart.splits)
  have more: "fold_opt (table_round part cl) ts (with_plans self (map (\<lambda>i. (?k i, f i)) ?is)) =
      Some (with_plans self (map (\<lambda>i. (?k i, f i @ shard_plans self ts i)) ?is))"
    if "list_all (\<lambda>(q, r, tbl). r = rule \<and> plain cl q \<and> table_db self tbl \<noteq> None) ts" for ts f
    using that
  proof (induction ts arbitrary: f)
    case (Cons t ts)
    obtain q tbl where t: "t = (q, rule, tbl)" "plain cl q" "table_db self tbl \<noteq> None"
      using Cons.prems by auto
    let ?p = "\<lambda>i. table_plan q (ti_span tbl) (shard_name self tbl i)"
    have "table_round part cl t (with_plans self (map (\<lambda>i. (?k i, f i)) ?is)) = Some (with_plans self (map (\<lambda>i. (?k i, f i @ [?p i])) ?is))"
      using table_round_plain [OF assms(1,2) t(2,3)] push_all_more [OF distinct, of "[]" ?p f] t(1) by simp
    then show ?case
      using Cons.IH [of "\<lambda>i. f i @ [?p i]"] Cons.prems t(1) by (simp add: shard_plans_def)
  qed (simp add: shard_plans_def)
  obtain q tbl ts where t: "tables = (q, rule, tbl) # ts" "plain cl q" "table_db self tbl \<noteq> None"
    using assms(3,4) by (cases tables) auto
  let ?p = "\<lambda>i. table_plan q (ti_span tbl) (shard_name self tbl i)"
  have "table_round part cl (q, rule, tbl) (with_plans self []) = Some (with_plans self (map (\<lambda>i. (?k i, [?p i])) ?is))"
    using table_round_plain [OF assms(1,2) t(2,3)] push_all_new [OF distinct, of "[]" ?p] by simp
  then show ?thesis
    using more [of ts "\<lambda>i. [?p i]"] t(1) assms(3) by (simp add: shard_plans_def)
qed

lemma table_iproduct:
  assumes "table_sharded rule c" "gen_data_source self rule 0 = Some (Inr src)"
    "list_all (\<lambda>(q, r, tbl). r = rule \<and> plain cl q \<and> table_db self tbl \<noteq> None) tables" "tables \<noteq> []"
    "sr_change_plans self = []" "ascii (sr_raw_sql self)" "length (sr_query_metas self) < 255"
    "list_all (\<lambda>i. edits_ok (sr_raw_sql self) (statement_edits (length (sr_query_metas self)) (shard_plans self tables i)))
       (table_shards part (tsc_sharding_count c))"
  shows "\<exists>self' rs. table_strategy_iproduct self part tables cl =
      Some (self', \<lparr>results = rs, agg_fields = get_agg_field1 (cl_fields cl)\<rparr>) \<and>
    map result_text rs =
      map (\<lambda>i. (table_key src (tsc_column c) i,
                 substitute 0 (statement_edits (length (sr_query_metas self)) (shard_plans self tables i)) (sr_raw_sql self)))
        (table_shards part (tsc_sharding_count c))"
proof -
  let ?self = "with_plans self (map (\<lambda>i. (table_key src (tsc_column c) i, shard_plans self tables i)) (table_shards part (tsc_sharding_count c)))"
  have self: "with_plans self [] = self"
    using assms(5) by simp
  have rounds: "fold_opt (table_round part cl) tables self = Some ?self"
    using table_rounds [OF assms(1-4), of part] by (simp only: self)
  have "list_all (\<lambda>(k, plans). edits_ok (sr_raw_sql ?self) (statement_edits (length (sr_query_metas ?self)) plans)) (sr_change_plans ?self)"
    using assms(8) by (simp add: list_all_iff)
  from plans_applied [OF _ _ this, of "cl_fields cl"] assms(6,7)
  obtain rs where "change_plan_apply ?self (cl_fields cl) = Some \<lparr>results = rs, agg_fields = get_agg_field1 (cl_fields cl)\<rparr>"
    "map result_text rs = map (\<lambda>i. (table_key src (tsc_column c) i,
       substitute 0 (statement_edits (length (sr_query_metas self)) (shard_plans self tables i)) (sr_raw_sql self)))
        (table_shards part (tsc_sharding_count c))"
    by (auto simp: comp_def)
  then show ?thesis
    using rounds unfolding table_strategy_iproduct_def table_round_def by auto
qed

text \<open>With one table, the text changes in one place.\<close>

lemma statement_edits_one:
  assumes "0 < q" "unat q \<le> n" "n < 255"
  shows "statement_edits n [table_plan q sp t] = [(sp, t)]"
proof -
  have edits: "query_edits [table_plan q sp t] q' = (if q' = q then [(sp, t)] else [])" for q'
    by (simp add: query_edits_def plans_of_def table_plan_def edit_of_def)
  have upt: "[1..<Suc n] = [1..<unat q] @ unat q # [Suc (unat q)..<Suc n]"
    using assms(1,2) upt_add_eq_append [of 1 "unat q" "Suc n - unat q"]
    by (simp add: upt_conv_Cons Suc_le_eq unat_gt_0 word_gt_0)
  have other: "concat (map (\<lambda>m. query_edits [table_plan q sp t] (of_nat m)) ms) = []" if "set ms \<subseteq> {..<256} - {unat q}" for ms
    using that by (induction ms) (auto simp: edits unat_of_nat take_bit_nat_eq_self)
  have "statement_edits n [table_plan q sp t] =
      concat (map (\<lambda>m. query_edits [table_plan q sp t] (of_nat m)) [1..<unat q]) @ [(sp, t)] @
      concat (map (\<lambda>m. query_edits [table_plan q sp t] (of_nat m)) [Suc (unat q)..<Suc n])"
    unfolding statement_edits_def upt by (simp add: edits)
  moreover have "set [1..<unat q] \<subseteq> {..<256} - {unat q}" "set [Suc (unat q)..<Suc n] \<subseteq> {..<256} - {unat q}"
    using assms(2,3) by auto
  ultimately show ?thesis
    by (simp only: other append.left_neutral append.right_neutral)
qed


subsection \<open>The shard of a value\<close>

definition shard_index :: "'f hash_ops \<Rightarrow> ShardingAlgorithmName \<Rightarrow> u32 \<Rightarrow> u64 \<Rightarrow> u64" where
  "shard_index H algo cnt x = (case algo of Mod \<Rightarrow> x | CRC32Mod \<Rightarrow> ucast (ho_crc32 H (to_be_bytes x))) mod ucast cnt"

lemma ucast_count: "unat (ucast (cnt :: u32) :: u64) = unat cnt" "cnt \<noteq> 0 \<Longrightarrow> (ucast (cnt :: u32) :: u64) \<noteq> 0"
proof -
  show u: "unat (ucast (cnt :: u32) :: u64) = unat cnt"
    using unsigned_less [where ?'a = nat, of cnt] by (simp add: unsigned_ucast_eq take_bit_nat_eq_self)
  show "(ucast (cnt :: u32) :: u64) \<noteq> 0" if "cnt \<noteq> 0"
    using that u by (metis unsigned_0 unsigned_eq_0_iff)
qed

lemma shard_index_less: "cnt \<noteq> 0 \<Longrightarrow> unat (shard_index H algo cnt x) < unat cnt"
  using ucast_count [of cnt] by (simp add: shard_index_def unat_mod_distrib unat_gt_0)

lemma calc_u64_index: "cnt \<noteq> 0 \<Longrightarrow> calc_u64 H x algo (ucast cnt) = Some (Some (shard_index H algo cnt x))"
  using ucast_count [of cnt] by (cases algo) (simp_all add: wrapping_rem_u64_def shard_index_def)

text \<open>The condition on the sharding column, and the value of a row in it.\<close>

lemma where_shard_index:
  assumes "get_where_match_right metas column = Some (RightNum v)" "parse_u64 v = Some x" "cnt \<noteq> 0"
  shows "where_shard H metas column (Some cnt) (Some algo) = Some (Inr (Some (Some (shard_index H algo cnt x))))"
  using assms by (simp add: where_shard_def parse_where_def calc_u64_index)

lemma insert_value_index:
  assumes "parse_u64 v = Some x" "cnt \<noteq> 0"
  shows "insert_value_idx H (Some v) algo cnt = Some (Inr (shard_index H algo cnt x))"
  using assms by (simp add: insert_value_idx_def calc_u64_index)

lemma table_where:
  assumes "table_sharded rule c" "get_where_match_right metas (tsc_column c) = Some (RightNum v)" "parse_u64 v = Some x"
    "tsc_sharding_count c \<noteq> 0"
  shows "find_try_where H StrategyTable [(q, rule, tbl)] [(q, metas)] =
    Some (Inr [(q, [Some (shard_index H (tsc_algorithm c) (tsc_sharding_count c) x)])])"
  using assms by (simp add: query_where_def table_sharded_simps where_shard_index)

lemma one_shard:
  assumes "unat i < unat (cnt :: u32)"
  shows "u64_range i (i + 1) = [i]"
proof -
  have "unat i < 2 ^ 64 - 1"
    using assms unsigned_less [where ?'a = nat, of cnt] by simp
  then have "unat (i + 1) = Suc (unat i)"
    by (simp add: unat_word_ariths)
  then show ?thesis
    by (simp add: u64_range_def)
qed


subsection \<open>Statements on tables sharded by table\<close>

text \<open>What the strategy needs of the rewriter and of the tables of a statement: an endpoint for the
  rule, a database for every table, no columns to add, and edits that are in order.\<close>

definition shardable ::
    "ShardingRewrite \<Rightarrow> RewriteMetaData \<Rightarrow> Sharding \<Rightarrow> TableStrategyConfig \<Rightarrow> DataSource \<Rightarrow> try_table list \<Rightarrow> u64 list \<Rightarrow> bool" where
  "shardable self meta rule c src tables is \<longleftrightarrow>
     table_sharded rule c \<and> tsc_sharding_count c \<noteq> 0 \<and> gen_data_source self rule 0 = Some (Inr src) \<and> tables \<noteq> [] \<and>
     list_all (\<lambda>(q, r, tbl). r = rule \<and> plain (clauses_of meta) q \<and> table_db self tbl \<noteq> None) tables \<and>
     sr_change_plans self = [] \<and> ascii (sr_raw_sql self) \<and> length (sr_query_metas self) < 255 \<and>
     list_all (\<lambda>i. edits_ok (sr_raw_sql self) (statement_edits (length (sr_query_metas self)) (shard_plans self tables i))) is"

lemma shardable_iproduct:
  assumes "shardable self meta rule c src tables (table_shards part (tsc_sharding_count c))"
  shows "\<exists>self' rs. answer (table_strategy_iproduct self part tables (clauses_of meta)) =
      Some (self', Inr \<lparr>results = rs, agg_fields = get_agg_field1 (rm_fields meta)\<rparr>) \<and>
    map result_text rs =
      map (\<lambda>i. (table_key src (tsc_column c) i,
                 substitute 0 (statement_edits (length (sr_query_metas self)) (shard_plans self tables i)) (sr_raw_sql self)))
        (table_shards part (tsc_sharding_count c))"
proof -
  have "cl_fields (clauses_of meta) = rm_fields meta"
    by (simp add: clauses_of_def)
  then show ?thesis
    using table_iproduct [of rule c self src "clauses_of meta" tables part] assms by (fastforce simp: shardable_def answer_def)
qed

text \<open>C15.  A statement on tables that are sharded by table and that no condition restricts is
  rewritten into one statement for each shard, in order and without a shard missing or twice;
  the text of shard \<open>i\<close> is the text of the client with every table name replaced by the name of
  its shard \<open>i\<close>, all replacements at the places the parser gave.\<close>

theorem statement_per_shard:
  assumes "rm_inserts meta = []" "rm_wheres meta = []"
    "shardable self meta rule c src tables (u64_range 0 (ucast (tsc_sharding_count c)))"
  shows "\<exists>self' rs. table_strategy_rewrite H self meta tables =
      Some (self', Inr \<lparr>results = rs, agg_fields = get_agg_field1 (rm_fields meta)\<rparr>) \<and>
    map result_text rs =
      map (\<lambda>i. (table_key src (tsc_column c) (of_nat i),
                 substitute 0 (statement_edits (length (sr_query_metas self)) (shard_plans self tables (of_nat i))) (sr_raw_sql self)))
        [0..<unat (tsc_sharding_count c)]"
proof -
  have r: "table_shards PartAll (tsc_sharding_count c) = map of_nat [0..<unat (tsc_sharding_count c)]"
    by (simp add: table_shards_def u64_range_def ucast_count)
  then show ?thesis
    using shardable_iproduct [of self meta rule c src tables PartAll] assms
    by (simp add: table_strategy_rewrite_def table_shards_def comp_def)
qed

text \<open>A table with two shards on one endpoint.\<close>

definition two_tables :: TableStrategyConfig where
  "two_tables = \<lparr>tsc_algorithm = Mod, tsc_column = ''id'', tsc_sharding_count = 2\<rparr>"

definition two_tables_rule :: Sharding where
  "two_tables_rule = \<lparr>sh_table_name = ''t'', actual_datanodes = [''n''], binding_tables = None, broadcast_tables = None,
     database_strategy = None, table_strategy = Some (TableStrategy two_tables), database_table_strategy = None\<rparr>"

definition node_n :: Endpoint where
  "node_n = \<lparr>weight = 1, name = ''n'', db = ''d'', user = ''u'', password = ''p'', addr = ''h''\<rparr>"

definition t_at :: "nat \<Rightarrow> TableIdent" where
  "t_at i = \<lparr>ti_span = \<lparr>span_start = i, span_end = Suc i\<rparr>, ti_schema = None, ti_name = ''t''\<rparr>"

definition rewriter_of :: "Sharding list \<Rightarrow> string \<Rightarrow> ShardingRewrite" where
  "rewriter_of rules raw = (ShardingRewrite_new rules [node_n] None False)
     \<lparr>sr_raw_sql := raw, sr_default_db := Some ''d'', sr_query_metas := [(1, \<lparr>qm_query_id = 1, qm_span = \<lparr>span_start = 0, span_end = length raw\<rparr>\<rparr>)]\<rparr>"

definition no_hash :: "unit hash_ops" where
  "no_hash = \<lparr>ho_crc32 = (\<lambda>_. 0), ho_parse_f64 = (\<lambda>_. None), ho_f64_rem_round = (\<lambda>_ _. 0), ho_f64_be_bytes = (\<lambda>_. [])\<rparr>"

lemmas two_tables_defs = two_tables_def two_tables_rule_def node_n_def t_at_def rewriter_of_def

lemma pad5_01: "pad5 0 = ''00000''" "pad5 1 = ''00001''"
proof -
  have "show_nat 0 = ''0''" "show_nat 1 = ''1''"
    by code_simp+
  then show "pad5 0 = ''00000''" "pad5 1 = ''00001''"
    by (simp_all add: pad5_def numeral_eq_Suc)
qed

definition on_node_n :: "ShardingRewrite \<Rightarrow> bool" where
  "on_node_n self \<longleftrightarrow> sr_endpoints self = [node_n] \<and> \<not> sr_has_rw self \<and> sr_default_db self = Some ''d'' \<and>
     length (sr_query_metas self) = Suc 0 \<and> sr_change_plans self = []"

lemma two_tables_names:
  assumes "sr_default_db self = Some ''d''"
  shows "shard_name self (t_at i) 0 = ''`d`.t_00000''" "shard_name self (t_at i) 1 = ''`d`.t_00001''"
  using assms by (simp_all add: shard_name_def t_at_def table_db_def pad5_01)

lemma rewriter_of_simps [simp]:
  "length (sr_query_metas (rewriter_of rules raw)) = Suc 0" "sr_raw_sql (rewriter_of rules raw) = raw"
  "sr_change_plans (rewriter_of rules raw) = []" "sr_default_db (rewriter_of rules raw) = Some ''d''"
  "on_node_n (rewriter_of rules raw)"
  by (simp_all add: rewriter_of_def ShardingRewrite_new_def on_node_n_def)

lemma two_tables_edits:
  "statement_edits (Suc 0) (shard_plans self [(1, rule, t_at i)] k) = [(ti_span (t_at i), shard_name self (t_at i) k)]"
  using statement_edits_one [of 1 "Suc 0"] by (simp add: shard_plans_def)

lemma two_tables_shardable:
  assumes "on_node_n self" "plain (clauses_of meta) 1" "ascii (sr_raw_sql self)" "i < length (sr_raw_sql self)"
    "length (sr_raw_sql self) < 1000"
  shows "shardable self meta two_tables_rule two_tables (DsEndpoint node_n)
    [(1, two_tables_rule, t_at i)] (u64_range 0 (ucast (tsc_sharding_count two_tables)))"
proof -
  have range: "u64_range 0 (ucast (tsc_sharding_count two_tables)) = [0, 1]"
    by (simp add: u64_range_def ucast_count two_tables_def upt_rec)
  have "gen_data_source self two_tables_rule 0 = Some (Inr (DsEndpoint node_n))" "table_db self (t_at i) = Some ''d''"
    using assms(1)
    by (simp_all add: on_node_n_def gen_data_source_def get_endpoint_def find_node_def two_tables_rule_def node_n_def t_at_def idx_def table_db_def)
  then show ?thesis
    using assms two_tables_names [of self i] by (simp add: on_node_n_def shardable_def range two_tables_edits edits_ok_def)
      (simp add: two_tables_def two_tables_rule_def t_at_def table_sharded_def)
qed

theorem statement_per_shard_witness:
  "\<exists>self' rs. table_strategy_rewrite no_hash (rewriter_of [two_tables_rule] ''select a from t'') (RewriteMetaData_new [])
      [(1, two_tables_rule, t_at 14)] = Some (self', Inr \<lparr>results = rs, agg_fields = []\<rparr>) \<and>
    map target_sql rs = [''select a from `d`.t_00000'', ''select a from `d`.t_00001'']"
proof -
  let ?self = "rewriter_of [two_tables_rule] ''select a from t''" and ?m = "RewriteMetaData_new []" and ?ts = "[(1, two_tables_rule, t_at 14)]"
  have "rm_inserts ?m = []" "rm_wheres ?m = []" "plain (clauses_of ?m) 1"
    by (simp_all add: RewriteMetaData_new_def plain_def clauses_of_def)
  moreover from this have "shardable ?self ?m two_tables_rule two_tables (DsEndpoint node_n) ?ts (u64_range 0 (ucast (tsc_sharding_count two_tables)))"
    by (intro two_tables_shardable) simp_all
  ultimately obtain self' rs where r: "table_strategy_rewrite no_hash ?self ?m ?ts = Some (self', Inr \<lparr>results = rs, agg_fields = get_agg_field1 (rm_fields ?m)\<rparr>)"
    "map result_text rs = map (\<lambda>i. (table_key (DsEndpoint node_n) (tsc_column two_tables) (of_nat i),
       substitute 0 (statement_edits (length (sr_query_metas ?self)) (shard_plans ?self ?ts (of_nat i))) (sr_raw_sql ?self)))
         [0..<unat (tsc_sharding_count two_tables)]"
    using statement_per_shard [of ?m ?self two_tables_rule two_tables "DsEndpoint node_n" ?ts no_hash] by blast
  have "map target_sql rs = map snd (map result_text rs)"
    by (simp add: result_text_def)
  also have "\<dots> = [''select a from `d`.t_00000'', ''select a from `d`.t_00001'']"
    unfolding r(2) by (simp add: two_tables_edits two_tables_names two_tables_def upt_rec) (simp add: t_at_def)
  finally show ?thesis
    using r(1) by (simp add: RewriteMetaData_new_def get_agg_field1_def)
qed

text \<open>A condition on the sharding column of the only table selects one shard.\<close>

lemma table_strategy_one:
  assumes "parse_u64 v = Some x" "rm_inserts meta = []" "rm_wheres meta = [(q, metas)]"
    "get_where_match_right metas (tsc_column c) = Some (RightNum v)"
    "shardable self meta rule c src [(q, rule, tbl)] (u64_range 0 (ucast (tsc_sharding_count c)))"
    "0 < q" "unat q \<le> length (sr_query_metas self)"
    "i = shard_index H (tsc_algorithm c) (tsc_sharding_count c) x"
  shows "\<exists>self' r. table_strategy_rewrite H self meta [(q, rule, tbl)] =
      Some (self', Inr \<lparr>results = [r], agg_fields = get_agg_field1 (rm_fields meta)\<rparr>) \<and>
    result_text r = (table_key src (tsc_column c) i,
      take (span_start (ti_span tbl)) (sr_raw_sql self) @ shard_name self tbl i @ drop (span_end (ti_span tbl)) (sr_raw_sql self))"
proof -
  have ok: "table_sharded rule c" "tsc_sharding_count c \<noteq> 0" "length (sr_query_metas self) < 255"
    using assms(5) by (simp_all add: shardable_def)
  have less: "unat i < unat (tsc_sharding_count c)"
    using shard_index_less [OF ok(2)] assms(8) by simp
  have shards: "table_shards (PartTable i) (tsc_sharding_count c) = [i]"
    using one_shard [OF less] by (simp add: table_shards_def)
  have "i \<in> set (u64_range 0 (ucast (tsc_sharding_count c)))"
    using less by (auto simp: u64_range_def ucast_count intro: image_eqI [of _ _ "unat i"])
  then have shardable: "shardable self meta rule c src [(q, rule, tbl)] [i]"
    using assms(5) by (auto simp: shardable_def list_all_iff)
  have "first_shard [(q, [Some i])] = Some (True, i)"
    by (simp add: first_shard_def idx_def)
  then have go: "table_strategy_rewrite H self meta [(q, rule, tbl)] =
      answer (table_strategy_iproduct self (PartTable i) [(q, rule, tbl)] (clauses_of meta))"
    using table_where [OF ok(1) assms(4,1) ok(2), of H q tbl] assms(2,3,8)
    by (simp add: table_strategy_rewrite_def del: find_try_where.simps)
  have "statement_edits (length (sr_query_metas self)) (shard_plans self [(q, rule, tbl)] i) = [(ti_span tbl, shard_name self tbl i)]"
    using statement_edits_one [OF assms(6,7) ok(3)] by (simp add: shard_plans_def)
  then show ?thesis
    using shardable_iproduct [of self meta rule c src "[(q, rule, tbl)]" "PartTable i"] shardable go
    by (auto simp: shards)
qed

text \<open>C10.  A row is found where it was put: a row whose value in the sharding column is the
  number \<open>v\<close> is inserted into one shard, its index below the number of shards, and a statement
  on the table with the condition that the column is \<open>v\<close> is rewritten into a single statement,
  on that shard's table, with the rest of the text unchanged.\<close>

theorem inserted_row_found:
  assumes "parse_u64 v = Some x"
    and "find_insert_field_idx flds (Some (tsc_column c)) 0 = Some (Inr j)" "row_value row j = Some v"
    and "rm_inserts meta = []" "rm_wheres meta = [(q, metas)]" "get_where_match_right metas (tsc_column c) = Some (RightNum v)"
    and "shardable self meta rule c src [(q, rule, tbl)] (u64_range 0 (ucast (tsc_sharding_count c)))"
    and "0 < q" "unat q \<le> length (sr_query_metas self)"
  shows "\<exists>i info self' r. insert_base_info rule = Some info \<and>
    change_insert H (get_strategy_typ rule) [row] flds info =
      Some (Inr [\<lparr>ri_sharding_idx = \<lparr>si_table = Some i, si_database = None\<rparr>, ri_span = vm_span row\<rparr>]) \<and>
    unat i < unat (tsc_sharding_count c) \<and>
    insert_target self rule tbl (get_strategy_typ rule)
      \<lparr>ri_sharding_idx = \<lparr>si_table = Some i, si_database = None\<rparr>, ri_span = vm_span row\<rparr> = Some (shard_name self tbl i) \<and>
    table_strategy_rewrite H self meta [(q, rule, tbl)] =
      Some (self', Inr \<lparr>results = [r], agg_fields = get_agg_field1 (rm_fields meta)\<rparr>) \<and>
    ds_idx r = table_key src (tsc_column c) i \<and>
    target_sql r = take (span_start (ti_span tbl)) (sr_raw_sql self) @ shard_name self tbl i @
      drop (span_end (ti_span tbl)) (sr_raw_sql self)"
proof -
  let ?i = "shard_index H (tsc_algorithm c) (tsc_sharding_count c) x"
  let ?info = "\<lparr>mi_column = (Some (tsc_column c), None), mi_count = (Some (tsc_sharding_count c), None),
    mi_algo = (Some (tsc_algorithm c), None)\<rparr>"
  let ?row = "\<lparr>ri_sharding_idx = \<lparr>si_table = Some ?i, si_database = None\<rparr>, ri_span = vm_span row\<rparr>"
  have ok: "table_sharded rule c" "tsc_sharding_count c \<noteq> 0" "table_db self tbl \<noteq> None" "length (sr_query_metas self) < 255"
    using assms(7) by (simp_all add: shardable_def)
  note simps = table_sharded_simps [OF ok(1)]
  have less: "unat ?i < unat (tsc_sharding_count c)"
    using shard_index_less [OF ok(2)] .
  have info: "insert_base_info rule = Some ?info"
    using ok(1) by (simp add: insert_base_info_def simps) (simp add: table_sharded_def)
  have ins: "change_insert H StrategyTable [row] flds ?info = Some (Inr [?row])"
    using assms(1-3) ok(2)
    by (simp add: change_insert_def find_inserts_def row_idx_def calc_database_or_table_sharding_idx_def insert_value_index)
  have target: "insert_target self rule tbl StrategyTable ?row = Some (shard_name self tbl ?i)"
    using ok(3) by (simp add: insert_target_def change_table_shard)
  obtain self' r where "table_strategy_rewrite H self meta [(q, rule, tbl)] =
      Some (self', Inr \<lparr>results = [r], agg_fields = get_agg_field1 (rm_fields meta)\<rparr>)"
    "result_text r = (table_key src (tsc_column c) ?i, take (span_start (ti_span tbl)) (sr_raw_sql self) @ shard_name self tbl ?i @
      drop (span_end (ti_span tbl)) (sr_raw_sql self))"
    using table_strategy_one [OF assms(1,4-9) refl, of H] by auto
  then show ?thesis
    using info ins target less
    by (intro exI [of _ ?i] exI [of _ ?info] exI [of _ self'] exI [of _ r]) (simp add: simps result_text_def)
qed

theorem inserted_row_found_witness:
  "\<exists>i self' r. unat i < 2 \<and>
    table_strategy_rewrite no_hash (rewriter_of [two_tables_rule] ''select a from t where id = 3'')
      ((RewriteMetaData_new [])\<lparr>rm_wheres := [(1, [WhereBinaryExpr ''id'' (RightNum ''3'')])]\<rparr>) [(1, two_tables_rule, t_at 14)] =
      Some (self', Inr \<lparr>results = [r], agg_fields = []\<rparr>) \<and>
    target_sql r = ''select a from '' @ shard_name (rewriter_of [two_tables_rule] ''select a from t where id = 3'') (t_at 14) i @
      '' where id = 3''"
proof -
  let ?self = "rewriter_of [two_tables_rule] ''select a from t where id = 3''"
  let ?w = "[WhereBinaryExpr ''id'' (RightNum ''3'')]"
  let ?m = "(RewriteMetaData_new [])\<lparr>rm_wheres := [(1, ?w)]\<rparr>"
  let ?f = "[FieldIdent \<lparr>fm_span = \<lparr>span_start = 0, span_end = 0\<rparr>, fm_name = ''id'', agg_func = AggNone\<rparr>]"
  let ?row = "\<lparr>vm_values = [\<lparr>va_span = \<lparr>span_start = 0, span_end = 0\<rparr>, va_value = ''3''\<rparr>], vm_span = \<lparr>span_start = 0, span_end = 3\<rparr>\<rparr>"
  have "parse_u64 ''3'' = Some 3" "find_insert_field_idx ?f (Some (tsc_column two_tables)) 0 = Some (Inr 0)" "row_value ?row 0 = Some ''3''"
    by (simp_all add: parse_u64_def digit_val_def two_tables_def row_value_def idx_def)
  moreover have "rm_inserts ?m = []" "rm_wheres ?m = [(1, ?w)]" "plain (clauses_of ?m) 1"
    "get_where_match_right ?w (tsc_column two_tables) = Some (RightNum ''3'')"
    by (simp_all add: RewriteMetaData_new_def plain_def clauses_of_def two_tables_def unquote_def)
  moreover from this have "shardable ?self ?m two_tables_rule two_tables (DsEndpoint node_n) [(1, two_tables_rule, t_at 14)]
      (u64_range 0 (ucast (tsc_sharding_count two_tables)))"
    by (intro two_tables_shardable) simp_all
  ultimately show ?thesis
    using inserted_row_found [of "''3''" 3 ?f two_tables 0 ?row ?m 1 ?w ?self two_tables_rule "DsEndpoint node_n" "t_at 14" no_hash]
    by (fastforce simp: t_at_def two_tables_def RewriteMetaData_new_def get_agg_field1_def)
qed

end
