(* ===== verification/ShardInsert.thy ===== *)
theory ShardInsert
  imports ShardPlans
begin

section \<open>Rows of an INSERT\<close>

text \<open>
  How the rows of an \<open>INSERT\<close> are divided among the shards: the loop that appends each row to
  the statement of its shard is compared with the rows filtered by shard.
\<close>


subsection \<open>Appending rows\<close>

lemma fold_opt_append: "fold_opt f (xs @ ys) s = do { s \<leftarrow> fold_opt f xs s; fold_opt f ys s }"
  by (induction xs arbitrary: s) (auto split: Option.bind_splits)

lemma im_append_old:
  "i \<in> set js \<Longrightarrow> distinct js \<Longrightarrow> im_append i p t (map (\<lambda>j. (j, g j)) js) = map (\<lambda>j. (j, if j = i then g j @ t else g j)) js"
  by (induction js) auto

lemma im_append_new: "i \<notin> set js \<Longrightarrow> im_append i p t (map (\<lambda>j. (j, g j)) js) = map (\<lambda>j. (j, g j)) js @ [(i, p @ t)]"
  by (induction js) auto

text \<open>The shards of the rows, in the order in which they are met, and the rows of one.\<close>

definition shards_of :: "InsertRowValueIdx list \<Rightarrow> ShardingIdx list" where
  "shards_of rows = rev (remdups (rev (map ri_sharding_idx rows)))"

definition rows_of :: "ShardingIdx \<Rightarrow> InsertRowValueIdx list \<Rightarrow> InsertRowValueIdx list" where
  "rows_of i rows = filter (\<lambda>r. ri_sharding_idx r = i) rows"

definition row_text :: "string \<Rightarrow> InsertRowValueIdx \<Rightarrow> string" where
  "row_text raw row = take (span_len (ri_span row)) (drop (span_start (ri_span row)) raw)"

lemma shards_of_simps [simp]:
  "shards_of [] = []"
  "shards_of (rows @ [r]) =
     (if ri_sharding_idx r \<in> ri_sharding_idx ` set rows then shards_of rows else shards_of rows @ [ri_sharding_idx r])"
  "set (shards_of rows) = ri_sharding_idx ` set rows" "distinct (shards_of rows)"
  by (auto simp: shards_of_def)

lemma rows_of_simps [simp]:
  "rows_of i [] = []" "rows_of i (rows @ [r]) = rows_of i rows @ (if ri_sharding_idx r = i then [r] else [])"
  by (simp_all add: rows_of_def)

lemma rows_of_empty: "i \<notin> ri_sharding_idx ` set rows \<Longrightarrow> rows_of i rows = []"
  by (auto simp: rows_of_def filter_empty_conv)

lemma fold_append_rows:
  assumes "\<And>row sqls. row \<in> set rows \<Longrightarrow> f row sqls = Some (im_append (ri_sharding_idx row) (pre (ri_sharding_idx row)) (t row) sqls)"
  shows "fold_opt f rows [] = Some (map (\<lambda>i. (i, pre i @ concat (map t (rows_of i rows)))) (shards_of rows))"
  using assms
proof (induction rows rule: rev_induct)
  case (snoc r rows)
  let ?i = "ri_sharding_idx r"
  have "fold_opt f rows [] = Some (map (\<lambda>i. (i, pre i @ concat (map t (rows_of i rows)))) (shards_of rows))"
    using snoc by simp
  moreover have "f r sqls = Some (im_append ?i (pre ?i) (t r) sqls)" for sqls
    using snoc.prems by simp
  ultimately show ?case
    by (auto simp: fold_opt_append im_append_old im_append_new rows_of_empty intro!: map_cong)
qed simp


subsection \<open>The separator\<close>

lemma strip_sep_stop: "c \<noteq> CHR '' '' \<Longrightarrow> strip_sep (c # s) = c # s"
  by (cases s) auto

lemma trim_sep_once:
  assumes "s \<noteq> []" "last s \<noteq> CHR '' ''"
  shows "trim_sep (s @ '', '') = s"
proof -
  obtain c u where "s = u @ [c]"
    using assms(1) by (metis rev_exhaust)
  then show ?thesis
    using assms(2) by (simp add: trim_sep_def strip_sep_stop)
qed

lemma concat_sep: "xs \<noteq> [] \<Longrightarrow> concat (map (\<lambda>x. x @ sep) xs) = join sep xs @ sep"
  by (induction sep xs rule: join.induct) auto

lemma last_join: "xs \<noteq> [] \<Longrightarrow> last xs \<noteq> [] \<Longrightarrow> join sep xs \<noteq> [] \<and> last (join sep xs) = last (last xs)"
  by (induction sep xs rule: join.induct) (auto simp: last_append)

lemma trim_rows:
  assumes "rs \<noteq> []" "\<forall>r\<in>set rs. t r \<noteq> [] \<and> last (t r) \<noteq> CHR '' ''"
  shows "trim_sep (p @ concat (map (\<lambda>r. t r @ '', '') rs)) = p @ join '', '' (map t rs)"
proof -
  have "concat (map (\<lambda>r. t r @ '', '') rs) = join '', '' (map t rs) @ '', ''"
    using concat_sep [of "map t rs" "'', ''"] assms(1) by (simp add: comp_def)
  moreover have "join '', '' (map t rs) \<noteq> [] \<and> last (join '', '' (map t rs)) = last (t (last rs))"
    using last_join [of "map t rs" "'', ''"] assms by (simp add: last_map)
  ultimately show ?thesis
    using trim_sep_once [of "p @ join '', '' (map t rs)"] assms by simp
qed


subsection \<open>The statements\<close>

lemma insert_results_all:
  assumes "list_all (\<lambda>(i, v). gen_data_source self rule (case si_database i of Some d \<Rightarrow> unat d | None \<Rightarrow> 0) = Some (Inr (src i))) sqls"
  shows "insert_results self rule info sqls = Some (Inr (map (\<lambda>(i, v).
    \<lparr>ds_idx = \<lparr>ds = src i, ds_shard = i, ds_column = \<lparr>sh_database = fst (mi_column info), sh_table = snd (mi_column info)\<rparr>\<rparr>,
     changes = [], target_sql = trim_sep v\<rparr>) sqls))"
  using assms by (induction sqls) auto

text \<open>What the parser gives: the name of the table comes before the rows, and the text of a row is
  within the statement and ends with its closing bracket.\<close>

definition insert_text_ok :: "string \<Rightarrow> TableIdent \<Rightarrow> InsertRowValueIdx list \<Rightarrow> bool" where
  "insert_text_ok raw tbl rows \<longleftrightarrow>
     ascii raw \<and> length raw < 2 ^ 64 \<and> rows \<noteq> [] \<and> span_start (ti_span tbl) \<le> span_end (ti_span tbl) \<and>
     span_end (ti_span tbl) \<le> span_start (ri_span (hd rows)) \<and>
     list_all (\<lambda>r. span_start (ri_span r) < span_end (ri_span r) \<and> span_end (ri_span r) \<le> length raw \<and>
       last (row_text raw r) \<noteq> CHR '' '') rows"

lemma ascii_slice:
  assumes "ascii s" "a \<le> b" "b \<le> length s"
  shows "str_slice s a b = Some (take (b - a) (drop a s))"
  using assms by (simp add: str_slice_def ascii_boundary)

lemma change_prefix:
  assumes "ascii s" "span_start sp \<le> span_end sp" "span_end sp \<le> length s" "length s < 2 ^ 64"
  shows "change_sql s sp t 0 = Some (substitute 0 [(sp, t)] s)"
proof -
  have "edit_point s 0 [] 0 s"
    by (simp add: edit_point_def)
  from replace_step(1) [OF this assms(1) _ assms(2,3), of t] show ?thesis
    using assms(4) by simp
qed

lemma insert_rows_filter:
  assumes "insert_text_ok raw tbl rows" "sr_raw_sql self = raw" "p = take (span_start (ri_span (hd rows))) raw"
    "list_all (\<lambda>r. insert_target self rule tbl typ r = Some (target (ri_sharding_idx r))) rows"
  shows "insert_rows self rule tbl typ p rows =
    Some (map (\<lambda>i. (i, substitute 0 [(ti_span tbl, target i)] p @ concat (map (\<lambda>r. row_text raw r @ '', '') (rows_of i rows)))) (shards_of rows))"
  unfolding insert_rows_def
proof (rule fold_append_rows)
  fix row sqls
  assume row: "row \<in> set rows"
  have "span_start (ri_span (hd rows)) < length raw"
    using assms(1) by (cases rows) (auto simp: insert_text_ok_def)
  then have "change_sql p (ti_span tbl) t 0 = Some (substitute 0 [(ti_span tbl, t)] p)" for t
    using assms(1,3) by (intro change_prefix) (auto simp: insert_text_ok_def)
  moreover have "str_slice raw (span_start (ri_span row)) (span_end (ri_span row)) = Some (row_text raw row)"
    using assms(1) row ascii_slice by (auto simp: insert_text_ok_def list_all_iff row_text_def span_len_def)
  moreover have "insert_target self rule tbl typ row = Some (target (ri_sharding_idx row))"
    using assms(4) row by (simp add: list_all_iff)
  ultimately show "do { target \<leftarrow> insert_target self rule tbl typ row;
            (p, t) \<leftarrow> get_change_insert_row self p target (ti_span tbl) row;
            Some (im_append (ri_sharding_idx row) p t sqls) } =
      Some (im_append (ri_sharding_idx row) (substitute 0 [(ti_span tbl, target (ri_sharding_idx row))] p) (row_text raw row @ '', '') sqls)"
    using assms(2) by (simp add: get_change_insert_row_def)
qed


text \<open>Three rows and two shards.\<close>

definition three_rows :: string where
  "three_rows = ''insert into t(id) values (1), (2), (3)''"

definition row_at :: "nat \<Rightarrow> string \<Rightarrow> InsertValsMeta" where
  "row_at i v = \<lparr>vm_values = [\<lparr>va_span = \<lparr>span_start = i + 1, span_end = i + 2\<rparr>, va_value = v\<rparr>],
     vm_span = \<lparr>span_start = i, span_end = i + 3\<rparr>\<rparr>"

definition id_column :: FieldMeta where
  "id_column = FieldIdent \<lparr>fm_span = \<lparr>span_start = 14, span_end = 16\<rparr>, fm_name = ''id'', agg_func = AggNone\<rparr>"

definition two_tables_info :: ShardingMetaBaseInfo where
  "two_tables_info = \<lparr>mi_column = (Some ''id'', None), mi_count = (Some 2, None), mi_algo = (Some Mod, None)\<rparr>"

definition row_in :: "nat \<Rightarrow> u64 \<Rightarrow> InsertRowValueIdx" where
  "row_in i k = \<lparr>ri_sharding_idx = \<lparr>si_table = Some k, si_database = None\<rparr>, ri_span = \<lparr>span_start = i, span_end = i + 3\<rparr>\<rparr>"


end
