(* ===== verification/ShardSelect.thy ===== *)
theory ShardSelect
  imports ShardPlans
begin

section \<open>Conditions and shards\<close>

text \<open>
  From the syntax tree of a \<open>SELECT\<close> with a condition to its statement: what the visitor collects
  from the condition, the shard the rewriter takes from it, and when that shard has all the rows
  that satisfy the condition.
\<close>


subsection \<open>Conditions collected from an expression\<close>

text \<open>Operators over column names and literals.\<close>

fun simple_expr :: "Expr \<Rightarrow> bool" where
  "simple_expr (BinaryOperationExpr _ _ l r) \<longleftrightarrow> simple_expr l \<and> simple_expr r"
| "simple_expr (UnaryOperationExpr _ e _) \<longleftrightarrow> simple_expr e"
| "simple_expr (SimpleIdentExpr v) \<longleftrightarrow> (case v of VIdent _ _ _ \<Rightarrow> True | _ \<Rightarrow> False)"
| "simple_expr (LiteralExpr v) \<longleftrightarrow> True"
| "simple_expr _ \<longleftrightarrow> False"

text \<open>The comparison an expression is, if it is one, and those below it: the operands of an
  operator come before what is inside them.\<close>

definition number_of :: "Expr \<Rightarrow> WhereMetaRightDataType option" where
  "number_of e = (case e of
     LiteralExpr v \<Rightarrow> (case v of VNum _ x sg \<Rightarrow> Some (if sg then RightSignedNum x else RightNum x) | _ \<Rightarrow> None)
   | _ \<Rightarrow> None)"

definition comparison :: "Op \<Rightarrow> Expr \<Rightarrow> Expr \<Rightarrow> WhereMeta list" where
  "comparison op l r = (if op = OpEQ then (case (ident_of l, number_of r) of (Some c, Some n) \<Rightarrow> [WhereBinaryExpr c n] | _ \<Rightarrow> []) else [])"

fun own_condition :: "Expr \<Rightarrow> WhereMeta list" where
  "own_condition (BinaryOperationExpr _ op l r) = comparison op l r"
| "own_condition _ = []"

fun inner_conditions :: "Expr \<Rightarrow> WhereMeta list" where
  "inner_conditions (BinaryOperationExpr _ _ l r) =
     own_condition l @ own_condition r @ inner_conditions l @ inner_conditions r"
| "inner_conditions (UnaryOperationExpr _ e _) = own_condition e @ inner_conditions e"
| "inner_conditions _ = []"

definition conditions :: "Expr \<Rightarrow> WhereMeta list" where
  "conditions e = own_condition e @ inner_conditions e"

lemma trans_binary_own: "trans_binary op l r m = fold push_where (comparison op l r) m"
  by (cases op) (simp_all add: trans_binary_def comparison_def number_of_def [symmetric] split: option.split)

lemma push_where_state [simp]: "rm_state (fold push_where ws m) = rm_state m" "rm_query_id (fold push_where ws m) = rm_query_id m"
  by (induction ws arbitrary: m) (simp_all add: push_where_def)

abbreviation in_from :: "RewriteMetaData \<Rightarrow> bool" where
  "in_from m \<equiv> rm_state m = ScanOnCond []"

lemma enter_simple:
  assumes "simple_expr e" "in_from m"
  shows "enter meta_transformer (NodeExpr e) m = Some (fold push_where (own_condition e) m)"
  using assms trans_binary_own
  by (cases e) (auto simp: enter_def meta_transformer_def trans_def trans_expr_def trans_ident_def trans_literal_def split: SqlValue.splits)

lemma enter_value: "enter meta_transformer (NodeValue v) m = Some m"
  by (simp add: enter_def meta_transformer_def trans_def)

lemma visit_value_simple: "visit_value meta_transformer v m = Some m"
  by (induction v) (simp_all add: enter_value)

lemma visit_simple: "simple_expr e \<Longrightarrow> in_from m \<Longrightarrow> visit_expr meta_transformer e m = Some (fold push_where (inner_conditions e) m)"
  by (induction e arbitrary: m rule: simple_expr.induct)
    (simp_all add: enter_simple visit_value_node_def enter_value visit_value_simple)

lemma visit_conditions:
  "simple_expr e \<Longrightarrow> in_from m \<Longrightarrow>
   visit_expr_node meta_transformer (with_visit meta_transformer e) m = Some (fold push_where (conditions e) m)"
  by (simp add: visit_expr_node_def enter_simple visit_simple conditions_def)


subsection \<open>Metadata of a SELECT\<close>

text \<open>\<open>SELECT * FROM t WHERE e\<close>, with the places of its parts.\<close>

definition select_where :: "Span \<Rightarrow> Span \<Rightarrow> SingleTable \<Rightarrow> Span \<Rightarrow> Expr \<Rightarrow> SqlStmt" where
  "select_where sp isp t wsp e =
     SelectStmt (SelectQuery (Query sp [] (Items isp [ItemWild isp]) None (Some (TableRefs [TableFactorRef (SingleTableFactor t)]))
       (Some (WhereClause wsp e)) None None None None None [] None None))"

definition select_meta :: "string \<Rightarrow> Span \<Rightarrow> Span \<Rightarrow> TableIdent \<Rightarrow> WhereMeta list \<Rightarrow> RewriteMetaData" where
  "select_meta raw sp isp tbl ws = (RewriteMetaData_new raw)
     \<lparr>rm_query_id := 1, rm_queries := [(1, \<lparr>qm_query_id = 1, qm_span = sp\<rparr>)],
      rm_field_blocks := [(1, \<lparr>fb_query_id = 1, fb_span = isp\<rparr>)], rm_tables := [(1, [tbl])], rm_state := ScanOnCond [],
      rm_wheres := (if ws = [] then [] else [(1, ws)])\<rparr>"

lemma push_where_select: "push_where w (select_meta raw sp isp tbl ws) = select_meta raw sp isp tbl (ws @ [w])"
  by (simp add: push_where_def select_meta_def RewriteMetaData_new_def)

lemma fold_push_where:
  "fold push_where ws (select_meta raw sp isp tbl ws') = select_meta raw sp isp tbl (ws' @ ws)"
  by (induction ws arbitrary: ws') (simp_all add: push_where_select)

lemma meta_enter:
  "enter meta_transformer (NodeSelectStmt s) m = Some m"
  "enter meta_transformer (NodeFromClause f) m = Some (m\<lparr>rm_state := ScanTableName\<rparr>)"
  "enter meta_transformer (NodeTableRef r) m = Some (m\<lparr>rm_state := ScanOnCond []\<rparr>)"
  "enter meta_transformer (NodeTableFactor g) m = Some m"
  "enter meta_transformer (NodeSingleTable t) m = Some (push_table (st_table_name t) m)"
  "enter meta_transformer (NodeWhereClause c) m = Some m"
  by (simp_all add: enter_def meta_transformer_def trans_def)

lemma meta_trans:
  "tr_trans meta_transformer (NodeQuery q) visit m = Some (next_query (q_span q) m, False)"
  "tr_trans meta_transformer (NodeItems i) visit m = Some (trans_items i m, False)"
  "tr_trans meta_transformer (NodeItem j) visit m = Some (m, False)"
  "tr_complete meta_transformer (NodeQuery q) m =
     Some (case rm_state m of ScanInsertRowValue args \<Rightarrow> m\<lparr>rm_state := ScanInsertRowValue []\<rparr> | _ \<Rightarrow> m)"
  by (simp_all add: meta_transformer_def trans_def complete_def split: ScanState.split)

lemma get_meta_select:
  assumes "simple_expr e"
  shows "get_meta raw (select_where sp isp t wsp e) = Some (select_meta raw sp isp (st_table_name t) (conditions e))"
proof -
  let ?T = meta_transformer and ?m = "select_meta raw sp isp (st_table_name t)"
  have "in_from (?m [])"
    by (simp add: select_meta_def)
  from visit_conditions [OF assms this]
  have cond: "visit_expr_node ?T (with_visit ?T e) (?m []) = Some (?m (conditions e))"
    by (simp add: fold_push_where)
  have start: "push_table (st_table_name t) ((trans_items (Items isp [ItemWild isp]) (next_query sp (RewriteMetaData_new raw)))
      \<lparr>rm_state := ScanOnCond []\<rparr>) = ?m []"
    by (simp add: push_table_def trans_items_def push_field_block_def next_query_def push_query_def RewriteMetaData_new_def
        select_meta_def)
  have final: "rm_state (?m ws) = ScanOnCond []" for ws
    by (simp add: select_meta_def)
  show ?thesis
    using cond
    by (simp add: get_meta_def select_where_def visit_select_node_def select_with_visit_def visit_select_query
        visit_query_def enter_complete_def enter_or_skip_def opt_act_def visit_items_def visit_table_refs_def
        visit_where_clause_def meta_enter meta_trans start final)
qed


subsection \<open>The rows that satisfy a condition\<close>

text \<open>The value of a condition on a row whose columns hold numbers; what is not a connective
  or an equation with a number has the value \<open>other\<close> gives it.\<close>

fun satisfies :: "(string \<Rightarrow> u64) \<Rightarrow> (Expr \<Rightarrow> bool) \<Rightarrow> Expr \<Rightarrow> bool" where
  "satisfies row other (BinaryOperationExpr sp op l r) = (case op of
     OpAND \<Rightarrow> satisfies row other l \<and> satisfies row other r
   | OpOR \<Rightarrow> satisfies row other l \<or> satisfies row other r
   | OpEQ \<Rightarrow>
       (case (ident_of l, number_of r) of
          (Some c, Some (RightNum v)) \<Rightarrow> parse_u64 v = Some (row (unquote c))
        | _ \<Rightarrow> other (BinaryOperationExpr sp op l r))
   | _ \<Rightarrow> other (BinaryOperationExpr sp op l r))"
| "satisfies row other (UnaryOperationExpr sp e op) =
     (if op = OpNOT then \<not> satisfies row other e else other (UnaryOperationExpr sp e op))"
| "satisfies row other e = other e"

fun atom_expr :: "Expr \<Rightarrow> bool" where
  "atom_expr (SimpleIdentExpr v) \<longleftrightarrow> (case v of VIdent _ _ _ \<Rightarrow> True | _ \<Rightarrow> False)"
| "atom_expr (LiteralExpr v) \<longleftrightarrow> True"
| "atom_expr _ \<longleftrightarrow> False"

text \<open>Comparisons joined by \<open>AND\<close>.\<close>

fun conjunctive :: "Expr \<Rightarrow> bool" where
  "conjunctive (BinaryOperationExpr _ op l r) \<longleftrightarrow>
     (if op = OpAND then conjunctive l \<and> conjunctive r else op \<noteq> OpOR \<and> atom_expr l \<and> atom_expr r)"
| "conjunctive _ \<longleftrightarrow> False"

lemma atom_simple: "atom_expr e \<Longrightarrow> simple_expr e \<and> own_condition e = [] \<and> inner_conditions e = []"
  by (cases e) simp_all

lemma conjunctive_simple: "conjunctive e \<Longrightarrow> simple_expr e"
  by (induction e rule: conjunctive.induct) (auto simp: atom_simple split: if_splits)

lemma conjunctive_conditions:
  "conjunctive e \<Longrightarrow> satisfies row other e \<Longrightarrow> WhereBinaryExpr c (RightNum v) \<in> set (conditions e) \<Longrightarrow>
   parse_u64 v = Some (row (unquote c))"
proof (induction e rule: conjunctive.induct)
  case (1 sp op l r)
  show ?case
  proof (cases "op = OpAND")
    case True
    then show ?thesis
      using 1 by (auto simp: conditions_def comparison_def)
  next
    case False
    then have "atom_expr l" "atom_expr r"
      using 1(3) by simp_all
    then have "WhereBinaryExpr c (RightNum v) \<in> set (comparison op l r)"
      using 1(5) by (simp add: conditions_def atom_simple)
    then have "op = OpEQ \<and> ident_of l = Some c \<and> number_of r = Some (RightNum v)"
      by (cases "op = OpEQ"; cases "ident_of l"; cases "number_of r") (simp_all add: comparison_def)
    then show ?thesis
      using 1(4) by simp
  qed
qed simp_all

lemma match_in_conditions:
  "get_where_match_right ws column = Some r \<Longrightarrow> \<exists>c. WhereBinaryExpr c r \<in> set ws \<and> unquote c = column"
  by (induction ws column rule: get_where_match_right.induct) (auto split: if_splits)


subsection \<open>The statement of a SELECT\<close>

definition prepared :: "ShardingRewrite \<Rightarrow> string \<Rightarrow> string option \<Rightarrow> RewriteMetaData \<Rightarrow> ShardingRewrite" where
  "prepared self raw d meta = self\<lparr>sr_raw_sql := raw, sr_default_db := d, sr_query_metas := rm_queries meta,
     sr_field_block_metas := rm_field_blocks meta, sr_change_plans := []\<rparr>"

lemma find_table_rule_plans [simp]: "find_table_rule (with_plans self m) = find_table_rule self"
proof -
  have "table_rule (with_plans self m) = table_rule self"
    by (intro ext) (simp add: table_rule_def split: option.split)
  then show ?thesis
    by (intro ext) (simp add: find_table_rule_def)
qed

text \<open>What is needed of the rules, the endpoints and the places for a \<open>SELECT\<close> on one table to be
  rewritten.\<close>

definition select_ready ::
    "ShardingRewrite \<Rightarrow> string \<Rightarrow> string option \<Rightarrow> RewriteMetaData \<Rightarrow> Sharding \<Rightarrow> TableStrategyConfig \<Rightarrow> DataSource \<Rightarrow> TableIdent \<Rightarrow> bool" where
  "select_ready self raw d meta rule c src tbl \<longleftrightarrow>
     find_table_rule (prepared self raw d meta) [(1, [tbl])] = Some [(1, rule, tbl)] \<and>
     shardable (prepared self raw d meta) meta rule c src [(1, rule, tbl)] (u64_range 0 (ucast (tsc_sharding_count c)))"

lemma select_one_shard:
  assumes "simple_expr e" "get_where_match_right (conditions e) (tsc_column c) = Some (RightNum v)" "parse_u64 v = Some x"
    "select_ready self raw d (select_meta raw sp isp (st_table_name t) (conditions e)) rule c src (st_table_name t)"
    "i = shard_index H (tsc_algorithm c) (tsc_sharding_count c) x"
  shows "\<exists>self' r. rewrite H self raw (select_where sp isp t wsp e) d = Some (self', Inr \<lparr>results = [r], agg_fields = []\<rparr>) \<and>
    ds_shard (ds_idx r) = \<lparr>si_table = Some i, si_database = None\<rparr> \<and>
    target_sql r = take (span_start (ti_span (st_table_name t))) raw @
      shard_name (self\<lparr>sr_default_db := d\<rparr>) (st_table_name t) i @ drop (span_end (ti_span (st_table_name t))) raw"
proof -
  let ?m = "select_meta raw sp isp (st_table_name t) (conditions e)" and ?tbl = "st_table_name t"
  have ws: "conditions e \<noteq> []"
    using assms(2) by auto
  have m: "rm_inserts ?m = []" "rm_wheres ?m = [(1, conditions e)]" "rm_tables ?m = [(1, [?tbl])]" "rm_fields ?m = []"
    "length (rm_queries ?m) = 1"
    using ws by (simp_all add: select_meta_def RewriteMetaData_new_def)
  have ready: "find_table_rule (prepared self raw d ?m) [(1, [?tbl])] = Some [(1, rule, ?tbl)]"
    "shardable (prepared self raw d ?m) ?m rule c src [(1, rule, ?tbl)] (u64_range 0 (ucast (tsc_sharding_count c)))"
    using assms(4) by (simp_all add: select_ready_def)
  have strategy: "database_strategy rule = None" "table_strategy rule \<noteq> None"
    using ready(2) by (simp_all add: shardable_def table_sharded_def)
  have len: "unat (1 :: u8) \<le> length (sr_query_metas (prepared self raw d ?m))"
    using m(5) by (simp add: prepared_def)
  have name: "shard_name (prepared self raw d ?m) ?tbl = shard_name (self\<lparr>sr_default_db := d\<rparr>) ?tbl"
    by (intro ext) (simp add: shard_name_def table_db_def prepared_def split: option.split)
  have "rewrite H self raw (select_where sp isp t wsp e) d = table_strategy_rewrite H (prepared self raw d ?m) ?m [(1, rule, ?tbl)]"
    using ready(1) strategy get_meta_select [OF assms(1)] find_table_rule_plans [of "[]" "self\<lparr>sr_raw_sql := raw, sr_default_db := d, sr_query_metas := rm_queries ?m,
        sr_field_block_metas := rm_field_blocks ?m\<rparr>"]
    by (simp add: rewrite_def m(3) prepared_def Let_def)
  moreover obtain self' r where "table_strategy_rewrite H (prepared self raw d ?m) ?m [(1, rule, ?tbl)] =
      Some (self', Inr \<lparr>results = [r], agg_fields = get_agg_field1 (rm_fields ?m)\<rparr>)"
    "result_text r = (table_key src (tsc_column c) i, take (span_start (ti_span ?tbl)) (sr_raw_sql (prepared self raw d ?m)) @
      shard_name (prepared self raw d ?m) ?tbl i @ drop (span_end (ti_span ?tbl)) (sr_raw_sql (prepared self raw d ?m)))"
    using table_strategy_one [OF assms(3) m(1,2) assms(2) ready(2) _ len assms(5)] by auto
  ultimately show ?thesis
    using name m(4)
    by (intro exI [of _ self'] exI [of _ r]) (simp add: result_text_def table_key_def get_agg_field1_def prepared_def)
qed

text \<open>C6.  A \<open>SELECT\<close> reaches every row it asks for: when its condition is a conjunction of
  comparisons, one of which says which number the sharding column is, it is rewritten into one
  statement, the text of the client with the table replaced by one of its shards, and every row
  that satisfies the condition is in the shard that statement is for.\<close>

theorem select_reaches_rows:
  assumes "conjunctive e" "get_where_match_right (conditions e) (tsc_column c) = Some (RightNum v)" "parse_u64 v = Some x"
    and "select_ready self raw d (select_meta raw sp isp (st_table_name t) (conditions e)) rule c src (st_table_name t)"
  shows "\<exists>i self' r. rewrite H self raw (select_where sp isp t wsp e) d = Some (self', Inr \<lparr>results = [r], agg_fields = []\<rparr>) \<and>
    ds_shard (ds_idx r) = \<lparr>si_table = Some i, si_database = None\<rparr> \<and>
    target_sql r = take (span_start (ti_span (st_table_name t))) raw @
      shard_name (self\<lparr>sr_default_db := d\<rparr>) (st_table_name t) i @ drop (span_end (ti_span (st_table_name t))) raw \<and>
    (\<forall>row other. satisfies row other e \<longrightarrow>
       shard_index H (tsc_algorithm c) (tsc_sharding_count c) (row (tsc_column c)) = i)"
proof -
  obtain k where k: "WhereBinaryExpr k (RightNum v) \<in> set (conditions e)" "unquote k = tsc_column c"
    using match_in_conditions [OF assms(2)] by auto
  have "row (tsc_column c) = x" if "satisfies row other e" for row other
    using conjunctive_conditions [OF assms(1) that k(1)] k(2) assms(3) by simp
  then show ?thesis
    using select_one_shard [OF conjunctive_simple [OF assms(1)] assms(2-4) refl, of H wsp] by fastforce
qed

text \<open>A rewriter with the rule of two shards, and a \<open>SELECT\<close> on the table.\<close>

definition two_tables_rewriter :: ShardingRewrite where
  "two_tables_rewriter = ShardingRewrite_new [two_tables_rule] [node_n] None False"

definition t_ref :: SingleTable where
  "t_ref = \<lparr>st_span = \<lparr>span_start = 14, span_end = 15\<rparr>, st_table_name = t_at 14, st_partition_names = [], st_alias_name = None,
     st_index_hints = None, st_is_parens = False\<rparr>"

abbreviation sp0 :: Span where
  "sp0 \<equiv> \<lparr>span_start = 0, span_end = 0\<rparr>"

definition id_is :: "string \<Rightarrow> Expr" where
  "id_is v = BinaryOperationExpr sp0 OpEQ (SimpleIdentExpr (VIdent sp0 ''id'' False)) (LiteralExpr (VNum sp0 v False))"

lemma two_tables_ready:
  assumes "ascii raw" "14 < length raw" "length raw < 1000"
  shows "select_ready two_tables_rewriter raw (Some ''d'') (select_meta raw sp isp (t_at 14) ws) two_tables_rule two_tables
    (DsEndpoint node_n) (t_at 14)"
proof -
  let ?m = "select_meta raw sp isp (t_at 14) ws" and ?self = "prepared two_tables_rewriter raw (Some ''d'') (select_meta raw sp isp (t_at 14) ws)"
  have "on_node_n ?self" "plain (clauses_of ?m) 1" "sr_raw_sql ?self = raw"
    by (simp_all add: on_node_n_def prepared_def two_tables_rewriter_def ShardingRewrite_new_def select_meta_def plain_def clauses_of_def
        RewriteMetaData_new_def)
  moreover have "find_table_rule ?self [(1, [t_at 14])] = Some [(1, two_tables_rule, t_at 14)]"
    by (simp add: find_table_rule_def table_rule_def prepared_def two_tables_rewriter_def ShardingRewrite_new_def two_tables_rule_def
        t_at_def node_n_def)
  ultimately show ?thesis
    using two_tables_shardable [of ?self ?m 14] assms by (simp add: select_ready_def)
qed

lemma digit_numbers: "parse_u64 ''1'' = Some 1" "parse_u64 ''2'' = Some 2"
  by (simp_all add: parse_u64_def digit_val_def)

theorem select_reaches_rows_witness:
  "\<exists>i self' r. rewrite no_hash two_tables_rewriter ''select * from t where id = 1 and a > 2''
      (select_where sp0 sp0 t_ref sp0 (BinaryOperationExpr sp0 OpAND (id_is ''1'')
        (BinaryOperationExpr sp0 OpGT (SimpleIdentExpr (VIdent sp0 ''a'' False)) (LiteralExpr (VNum sp0 ''2'' False))))) (Some ''d'') =
      Some (self', Inr \<lparr>results = [r], agg_fields = []\<rparr>) \<and>
    target_sql r = ''select * from '' @ shard_name (two_tables_rewriter\<lparr>sr_default_db := Some ''d''\<rparr>) (t_at 14) i @ '' where id = 1 and a > 2''"
proof -
  let ?raw = "''select * from t where id = 1 and a > 2''"
  let ?e = "BinaryOperationExpr sp0 OpAND (id_is ''1'')
    (BinaryOperationExpr sp0 OpGT (SimpleIdentExpr (VIdent sp0 ''a'' False)) (LiteralExpr (VNum sp0 ''2'' False)))"
  have e: "conjunctive ?e" "get_where_match_right (conditions ?e) (tsc_column two_tables) = Some (RightNum ''1'')"
    by (simp_all add: id_is_def conditions_def comparison_def ident_of_def number_of_def two_tables_def unquote_def)
  have "select_ready two_tables_rewriter ?raw (Some ''d'') (select_meta ?raw sp0 sp0 (st_table_name t_ref) (conditions ?e)) two_tables_rule
      two_tables (DsEndpoint node_n) (st_table_name t_ref)"
    using two_tables_ready [of ?raw] by (simp add: t_ref_def)
  from select_reaches_rows [OF e digit_numbers(1) this, of no_hash sp0]
  show ?thesis
    by (fastforce simp: t_ref_def t_at_def)
qed



end
