(* ===== verification/ShardLimits.thy ===== *)
theory ShardLimits
  imports ShardSelect
begin

section \<open>Statements the rewriter does not handle\<close>

text \<open>
  Where the sharding rewriter does not do what it means to: conditions on other columns with
  the strategy for databases and tables, joins of two sharded tables, values that are not
  literals, and names that are not ASCII.
\<close>


subsection \<open>Conditions on other columns\<close>

text \<open>C35.  With the strategy that shards by database and table, a statement whose conditions are all
  on other columns than the two sharding columns ends in a panic, where the strategies for
  databases and for tables send it to every shard.\<close>

theorem unrelated_condition_panics:
  assumes "database_strategy rule = None" "table_strategy rule = None" "database_table_strategy rule = Some (DatabaseTableStrategy c)"
    and "rm_inserts meta = []" "rm_wheres meta = [(q, metas)]"
    and "get_where_match_right metas (dtc_database_column c) = None" "get_where_match_right metas (dtc_table_column c) = None"
  shows "database_table_strategy_rewrite H self meta ((q, rule, tbl) # tables) = None"
proof -
  have "sharding_column rule = (Some (dtc_database_column c), Some (dtc_table_column c))"
    "\<exists>n. sharding_count rule = Some n"
    using assms(1-3) by (simp_all add: sharding_column_def sharding_count_def)
  then have "query_where H StrategyDatabaseTable ((q, rule, tbl) # tables) q metas = Some (Inr (Some (q, [None, None])))"
    using assms(6,7) by (auto simp: query_where_def where_shard_def)
  then show ?thesis
    using assms(4,5) by (simp add: database_table_strategy_rewrite_def idx_def)
qed

theorem unrelated_condition_panics_witness:
  "database_table_strategy_rewrite no_hash two_tables_rewriter
     ((RewriteMetaData_new [])\<lparr>rm_wheres := [(1, [WhereBinaryExpr ''b'' (RightNum ''1'')])]\<rparr>)
     [(1, two_tables_rule\<lparr>table_strategy := None, database_table_strategy := Some (DatabaseTableStrategy
        \<lparr>dtc_database_algorithm = Mod, dtc_database_column = ''id'', dtc_table_algorithm = Mod, dtc_table_column = ''id'',
         dtc_sharding_count = 2\<rparr>)\<rparr>, t_at 14)] = None"
  by (rule unrelated_condition_panics [where c = "\<lparr>dtc_database_algorithm = Mod, dtc_database_column = ''id'', dtc_table_algorithm = Mod,
        dtc_table_column = ''id'', dtc_sharding_count = 2\<rparr>" and metas = "[WhereBinaryExpr ''b'' (RightNum ''1'')]"])
    (simp_all add: two_tables_rule_def RewriteMetaData_new_def unquote_def)


subsection \<open>Two sharded tables\<close>




subsection \<open>Values of a row\<close>

text \<open>\<open>INSERT INTO t(columns) VALUES (values)\<close>.\<close>

definition insert_one :: "TableIdent \<Rightarrow> SqlValue list \<Rightarrow> Span \<Rightarrow> Expr list \<Rightarrow> SqlStmt" where
  "insert_one tbl cols rsp es = InsertStmt
     \<lparr>in_span = sp0, in_lock = InsertLockNone, in_ignore = False, in_into = True, in_table_name = tbl, in_partition_names = [],
      in_is_set = False,
      in_from_construct = Some \<lparr>if_span = sp0, if_values = \<lparr>iv_span = sp0, iv_val_ident = ValuesWord,
          iv_values = [\<lparr>rv_span = rsp, rv_values = es\<rparr>]\<rparr>, if_is_parens = True, if_fields = map InsertIdentValue cols\<rparr>,
      in_values_ref = None, in_ins_updates = None, in_updates = [], in_query_expr = None\<rparr>"

lemma insert_enter:
  "enter meta_transformer (NodeInsertStmt i) m = Some (push_table (in_table_name i) m)"
  "enter meta_transformer (NodeInsertFromConstruct f) m = Some m"
  "enter meta_transformer (NodeInsertVals vs) m = Some m"
  "enter meta_transformer (NodeRowValue r) m =
     Some (case rm_state m of ScanInsertRowValue _ \<Rightarrow> m | _ \<Rightarrow> m\<lparr>rm_state := ScanInsertRowValue []\<rparr>)"
  "enter meta_transformer (NodeInsertIdent c) m = Some (trans_insert_ident c m)"
  "enter meta_transformer (NodeExpr e) m = Some (trans_expr e m)"
  by (simp_all add: enter_def meta_transformer_def trans_def)

lemma insert_complete:
  "tr_complete meta_transformer (NodeRowValue r) m = complete (NodeRowValue r) m"
  by (simp add: meta_transformer_def)

lemmas insert_visit = get_meta_def insert_one_def visit_insert_stmt_def opt_act_def visit_insert_from_construct_def visit_insert_vals_def
  visit_row_value_def visit_expr_node_def visit_value_node_def visit_value_simple enter_value visit_insert_idents_def visit_update_elems_def
  insert_enter insert_complete



text \<open>A value such as \<open>NULL\<close> is not collected at all, so the row is too short.\<close>

lemma null_value_panics:
  "do { meta \<leftarrow> get_meta raw (insert_one tbl [VIdent s1 ''a'' False, VIdent s2 ''id'' False] rsp [LiteralExpr VNull, LiteralExpr (VNum s6 w False)]);
        rows \<leftarrow> map_of (rm_inserts meta) 0; flds \<leftarrow> map_of (rm_fields meta) 0;
        change_insert H StrategyTable rows flds \<lparr>mi_column = (Some ''id'', None), mi_count = (Some 2, None), mi_algo = (Some Mod, None)\<rparr> } = None"
  by (simp add: insert_visit RewriteMetaData_new_def push_table_def trans_expr_def trans_literal_def complete_def
      push_insert_value_def trans_insert_ident_def push_field_def change_insert_def find_inserts_def row_value_def idx_def)


subsection \<open>Places in the text\<close>

lemma remove_times_add: "remove_times (m + n) s i = do { s \<leftarrow> remove_times m s i; remove_times n s i }"
  by (induction m arbitrary: s) (auto split: Option.bind_splits)

text \<open>A table name with a character of two bytes loses the character after it: the length of
  the name is counted in bytes and removed in characters.\<close>

lemma multibyte_name_eats:
  assumes "ascii m" "ascii s" "192 \<le> (of_char a :: nat)" "(of_char a :: nat) < 224" "cont_char b" "(of_char c :: nat) < 128"
    and "span_start sp = length p" "span_len sp = length m + 2" "length p < 2 ^ 64"
  shows "change_sql (p @ m @ a # b # c # s) sp target 0 = Some (p @ target @ s)"
proof -
  have "str_remove (p @ a # b # c # s) (length p) = Some (p @ c # s)"
    using assms(3,4) by (simp add: str_remove_def char_boundary_def cont_char_def char_len_def)
  then have "remove_times 2 (p @ a # b # c # s) (length p) = Some (p @ s)"
    using str_remove_ascii [OF assms(6), of p s] by (simp add: numeral_2_eq_2)
  then have "remove_times (length m + 2) (p @ m @ a # b # c # s) (length p) = Some (p @ s)"
    using remove_times_ascii [OF assms(1), of p "a # b # c # s"] by (simp only: remove_times_add) simp
  moreover have "unat (of_nat (span_start sp) :: u64) = length p"
    using assms(7,9) by (simp add: unat_of_nat take_bit_nat_eq_self)
  ultimately show ?thesis
    using insert_str_ascii [OF assms(2), of p target] by (simp only: change_sql_def Let_def assms(8) add_0_right) simp
qed

lemma multibyte_name_eats_witness:
  "change_sql (''select a from t'' @ [CHR 0xC3, CHR 0xA9] @ '', u'') \<lparr>span_start = 14, span_end = 17\<rparr> ''x'' 0 = Some ''select a from x u''"
  using multibyte_name_eats [of "''t''" "'' u''" "CHR 0xC3" "CHR 0xA9" "CHR '',''" "\<lparr>span_start = 14, span_end = 17\<rparr>" "''select a from ''" "''x''"]
  by (simp add: cont_char_def span_len_def)


end
