(* ===== verification/ShardSession.thy ===== *)
theory ShardSession
  imports ShardSelect Relay
begin

section \<open>Sharding in a session\<close>

text \<open>
  The session's classification of a statement, \<open>query_rewrite\<close> of the server and of
  \<open>transaction_fsm.rs\<close>, together with the rewriter: the parameter \<open>env_rewrite\<close> of a session is
  the model of \<open>ShardingRewrite::rewrite\<close>, with its errors as texts.
\<close>

definition sharding_env ::
    "'f hash_ops \<Rightarrow> (ShardingRewriteError \<Rightarrow> string) \<Rightarrow> ('w, 'k, 'q, 'x, 'r, 'l, ShardingRewrite) env \<Rightarrow>
     ('w, 'k, 'q, 'x, 'r, 'l, ShardingRewrite) env" where
  "sharding_env H err E = E\<lparr>env_rewrite := (\<lambda>rw raw_sql ast default_db.
       map_option (map_prod id (map_sum err id)) (rewrite H rw raw_sql ast default_db)), env_endpoints := sr_endpoints\<rparr>"

text \<open>A statement the parser accepts and the cache does not have.\<close>

definition parsed ::
    "('w, 'k, 'q, 'x, 'r, 'l, 's) env \<Rightarrow> ('q, 'x, 'r, 'l, 's) ReqContext \<Rightarrow> string \<Rightarrow> SqlStmt \<Rightarrow> bool" where
  "parsed E cx sql ast \<longleftrightarrow> snd (env_lru_get E (ast_cache cx) sql) = None \<and> env_parse E sql = Inr [ast]"

fun data_stmt :: "SqlStmt \<Rightarrow> bool" where
  "data_stmt (SelectStmt _) \<longleftrightarrow> True"
| "data_stmt (InsertStmt _) \<longleftrightarrow> True"
| "data_stmt (UpdateStmt _) \<longleftrightarrow> True"
| "data_stmt (DeleteStmt _) \<longleftrightarrow> True"
| "data_stmt _ \<longleftrightarrow> False"

lemma query_rewrite_data:
  assumes "parsed E cx sql ast" "data_stmt ast" "rewriter cx = Some rw"
    "rewrite H rw sql ast (get_db (get_session cx)) = Some (rw', Inr out)"
    "out' = (if results out \<noteq> [] then out
       else \<lparr>results = map (\<lambda>ep. \<lparr>ds_idx = \<lparr>ds = DsEndpoint ep, ds_shard = \<lparr>si_table = None, si_database = None\<rparr>,
              ds_column = \<lparr>sh_database = None, sh_table = None\<rparr>\<rparr>, changes = [], target_sql = sql\<rparr>) (sr_endpoints rw'),
            agg_fields = []\<rparr>)"
  shows "\<exists>cx' b. query_rewrite (sharding_env H err E) cx sql = Some (cx', Inr (b, StatementTyp, out')) \<and> rewriter cx' = Some rw'"
proof -
  obtain l where "env_lru_get E (ast_cache cx) sql = (l, None)" "env_parse E sql = Inr [ast]"
    using assms(1) by (cases "env_lru_get E (ast_cache cx) sql") (auto simp: parsed_def)
  then show ?thesis
    using assms(2-5)
    by (cases ast)
      (auto simp: query_rewrite_def get_ast_def sharding_env_def fsm_query_rewrite_def fsm_trigger_event_def Let_def get_session_def
        split: prod.split)
qed


text \<open>An example: a session on the database \<open>d\<close> with the rule for the table \<open>t\<close>, and a statement on
  the table \<open>u\<close>.\<close>

definition sharding_example_env ::
    "SqlStmt \<Rightarrow> (bytes list, unit, ClientConn list \<times> nat, string, unit, unit, ShardingRewrite) env" where
  "sharding_example_env ast =
     \<lparr>env_crypto = plain_crypto,
      env_backend = \<lparr>dial = (\<lambda>_ w. (Inl ''refused'', w)), exch = (\<lambda>sk out w. (Inr ([], False), w)), ready = (\<lambda>_ _. True)\<rparr>,
      env_client = (\<lambda>_ out w. (Inr ([], False), w @ [out])), env_queue = list_queue, env_regex = prefix_regex,
      env_gen = (\<lambda>_ _. (0, ())), env_seeds = (\<lambda>_ _. ()), env_parse = (\<lambda>_. Inr [ast]),
      env_lru_get = (\<lambda>l _. (l, None)), env_lru_put = (\<lambda>l _ _. l),
      env_rewrite = (\<lambda>s _ _ _. Some (s, Inr no_outputs)), env_endpoints = (\<lambda>_. []), env_lossy = id\<rparr>"

definition sharding_example_cx :: "ShardingRewrite \<Rightarrow> (ClientConn list \<times> nat, string, unit, unit, ShardingRewrite) ReqContext" where
  "sharding_example_cx rw =
     ReqContext_new NoStrategy idle_pool () None (Some rw)
       (fst (ServerHandshakeCodec_new 0 (replicate 20 0) ''u'' ''p'' ''d'' ''5.7.37'')) 9 [] False"


end
