(* ===== verification/Lexer.thy ===== *)
theory Lexer
  imports Keywords Strings
begin

section \<open>The lexer\<close>

text \<open>
  \<open>Scanner\<close> of \<open>parser/mysql/src/lex.rs\<close>, which turns the text of a statement into lexemes for
  the generated parser.  It looks at the bytes of the text as characters, so a character of the
  model is a byte, and a byte of 128 or more is the Latin-1 character with its number.  Behind
  the end of the text \<open>peek\<close> gives the replacement character.

  A position is an integer: the code steps back from a position before it returns to the loop,
  which steps forward, and at position 0 the two cancel out.  A panic is \<open>None\<close>.  The loop of
  \<open>scan_lex_token\<close> need not end and takes fuel; running out of it is told apart from a panic.
  The constructor \<open>Span::new\<close> of \<open>lrpar\<close>, which refuses a span that ends before it starts, is the
  parameter \<open>span_new\<close>.  The upper case is that of the branch for processors with SSE2, and the
  code for unit tests (\<open>cfg(test)\<close>) is left out.
\<close>


unbundle bit_operations_syntax


subsection \<open>Characters\<close>

definition cp :: "char \<Rightarrow> nat" where
  "cp c = of_char c"

text \<open>\<open>char::is_whitespace\<close>, \<open>is_numeric\<close>, \<open>is_alphanumeric\<close> and \<open>is_control\<close> on these characters.\<close>

definition is_whitespace :: "nat \<Rightarrow> bool" where
  "is_whitespace c \<longleftrightarrow> 9 \<le> c \<and> c \<le> 13 \<or> c = 32 \<or> c = 133 \<or> c = 160"

definition is_numeric :: "nat \<Rightarrow> bool" where
  "is_numeric c \<longleftrightarrow> 48 \<le> c \<and> c \<le> 57 \<or> c \<in> {178, 179, 185, 188, 189, 190}"

definition is_alphanumeric :: "nat \<Rightarrow> bool" where
  "is_alphanumeric c \<longleftrightarrow> is_numeric c \<or> 65 \<le> c \<and> c \<le> 90 \<or> 97 \<le> c \<and> c \<le> 122 \<or> c \<in> {170, 181, 186} \<or>
     192 \<le> c \<and> c \<le> 255 \<and> c \<noteq> 215 \<and> c \<noteq> 247"

definition is_control :: "nat \<Rightarrow> bool" where
  "is_control c \<longleftrightarrow> c \<le> 31 \<or> 127 \<le> c \<and> c \<le> 159"

definition len_utf8 :: "nat \<Rightarrow> nat" where
  "len_utf8 c = (if c < 128 then 1 else 2)"

definition is_ident_char :: "nat \<Rightarrow> bool" where
  "is_ident_char c \<longleftrightarrow> is_alphanumeric c \<or> 128 \<le> c \<and> c \<le> 65535 \<or> c \<in> {95, 36, 9}"

definition is_hex :: "nat \<Rightarrow> bool" where
  "is_hex c \<longleftrightarrow> 48 \<le> c \<and> c \<le> 57 \<or> 97 \<le> c \<and> c \<le> 102 \<or> 65 \<le> c \<and> c \<le> 70"

definition is_oct :: "nat \<Rightarrow> bool" where
  "is_oct c \<longleftrightarrow> 48 \<le> c \<and> c \<le> 55"

definition is_bit :: "nat \<Rightarrow> bool" where
  "is_bit c \<longleftrightarrow> c = 48 \<or> c = 49"


subsection \<open>Upper case\<close>

text \<open>The vector instructions work on sixteen bytes at a time, comparing them as signed bytes.  A
  store that goes beyond the buffer is undefined behaviour, here \<open>None\<close>.\<close>

definition upper_lane :: "u8 \<Rightarrow> u8" where
  "upper_lane c = (let is_not_case = (96 <s c \<and> c <s 123) in c XOR (if is_not_case then 32 else 0))"

definition store16 :: "bytes \<Rightarrow> nat \<Rightarrow> bytes \<Rightarrow> bytes option" where
  "store16 dst i lanes = (if i + 16 \<le> length dst then Some (take i dst @ lanes @ drop (i + 16) dst) else None)"

function to_upper_from :: "bytes \<Rightarrow> nat \<Rightarrow> bytes \<Rightarrow> bytes option" where
  "to_upper_from src i dst =
     (if length src < 16 then
        (if src = [] then Some dst
         else store16 dst i (map upper_lane (src @ replicate (16 - length src) 0)))
      else do { dst \<leftarrow> store16 dst i (map upper_lane (take 16 src)); to_upper_from (drop 16 src) (i + 16) dst })"
  by pat_completeness auto
termination
  by (relation "measure (\<lambda>(src, i, dst). length src)") auto

declare to_upper_from.simps [simp del]

definition to_upper :: "bytes \<Rightarrow> bytes \<Rightarrow> bytes option" where
  "to_upper src dst = to_upper_from src 0 dst"


subsection \<open>Scanner\<close>

record Scanner =
  sc_text :: string
  sc_pos :: int
  is_comment_executable :: bool
  is_ident_dot :: bool

definition Scanner_new :: "string \<Rightarrow> Scanner" where
  "Scanner_new input = \<lparr>sc_text = input, sc_pos = 0, is_comment_executable = False, is_ident_dot = False\<rparr>"

definition is_eof :: "Scanner \<Rightarrow> bool" where
  "is_eof s \<longleftrightarrow> int (length (sc_text s)) \<le> sc_pos s"

definition peek :: "Scanner \<Rightarrow> nat" where
  "peek s = (if is_eof s then 65533 else cp (sc_text s ! nat (sc_pos s)))"

definition next_n :: "int \<Rightarrow> Scanner \<Rightarrow> Scanner" where
  "next_n n s = s\<lparr>sc_pos := sc_pos s + n\<rparr>"

abbreviation next_char :: "Scanner \<Rightarrow> Scanner" where
  "next_char \<equiv> next_n 1"

abbreviation back_char :: "Scanner \<Rightarrow> Scanner" where
  "back_char \<equiv> next_n (- 1)"

definition rest_of :: "Scanner \<Rightarrow> string" where
  "rest_of s = drop (nat (sc_pos s)) (sc_text s)"

definition skip_whitespace :: "Scanner \<Rightarrow> Scanner" where
  "skip_whitespace s =
     next_n (int (sum_list (map (\<lambda>c. len_utf8 (cp c)) (takeWhile (\<lambda>c. is_whitespace (cp c)) (rest_of s))))) s"

text \<open>\<open>scan_until\<close> with a condition on the current character.\<close>

definition scan_until :: "bool \<Rightarrow> (nat \<Rightarrow> bool) \<Rightarrow> Scanner \<Rightarrow> Scanner" where
  "scan_until is_eat_first match_fn s =
     (let s = (if is_eat_first then next_char s else s)
      in next_n (int (length (takeWhile (\<lambda>c. \<not> match_fn (cp c)) (rest_of s)))) s)"

datatype LexItem = Lexeme string int int | LexError "int \<times> int"

type_synonym span_fn = "int \<Rightarrow> int \<Rightarrow> (int \<times> int) option"

definition lex_error :: "span_fn \<Rightarrow> int \<Rightarrow> int \<Rightarrow> LexItem option" where
  "lex_error span_new start_pos end_pos = map_option LexError (span_new start_pos end_pos)"


subsection \<open>Identifiers\<close>

definition CHARSETS :: "string list" where
  "CHARSETS = [''_ASCII'', ''_UCS2'', ''_UTF8'', ''_UTF8MB4'', ''_UTF16'', ''_UTF16LE'', ''_UTF32'', ''_BINARY'', ''_LATIN1'',
     ''_LATIN2'', ''_GB2312'', ''_GB18030'']"

definition check_ident_return :: "string \<Rightarrow> int \<Rightarrow> string \<times> int" where
  "check_ident_return ident_str len =
     (if take 1 ident_str = ''_'' \<and> ident_str \<in> set CHARSETS then (''T_UNDERSCORE_CHARSET'', len)
      else (case keyword_of ident_str of None \<Rightarrow> (''T_IDENT'', len) | Some (tok, sz) \<Rightarrow> (tok, int sz)))"

definition upper_ident :: "string \<Rightarrow> string option" where
  "upper_ident s = do { dst \<leftarrow> to_upper (str_bytes s) (replicate 512 0);
                        if length s \<le> 512 then Some (bytes_str (take (length s) dst)) else None }"

text \<open>The characters \<open>scan_ident\<close> goes over.\<close>

definition scan_ident_char :: "nat \<Rightarrow> bool" where
  "scan_ident_char c \<longleftrightarrow> is_alphanumeric c \<or> 128 \<le> c \<and> c \<le> 65535 \<or> c \<in> {95, 36, 92, 9}"

text \<open>The token and the length of the lexeme, which starts where the scanner was.\<close>

definition scan_ident :: "Scanner \<Rightarrow> (Scanner \<times> string \<times> int) option" where
  "scan_ident s0 =
     (let s = scan_until False (\<lambda>c. \<not> scan_ident_char c) s0;
          len = sc_pos s - sc_pos s0
      in if is_ident_dot s then Some (back_char (s\<lparr>is_ident_dot := peek s = 46\<rparr>), ''T_IDENT'', len)
         else do {
           let s = s\<lparr>is_ident_dot := (if peek s = 46 then peek (next_char s) \<noteq> 96 else False)\<rparr>;
           ident \<leftarrow> str_slice (sc_text s) (nat (sc_pos s0)) (nat (sc_pos s));
           ident_str \<leftarrow> upper_ident ident;
           let (tok, sz) = check_ident_return ident_str len;
           Some (back_char s, tok, sz) })"

definition scan_ident_tok :: "Scanner \<Rightarrow> (Scanner \<times> string) option" where
  "scan_ident_tok s = map_option (\<lambda>(s, tok, _). (s, tok)) (scan_ident s)"


subsection \<open>Strings\<close>

text \<open>The loops of \<open>scan_str\<close> and \<open>scan_backquote_str\<close> on what is left of the text, with the position:
  a doubled quote does not end a string, and neither does one after a backslash.\<close>

fun scan_str_from :: "char \<Rightarrow> string \<Rightarrow> int \<Rightarrow> int \<times> bool" where
  "scan_str_from end_char [] p = (p, False)"
| "scan_str_from end_char [c] p = (if c = end_char then (p, True) else (p + 1, False))"
| "scan_str_from end_char (c # d # cs) p =
     (if c = end_char then (if d \<noteq> end_char then (p, True) else scan_str_from end_char cs (p + 2))
      else if c = CHR 0x5C then
        (if cs = [] then scan_str_from end_char [d] (p + 1) else scan_str_from end_char cs (p + 2))
      else scan_str_from end_char (d # cs) (p + 1))"

definition scan_str :: "Scanner \<Rightarrow> Scanner \<times> bool" where
  "scan_str s =
     (let end_char = sc_text s ! nat (sc_pos s);
          s = next_char s;
          (p, closed) = scan_str_from end_char (rest_of s) (sc_pos s)
      in (s\<lparr>sc_pos := p\<rparr>, closed))"

fun scan_backquote_from :: "string \<Rightarrow> int \<Rightarrow> int" where
  "scan_backquote_from [] p = p"
| "scan_backquote_from [c] p = (if c = CHR ''`'' then p else p + 1)"
| "scan_backquote_from (c # d # cs) p =
     (if c = CHR ''`'' then (if d \<noteq> CHR ''`'' then p else scan_backquote_from cs (p + 2))
      else scan_backquote_from (d # cs) (p + 1))"

definition scan_backquote_str :: "Scanner \<Rightarrow> Scanner" where
  "scan_backquote_str s = (let s = next_char s in s\<lparr>sc_pos := scan_backquote_from (rest_of s) (sc_pos s)\<rparr>)"


subsection \<open>Numbers\<close>

definition scan_bin :: "Scanner \<Rightarrow> (Scanner \<times> string) option" where
  "scan_bin s =
     (let s = next_char s
      in if peek s = 39 then Some (scan_until True (\<lambda>c. c = 39) s, ''T_BIN_NUM'') else scan_ident_tok (back_char s))"

definition scan_hex :: "Scanner \<Rightarrow> (Scanner \<times> string) option" where
  "scan_hex s =
     (let s = next_char s
      in if peek s = 39 then Some (scan_until True (\<lambda>c. c = 39) s, ''T_HEX_NUM'') else scan_ident_tok (back_char s))"

text \<open>The part of \<open>scan_start_number\<close> after a leading zero, \<open>None\<close> when it goes on as for any
  other number.\<close>

definition scan_zero :: "Scanner \<Rightarrow> (Scanner \<times> string) option option" where
  "scan_zero s0 =
     (let s = next_char s0; ch1 = peek s
      in if is_oct ch1 then None
         else if ch1 = 120 \<or> ch1 = 88 then
           (let s1 = next_char s; s2 = scan_until False (\<lambda>c. \<not> is_hex c) s1
            in Some (Some (back_char s2, if sc_pos s2 = sc_pos s1 then ''T_IDENT'' else ''T_HEX_NUM'')))
         else if ch1 = 98 then
           (let s1 = next_char s
            in if is_whitespace (peek s1) then Some (scan_ident_tok s0)
               else let s2 = scan_until False (\<lambda>c. \<not> is_bit c) s1
                    in if sc_pos s2 = sc_pos s1 \<or> is_numeric (peek s2) then Some (scan_ident_tok s0)
                       else Some (Some (back_char s2, ''T_BIN_NUM'')))
         else if ch1 = 66 then Some (scan_ident_tok s)
         else None)"

definition scan_exponent :: "Scanner \<Rightarrow> Scanner \<Rightarrow> (Scanner \<times> string) option" where
  "scan_exponent s0 s =
     (let s = next_char s;
          s = (if peek s = 45 \<or> peek s = 43 then next_char s else s)
      in if is_numeric (peek s) then Some (back_char (scan_until True (\<lambda>c. \<not> is_numeric c) s), ''T_FLOAT_NUM'')
         else scan_ident_tok s0)"

definition scan_decimal :: "Scanner \<Rightarrow> (Scanner \<times> string) option" where
  "scan_decimal s0 =
     (let s = scan_until True (\<lambda>c. \<not> is_numeric c) s0;
          s = (if peek s = 46 then scan_until True (\<lambda>c. \<not> is_numeric c) s else s)
      in if peek s = 101 \<or> peek s = 69 then scan_exponent s0 s
         else let s = scan_until False (\<lambda>c. \<not> is_numeric c) s
              in if is_eof s then Some (back_char s, ''T_NUM'')
                 else if is_ident_char (peek s) then scan_ident_tok s0
                 else Some (back_char s, ''T_NUM''))"

definition scan_start_number :: "Scanner \<Rightarrow> (Scanner \<times> string) option" where
  "scan_start_number s =
     (if is_ident_dot s then scan_ident_tok s
      else case (if peek s = 48 then scan_zero s else None) of
             Some r \<Rightarrow> r
           | None \<Rightarrow> scan_decimal s)"

definition scan_start_dot :: "Scanner \<Rightarrow> (Scanner \<times> string) option" where
  "scan_start_dot s =
     (if is_ident_dot s then Some (s, ''T_DOT'')
      else if is_numeric (peek (next_char s)) then scan_start_number s
      else Some (s, ''T_DOT''))"

definition scan_start_gt :: "Scanner \<Rightarrow> Scanner \<times> string" where
  "scan_start_gt s =
     (let s = next_char s
      in if peek s = 62 then (s, ''T_SHIFT_RIGHT'') else if peek s = 61 then (s, ''T_GE'') else (back_char s, ''T_GT''))"

text \<open>\<open><\<close> and what follows it.\<close>

definition scan_start_lt :: "span_fn \<Rightarrow> Scanner \<Rightarrow> (Scanner \<times> LexItem) option" where
  "scan_start_lt span_new s0 =
     (let s = scan_until True (\<lambda>c. c \<notin> {61, 62, 60}) s0;
          p = sc_pos s0;
          ch = take (nat (sc_pos s - p)) (rest_of s0);
          item = (if ch = ''<'' then Some (Lexeme ''T_LT'' p 1)
                  else if ch = ''<='' then Some (Lexeme ''T_LE'' p 2)
                  else if ch = ''<<'' then Some (Lexeme ''T_SHIFT_LEFT'' p 2)
                  else if ch = ''<>'' then Some (Lexeme ''T_NE'' p 2)
                  else if ch = ''<=>'' then Some (Lexeme ''T_EQ'' p 3)
                  else lex_error span_new p (sc_pos s - p))
      in map_option (Pair (back_char s)) item)"


subsection \<open>Variables\<close>

definition is_user_var_char :: "nat \<Rightarrow> bool" where
  "is_user_var_char c \<longleftrightarrow> is_alphanumeric c \<or> c = 95 \<or> c = 36 \<or> 128 \<le> c"

definition lower_char :: "char \<Rightarrow> char" where
  "lower_char c = (if 65 \<le> cp c \<and> cp c \<le> 90 then char_of (cp c + 32) else c)"

definition scan_at_scope :: "Scanner \<Rightarrow> Scanner \<times> LexItem list" where
  "scan_at_scope s =
     (let at = Lexeme ''T_AT'' (sc_pos s) 1;
          s = next_char s;
          var_key = map lower_char (rest_of s)
      in if take 7 var_key = ''global.'' then (next_n 6 s, [at, Lexeme ''T_GLOBAL'' (sc_pos s) 6])
         else if take 8 var_key = ''session.'' then (next_n 7 s, [at, Lexeme ''T_GLOBAL'' (sc_pos s) 7])
         else (s, [at]))"

definition scan_start_at :: "span_fn \<Rightarrow> Scanner \<Rightarrow> (Scanner \<times> LexItem list) option" where
  "scan_start_at span_new s =
     (let first = Lexeme ''T_AT'' (sc_pos s) 1;
          s = next_char s;
          (s, scope) = (if peek s = 64 then scan_at_scope s else (s, []));
          ch = peek s; p = sc_pos s;
          (s, item) =
            (if ch = 39 \<or> ch = 34 then let (s, _) = scan_str s in (s, Some (Lexeme ''T_TEXT_STRING'' p (sc_pos s - p + 1)))
             else if ch = 96 then
               let s = scan_backquote_str s
               in (s\<lparr>is_ident_dot := False\<rparr>, Some (Lexeme ''T_IDENT_QUOTED'' p (sc_pos s - p + 1)))
             else if ch = 46 then (s, Some (Lexeme ''T_DOT'' p 1))
             else if is_user_var_char ch then
               let s = scan_until False (\<lambda>c. \<not> is_user_var_char c) s in (back_char s, Some (Lexeme ''T_IDENT'' p (sc_pos s - p)))
             else (s, lex_error span_new p p))
      in map_option (\<lambda>item. (s, first # scope @ [item])) item)"


subsection \<open>Comments and the loop\<close>

text \<open>What the loop does after a token: step to the next character, go on where the scanner is, go
  on as a new scan whose lexemes are appended (a line comment with dashes, an executable
  comment), or go on as a new scan whose lexemes are the result (a comment with a sharp).\<close>

datatype scan_flow = NextChar | Stay | AfterDashes | Executable | AfterSharp

text \<open>The end of a comment: the scan stops at a slash behind an asterisk.\<close>

fun comment_end :: "char \<Rightarrow> string \<Rightarrow> nat" where
  "comment_end prev [] = 0"
| "comment_end prev (c # cs) = (if prev = CHR ''*'' \<and> c = CHR ''/'' then 0 else Suc (comment_end c cs))"

definition scan_start_slash :: "span_fn \<Rightarrow> Scanner \<Rightarrow> (Scanner \<times> LexItem list \<times> scan_flow) option" where
  "scan_start_slash span_new s0 =
     (if is_comment_executable s0 then Some (s0\<lparr>is_comment_executable := False\<rparr>, [], NextChar)
      else let s = next_char s0
           in if peek s \<noteq> 42 then Some (back_char s, [Lexeme ''T_SLASH'' (sc_pos s0) 1], NextChar)
              else let s = next_char s
                   in if is_eof s then map_option (\<lambda>e. (s, [e], NextChar)) (lex_error span_new (sc_pos s0) (sc_pos s))
                      else if peek s = 33 then Some (next_char (s\<lparr>is_comment_executable := True\<rparr>), [], Executable)
                      else let s = next_char s
                           in if is_eof s then map_option (\<lambda>e. (s, [e], NextChar)) (lex_error span_new (sc_pos s0) (sc_pos s))
                              else Some (next_n (int (comment_end (sc_text s ! nat (sc_pos s - 1)) (rest_of s))) s, [], NextChar))"

definition scan_start_dash :: "Scanner \<Rightarrow> Scanner \<times> LexItem list \<times> scan_flow" where
  "scan_start_dash s0 =
     (let s = next_char s0;
          dashes = (peek s = 45);
          s = (if dashes then next_char s else s)
      in if dashes \<and> is_eof s then (s, [], NextChar)
         else if dashes \<and> (is_control (peek s) \<or> is_whitespace (peek s)) then
           (next_char (if peek s \<noteq> 10 then scan_until True (\<lambda>c. c = 10) s else s), [], AfterDashes)
         else if peek s = 62 then
           (let s = next_char s
            in if \<not> is_eof s \<and> peek s = 62 then (s, [Lexeme ''T_JSON_UNQUOTED_SEPARATOR'' (sc_pos s0) 3], NextChar)
               else (back_char s, [Lexeme ''T_JSON_SEPARATOR'' (sc_pos s0) 2], NextChar))
         else (s0, [Lexeme ''T_DASH'' (sc_pos s0) 1], NextChar))"

text \<open>Characters that are a token by themselves.\<close>

definition single_char :: "(nat \<times> string) list" where
  "single_char = [(43, ''T_PLUS''), (37, ''T_PERCENT''), (44, ''T_COMMA''), (59, ''T_SEMICOLON''), (40, ''T_LPAREN''), (41, ''T_RPAREN''),
     (91, ''T_LBRACE''), (93, ''T_RBRACE''), (123, ''T_LBRACE''), (125, ''T_RBRACE''), (63, ''T_PARAM_MARKER''), (61, ''T_EQ''),
     (94, ''T_XOR_OP''), (126, ''T_NEG'')]"

text \<open>The branches of the loop; the lexeme of a token goes from where it started to where the scanner
  ended.\<close>

definition spanning :: "int \<Rightarrow> Scanner \<times> string \<Rightarrow> Scanner \<times> LexItem list \<times> scan_flow" where
  "spanning p r = (fst r, [Lexeme (snd r) p (sc_pos (fst r) - p + 1)], NextChar)"

text \<open>\<open>&&\<close> and \<open>||\<close>, or one of them.\<close>

definition scan_double :: "nat \<Rightarrow> string \<Rightarrow> string \<Rightarrow> Scanner \<Rightarrow> Scanner \<times> LexItem list \<times> scan_flow" where
  "scan_double c two one s =
     (let s1 = next_char s
      in if peek s1 = c then (s1, [Lexeme two (sc_pos s) 2], NextChar) else (s1, [Lexeme one (sc_pos s) 1], Stay))"

definition scan_token :: "span_fn \<Rightarrow> Scanner \<Rightarrow> (Scanner \<times> LexItem list \<times> scan_flow) option" where
  "scan_token span_new s =
     (let c = peek s; p = sc_pos s
      in if c = 39 \<or> c = 34 then
           (let (s, closed) = scan_str s
            in if closed then Some (s, [Lexeme ''T_TEXT_STRING'' p (sc_pos s - p + 1)], NextChar)
               else map_option (\<lambda>e. (s, [e], NextChar)) (lex_error span_new p (sc_pos s)))
         else if c = 96 then Some (spanning p (scan_backquote_str s, ''T_IDENT_QUOTED''))
         else if c = 45 then Some (scan_start_dash s)
         else if c = 42 then
           Some (s\<lparr>is_ident_dot := False\<rparr>, if is_comment_executable s then [] else [Lexeme ''T_ASTERISK'' p 1], NextChar)
         else if c = 47 then scan_start_slash span_new s
         else if c = 46 then map_option (spanning p) (scan_start_dot s)
         else if c = 36 then
           (let s = scan_until True (\<lambda>c. c = 10) s in Some (s, [Lexeme ''T_IDENT'' p (sc_pos s - p)], NextChar))
         else if c = 64 then map_option (\<lambda>(s, items). (s, items, NextChar)) (scan_start_at span_new s)
         else if c = 35 then Some (next_char (scan_until True (\<lambda>c. c = 10) s), [], AfterSharp)
         else if c = 60 then map_option (\<lambda>(s, item). (s, [item], NextChar)) (scan_start_lt span_new s)
         else if c = 62 then Some (spanning p (scan_start_gt s))
         else if c = 33 then
           (if is_eof (next_char s) then None
            else if peek (next_char s) = 61 then Some (next_char s, [Lexeme ''T_NE'' (p + 1) 2], NextChar)
            else Some (s, [], NextChar))
         else if c = 38 then Some (scan_double 38 ''T_AND'' ''T_AND_OP'' s)
         else if c = 124 then Some (scan_double 124 ''T_OR'' ''T_OR_OP'' s)
         else if c = 58 then
           (let s = next_char s in if peek s = 61 then Some (s, [Lexeme ''T_ASSIGN_EQ'' p 2], NextChar) else Some (s, [], Stay))
         else if 48 \<le> c \<and> c \<le> 57 then map_option (spanning p) (scan_start_number s)
         else if c = 98 \<or> c = 66 then map_option (spanning p) (scan_bin s)
         else if c = 120 \<or> c = 88 then map_option (spanning p) (scan_hex s)
         else (case map_of single_char c of
                 Some tok \<Rightarrow> Some (s, [Lexeme tok p 1], NextChar)
               | None \<Rightarrow> map_option (\<lambda>(s, tok, len). (s, [Lexeme tok p len], NextChar)) (scan_ident s)))"

text \<open>The loop: the outer option tells whether the fuel was enough, the inner one whether there was
  no panic.\<close>

fun scan_lex_token :: "span_fn \<Rightarrow> nat \<Rightarrow> Scanner \<Rightarrow> LexItem list \<Rightarrow> (Scanner \<times> LexItem list) option option" where
  "scan_lex_token span_new 0 s lexemes = None"
| "scan_lex_token span_new (Suc n) s lexemes =
     (if is_eof s then Some (Some (s, lexemes))
      else let s = skip_whitespace s
           in if sc_pos s = int (length (sc_text s)) then Some (Some (s, lexemes))
              else case scan_token span_new s of
                     None \<Rightarrow> Some None
                   | Some (s, items, flow) \<Rightarrow>
                       (case flow of
                          NextChar \<Rightarrow> scan_lex_token span_new n (next_char s) (lexemes @ items)
                        | Stay \<Rightarrow> scan_lex_token span_new n s (lexemes @ items)
                        | AfterSharp \<Rightarrow> scan_lex_token span_new n s []
                        | AfterDashes \<Rightarrow>
                            do { r \<leftarrow> scan_lex_token span_new n s [];
                                 (case r of
                                    None \<Rightarrow> Some None
                                  | Some (s, inner) \<Rightarrow> scan_lex_token span_new n (next_char s) (lexemes @ inner)) }
                        | Executable \<Rightarrow>
                            do { r \<leftarrow> scan_lex_token span_new n s [];
                                 (case r of
                                    None \<Rightarrow> Some None
                                  | Some (s, inner) \<Rightarrow>
                                      if is_comment_executable s then Some (Some (s, lexemes @ inner))
                                      else scan_lex_token span_new n (next_char s) (lexemes @ inner)) }))"

text \<open>\<open>Scanner::lex\<close>.\<close>

definition lex :: "span_fn \<Rightarrow> nat \<Rightarrow> string \<Rightarrow> LexItem list option option" where
  "lex span_new n input = map_option (map_option snd) (scan_lex_token span_new n (Scanner_new input) [])"

end
