(* ===== verification/LexProgress.thy ===== *)
theory LexProgress
  imports Lexer
begin

section \<open>Steps of the lexer\<close>

text \<open>
  The upper case of the vector instructions is that of ASCII letters, and where the parts of the
  scanner that read identifiers and quoted texts leave its position.  The relation \<open>progress\<close> says
  that a token does not leave the scanner behind where it was, up to a dot it has not seen before.
\<close>

unbundle bit_operations_syntax


subsection \<open>Upper case\<close>

definition upper_byte :: "u8 \<Rightarrow> u8" where
  "upper_byte c = (if 97 \<le> c \<and> c \<le> 122 then c - 32 else c)"

lemma all_bytes: "(\<forall>c :: u8. P c) \<longleftrightarrow> list_all (\<lambda>n. P (of_nat n)) [0..<256]"
proof
  assume all: "list_all (\<lambda>n. P (of_nat n)) [0..<256]"
  have "P (of_nat (unat c))" for c :: u8
    using unsigned_less [where ?'a = nat, of c] all by (simp only: list_all_iff) (drule bspec [of _ _ "unat c"], simp_all)
  then show "\<forall>c. P c"
    by simp
qed (simp add: list_all_iff)

lemma upper_lane_byte: "upper_lane c = upper_byte c"
proof -
  have "list_all (\<lambda>n. upper_lane (of_nat n) = upper_byte (of_nat n)) [0..<256]"
    by code_simp
  then show ?thesis
    using all_bytes [of "\<lambda>c. upper_lane c = upper_byte c"] by blast
qed

lemma store16_take:
  assumes "i + 16 \<le> length dst" "length lanes = 16"
  shows "store16 dst i lanes = Some (take i dst @ lanes @ drop (i + 16) dst)" "length (take i dst @ lanes @ drop (i + 16) dst) = length dst"
  using assms by (simp_all add: store16_def)

lemma to_upper_from_byte:
  assumes "16 dvd i" "16 dvd length dst" "i + length src \<le> length dst"
  shows "\<exists>d. to_upper_from src i dst = Some d \<and> length d = length dst \<and> take (i + length src) d = take i dst @ map upper_byte src"
  using assms
proof (induction src i dst rule: to_upper_from.induct)
  case (1 src i dst)
  show ?case
  proof (cases "length src < 16")
    case True
    show ?thesis
    proof (cases "src = []")
      case True
      then show ?thesis
        using 1(4) by (subst to_upper_from.simps) simp
    next
      case False
      have fits: "i + 16 \<le> length dst"
      proof -
        obtain a b where "i = 16 * a" "length dst = 16 * b"
          using 1(2,3) unfolding dvd_def by blast
        moreover have "0 < length src"
          using False by simp
        ultimately show ?thesis
          using 1(4) by presburger
      qed
      let ?lanes = "map upper_lane (src @ replicate (16 - length src) 0)"
      have lanes: "length ?lanes = 16"
        using \<open>length src < 16\<close> by simp
      show ?thesis
        using store16_take [OF fits lanes] \<open>length src < 16\<close> False fits
        by (subst to_upper_from.simps) (simp add: upper_lane_byte)
    qed
  next
    case False
    then have fits: "i + 16 \<le> length dst"
      using 1(4) by simp
    let ?lanes = "map upper_lane (take 16 src)" and ?dst = "take i dst @ map upper_lane (take 16 src) @ drop (i + 16) dst"
    have lanes: "length ?lanes = 16"
      using False by simp
    note st = store16_take [OF fits lanes]
    have "\<exists>d. to_upper_from (drop 16 src) (i + 16) ?dst = Some d \<and> length d = length ?dst \<and>
        take (i + 16 + length (drop 16 src)) d = take (i + 16) ?dst @ map upper_byte (drop 16 src)"
      using 1(1) [OF False st(1)] 1(2-4) False st(2) by simp
    then obtain d where d: "to_upper_from (drop 16 src) (i + 16) ?dst = Some d" "length d = length dst"
      "take (i + length src) d = take (i + 16) ?dst @ map upper_byte (drop 16 src)"
      using st(2) False by auto
    have "take (i + 16) ?dst = take i dst @ map upper_byte (take 16 src)"
      using fits lanes by (simp add: upper_lane_byte)
    then have "take (i + length src) d = take i dst @ map upper_byte src"
      using d(3) by (simp flip: map_append)
    then show ?thesis
      using d(1,2) st(1) False by (subst to_upper_from.simps) simp
  qed
qed

text \<open>C29.  The upper case computed sixteen bytes at a time with signed comparisons is the ASCII upper
  case of each byte, for every word that fits into the buffer of 512 bytes.\<close>

theorem to_upper_is_ascii:
  assumes "length src \<le> 512" "length dst = 512"
  shows "\<exists>d. to_upper src dst = Some d \<and> length d = 512 \<and> take (length src) d = map upper_byte src"
  using to_upper_from_byte [of 0 dst src] assms by (auto simp: to_upper_def)

theorem to_upper_is_ascii_witness:
  "\<exists>d. to_upper (str_bytes ''select_from_where'') (replicate 512 0) = Some d \<and> length d = 512 \<and>
    take (length (str_bytes ''select_from_where'')) d = str_bytes ''SELECT_FROM_WHERE''"
  using to_upper_is_ascii [of "str_bytes ''select_from_where''" "replicate 512 0"]
  by (simp add: str_bytes_def upper_byte_def)


subsection \<open>Steps of the scanner\<close>

lemma next_n_simps [simp]:
  "sc_pos (next_n k s) = sc_pos s + k" "sc_text (next_n k s) = sc_text s"
  "is_comment_executable (next_n k s) = is_comment_executable s" "is_ident_dot (next_n k s) = is_ident_dot s"
  by (simp_all add: next_n_def)

lemma scan_until_simps [simp]:
  "sc_text (scan_until e f s) = sc_text s" "is_comment_executable (scan_until e f s) = is_comment_executable s"
  "is_ident_dot (scan_until e f s) = is_ident_dot s"
  by (simp_all add: scan_until_def Let_def)

lemma scan_until_mono: "sc_pos s + (if e then 1 else 0) \<le> sc_pos (scan_until e f s)"
  by (simp add: scan_until_def Let_def)

abbreviation text_len :: "Scanner \<Rightarrow> int" where
  "text_len s \<equiv> int (length (sc_text s))"

lemma scan_until_len:
  assumes "0 \<le> sc_pos s"
  shows "sc_pos (scan_until e f s) \<le> max (text_len s) (sc_pos s + (if e then 1 else 0))"
proof -
  have step: "p + int (length (takeWhile P (drop (nat p) t))) \<le> max (int (length t)) p" if "0 \<le> p" for p P and t :: string
  proof -
    have "length (takeWhile P (drop (nat p) t)) \<le> length t - nat p"
      using length_takeWhile_le [of P "drop (nat p) t"] by simp
    then have "int (length (takeWhile P (drop (nat p) t))) \<le> int (length t - nat p)"
      by simp
    then show ?thesis
      using that by linarith
  qed
  show ?thesis
    using step [of "sc_pos s"] step [of "sc_pos s + 1"] assms by (simp add: scan_until_def Let_def rest_of_def)
qed

text \<open>The scan goes over a character that does not match.\<close>

lemma scan_until_over:
  assumes "0 \<le> sc_pos s" "\<not> is_eof s" "\<not> f (peek s)"
  shows "sc_pos s + 1 \<le> sc_pos (scan_until False f s)"
proof -
  have "nat (sc_pos s) < length (sc_text s)"
    using assms(1,2) by (simp add: is_eof_def nat_less_iff)
  then obtain cs where "drop (nat (sc_pos s)) (sc_text s) = sc_text s ! nat (sc_pos s) # cs"
    by (metis Cons_nth_drop_Suc)
  then show ?thesis
    using assms by (simp add: scan_until_def rest_of_def peek_def)
qed

lemma peek_eof: "is_eof s \<Longrightarrow> peek s = 65533"
  by (simp add: peek_def)

lemma peek_not_eof: "peek s < 256 \<Longrightarrow> \<not> is_eof s"
  by (auto simp: peek_def)

abbreviation after_ident :: "Scanner \<Rightarrow> Scanner" where
  "after_ident s \<equiv> scan_until False (\<lambda>c. \<not> scan_ident_char c) s"

lemma scan_ident_pos:
  assumes "scan_ident s = Some (s', tok, len)"
  shows "sc_text s' = sc_text s" "is_comment_executable s' = is_comment_executable s" "sc_pos s' = sc_pos (after_ident s) - 1"
  using assms by (auto simp: scan_ident_def Let_def Option.bind_eq_Some_conv split: if_splits prod.splits)

lemma scan_ident_over:
  assumes "scan_ident s = Some (s', tok, len)" "0 \<le> sc_pos s" "\<not> is_eof s" "scan_ident_char (peek s)"
  shows "sc_pos s \<le> sc_pos s'"
  using scan_until_over [of s "\<lambda>c. \<not> scan_ident_char c"] scan_ident_pos(3) [OF assms(1)] assms(2-4) by simp

lemma scan_ident_tok_over:
  assumes "scan_ident_tok s = Some (s', tok)" "0 \<le> sc_pos s" "\<not> is_eof s" "scan_ident_char (peek s)"
  shows "sc_text s' = sc_text s" "sc_pos s \<le> sc_pos s'"
  using assms scan_ident_pos(1) scan_ident_over by (auto simp: scan_ident_tok_def)

lemma scan_str_from_mono: "p \<le> fst (scan_str_from e cs p)"
proof (induction e cs p rule: scan_str_from.induct)
  case (3 e c d cs p)
  then show ?case
    by (cases "c = e"; cases "d = e"; cases "c = CHR 0x5C"; cases "cs = []") auto
qed auto

lemma scan_str_pos: "scan_str s = (s', b) \<Longrightarrow> sc_text s' = sc_text s \<and> sc_pos s + 1 \<le> sc_pos s'"
  using scan_str_from_mono [of "sc_pos s + 1" "sc_text s ! nat (sc_pos s)" "rest_of (next_char s)"]
  by (auto simp: scan_str_def Let_def split: prod.splits)

lemma scan_backquote_from_mono: "p \<le> scan_backquote_from cs p"
proof (induction cs p rule: scan_backquote_from.induct)
  case (3 c d cs p)
  then show ?case
    by (auto split: if_splits)
qed auto

lemma scan_backquote_pos [simp]:
  "sc_text (scan_backquote_str s) = sc_text s" "sc_pos s + 1 \<le> sc_pos (scan_backquote_str s)"
  using scan_backquote_from_mono [of "sc_pos s + 1" "rest_of (next_char s)"] by (simp_all add: scan_backquote_str_def Let_def)

text \<open>After a token the scanner has not gone back, or it is at a dot that it now knows of, or it is
  at the end.\<close>

definition progress :: "Scanner \<Rightarrow> Scanner \<Rightarrow> bool" where
  "progress s s' \<longleftrightarrow> sc_text s' = sc_text s \<and>
     (sc_pos s \<le> sc_pos s' \<or> sc_pos s' = sc_pos s - 1 \<and> (\<not> is_ident_dot s \<and> is_ident_dot s' \<or> is_eof s))"

lemma digit_chars: "48 \<le> c \<Longrightarrow> c \<le> 57 \<Longrightarrow> scan_ident_char c \<and> is_numeric c"
  by (simp add: scan_ident_char_def is_alphanumeric_def is_numeric_def)

lemma letter_chars: "65 \<le> c \<and> c \<le> 90 \<or> 97 \<le> c \<and> c \<le> 122 \<Longrightarrow> scan_ident_char c"
  by (auto simp: scan_ident_char_def is_alphanumeric_def)

lemma ident_progress:
  assumes "scan_ident_tok s = Some (s', tok)" "0 \<le> sc_pos s" "\<not> is_eof s" "scan_ident_char (peek s)"
  shows "progress s s'"
  using scan_ident_tok_over [OF assms] by (simp add: progress_def)

lemma dot_progress:
  assumes "scan_ident_tok s = Some (s', tok)" "0 \<le> sc_pos s" "peek s = 46" "\<not> is_ident_dot s" "peek (next_char s) \<noteq> 96"
  shows "progress s s'"
proof -
  have "\<not> is_eof s"
    using assms(3) peek_not_eof [of s] by simp
  then have "nat (sc_pos s) < length (sc_text s)" "cp (sc_text s ! nat (sc_pos s)) = 46"
    using assms(2,3) by (simp_all add: is_eof_def nat_less_iff peek_def)
  then obtain c cs where "drop (nat (sc_pos s)) (sc_text s) = c # cs" "cp c = 46"
    by (metis Cons_nth_drop_Suc)
  then have stay: "after_ident s = s"
    by (simp add: scan_until_def rest_of_def scan_ident_char_def is_alphanumeric_def is_numeric_def next_n_def)
  obtain len where i: "scan_ident s = Some (s', tok, len)"
    using assms(1) by (auto simp: scan_ident_tok_def)
  have "is_ident_dot s'"
    using i assms(3-5) stay
    by (auto simp: scan_ident_def Let_def Option.bind_eq_Some_conv peek_def is_eof_def split: if_splits prod.splits)
  then show ?thesis
    using scan_ident_pos [OF i] stay assms(4) by (simp add: progress_def)
qed

end
