(* ===== verification/LexTokens.thy ===== *)
theory LexTokens
  imports LexProgress
begin

section \<open>Progress of each token\<close>

text \<open>
  Every branch of the loop of \<open>scan_lex_token\<close> goes forward on a character that is not a control
  character, or notes the dot it stands at; the one step back of a number that turns out to be an
  identifier is made up for by that note.
\<close>


subsection \<open>The tokens\<close>

lemma progressI: "sc_text s' = sc_text s \<Longrightarrow> sc_pos s \<le> sc_pos s' \<Longrightarrow> progress s s'"
  by (simp add: progress_def)

lemma scan_zero_progress:
  assumes "scan_zero s = Some (Some (s', tok))" "0 \<le> sc_pos s" "peek s = 48"
  shows "progress s s'"
proof -
  have ident: "progress s s'" if "scan_ident_tok s = Some (s', tok)"
    using ident_progress [OF that assms(2)] peek_not_eof [of s] digit_chars [of 48] assms(3) by simp
  have B: "progress s s'" if "scan_ident_tok (next_char s) = Some (s', tok)" "peek (next_char s) = 66"
    using scan_ident_tok_over [OF that(1)] peek_not_eof [of "next_char s"] letter_chars [of 66] assms(2) that(2)
    by (intro progressI) simp_all
  have until: "progress s (back_char (scan_until False f (next_char (next_char s))))" for f
    using scan_until_mono [of "next_char (next_char s)" False f] by (intro progressI) simp_all
  show ?thesis
    using assms(1) ident B until by (auto simp: scan_zero_def Let_def split: if_splits)
qed

text \<open>Digits, or a dot before a digit.\<close>

lemma scan_exponent_progress:
  assumes "scan_exponent s0 s = Some (s', tok)" "sc_text s = sc_text s0" "sc_pos s0 \<le> sc_pos s"
    "\<And>s' tok. scan_ident_tok s0 = Some (s', tok) \<Longrightarrow> progress s0 s'"
  shows "progress s0 s'"
proof -
  let ?s = "if peek (next_char s) = 45 \<or> peek (next_char s) = 43 then next_char (next_char s) else next_char s"
  have "progress s0 (back_char (scan_until True (\<lambda>c. \<not> is_numeric c) ?s))"
    using scan_until_mono [of ?s True "\<lambda>c. \<not> is_numeric c"] assms(2,3) by (intro progressI) auto
  then show ?thesis
    using assms(1,4) by (auto simp: scan_exponent_def Let_def split: if_splits)
qed

lemma scan_decimal_progress:
  assumes "scan_decimal s = Some (s', tok)" "\<And>s' tok. scan_ident_tok s = Some (s', tok) \<Longrightarrow> progress s s'"
  shows "progress s s'"
proof -
  let ?f = "\<lambda>c. \<not> is_numeric c"
  define s1 where "s1 = scan_until True ?f s"
  define s2 where "s2 = (if peek s1 = 46 then scan_until True ?f s1 else s1)"
  define s3 where "s3 = scan_until False ?f s2"
  have p: "sc_pos s + 1 \<le> sc_pos s1" "sc_pos s1 \<le> sc_pos s2" "sc_pos s2 \<le> sc_pos s3"
    using scan_until_mono [of s True ?f] scan_until_mono [of s1 True ?f] scan_until_mono [of s2 False ?f]
    by (simp_all add: s1_def s2_def s3_def)
  have t: "sc_text s2 = sc_text s" "sc_text s3 = sc_text s"
    by (simp_all add: s1_def s2_def s3_def)
  have "progress s (back_char s3)"
    using p t by (intro progressI) simp_all
  moreover have "progress s s'" if "scan_exponent s s2 = Some (s', tok)"
    using scan_exponent_progress [OF that] t p assms(2) by simp
  ultimately show ?thesis
    using assms unfolding scan_decimal_def Let_def s1_def [symmetric] s2_def [symmetric] s3_def [symmetric]
    by (auto split: if_splits)
qed

lemma scan_number_progress:
  assumes "scan_start_number s = Some (s', tok)" "0 \<le> sc_pos s" "48 \<le> peek s" "peek s \<le> 57"
  shows "progress s s'"
proof -
  have ident: "progress s s'" if "scan_ident_tok s = Some (s', tok)" for s' tok
    using ident_progress [OF that assms(2)] peek_not_eof [of s] digit_chars [OF assms(3,4)] assms(4) by simp
  show ?thesis
    using assms(1,2) ident scan_zero_progress [of s s' tok] scan_decimal_progress [of s s' tok]
    by (auto simp: scan_start_number_def split: if_splits option.splits)
qed

lemma scan_dot_progress:
  assumes "scan_start_dot s = Some (s', tok)" "0 \<le> sc_pos s" "peek s = 46"
  shows "progress s s'"
proof -
  have "progress s s'" if "scan_start_number s = Some (s', tok)" "\<not> is_ident_dot s" "is_numeric (peek (next_char s))"
  proof -
    have "progress s s'" if "scan_ident_tok s = Some (s', tok)" for s' tok
      using dot_progress [OF that assms(2,3)] \<open>\<not> is_ident_dot s\<close> \<open>is_numeric (peek (next_char s))\<close>
      by (auto simp: is_numeric_def)
    then show ?thesis
      using that(1,2) assms(3) scan_decimal_progress [of s s' tok] by (auto simp: scan_start_number_def)
  qed
  then show ?thesis
    using assms(1) by (auto simp: scan_start_dot_def progress_def split: if_splits)
qed

lemma scan_quoted_num_progress:
  assumes "scan_bin s = Some (s', tok) \<or> scan_hex s = Some (s', tok)" "0 \<le> sc_pos s" "peek s \<in> {98, 66, 120, 88}"
  shows "progress s s'"
proof -
  have stay: "back_char (next_char s) = s"
    by (simp add: next_n_def)
  have "progress s (scan_until True (\<lambda>c. c = 39) (next_char s))"
    using scan_until_mono [of "next_char s" True "\<lambda>c. c = 39"] by (intro progressI) simp_all
  moreover have "progress s s'" if "scan_ident_tok s = Some (s', tok)"
    using ident_progress [OF that assms(2)] peek_not_eof [of s] letter_chars [of "peek s"] assms(3) by auto
  ultimately show ?thesis
    using assms(1) by (auto simp: scan_bin_def scan_hex_def Let_def stay split: if_splits)
qed

lemma scan_at_progress:
  assumes "scan_start_at sp s = Some (s', items)"
  shows "progress s s'"
proof -
  define s1 where "s1 = (if peek (next_char s) = 64 then fst (scan_at_scope (next_char s)) else next_char s)"
  have s1: "sc_text s1 = sc_text s" "sc_pos s + 1 \<le> sc_pos s1"
    by (auto simp: s1_def scan_at_scope_def Let_def)
  have str: "progress s (fst (scan_str s1))"
    using scan_str_pos [of s1 "fst (scan_str s1)" "snd (scan_str s1)"] s1 by (intro progressI) auto
  have "sc_pos s \<le> sc_pos (scan_backquote_str s1)"
    using scan_backquote_pos(2) [of s1] s1(2) by linarith
  then have quote: "progress s (scan_backquote_str s1\<lparr>is_ident_dot := False\<rparr>)"
    using s1(1) by (intro progressI) auto
  have ident: "progress s (back_char (scan_until False f s1))" for f
    using scan_until_mono [of s1 False f] s1 by (intro progressI) auto
  have stay: "progress s s1"
    using s1 by (intro progressI) auto
  have "s' \<in> {fst (scan_str s1), scan_backquote_str s1\<lparr>is_ident_dot := False\<rparr>, back_char (scan_until False (\<lambda>c. \<not> is_user_var_char c) s1), s1}"
    using assms by (auto simp: scan_start_at_def Let_def s1_def split: if_splits prod.splits)
  then show ?thesis
    using str quote ident stay by auto
qed

lemma scan_dash_progress:
  assumes "scan_start_dash s = (s', items, flow)"
  shows "sc_text s' = sc_text s" "sc_pos s \<le> sc_pos s'" "flow \<noteq> NextChar \<Longrightarrow> sc_pos s < sc_pos s'"
  using assms scan_until_mono [of "next_char (next_char s)" True "\<lambda>c. c = 10"]
  by (auto simp: scan_start_dash_def Let_def split: if_splits)

lemma scan_slash_progress:
  assumes "scan_start_slash sp s = Some (s', items, flow)"
  shows "sc_text s' = sc_text s" "sc_pos s \<le> sc_pos s'" "flow \<noteq> NextChar \<Longrightarrow> sc_pos s < sc_pos s'"
  using assms by (auto simp: scan_start_slash_def Let_def split: if_splits)

lemma scan_lt_progress:
  assumes "scan_start_lt sp s = Some (s', item)"
  shows "progress s s'"
  using assms scan_until_mono [of s True "\<lambda>c. c \<notin> {61, 62, 60}"]
  by (intro progressI) (auto simp: scan_start_lt_def Let_def)

lemma scan_gt_progress: "progress s (fst (scan_start_gt s))"
  by (intro progressI) (auto simp: scan_start_gt_def Let_def)


subsection \<open>Progress of the loop\<close>

text \<open>Neither a control character other than white space, nor one of the two bytes that are white
  space beyond ASCII.\<close>

definition clean_char :: "nat \<Rightarrow> bool" where
  "clean_char c \<longleftrightarrow> \<not> (c \<le> 8 \<or> 14 \<le> c \<and> c \<le> 31 \<or> c \<in> {127, 133, 160})"

definition branch_chars :: "nat list" where
  "branch_chars = [39, 34, 96, 45, 42, 47, 46, 36, 64, 35, 60, 62, 33, 38, 124, 58, 98, 66, 120, 88] @ [48..<58] @ map fst single_char"

lemma branch_char_ranges:
  "set [33..<48] \<subseteq> set branch_chars" "set [48..<58] \<subseteq> set branch_chars" "set [58..<65] \<subseteq> set branch_chars"
  "{91, 93, 94, 96} \<subseteq> set branch_chars" "set [123..<127] \<subseteq> set branch_chars"
  by (simp_all add: branch_chars_def single_char_def upt_rec)

lemma branch_char_cases:
  assumes "c \<in> set branch_chars" "map_of single_char c = None"
  shows "(c = 39 \<or> c = 34) \<or> c = 96 \<or> c = 45 \<or> c = 47 \<or> c = 46 \<or> c = 36 \<or> c = 64 \<or> c = 35 \<or> c = 60 \<or> c = 62 \<or>
    c \<in> {42, 33, 38, 124, 58} \<or> 48 \<le> c \<and> c \<le> 57 \<or> c \<in> {98, 66, 120, 88}"
proof -
  have "c \<notin> fst ` set single_char"
    using assms(2) by (simp add: map_of_eq_None_iff)
  then have "c \<in> set [39, 34, 96, 45, 42, 47, 46, 36, 64, 35, 60, 62, 33, 38, 124, 58, 98, 66, 120, 88] \<or> 48 \<le> c \<and> c < 58"
    using assms(1) unfolding branch_chars_def set_append set_upt set_map by force
  then show ?thesis
    by auto
qed

lemma char_cases:
  fixes c :: nat
  obtains "c = 39 \<or> c = 34"
    | "c = 96"
    | "c = 45"
    | "c = 47"
    | "c = 46"
    | "c = 36"
    | "c = 64"
    | "c = 35"
    | "c = 60"
    | "c = 62"
    | "c \<in> {42, 33, 38, 124, 58}"
    | "48 \<le> c \<and> c \<le> 57"
    | "c \<in> {98, 66, 120, 88}"
    | tok where "map_of single_char c = Some tok" | "c \<notin> set branch_chars"
proof (cases "map_of single_char c")
  case None
  show ?thesis
  proof (cases "c \<in> set branch_chars")
    case True
    from branch_char_cases [OF True None] that(1-13) show ?thesis
      by satx
  qed (fact that(15))
qed (rule that(14))

lemma default_is_ident:
  assumes "c < 256" "clean_char c" "\<not> is_whitespace c" "c \<notin> set branch_chars"
  shows "scan_ident_char c"
proof (rule ccontr)
  assume "\<not> scan_ident_char c"
  then have no: "c < 128" "\<not> (65 \<le> c \<and> c \<le> 90)" "\<not> (97 \<le> c \<and> c \<le> 122)" "c \<noteq> 95" "c \<noteq> 92"
    using assms(1) by (auto simp: scan_ident_char_def is_alphanumeric_def)
  have "\<not> (33 \<le> c \<and> c < 48)" "\<not> (48 \<le> c \<and> c < 58)" "\<not> (58 \<le> c \<and> c < 65)" "c \<noteq> 91" "c \<noteq> 93" "c \<noteq> 94" "c \<noteq> 96" "\<not> (123 \<le> c \<and> c < 127)"
    using assms(4) branch_char_ranges unfolding set_upt by (meson atLeastLessThan_iff insertI1 insertI2 subsetD)+
  moreover have "33 \<le> c" "c \<noteq> 127"
    using assms(2,3) by (auto simp: clean_char_def is_whitespace_def)
  ultimately show False
    using no by linarith
qed

lemma scan_token_default:
  assumes "peek s \<notin> set branch_chars"
  shows "scan_token sp s = map_option (\<lambda>(s', tok, len). (s', [Lexeme tok (sc_pos s) len], NextChar)) (scan_ident s)"
proof -
  have "\<not> (48 \<le> peek s \<and> peek s \<le> 57)" "map_of single_char (peek s) = None"
    using assms by (auto simp: branch_chars_def map_of_eq_None_iff simp del: upt_rec_numeral)
  moreover have "peek s \<notin> {39, 34, 96, 45, 42, 47, 46, 36, 64, 35, 60, 62, 33, 38, 124, 58, 98, 66, 120, 88}"
    using assms by (simp add: branch_chars_def)
  ultimately show ?thesis
    by (auto simp: scan_token_def Let_def)
qed

lemma scan_token_progress:
  assumes "scan_token sp s = Some (s', items, flow)" "0 \<le> sc_pos s" "\<not> is_eof s" "clean_char (peek s)" "\<not> is_whitespace (peek s)"
  shows "if flow = NextChar then progress s s' else sc_text s' = sc_text s \<and> sc_pos s < sc_pos s'"
proof -
  have c: "peek s < 256"
    using assms(3) by (simp add: peek_def cp_def)
  let ?goal = "if flow = NextChar then progress s s' else sc_text s' = sc_text s \<and> sc_pos s < sc_pos s'"
  have next1: "progress s (next_char s)" "progress s (s\<lparr>is_ident_dot := b\<rparr>)" "progress s s" for b
    by (auto simp: progress_def)
  show ?goal
  proof (cases rule: char_cases [of "peek s"])
    case 1
    then show ?thesis
      using assms(1) scan_str_pos [of s] by (auto simp: scan_token_def Let_def intro!: progressI split: prod.splits if_split_asm)
  next
    case 2
    then show ?thesis
      using assms(1) scan_backquote_pos(2) [of s] by (auto simp: scan_token_def Let_def spanning_def intro!: progressI simp del: scan_backquote_pos(2))
  next
    case 3
    then show ?thesis
      using assms(1) scan_dash_progress [of s s' items flow] by (auto simp: scan_token_def Let_def intro!: progressI)
  next
    case 4
    then show ?thesis
      using assms(1) scan_slash_progress [of sp s s' items flow] by (auto simp: scan_token_def Let_def intro!: progressI)
  next
    case 5
    then show ?thesis
      using assms(1,2) scan_dot_progress [of s] by (auto simp: scan_token_def Let_def spanning_def)
  next
    case 6
    then show ?thesis
      using assms(1) scan_until_mono [of s True "\<lambda>c. c = 10"] by (auto simp: scan_token_def Let_def intro!: progressI)
  next
    case 7
    then show ?thesis
      using assms(1) scan_at_progress [of sp s] by (auto simp: scan_token_def Let_def split: prod.splits)
  next
    case 8
    then show ?thesis
      using assms(1) scan_until_mono [of s True "\<lambda>c. c = 10"] by (auto simp: scan_token_def Let_def)
  next
    case 9
    then show ?thesis
      using assms(1) scan_lt_progress [of sp s] by (auto simp: scan_token_def Let_def split: prod.splits)
  next
    case 10
    then show ?thesis
      using assms(1) scan_gt_progress [of s] by (auto simp: scan_token_def Let_def spanning_def)
  next
    case 11
    then show ?thesis
      using assms(1) next1 by (auto simp: scan_token_def Let_def scan_double_def split: if_splits)
  next
    case 12
    then show ?thesis
      using assms(1,2) scan_number_progress [of s] by (auto simp: scan_token_def Let_def spanning_def split: if_splits)
  next
    case 13
    have "progress s s'" if "scan_bin s = Some (s', tok)" for s' tok
      using scan_quoted_num_progress [of s s' tok] that assms(2) 13 by simp
    moreover have "progress s s'" if "scan_hex s = Some (s', tok)" for s' tok
      using scan_quoted_num_progress [of s s' tok] that assms(2) 13 by simp
    ultimately show ?thesis
      using assms(1) 13 by (auto simp: scan_token_def Let_def spanning_def)
  next
    case 14
    then have "peek s \<in> set (map fst single_char)"
      by (metis map_of_eq_None_iff option.distinct(1) set_map)
    then show ?thesis
      using assms(1) next1(3) 14 by (auto simp: scan_token_def Let_def single_char_def)
  next
    case 15
    have ident: "scan_ident_char (peek s)"
      by (rule default_is_ident [OF c assms(4,5) 15])
    obtain tok len where "scan_ident s = Some (s', tok, len)" "flow = NextChar"
      using assms(1) unfolding scan_token_default [OF 15] by auto
    then show ?thesis
      using scan_ident_over [of s s' tok len] scan_ident_pos(1) [of s s' tok len] assms(2,3) ident by (simp add: progressI)
  qed
qed

end
