(* ===== verification/LexTotal.thy ===== *)
theory LexTotal
  imports LexTokens
begin

section \<open>Termination of the lexer\<close>

text \<open>
  The loop of the lexer ends on every text without control characters, after at most two turns for a
  byte, and it returns lexemes when the text also is ASCII, has at most 512 bytes and does not end in
  an exclamation mark.  At a control character it turns forever.
\<close>


subsection \<open>Turns of the loop\<close>

text \<open>The white space of a clean text is skipped one byte at a time.\<close>

definition clean_text :: "string \<Rightarrow> bool" where
  "clean_text t \<longleftrightarrow> list_all (\<lambda>c. clean_char (cp c)) t"

lemma clean_peek: "clean_text (sc_text s) \<Longrightarrow> 0 \<le> sc_pos s \<Longrightarrow> \<not> is_eof s \<Longrightarrow> clean_char (peek s)"
  by (simp add: clean_text_def list_all_length peek_def is_eof_def nat_less_iff)

lemma clean_skip:
  assumes "list_all (\<lambda>c. clean_char (cp c)) cs"
  shows "sum_list (map (\<lambda>c. len_utf8 (cp c)) (takeWhile (\<lambda>c. is_whitespace (cp c)) cs)) =
    length (takeWhile (\<lambda>c. is_whitespace (cp c)) cs)"
  using assms by (induction cs) (auto simp: len_utf8_def is_whitespace_def clean_char_def)

lemma skip_whitespace_lands:
  assumes "clean_text (sc_text s)" "0 \<le> sc_pos s" "\<not> is_eof s"
  shows "sc_text (skip_whitespace s) = sc_text s" "is_ident_dot (skip_whitespace s) = is_ident_dot s"
    "sc_pos s \<le> sc_pos (skip_whitespace s)" "sc_pos (skip_whitespace s) \<le> text_len s"
    "sc_pos (skip_whitespace s) \<noteq> text_len s \<Longrightarrow> \<not> is_whitespace (peek (skip_whitespace s))"
proof -
  let ?w = "\<lambda>c. is_whitespace (cp c)" and ?p = "nat (sc_pos s)"
  let ?k = "length (takeWhile ?w (drop ?p (sc_text s)))"
  have p: "?p < length (sc_text s)" "int ?p = sc_pos s"
    using assms(2,3) by (simp_all add: is_eof_def nat_less_iff)
  have "list_all (\<lambda>c. clean_char (cp c)) (drop ?p (sc_text s))"
    using assms(1) by (auto simp: clean_text_def list_all_iff dest: in_set_dropD)
  then have skip: "skip_whitespace s = next_n (int ?k) s"
    by (simp add: skip_whitespace_def rest_of_def clean_skip)
  have k: "?p + ?k \<le> length (sc_text s)"
    using length_takeWhile_le [of ?w "drop ?p (sc_text s)"] p(1) by simp
  show "sc_text (skip_whitespace s) = sc_text s" "is_ident_dot (skip_whitespace s) = is_ident_dot s"
    "sc_pos s \<le> sc_pos (skip_whitespace s)" "sc_pos (skip_whitespace s) \<le> text_len s"
    using skip k p(2) by simp_all
  assume "sc_pos (skip_whitespace s) \<noteq> text_len s"
  then have "int ?p + int ?k \<noteq> text_len s"
    using skip p(2) by simp
  then have less: "?p + ?k < length (sc_text s)"
    using k by linarith
  then have "\<not> ?w (drop ?p (sc_text s) ! ?k)"
    using p(1) by (intro nth_length_takeWhile) simp
  moreover have "nat (sc_pos s + int ?k) = ?p + ?k"
    using assms(2) by (simp add: nat_add_distrib)
  moreover have "\<not> is_whitespace 65533"
    by (simp add: is_whitespace_def)
  ultimately show "\<not> is_whitespace (peek (skip_whitespace s))"
    using skip less p by (simp add: peek_def is_eof_def)
qed

text \<open>\<open>Span::new\<close> as its documentation has it, for concrete runs.\<close>

definition strict_span :: span_fn where
  "strict_span a b = (if b < a then None else Some (a, b))"

text \<open>What is left of the work: two units for a byte, and one for not knowing of the dot.\<close>

definition lex_left :: "Scanner \<Rightarrow> nat" where
  "lex_left s = nat (2 * (text_len s - sc_pos s)) + (if is_ident_dot s then 0 else 1)"

definition after_token :: "scan_flow \<Rightarrow> Scanner \<Rightarrow> Scanner" where
  "after_token flow s = (if flow = NextChar then next_char s else s)"

lemma scan_step:
  assumes "clean_text (sc_text s)" "0 \<le> sc_pos s" "\<not> is_eof s" "sc_pos (skip_whitespace s) \<noteq> text_len s"
    and "scan_token sp (skip_whitespace s) = Some (s', items, flow)"
  shows "sc_text (after_token flow s') = sc_text s" "sc_pos s \<le> sc_pos (after_token flow s')"
    "lex_left (after_token flow s') < lex_left s"
proof -
  let ?s = "skip_whitespace s"
  note w = skip_whitespace_lands [OF assms(1-3)]
  have eof: "\<not> is_eof ?s"
    using w(1,4) assms(4) by (simp add: is_eof_def)
  have pos: "0 \<le> sc_pos ?s" "sc_pos ?s < text_len s"
    using w(3,4) assms(2,4) by linarith+
  have "clean_char (peek ?s)"
    using clean_peek [of ?s] assms(1) w(1) pos(1) eof by simp
  then have step: "if flow = NextChar then progress ?s s' else sc_text s' = sc_text ?s \<and> sc_pos ?s < sc_pos s'"
    using scan_token_progress [OF assms(5) pos(1) eof] w(5) [OF assms(4)] by simp
  then show "sc_text (after_token flow s') = sc_text s" "sc_pos s \<le> sc_pos (after_token flow s')"
    using w(1,3) eof by (auto simp: after_token_def progress_def split: if_splits)
  show "lex_left (after_token flow s') < lex_left s"
    using step w(1-3) eof pos by (auto simp: after_token_def progress_def lex_left_def split: if_splits)
qed


subsection \<open>Enough fuel\<close>

text \<open>One turn of the loop, with the token and where the scanner goes on.\<close>

lemma scan_lex_turn:
  assumes "\<not> is_eof s" "sc_pos (skip_whitespace s) \<noteq> int (length (sc_text (skip_whitespace s)))"
    and "scan_token sp (skip_whitespace s) = Some (s', items, flow)"
  shows "scan_lex_token sp (Suc n) s acc =
    (let s = after_token flow s'
     in if flow = AfterDashes \<or> flow = Executable then
          (case scan_lex_token sp n s [] of
             None \<Rightarrow> None
           | Some None \<Rightarrow> Some None
           | Some (Some (s, inner)) \<Rightarrow>
               if flow = Executable \<and> is_comment_executable s then Some (Some (s, acc @ inner))
               else scan_lex_token sp n (next_char s) (acc @ inner))
        else scan_lex_token sp n s (if flow = AfterSharp then [] else acc @ items))"
  using assms by (cases flow) (auto simp: after_token_def Let_def split: option.split prod.split)

lemma scan_lex_turn_ends:
  assumes "is_eof s \<or> sc_pos (skip_whitespace s) = int (length (sc_text (skip_whitespace s)))"
  shows "scan_lex_token sp (Suc n) s acc = Some (Some (if is_eof s then s else skip_whitespace s, acc))"
  using assms by (auto simp: Let_def)

lemma scan_lex_token_goes_on:
  assumes "scan_lex_token sp n s acc = Some (Some (s', items))" "clean_text (sc_text s)" "0 \<le> sc_pos s"
  shows "sc_text s' = sc_text s \<and> sc_pos s \<le> sc_pos s'"
  using assms
proof (induction n arbitrary: s acc s' items)
  case (Suc n)
  note w = skip_whitespace_lands [OF Suc.prems(2,3)]
  show ?case
  proof (cases "is_eof s \<or> sc_pos (skip_whitespace s) = int (length (sc_text (skip_whitespace s)))")
    case True
    then show ?thesis
      using Suc.prems(1) scan_lex_turn_ends [OF True, of sp n acc] w(1,3) by (auto simp del: scan_lex_token.simps split: if_splits)
  next
    case False
    then obtain t its flow where tok: "scan_token sp (skip_whitespace s) = Some (t, its, flow)"
      using Suc.prems(1) by (cases "scan_token sp (skip_whitespace s)") (auto simp: Let_def)
    let ?t = "after_token flow t"
    have eof: "\<not> is_eof s" and neq: "sc_pos (skip_whitespace s) \<noteq> text_len s"
      using False w(1) by auto
    note step = scan_step [OF Suc.prems(2,3) eof neq tok]
    have clean: "clean_text (sc_text ?t)" "0 \<le> sc_pos ?t"
      using step(1,2) Suc.prems(2,3) by auto
    have inner: "sc_text u = sc_text s \<and> sc_pos s \<le> sc_pos u" if "scan_lex_token sp n ?t a = Some (Some (u, b))" for a u b
      using Suc.IH [OF that clean] step(1,2) by auto
    have outer: "sc_text v = sc_text s \<and> sc_pos s \<le> sc_pos v"
      if "scan_lex_token sp n ?t a = Some (Some (u, b))" "scan_lex_token sp n (next_char u) c = Some (Some (v, d))" for a b c d u v
      using Suc.IH [OF that(2)] inner [OF that(1)] Suc.prems(2,3) by auto
    show ?thesis
      using Suc.prems(1) False inner outer unfolding scan_lex_turn [OF eof _ tok, of n acc, simplified w(1) [OF eof], OF neq] Let_def
      by (auto split: if_splits option.splits)
  qed
qed simp

lemma scan_lex_token_ends:
  assumes "lex_left s < n" "clean_text (sc_text s)" "0 \<le> sc_pos s"
  shows "scan_lex_token sp n s acc \<noteq> None"
  using assms
proof (induction n arbitrary: s acc)
  case (Suc n)
  note w = skip_whitespace_lands [OF Suc.prems(2,3)]
  show ?case
  proof (cases "is_eof s \<or> sc_pos (skip_whitespace s) = int (length (sc_text (skip_whitespace s))) \<or> scan_token sp (skip_whitespace s) = None")
    case True
    then show ?thesis
      by (auto simp: Let_def)
  next
    case False
    then obtain t its flow where tok: "scan_token sp (skip_whitespace s) = Some (t, its, flow)"
      by (cases "scan_token sp (skip_whitespace s)") auto
    let ?t = "after_token flow t"
    have eof: "\<not> is_eof s" and neq: "sc_pos (skip_whitespace s) \<noteq> text_len s"
      using False w(1) by auto
    note step = scan_step [OF Suc.prems(2,3) eof neq tok]
    have clean: "clean_text (sc_text ?t)" "0 \<le> sc_pos ?t" "lex_left ?t < n"
      using step Suc.prems by auto
    have first: "scan_lex_token sp n ?t a \<noteq> None" for a
      by (rule Suc.IH [OF clean(3,1,2)])
    have second: "scan_lex_token sp n (next_char u) b \<noteq> None" if "scan_lex_token sp n ?t a = Some (Some (u, i))" for a b i u
    proof -
      have u: "sc_text u = sc_text s" "sc_pos ?t \<le> sc_pos u"
        using scan_lex_token_goes_on [OF that clean(1,2)] step(1) by simp_all
      then have "lex_left (next_char u) \<le> max 1 (lex_left ?t)"
        using step(1) by (auto simp: lex_left_def)
      moreover have "1 < n"
        using eof Suc.prems(1) by (auto simp: lex_left_def is_eof_def split: if_splits)
      ultimately have "lex_left (next_char u) < n"
        using clean(3) by simp
      then show ?thesis
        using Suc.IH [of "next_char u"] clean(2) u Suc.prems(2) by simp
    qed
    obtain r where r: "scan_lex_token sp n ?t [] = Some r"
      using first by blast
    show ?thesis
      using r first second unfolding scan_lex_turn [OF eof _ tok, of n acc, simplified w(1) [OF eof], OF neq] Let_def
      by (cases "flow = AfterDashes \<or> flow = Executable") (auto split: option.split prod.split)
  qed
qed simp

text \<open>C26.  The lexer ends on every text without control characters: fuel for two turns per byte is
  enough, whatever the tokens, nested comments included.\<close>

theorem lexer_ends:
  assumes "clean_text input"
  shows "\<exists>r. lex sp (2 * length input + 2) input = Some r"
proof -
  have "lex_left (Scanner_new input) < 2 * length input + 2"
    by (simp add: lex_left_def Scanner_new_def)
  then have "scan_lex_token sp (2 * length input + 2) (Scanner_new input) [] \<noteq> None"
    using assms by (intro scan_lex_token_ends) (simp_all add: Scanner_new_def)
  then show ?thesis
    by (auto simp: lex_def)
qed

theorem lexer_ends_witness:
  "clean_text ''SELECT a.b -- x'' \<and> (\<exists>r. lex strict_span 32 ''SELECT a.b -- x'' = Some r)"
proof -
  have "clean_text ''SELECT a.b -- x''"
    by (simp add: clean_text_def clean_char_def cp_def)
  then show ?thesis
    using lexer_ends [of "''SELECT a.b -- x''"] by simp
qed


subsection \<open>No panic\<close>

text \<open>The texts on which the lexer does not panic: ASCII, so that an identifier can be cut out, short
  enough for the buffer of the upper case, with something behind an exclamation mark, and with only
  known operators that start with \<open><\<close>, for the others are reported with a span that may end before it
  starts.\<close>

fun known_angles :: "string \<Rightarrow> bool" where
  "known_angles [] \<longleftrightarrow> True"
| "known_angles (c # cs) \<longleftrightarrow>
     (c = CHR ''<'' \<longrightarrow> takeWhile (\<lambda>d. d \<in> set ''<=>'') cs \<in> {[], ''='', ''<'', ''>'', ''=>''}) \<and> known_angles cs"

definition plain_text :: "string \<Rightarrow> bool" where
  "plain_text t \<longleftrightarrow> list_all (\<lambda>c. cp c < 128) t \<and> length t \<le> 512 \<and> (t = [] \<or> last t \<noteq> CHR ''!'') \<and> known_angles t"

lemma plain_boundary: "plain_text t \<Longrightarrow> i \<le> length t \<Longrightarrow> char_boundary t i"
  by (auto simp: plain_text_def list_all_length char_boundary_def cont_char_def cp_def not_le)

lemma upper_ident_short:
  assumes "length w \<le> 512"
  shows "\<exists>u. upper_ident w = Some u"
  using to_upper_from_byte [of 0 "replicate 512 0" "str_bytes w"] assms
  by (auto simp: upper_ident_def to_upper_def)

lemma scan_ident_returns:
  assumes "plain_text (sc_text s)" "0 \<le> sc_pos s" "sc_pos s \<le> text_len s"
  shows "\<exists>r. scan_ident s = Some r"
proof -
  let ?e = "after_ident s"
  have pos: "sc_pos s \<le> sc_pos ?e" "sc_pos ?e \<le> text_len s"
    using scan_until_mono [of s False] scan_until_len [of s False] assms(2,3) by (simp, fastforce)
  then have ends: "nat (sc_pos s) \<le> nat (sc_pos ?e)" "nat (sc_pos ?e) \<le> length (sc_text s)"
    using assms(2) by linarith+
  have "char_boundary (sc_text s) (nat (sc_pos s))" "char_boundary (sc_text s) (nat (sc_pos ?e))"
    using plain_boundary [OF assms(1)] ends by auto
  then have slice: "str_slice (sc_text s) (nat (sc_pos s)) (nat (sc_pos ?e)) =
      Some (take (nat (sc_pos ?e) - nat (sc_pos s)) (drop (nat (sc_pos s)) (sc_text s)))"
    using ends by (simp add: str_slice_def)
  obtain u where "upper_ident (take (nat (sc_pos ?e) - nat (sc_pos s)) (drop (nat (sc_pos s)) (sc_text s))) = Some u"
    using upper_ident_short [of "take (nat (sc_pos ?e) - nat (sc_pos s)) (drop (nat (sc_pos s)) (sc_text s))"] assms(1)
    by (auto simp: plain_text_def min.coboundedI1)
  then show ?thesis
    using slice by (simp add: scan_ident_def Let_def split: prod.split)
qed

lemma scan_ident_tok_returns:
  assumes "plain_text (sc_text s)" "0 \<le> sc_pos s" "\<not> is_eof s"
  shows "scan_ident_tok s \<noteq> None"
  using scan_ident_returns [of s] assms by (auto simp: scan_ident_tok_def is_eof_def)

lemma scan_number_returns:
  assumes "plain_text (sc_text s)" "0 \<le> sc_pos s" "\<not> is_eof s"
  shows "scan_start_number s \<noteq> None"
proof -
  note ident = scan_ident_tok_returns [OF assms]
  have "scan_ident_tok (next_char s) \<noteq> None" if "peek (next_char s) = 66"
    using scan_ident_tok_returns [of "next_char s"] peek_not_eof [of "next_char s"] assms that by simp
  then have "scan_zero s \<noteq> Some None"
    using ident by (auto simp: scan_zero_def Let_def)
  moreover have "scan_decimal s \<noteq> None"
    using ident by (auto simp: scan_decimal_def scan_exponent_def Let_def)
  ultimately show ?thesis
    using ident by (auto simp: scan_start_number_def split: option.split if_splits)
qed

lemma cp_angle: "cp c = 60 \<longleftrightarrow> c = CHR ''<''" "cp c = 61 \<longleftrightarrow> c = CHR ''=''" "cp c = 62 \<longleftrightarrow> c = CHR ''>''"
  using of_char_eq_iff [where ?'a = nat, of c "CHR ''<''"] of_char_eq_iff [where ?'a = nat, of c "CHR ''=''"]
    of_char_eq_iff [where ?'a = nat, of c "CHR ''>''"] by (simp_all add: cp_def)

lemma known_angles_drop: "known_angles t \<Longrightarrow> known_angles (drop i t)"
  by (induction t arbitrary: i) (auto simp: drop_Cons split: nat.split)

lemma rest_of_Cons:
  assumes "0 \<le> sc_pos s" "\<not> is_eof s"
  shows "rest_of s = sc_text s ! nat (sc_pos s) # rest_of (next_char s)" "cp (sc_text s ! nat (sc_pos s)) = peek s"
  using assms Cons_nth_drop_Suc [of "nat (sc_pos s)" "sc_text s"]
  by (simp_all add: rest_of_def is_eof_def nat_less_iff peek_def nat_add_distrib)

lemma scan_lt_returns:
  assumes "plain_text (sc_text s)" "0 \<le> sc_pos s" "\<not> is_eof s" "peek s = 60"
  shows "scan_start_lt sp s \<noteq> None"
proof -
  let ?cs = "rest_of (next_char s)" and ?f = "\<lambda>c. c \<notin> {61, 62, 60 :: nat}"
  have "sc_text s ! nat (sc_pos s) = CHR ''<''"
    using rest_of_Cons(2) [OF assms(2,3)] assms(4) by (simp add: cp_angle)
  then have rest: "rest_of s = CHR ''<'' # ?cs"
    using rest_of_Cons(1) [OF assms(2,3)] by simp
  have angles: "(\<lambda>c. \<not> ?f (cp c)) = (\<lambda>d. d \<in> set ''<=>'')"
    by (auto simp: cp_angle)
  have "known_angles (rest_of s)"
    using assms(1) known_angles_drop by (simp add: plain_text_def rest_of_def)
  then have "takeWhile (\<lambda>c. \<not> ?f (cp c)) ?cs \<in> {[], ''='', ''<'', ''>'', ''=>''}"
    unfolding angles rest by simp
  moreover have "take (nat (sc_pos (scan_until True ?f s) - sc_pos s)) (rest_of s) = CHR ''<'' # takeWhile (\<lambda>c. \<not> ?f (cp c)) ?cs"
    by (simp add: scan_until_def Let_def rest nat_add_distrib takeWhile_eq_take [symmetric])
  ultimately show ?thesis
    by (auto simp: scan_start_lt_def Let_def)
qed

lemma scan_error_returns:
  assumes spans: "\<And>a b. a \<le> b \<Longrightarrow> sp a b = Some (a, b)"
  shows "scan_start_at sp s \<noteq> None" "scan_start_slash sp s \<noteq> None" "lex_error sp (sc_pos s) (sc_pos (fst (scan_str s))) \<noteq> None"
proof -
  have "sc_pos s \<le> sc_pos (fst (scan_str s))"
    using scan_str_pos [of s "fst (scan_str s)" "snd (scan_str s)"] by simp
  then show "lex_error sp (sc_pos s) (sc_pos (fst (scan_str s))) \<noteq> None"
    by (simp add: lex_error_def spans)
  show "scan_start_at sp s \<noteq> None" "scan_start_slash sp s \<noteq> None"
    by (auto simp: scan_start_at_def scan_start_slash_def lex_error_def spans Let_def split: prod.split)
qed

lemma scan_token_returns:
  assumes "plain_text (sc_text s)" "0 \<le> sc_pos s" "\<not> is_eof s" and spans: "\<And>a b. a \<le> b \<Longrightarrow> sp a b = Some (a, b)"
  shows "scan_token sp s \<noteq> None"
proof -
  have stay: "back_char (next_char s) = s"
    by (simp add: next_n_def)
  note ident = scan_ident_tok_returns [OF assms(1-3)]
  have quoted: "scan_bin s \<noteq> None" "scan_hex s \<noteq> None"
    using ident by (auto simp: scan_bin_def scan_hex_def Let_def stay)
  have dot: "scan_start_dot s \<noteq> None"
    using scan_number_returns [OF assms(1-3)] by (auto simp: scan_start_dot_def)
  have excl: "\<not> is_eof (next_char s)" if "peek s = 33"
  proof
    assume "is_eof (next_char s)"
    then have len: "nat (sc_pos s) = length (sc_text s) - 1" "sc_text s \<noteq> []"
      using assms(2,3) by (auto simp: is_eof_def)
    then have "cp (last (sc_text s)) = 33"
      using that assms(3) by (simp add: peek_def last_conv_nth)
    then have "last (sc_text s) = char_of (33 :: nat)"
      by (metis cp_def char_of_char)
    moreover have "char_of (33 :: nat) = CHR ''!''"
      by code_simp
    ultimately show False
      using assms(1) len(2) by (simp add: plain_text_def)
  qed
  obtain u closed where str: "scan_str s = (u, closed)"
    by fastforce
  have errors: "scan_start_at sp s \<noteq> None" "scan_start_slash sp s \<noteq> None" "lex_error sp (sc_pos s) (sc_pos u) \<noteq> None"
    using scan_error_returns [OF spans, of s] str by simp_all
  obtain r where "scan_ident s = Some r"
    using scan_ident_returns [of s] assms by (auto simp: is_eof_def)
  then show ?thesis
    using quoted dot excl scan_number_returns [OF assms(1-3)] scan_lt_returns [OF assms(1-3)] errors str
    unfolding scan_token_def Let_def by (simp del: not_None_eq split: prod.split option.split)
qed

lemma scan_lex_token_returns:
  assumes "plain_text (sc_text s)" "clean_text (sc_text s)" "0 \<le> sc_pos s"
    and spans: "\<And>a b. a \<le> b \<Longrightarrow> sp a b = Some (a, b)"
  shows "scan_lex_token sp n s acc \<noteq> Some None"
  using assms(1-3)
proof (induction n arbitrary: s acc)
  case (Suc n)
  note w = skip_whitespace_lands [OF Suc.prems(2,3)]
  show ?case
  proof (cases "is_eof s \<or> sc_pos (skip_whitespace s) = int (length (sc_text (skip_whitespace s)))")
    case True
    then show ?thesis
      using scan_lex_turn_ends [OF True] by simp
  next
    case False
    then have eof: "\<not> is_eof s" and neq: "sc_pos (skip_whitespace s) \<noteq> text_len s"
      using w(1) by auto
    have "scan_token sp (skip_whitespace s) \<noteq> None"
      using w [OF eof] neq Suc.prems by (intro scan_token_returns spans) (auto simp: is_eof_def)
    then obtain t its flow where tok: "scan_token sp (skip_whitespace s) = Some (t, its, flow)"
      by auto
    let ?t = "after_token flow t"
    note step = scan_step [OF Suc.prems(2,3) eof neq tok]
    have clean: "clean_text (sc_text ?t)" "0 \<le> sc_pos ?t"
      using step Suc.prems by auto
    have first: "scan_lex_token sp n ?t a \<noteq> Some None" for a
      using Suc.IH [of ?t] step(1) clean Suc.prems(1) by simp
    have second: "scan_lex_token sp n (next_char u) b \<noteq> Some None" if "scan_lex_token sp n ?t a = Some (Some (u, i))" for a b i u
      using scan_lex_token_goes_on [OF that clean] step(1) clean(2) Suc.IH [of "next_char u"] Suc.prems(1,2) by simp
    show ?thesis
      using first second unfolding scan_lex_turn [OF eof _ tok, of n acc, simplified w(1) [OF eof], OF neq] Let_def
      by (cases "flow = AfterDashes \<or> flow = Executable") (auto split: option.split prod.split)
  qed
qed simp

text \<open>More fuel does not change a result.\<close>

lemma scan_lex_token_mono: "scan_lex_token sp n s acc = Some r \<Longrightarrow> n \<le> m \<Longrightarrow> scan_lex_token sp m s acc = Some r"
proof (induction n arbitrary: s acc r m)
  case (Suc n)
  then obtain k where m: "m = Suc k" "n \<le> k"
    by (cases m) auto
  have up: "scan_lex_token sp k s acc = Some r" if "scan_lex_token sp n s acc = Some r" for s acc r
    by (rule Suc.IH [OF that m(2)])
  show ?case
  proof (cases "is_eof s \<or> sc_pos (skip_whitespace s) = int (length (sc_text (skip_whitespace s))) \<or> scan_token sp (skip_whitespace s) = None")
    case True
    then show ?thesis
      using Suc.prems(1) m(1) by (auto simp: Let_def)
  next
    case False
    then obtain t its flow where tok: "scan_token sp (skip_whitespace s) = Some (t, its, flow)"
      by (cases "scan_token sp (skip_whitespace s)") auto
    have run: "\<not> is_eof s" "sc_pos (skip_whitespace s) \<noteq> int (length (sc_text (skip_whitespace s)))"
      using False by auto
    note turn = scan_lex_turn [OF run tok, of _ acc, unfolded Let_def]
    show ?thesis
    proof (cases "flow = AfterDashes \<or> flow = Executable")
      case True
      then obtain x where x: "scan_lex_token sp n (after_token flow t) [] = Some x"
        using Suc.prems(1) unfolding turn by (auto split: option.splits)
      show ?thesis
        using Suc.prems(1) True x up [OF x] up unfolding m(1) turn by (auto split: option.split_asm prod.split_asm if_split_asm)
    next
      case False
      then show ?thesis
        using Suc.prems(1) up unfolding m(1) turn by simp
    qed
  qed
qed simp

text \<open>C21.  On ASCII text of at most 512 bytes, without control characters and unknown operators that
  start with \<open><\<close>, and not ending in an exclamation mark, the lexer returns lexemes: it neither panics nor loops, and the lexemes do not
  depend on how much fuel beyond two turns per byte is given.\<close>

theorem lexer_returns:
  assumes "clean_text input" "plain_text input" and spans: "\<And>a b. a \<le> b \<Longrightarrow> sp a b = Some (a, b)"
  shows "\<exists>items. \<forall>n. 2 * length input + 2 \<le> n \<longrightarrow> lex sp n input = Some (Some items)"
proof -
  let ?s = "Scanner_new input"
  have "lex_left ?s < 2 * length input + 2"
    by (simp add: lex_left_def Scanner_new_def)
  then have "scan_lex_token sp (2 * length input + 2) ?s [] \<noteq> None"
    using assms(1) by (intro scan_lex_token_ends) (simp_all add: Scanner_new_def)
  then obtain r where r: "scan_lex_token sp (2 * length input + 2) ?s [] = Some r"
    by blast
  moreover have "scan_lex_token sp (2 * length input + 2) ?s [] \<noteq> Some None"
    using assms by (intro scan_lex_token_returns spans) (simp_all add: Scanner_new_def)
  ultimately obtain s' items where "r = Some (s', items)"
    by (cases r) auto
  then have "lex sp n input = Some (Some items)" if "2 * length input + 2 \<le> n" for n
    using scan_lex_token_mono [OF r that] by (simp add: lex_def)
  then show ?thesis
    by blast
qed

theorem lexer_returns_witness:
  "clean_text ''SELECT a.b FROM t'' \<and> plain_text ''SELECT a.b FROM t'' \<and>
   (\<exists>items. lex strict_span 50 ''SELECT a.b FROM t'' = Some (Some items))"
proof -
  have ok: "clean_text ''SELECT a.b FROM t''" "plain_text ''SELECT a.b FROM t''"
    by (simp_all add: clean_text_def clean_char_def plain_text_def cp_def)
  then show ?thesis
    using lexer_returns [of "''SELECT a.b FROM t''" strict_span] by (auto simp: strict_span_def)
qed


subsection \<open>Control characters\<close>

lemma branch_chars_printable: "c \<in> set branch_chars \<Longrightarrow> 33 \<le> c \<and> c < 127"
  by (auto simp: branch_chars_def single_char_def)

lemma control_token:
  assumes "0 \<le> sc_pos s" "is_control (peek s)" "peek s < 128" "\<not> is_whitespace (peek s)"
  shows "skip_whitespace s = s" "\<exists>item. scan_token sp s = Some (back_char (s\<lparr>is_ident_dot := False\<rparr>), [item], NextChar)"
proof -
  have eof: "\<not> is_eof s"
    using assms(3) peek_not_eof [of s] by simp
  then have p: "nat (sc_pos s) < length (sc_text s)" "cp (sc_text s ! nat (sc_pos s)) = peek s"
    using assms(1) by (simp_all add: is_eof_def nat_less_iff peek_def)
  then obtain cs where drop: "drop (nat (sc_pos s)) (sc_text s) = sc_text s ! nat (sc_pos s) # cs"
    by (metis Cons_nth_drop_Suc)
  show "skip_whitespace s = s"
    using drop p(2) assms(4) by (simp add: skip_whitespace_def rest_of_def next_n_def)
  have "\<not> scan_ident_char (peek s)" "peek s \<noteq> 46"
    using assms(2-4) by (auto simp: is_control_def scan_ident_char_def is_alphanumeric_def is_numeric_def is_whitespace_def)
  then have stay: "after_ident s = s" "peek s \<noteq> 46"
    using drop p(2) by (simp_all add: scan_until_def rest_of_def next_n_def)
  obtain u where "upper_ident [] = Some u"
    using upper_ident_short [of "[]"] by auto
  moreover have "str_slice (sc_text s) (nat (sc_pos s)) (nat (sc_pos s)) = Some []"
    using p assms(3) by (simp add: str_slice_def char_boundary_def cont_char_def cp_def)
  moreover obtain k sz where "check_ident_return u 0 = (k, sz)"
    by fastforce
  ultimately have "\<exists>tok len. scan_ident s = Some (back_char (s\<lparr>is_ident_dot := False\<rparr>), tok, len)"
    using stay by (cases "is_ident_dot s") (simp_all add: scan_ident_def Let_def)
  then obtain tok len where "scan_ident s = Some (back_char (s\<lparr>is_ident_dot := False\<rparr>), tok, len)"
    by blast
  moreover have "peek s \<notin> set branch_chars"
    using branch_chars_printable [of "peek s"] assms(2,3) by (auto simp: is_control_def)
  ultimately show "\<exists>item. scan_token sp s = Some (back_char (s\<lparr>is_ident_dot := False\<rparr>), [item], NextChar)"
    by (simp add: scan_token_default)
qed

text \<open>C32.  At a control character that is not white space the lexer turns forever: it reads an empty
  identifier and does not go forward, whatever the fuel.\<close>

theorem control_char_hangs:
  assumes "0 \<le> sc_pos s" "is_control (peek s)" "peek s < 128" "\<not> is_whitespace (peek s)"
  shows "scan_lex_token sp n s acc = None"
  using assms
proof (induction n arbitrary: s acc)
  case (Suc n)
  let ?s = "s\<lparr>is_ident_dot := False\<rparr>"
  note tok = control_token [OF Suc.prems]
  have eof: "\<not> is_eof s"
    using Suc.prems(3) peek_not_eof [of s] by simp
  have same: "peek ?s = peek s" "next_char (back_char ?s) = ?s"
    by (simp_all add: peek_def is_eof_def next_n_def)
  have "scan_lex_token sp n ?s acc = None" for acc
    using Suc.IH [of ?s] Suc.prems same(1) by simp
  then show ?case
    using tok(1) tok(2) [of sp] eof by (auto simp: is_eof_def same(2))
qed simp

theorem control_char_hangs_witness: "\<forall>n. scan_lex_token strict_span n (Scanner_new [CHR 0x01]) [] = None"
  using control_char_hangs [of "Scanner_new [CHR 0x01]"]
  by (simp add: Scanner_new_def peek_def is_eof_def cp_def is_control_def is_whitespace_def)


subsection \<open>String literals\<close>

text \<open>A text as a client writes it into a literal: the quote doubled and the backslash escaped.\<close>

fun quoted_text :: "char \<Rightarrow> string \<Rightarrow> string" where
  "quoted_text q [] = []"
| "quoted_text q (c # cs) = (if c = q then [q, q] else if c = CHR 0x5C then [CHR 0x5C, CHR 0x5C] else [c]) @ quoted_text q cs"

lemma scan_quoted_text:
  assumes "q \<noteq> CHR 0x5C" "take 1 after \<noteq> [q]"
  shows "scan_str_from q (quoted_text q body @ q # after) p = (p + int (length (quoted_text q body)), True)"
proof (induction body arbitrary: p)
  case Nil
  show ?case
    using assms(2) by (cases after) simp_all
next
  case (Cons c cs)
  obtain d ds where tail: "quoted_text q cs @ q # after = d # ds"
    by (cases "quoted_text q cs @ q # after") auto
  then show ?case
    using Cons.IH [of "p + 1"] Cons.IH [of "p + 2"] assms(1) by (auto simp: algebra_simps)
qed

text \<open>C17.  A literal is one lexeme whatever text it holds: with the quotes doubled and the backslashes
  escaped, the string token ends exactly at the closing quote, so that nothing of the text is read as
  SQL.\<close>

theorem literal_is_one_token:
  assumes "q \<in> {CHR 0x27, CHR 0x22}" "0 \<le> sc_pos s" "take 1 after \<noteq> [q]"
    and "rest_of s = q # quoted_text q body @ q # after"
  shows "scan_token sp s = Some (next_n (int (length (quoted_text q body)) + 1) s,
    [Lexeme ''T_TEXT_STRING'' (sc_pos s) (int (length (quoted_text q body)) + 2)], NextChar)"
proof -
  let ?p = "nat (sc_pos s)"
  have p: "?p < length (sc_text s)" "sc_text s ! ?p = q"
    using assms(4) by (metis rest_of_def drop_eq_Nil leI list.distinct(1), metis rest_of_def nth_via_drop)
  have "nat (sc_pos s + 1) = Suc ?p"
    using assms(2) by simp
  then have next_rest: "rest_of (next_char s) = quoted_text q body @ q # after"
    using assms(4) by (simp add: rest_of_def) (metis drop_Suc tl_drop list.sel(3))
  have "peek s = cp q"
    using p assms(2) by (auto simp: peek_def is_eof_def)
  then have "peek s = 39 \<or> peek s = 34"
    using assms(1) by (auto simp: cp_def)
  moreover have "q \<noteq> CHR 0x5C"
    using assms(1) by auto
  ultimately show ?thesis
    using scan_quoted_text [OF _ assms(3), of body] p(2) next_rest
    by (simp add: scan_token_def scan_str_def Let_def next_n_def algebra_simps)
qed

theorem literal_is_one_token_witness:
  "scan_token strict_span (Scanner_new (CHR 0x27 # quoted_text CHR 0x27 ([CHR 0x5C, CHR 0x27] @ '' OR 1=1 -- '') @ CHR 0x27 # '' LIMIT 1'')) =
   Some (next_n 16 (Scanner_new (CHR 0x27 # quoted_text CHR 0x27 ([CHR 0x5C, CHR 0x27] @ '' OR 1=1 -- '') @ CHR 0x27 # '' LIMIT 1'')),
     [Lexeme ''T_TEXT_STRING'' 0 17], NextChar)"
  using literal_is_one_token [of "CHR 0x27" "Scanner_new (CHR 0x27 # quoted_text CHR 0x27 ([CHR 0x5C, CHR 0x27] @ '' OR 1=1 -- '') @ CHR 0x27 # '' LIMIT 1'')"
      "'' LIMIT 1''" "[CHR 0x5C, CHR 0x27] @ '' OR 1=1 -- ''"]
  by (simp add: Scanner_new_def rest_of_def)

end
