(* ===== verification/Spec2Isabelle.thy ===== *)
theory Spec2Isabelle
  imports Prelude Wire Packets LoadBalance ConnPool Charset Constants Strings ServerAuth Framed
    ClientAuth ProxyChain ClientCodec ClientConn Routing Plugins Columns Transactions Rows Merge
    Session Executor Service Relay Affinity Shards Ast Visitor RewriteMeta Rewrite Sharding ShardPlans
    ShardInsert ShardSelect ShardLimits ShardSession Keywords Lexer LexProgress LexTokens LexTotal
begin

text \<open>
  Pisa-Proxy (\<open>src/pisa-proxy\<close>) is a proxy for MySQL servers.  A client logs in to the proxy, which
  chooses an endpoint for each command, takes a connection to it from a pool, relays the command and
  passes the answer back; with sharding configured it rewrites a statement into statements for several
  endpoints and merges their answers.  This development models these parts as functions and proves what
  makes them correct, and where they are not, what they do instead.

  \<^bold>\<open>Conventions.\<close>  A function of the program is a function with the state it changes passed in and out.
  A panic is \<open>None\<close>, an error that is returned is \<open>Inl\<close>.  Bytes are \<open>8 word\<close>, lengths and counters keep
  their width where they can wrap around, a string is the list of its bytes as characters, a hash map is
  a map, and a map that keeps its order is an association list.  A loop that may not end is a
  \<open>partial_function\<close> whose value \<open>None\<close> is not ending (or a panic), or takes fuel.  Code that is not
  under \<open>src/\<close> is a parameter of the functions that use it; what is assumed of it stands in the
  hypotheses of the theorems, and their witnesses give a concrete function for it.
\<close>

text \<open>
  \<^bold>\<open>The protocol.\<close>
  \<^item> \<open>Wire\<close>: length-encoded integers and strings, kinds of packets and the scrambles of passwords
    (\<open>protocol/mysql/src/util.rs\<close>); the locale \<open>prefix_codec\<close> of \<open>Prelude\<close> is what a reader of a
    self-delimiting encoding promises and is interpreted by the three encodings.
  \<^item> \<open>Packets\<close>: framing and sequence numbers on the client side (\<open>server/codec.rs\<close>): the encoder appends
    the frames of the protocol, and decoding gives a payload of any length back.
  \<^item> \<open>Charset\<close>, \<open>Constants\<close>, \<open>Strings\<close>: the collation tables (\<open>charset.rs\<close>), the constants and errors
    (\<open>mysql_const.rs\<close>, \<open>err.rs\<close>), and what is used of Rust's strings.
  \<^item> \<open>ServerAuth\<close>: the login of a client (\<open>server/auth.rs\<close>): only a client that knows the password for
    this challenge is accepted, and one that follows the protocol is.
  \<^item> \<open>Framed\<close>, \<open>ClientAuth\<close>, \<open>ClientCodec\<close>, \<open>ClientConn\<close>: the connection to a backend (\<open>client/auth.rs\<close>,
    \<open>client/resultset.rs\<close>, \<open>client/codec.rs\<close>, \<open>client/stmt.rs\<close>, \<open>client/conn.rs\<close>, \<open>codegen\<close>).  The
    locale \<open>packet_decoder\<close> says of a decoder that it waits for whole packets; it is interpreted by the
    decoders of result sets and of prepared statements, and gives that their streams deliver everything,
    however the bytes are cut.  \<open>ProxyChain\<close> shows that the two handshakes fit together.
  \<^item> \<open>Columns\<close>, \<open>Rows\<close>: column definitions, values and rows (\<open>column.rs\<close>, \<open>row.rs\<close>, \<open>value.rs\<close>).

  \<^bold>\<open>Choosing a backend.\<close>
  \<^item> \<open>LoadBalance\<close>: weighted round robin and weighted random choice (\<open>proxy/loadbalance\<close>): fairness,
    totality and proportion.  The locale \<open>load_balance\<close> is the contract of the trait and is interpreted
    by both algorithms and by their dispatch.
  \<^item> \<open>ConnPool\<close>: the pool (\<open>proxy/pool\<close>) as a step relation on pools with its invariant.
  \<^item> \<open>Routing\<close>: rules and read-write splitting (\<open>proxy/strategy/src/route.rs\<close>, \<open>config.rs\<close> and
    \<open>readwritesplitting\<close>): no statement is answered with an endpoint of the wrong role.
  \<^item> \<open>Plugins\<close>: circuit break and concurrency control (\<open>plugin\<close>): the bound on running commands for every
    interleaving of the sessions.

  \<^bold>\<open>Sessions.\<close>
  \<^item> \<open>Transactions\<close>: the state machine of a session and the cache of prepared statements
    (\<open>runtime/mysql/src/transaction_fsm.rs\<close>, \<open>server/stmt_cache.rs\<close>).
  \<^item> \<open>Session\<close>, \<open>Service\<close>: handling commands and the loop of a session (\<open>server/server.rs\<close>, \<open>mysql.rs\<close>).
    The record \<open>env\<close> collects the parameters: pool, routing, plugins, parser, cache, rewriter and streams.
  \<^item> \<open>Relay\<close>, \<open>Affinity\<close>: a result set reaches the client unchanged but for its sequence numbers, and a
    transaction runs on one connection.
\<close>

text \<open>
  \<^bold>\<open>Statements and sharding.\<close>
  \<^item> \<open>Keywords\<close>, \<open>Lexer\<close>: the tables of keywords and the scanner (\<open>parser/mysql/src/ident.rs\<close>, \<open>lex.rs\<close>,
    \<open>charsets.rs\<close>).  \<open>LexProgress\<close> has the upper case and the steps of the scanner, \<open>LexTokens\<close> the progress
    of each token, \<open>LexTotal\<close> that the loop ends, returns lexemes, or turns forever, and that a literal is
    one lexeme.
  \<^item> \<open>Ast\<close>, \<open>Visitor\<close>: the syntax trees the program reads, and the order in which they are visited
    (\<open>parser/mysql/src/ast\<close>).
  \<^item> \<open>RewriteMeta\<close>, \<open>Rewrite\<close>: what is collected from a statement, and the rewriting for the shards
    (\<open>proxy/strategy/src/sharding_rewrite\<close>).
  \<^item> \<open>Sharding\<close>, \<open>ShardPlans\<close>, \<open>ShardInsert\<close>, \<open>ShardSelect\<close>: every row is inserted into the shard where a
    query for it looks, the rows of an INSERT are divided without loss, and the edits of the text are the
    replacement of all names at once.  \<open>ShardLimits\<close> has the statements for which this fails, and
    \<open>ShardSession\<close> runs the rewriter inside a session.
  \<^item> \<open>Executor\<close>, \<open>Merge\<close>, \<open>Shards\<close>: executing on the shards and merging the result sets
    (\<open>server/executor.rs\<close>, \<open>MergeStream\<close> of \<open>client/codec.rs\<close>): the rows of all shards in turn, and counts
    added up.

  \<^bold>\<open>Fuel.\<close>  The lexer takes one unit for a turn of its loop: \<open>2 * length + 2\<close> is enough for every text
  without control characters, since a turn goes forward or notes a dot, and more fuel does not change a
  result.  Decoding a list of columns takes one unit for a packet and gets one for a byte; a packet has at
  least four.  The loops that are partial functions are proved to return where a theorem says so: the
  handshakes, the streams of result sets, the answers to a prepare, round robin and the relaying of rows.

  \<^bold>\<open>Parameters.\<close>  Digests, RSA and regular expressions; random draws and the clock; the bounded queue of the
  pool; what a backend answers to the bytes it got; the parser, which is generated from a grammar by a tool
  that is not among the sources, and the cache of its trees; the checksum and floating point operations of
  the sharding functions, and the unstable sort of the executor; the constructor of spans in the lexer.

  \<^bold>\<open>Not modelled.\<close>
  \<^item> The grammar and the parser generated from it, and the trees of statements nothing in the program reads.
  \<^item> Discovery and monitors: tasks on timers; the updates they send are arbitrary in \<open>Routing\<close>.
  \<^item> Sockets, TLS, listeners, factories, configuration files, metrics, logging, the HTTP interface and the
    audit: input and output without a result that the modelled parts read.  Timeouts are left out with them.
  \<^item> Running the tasks of the executor at the same time: they run one after the other, in the order in which
    they are started.
  \<^item> The controller (\<open>src/pisa-controller\<close>) and the traffic daemon (\<open>src/pisa-daemon\<close>): programs of their
    own, which drive a cluster and the kernel.
\<close>

end
